(* ===== verification/MH_Prelude.thy ===== *)
theory MH_Prelude
  imports
    Complex_Main
    "HOL-Library.AList"
    "HOL-Library.Char_ord"
    "HOL-Library.List_Lexorder"
    "HOL-Library.Monad_Syntax"
    "HOL-Library.Multiset"
begin

text \<open>
  Shared vocabulary of the development: thrown errors as the left summand, plain JavaScript
  objects as association lists with JavaScript's enumeration order, the \<open>sort\<close>/\<open>Set\<close> idioms
  the sources use, and the combinators from which the schema parsers are built.

  Strings are lists of 8-bit characters, read as code units below 256: that is all the
  identifiers, digests and paths of the program need, and on them \<open>Array.prototype.sort\<close> without
  a comparator is the lexicographic order of the library.
\<close>

section \<open>Errors as values\<close>

text \<open>\<open>throw\<close> is \<open>Inl\<close>; \<open>throwIf c e k\<close> is \<open>if (c) throw e;\<close> followed by \<open>k\<close>.\<close>

definition throwIf :: "bool \<Rightarrow> 'e \<Rightarrow> 'e + 'a \<Rightarrow> 'e + 'a" where
  "throwIf c e k = (if c then Inl e else k)"

definition bindE :: "'e + 'a \<Rightarrow> ('a \<Rightarrow> 'e + 'b) \<Rightarrow> 'e + 'b" where
  "bindE m f = (case m of Inl e \<Rightarrow> Inl e | Inr x \<Rightarrow> f x)"

text \<open>\<open>requireE o e f\<close>: look something up, throw \<open>e\<close> when it is \<open>undefined\<close>.\<close>

definition requireE :: "'a option \<Rightarrow> 'e \<Rightarrow> ('a \<Rightarrow> 'e + 'b) \<Rightarrow> 'e + 'b" where
  "requireE v e f = (case v of None \<Rightarrow> Inl e | Some x \<Rightarrow> f x)"

lemma throwIf_Inr [simp]: "throwIf c e k = Inr y \<longleftrightarrow> \<not> c \<and> k = Inr y"
  by (simp add: throwIf_def)

lemma throwIf_False [simp]: "throwIf False e k = k"
  by (simp add: throwIf_def)

lemma throwIf_True [simp]: "throwIf True e k = Inl e"
  by (simp add: throwIf_def)

lemma bindE_Inr [simp]: "bindE m f = Inr y \<longleftrightarrow> (\<exists>x. m = Inr x \<and> f x = Inr y)"
  by (auto simp: bindE_def split: sum.splits)

lemma bindE_simps [simp]: "bindE (Inr x) f = f x" "bindE (Inl e) f = Inl e"
  by (simp_all add: bindE_def)

lemma bindE_assoc: "bindE (bindE m f) g = bindE m (\<lambda>x. bindE (f x) g)"
  by (simp add: bindE_def split: sum.splits)

lemma requireE_Inr [simp]: "requireE v e f = Inr y \<longleftrightarrow> (\<exists>x. v = Some x \<and> f x = Inr y)"
  by (auto simp: requireE_def split: option.splits)

lemma requireE_simps [simp]: "requireE None e f = Inl e" "requireE (Some x) e f = f x"
  by (simp_all add: requireE_def)

text \<open>Running a list of steps that stops at the first thrown error.\<close>

fun foldE :: "('s \<Rightarrow> 'a \<Rightarrow> 'e + 's) \<Rightarrow> 's \<Rightarrow> 'a list \<Rightarrow> 'e + 's" where
  "foldE f s [] = Inr s"
| "foldE f s (x # xs) = bindE (f s x) (\<lambda>s'. foldE f s' xs)"

lemma foldE_append: "foldE f s (xs @ ys) = bindE (foldE f s xs) (\<lambda>s'. foldE f s' ys)"
  by (induction xs arbitrary: s) (simp_all add: bindE_assoc)

lemma foldE_invariant:
  assumes "foldE f s xs = Inr s'" and "P s"
    and "\<And>s x s'. P s \<Longrightarrow> x \<in> set xs \<Longrightarrow> f s x = Inr s' \<Longrightarrow> P s'"
  shows "P s'"
  using assms
proof (induction xs arbitrary: s)
  case Nil
  then show ?case by simp
next
  case (Cons x xs)
  from Cons.prems(1) obtain t where "f s x = Inr t" "foldE f t xs = Inr s'" by auto
  with Cons.IH[of t] Cons.prems(2,3) show ?case by (meson list.set_intros)
qed

section \<open>Plain objects used as dictionaries\<close>

text \<open>
  A \<open>Record<string, V>\<close> built with \<open>{}\<close>: an association list in insertion order. Assigning an
  existing key keeps its place. Keys that name members of \<open>Object.prototype\<close> are outside the model.
\<close>

type_synonym 'v obj = "(string \<times> 'v) list"

abbreviation oget :: "'v obj \<Rightarrow> string \<Rightarrow> 'v option" where
  "oget \<equiv> map_of"

abbreviation oput :: "string \<Rightarrow> 'v \<Rightarrow> 'v obj \<Rightarrow> 'v obj" where
  "oput \<equiv> AList.update"

text \<open>
  \<open>Object.values\<close> and \<open>Object.keys\<close> list array-index keys first, in numeric order, and the other
  keys in insertion order.
\<close>

definition is_digit :: "char \<Rightarrow> bool" where
  "is_digit c = (CHR ''0'' \<le> c \<and> c \<le> CHR ''9'')"

fun digits_value :: "nat \<Rightarrow> string \<Rightarrow> nat" where
  "digits_value acc [] = acc"
| "digits_value acc (c # cs) = digits_value (10 * acc + (of_char c - 48)) cs"

definition is_array_index :: "string \<Rightarrow> bool" where
  "is_array_index k =
     (k \<noteq> [] \<and> list_all is_digit k \<and> (k = ''0'' \<or> hd k \<noteq> CHR ''0'') \<and>
      digits_value 0 k < 2 ^ 32 - 1)"

definition own_entries :: "'v obj \<Rightarrow> 'v obj" where
  "own_entries ob =
     sort_key (digits_value 0 \<circ> fst) (filter (is_array_index \<circ> fst) ob) @
     filter (Not \<circ> is_array_index \<circ> fst) ob"

definition ovalues :: "'v obj \<Rightarrow> 'v list" where
  "ovalues ob = map snd (own_entries ob)"

definition okeys :: "'v obj \<Rightarrow> string list" where
  "okeys ob = map fst (own_entries ob)"

text \<open>\<open>for (const v of Object.values(o)) mutate(v)\<close>.\<close>

definition omap :: "('v \<Rightarrow> 'v) \<Rightarrow> 'v obj \<Rightarrow> 'v obj" where
  "omap f ob = map (\<lambda>(k, v). (k, f v)) ob"

lemma set_own_entries [simp]: "set (own_entries ob) = set ob"
  by (auto simp: own_entries_def)

lemma set_ovalues [simp]: "set (ovalues ob) = snd ` set ob"
  by (simp add: ovalues_def)

lemma set_okeys [simp]: "set (okeys ob) = fst ` set ob"
  by (simp add: okeys_def)

lemma oget_oput [simp]: "oget (oput k v ob) k' = (if k' = k then Some v else oget ob k')"
  by (simp add: update_conv')

lemma oget_omap [simp]: "oget (omap f ob) k = map_option f (oget ob k)"
  by (induction ob) (auto simp: omap_def)

lemma fst_omap [simp]: "map fst (omap f ob) = map fst ob"
  by (induction ob) (auto simp: omap_def)

lemma ovalues_ex:
  "distinct (map fst ob) \<Longrightarrow> (\<exists>v \<in> set (ovalues ob). P v) \<longleftrightarrow> (\<exists>k v. oget ob k = Some v \<and> P v)"
  by (force simp: image_iff)

lemma distinct_oput [simp]: "distinct (map fst ob) \<Longrightarrow> distinct (map fst (oput k v ob))"
  by (rule distinct_update)

lemma snd_set_oput: "snd ` set (oput k v ob) \<subseteq> insert v (snd ` set ob)"
  by (induction ob) auto

section \<open>Sorting and deduplication\<close>

text \<open>\<open>[...new Set(xs)]\<close> keeps the first occurrence; \<open>[...new Set(xs)].sort()\<close> sorts it.\<close>

definition nub :: "'a list \<Rightarrow> 'a list" where
  "nub xs = rev (remdups (rev xs))"

definition uniq_sort :: "string list \<Rightarrow> string list" where
  "uniq_sort xs = sort (nub xs)"

lemma set_nub [simp]: "set (nub xs) = set xs"
  by (simp add: nub_def)

lemma distinct_nub [simp]: "distinct (nub xs)"
  by (simp add: nub_def)

lemma set_uniq_sort [simp]: "set (uniq_sort xs) = set xs"
  by (simp add: uniq_sort_def)

lemma distinct_uniq_sort [simp]: "distinct (uniq_sort xs)"
  by (simp add: uniq_sort_def)

lemma sorted_uniq_sort [simp]: "sorted (uniq_sort xs)"
  by (simp add: uniq_sort_def)

lemma uniq_sort_idem [simp]: "uniq_sort (uniq_sort xs) = uniq_sort xs"
  by (metis distinct_uniq_sort set_uniq_sort sorted_distinct_set_unique sorted_uniq_sort)

lemma uniq_sort_Nil [simp]: "uniq_sort xs = [] \<longleftrightarrow> xs = []"
  by (metis set_empty set_uniq_sort)

text \<open>
  \<open>xs.sort((l, r) => l.localeCompare(r))\<close>: a stable sort by a collation the host supplies, given
  as \<open>le a b\<close> for \<open>a.localeCompare(b) <= 0\<close>.
\<close>

fun insort_le :: "('a \<Rightarrow> 'a \<Rightarrow> bool) \<Rightarrow> 'a \<Rightarrow> 'a list \<Rightarrow> 'a list" where
  "insort_le le x [] = [x]"
| "insort_le le x (y # ys) = (if le x y then x # y # ys else y # insort_le le x ys)"

definition sort_le :: "('a \<Rightarrow> 'a \<Rightarrow> bool) \<Rightarrow> 'a list \<Rightarrow> 'a list" where
  "sort_le le xs = foldr (insort_le le) xs []"

lemma mset_insort_le [simp]: "mset (insort_le le x xs) = add_mset x (mset xs)"
  by (induction xs) auto

lemma mset_sort_le [simp]: "mset (sort_le le xs) = mset xs"
  by (induction xs) (auto simp: sort_le_def)

lemma set_sort_le [simp]: "set (sort_le le xs) = set xs"
  by (metis mset_eq_setD mset_sort_le)

lemma distinct_sort_le [simp]: "distinct (sort_le le xs) = distinct xs"
  by (metis mset_eq_imp_distinct_iff mset_sort_le)

lemma set_insort_le [simp]: "set (insort_le le x xs) = insert x (set xs)"
  by (induction xs) auto

lemma sorted_wrt_insort_le:
  assumes total: "\<And>a b. le a b \<or> le b a"
    and trans: "\<And>a b c. le a b \<Longrightarrow> le b c \<Longrightarrow> le a c"
  shows "sorted_wrt le xs \<Longrightarrow> sorted_wrt le (insort_le le x xs)"
proof (induction xs)
  case (Cons y ys)
  then show ?case using total[of x y] by (auto intro: trans)
qed simp

lemma sorted_wrt_sort_le:
  assumes "\<And>a b. le a b \<or> le b a" "\<And>a b c. le a b \<Longrightarrow> le b c \<Longrightarrow> le a c"
  shows "sorted_wrt le (sort_le le xs)"
  by (induction xs) (simp_all add: sort_le_def sorted_wrt_insort_le[OF assms])

end
