(* ===== verification/Schema.thy ===== *)
theory Schema
  imports MH_Prelude
begin

text \<open>
  Schema parsing. A zod schema is modelled by the function from a value to its parsed value, \<open>None\<close>
  when \<open>parse\<close> throws. Strict objects, enums and literals hold by the types of the model, so what a
  parser does is what zod does to a value of the right shape: trim strings, check lengths, patterns
  and ranges, and run the refinements. Fields whose schema is a literal have one value and are left
  out. The locale \<open>schema\<close> states the law every parser of the program obeys (parsing what was parsed
  changes nothing), which is what lets a journal be read back through the schema that wrote it.

  Sources: packages/shared/src/index.ts, packages/contracts/src/canonical-json.ts.
\<close>

section \<open>JSON values and the host\<close>

text \<open>Numbers are finite: the schemas reject the others where a number may be one of them.\<close>

datatype json =
    JNull
  | JBool bool
  | JNum rat
  | JStr string
  | JArr "json list"
  | JObj "(string \<times> json) list"

text \<open>
  What the program takes from outside its sources: zod's \<open>datetime({ offset: true })\<close> check, the
  ICU collation of \<open>localeCompare\<close> (as \<open>a.localeCompare(b) <= 0\<close>), and \<open>hasher\<close> composed with
  \<open>JSON.stringify\<close>.
\<close>

record host =
  h_iso :: "string \<Rightarrow> bool"
  h_le :: "string \<Rightarrow> string \<Rightarrow> bool"
  h_digest :: "json \<Rightarrow> string"

text \<open>canonical-json.ts: object keys sorted at every level, array order kept.\<close>

fun toCanonicalJsonValue :: "host \<Rightarrow> json \<Rightarrow> json" where
  "toCanonicalJsonValue h (JArr vs) = JArr (map (toCanonicalJsonValue h) vs)"
| "toCanonicalJsonValue h (JObj kvs) =
     JObj (own_entries (sort_le (\<lambda>l r. h_le h (fst l) (fst r))
       (map (\<lambda>(k, v). (k, toCanonicalJsonValue h v)) kvs)))"
| "toCanonicalJsonValue h v = v"

definition computeCanonicalDigest :: "host \<Rightarrow> json \<Rightarrow> string" where
  "computeCanonicalDigest h v = h_digest h (toCanonicalJsonValue h v)"

section \<open>The laws of a parser\<close>

definition opt_of :: "('a \<Rightarrow> 'a option) \<Rightarrow> 'a option \<Rightarrow> 'a option option" where
  "opt_of p x = (case x of None \<Rightarrow> Some None | Some v \<Rightarrow> map_option Some (p v))"

fun arr_of :: "('a \<Rightarrow> 'a option) \<Rightarrow> 'a list \<Rightarrow> 'a list option" where
  "arr_of p [] = Some []"
| "arr_of p (x # xs) = do { y \<leftarrow> p x; ys \<leftarrow> arr_of p xs; Some (y # ys) }"

definition min_len :: "nat \<Rightarrow> 'a list \<Rightarrow> 'a list option" where
  "min_len n xs = (if n \<le> length xs then Some xs else None)"

definition refine :: "('a \<Rightarrow> bool) \<Rightarrow> 'a \<Rightarrow> 'a option" where
  "refine P x = (if P x then Some x else None)"

lemma refine_Some [simp]: "refine P x = Some y \<longleftrightarrow> P x \<and> y = x"
  by (auto simp: refine_def)

lemma min_len_Some [simp]: "min_len n xs = Some ys \<longleftrightarrow> n \<le> length xs \<and> ys = xs"
  by (auto simp: min_len_def)

lemma arr_of_length: "arr_of p xs = Some ys \<Longrightarrow> length ys = length xs"
  by (induction xs arbitrary: ys) (auto split: bind_splits)

locale schema =
  fixes parse :: "'a \<Rightarrow> 'a option"
  assumes idem: "parse x = Some y \<Longrightarrow> parse y = Some y"
begin

lemma opt_idem: "opt_of parse x = Some y \<Longrightarrow> opt_of parse y = Some y"
  by (auto simp: opt_of_def idem split: option.splits)

lemma arr_idem: "arr_of parse xs = Some ys \<Longrightarrow> arr_of parse ys = Some ys"
  by (induction xs arbitrary: ys) (auto simp: idem split: bind_splits)

lemma arr_all: "arr_of parse xs = Some ys \<Longrightarrow> y \<in> set ys \<Longrightarrow> parse y = Some y"
  by (induction xs arbitrary: ys) (auto simp: idem split: bind_splits)

end

section \<open>Strings and numbers\<close>

definition is_ws :: "char \<Rightarrow> bool" where
  "is_ws c = (of_char c \<in> {9, 10, 11, 12, 13, 32, 160 :: nat})"

definition trim :: "string \<Rightarrow> string" where
  "trim s = rev (dropWhile is_ws (rev (dropWhile is_ws s)))"

lemma dropWhile_rev_trim:
  assumes "xs = [] \<or> \<not> P (hd xs)"
  shows "dropWhile P (rev (dropWhile P (rev xs))) = rev (dropWhile P (rev xs))"
proof (cases xs)
  case (Cons a as)
  with assms have "\<not> P a" by simp
  then have "rev (dropWhile P (rev xs)) = a # rev (dropWhile P (rev as))"
    using Cons by (simp add: dropWhile_append)
  with \<open>\<not> P a\<close> show ?thesis by simp
qed simp

lemma trim_trim [simp]: "trim (trim s) = trim s"
proof -
  let ?d = "dropWhile is_ws s"
  have "?d = [] \<or> \<not> is_ws (hd ?d)"
    by (metis hd_dropWhile)
  then have "dropWhile is_ws (rev (dropWhile is_ws (rev ?d))) = rev (dropWhile is_ws (rev ?d))"
    by (rule dropWhile_rev_trim)
  then show ?thesis by (simp add: trim_def)
qed

definition nonEmptyString :: "string \<Rightarrow> string option" where
  "nonEmptyString s = (let t = trim s in if t = [] then None else Some t)"

definition in_range :: "char \<Rightarrow> char \<Rightarrow> char \<Rightarrow> bool" where
  "in_range a z c = (a \<le> c \<and> c \<le> z)"

definition is_alnum :: "char \<Rightarrow> bool" where
  "is_alnum c = (in_range CHR ''A'' CHR ''Z'' c \<or> in_range CHR ''a'' CHR ''z'' c \<or> is_digit c)"

definition is_hex :: "char \<Rightarrow> bool" where
  "is_hex c = (in_range CHR ''a'' CHR ''f'' c \<or> is_digit c)"

definition entityId :: "string \<Rightarrow> string option" where
  "entityId s = do { t \<leftarrow> nonEmptyString s;
     refine (list_all (\<lambda>c. is_alnum c \<or> c \<in> set ''._:-'')) t }"

definition hexDigest64 :: "string \<Rightarrow> string option" where
  "hexDigest64 s = do { t \<leftarrow> nonEmptyString s; refine (\<lambda>t. length t = 64 \<and> list_all is_hex t) t }"

definition isoDatetime :: "host \<Rightarrow> string \<Rightarrow> string option" where
  "isoDatetime h = refine (h_iso h)"

definition positive :: "'n::linordered_idom \<Rightarrow> 'n option" where
  "positive = refine (\<lambda>n. 0 < n)"

definition nonnegative :: "'n::linordered_idom \<Rightarrow> 'n option" where
  "nonnegative = refine (\<lambda>n. 0 \<le> n)"

lemma nonEmptyString_Some: "nonEmptyString s = Some t \<longleftrightarrow> t = trim s \<and> trim s \<noteq> []"
  by (auto simp: nonEmptyString_def Let_def)

lemma entityId_Some: "entityId s = Some t \<longleftrightarrow>
    t = trim s \<and> trim s \<noteq> [] \<and> list_all (\<lambda>c. is_alnum c \<or> c \<in> set ''._:-'') (trim s)"
  unfolding entityId_def by (auto simp: nonEmptyString_Some Option.bind_eq_Some_conv simp del: list.set)

interpretation nonEmptyString: schema nonEmptyString
  by unfold_locales (auto simp: nonEmptyString_Some)

interpretation entityId: schema entityId
  by unfold_locales (auto simp: entityId_Some)

interpretation hexDigest64: schema hexDigest64
  by unfold_locales (auto simp: hexDigest64_def nonEmptyString_Some Option.bind_eq_Some_conv)

interpretation isoDatetime: schema "isoDatetime h" for h
  by unfold_locales (auto simp: isoDatetime_def)

interpretation positive: schema positive
  by unfold_locales (auto simp: positive_def)

interpretation nonnegative: schema nonnegative
  by unfold_locales (auto simp: nonnegative_def)

text \<open>The facts every record parser's proof uses: its fields' parsers are idempotent.\<close>

named_theorems schema_idem "parsing a parsed value changes nothing"

lemmas [schema_idem] =
  nonEmptyString.idem nonEmptyString.opt_idem nonEmptyString.arr_idem
  entityId.idem entityId.opt_idem entityId.arr_idem
  hexDigest64.idem isoDatetime.idem isoDatetime.opt_idem
  positive.idem positive.opt_idem nonnegative.idem nonnegative.opt_idem

lemmas parse_simps = Option.bind_eq_Some_conv arr_of_length

end
