(* ===== verification/Contracts.thy ===== *)
theory Contracts
  imports Schema
begin

text \<open>
  The contract values the run journal carries: canonical references, exact candidates and evidence
  bindings, recovery diagnostics and the two kinds of artifact manifest, each with its schema parser.

  Sources under packages/contracts/src: canonical-reference.ts, contract-identity.ts,
  evidence-binding.ts, recovery-diagnostic.ts, artifact-manifest.ts, goal-contract.ts (two enums).
\<close>

section \<open>Canonical references\<close>

record contract_ref =
  cr_id :: string
  cr_revision :: int
  cr_digest :: string

definition parse_contract_ref :: "contract_ref \<Rightarrow> contract_ref option" where
  "parse_contract_ref r = do {
     i \<leftarrow> entityId (cr_id r); v \<leftarrow> positive (cr_revision r); d \<leftarrow> nonEmptyString (cr_digest r);
     Some \<lparr>cr_id = i, cr_revision = v, cr_digest = d\<rparr> }"

interpretation contract_ref: schema parse_contract_ref
  by unfold_locales (auto simp: parse_contract_ref_def parse_simps schema_idem)

record repository_view_ref =
  rv_digest :: string
  rv_treeSha :: string
  rv_resourceCatalogDigest :: string

definition parse_repository_view_ref :: "repository_view_ref \<Rightarrow> repository_view_ref option" where
  "parse_repository_view_ref r = do {
     d \<leftarrow> nonEmptyString (rv_digest r); t \<leftarrow> nonEmptyString (rv_treeSha r);
     c \<leftarrow> nonEmptyString (rv_resourceCatalogDigest r);
     Some \<lparr>rv_digest = d, rv_treeSha = t, rv_resourceCatalogDigest = c\<rparr> }"

interpretation repository_view_ref: schema parse_repository_view_ref
  by unfold_locales (auto simp: parse_repository_view_ref_def parse_simps schema_idem)

section \<open>Exact candidates and evidence bindings\<close>

record exact_candidate =
  ec_manifestDigest :: string
  ec_commitOid :: string
  ec_treeOid :: string

definition parse_exact_candidate :: "exact_candidate \<Rightarrow> exact_candidate option" where
  "parse_exact_candidate c = do {
     m \<leftarrow> nonEmptyString (ec_manifestDigest c); o1 \<leftarrow> nonEmptyString (ec_commitOid c);
     t \<leftarrow> nonEmptyString (ec_treeOid c);
     Some \<lparr>ec_manifestDigest = m, ec_commitOid = o1, ec_treeOid = t\<rparr> }"

interpretation exact_candidate: schema parse_exact_candidate
  by unfold_locales (auto simp: parse_exact_candidate_def parse_simps schema_idem)

record exact_baseline =
  eb_commitOid :: string
  eb_treeOid :: string

definition parse_exact_baseline :: "exact_baseline \<Rightarrow> exact_baseline option" where
  "parse_exact_baseline b = do {
     o1 \<leftarrow> nonEmptyString (eb_commitOid b); t \<leftarrow> nonEmptyString (eb_treeOid b);
     Some \<lparr>eb_commitOid = o1, eb_treeOid = t\<rparr> }"

interpretation exact_baseline: schema parse_exact_baseline
  by unfold_locales (auto simp: parse_exact_baseline_def parse_simps schema_idem)

datatype proof_mode = Executable | Static | External_oracle | Human_review_mode | Observational

datatype proof_authority = Orchestrator_deterministic | Protected_external_oracle | Operator

datatype evidence_outcome = Ev_satisfied | Ev_failed | Ev_inconclusive | Ev_not_run | Ev_not_applicable

record evidence_binding =
  bn_id :: string
  bn_revision :: int
  bn_goalContractDigest :: string
  bn_criterionId :: string
  bn_obligationId :: string
  bn_candidate :: exact_candidate
  bn_baseline :: exact_baseline
  bn_proofStrategyDigest :: string
  bn_mode :: proof_mode
  bn_authority :: proof_authority
  bn_recipeDigest :: string
  bn_environmentDigest :: string
  bn_selectorDigest :: string
  bn_outputDigest :: string
  bn_outcome :: evidence_outcome
  bn_digest :: string

lemmas [schema_idem] =
  contract_ref.idem repository_view_ref.idem repository_view_ref.opt_idem
  exact_candidate.idem exact_candidate.opt_idem exact_baseline.idem

definition parse_evidence_binding :: "evidence_binding \<Rightarrow> evidence_binding option" where
  "parse_evidence_binding b = do {
     i \<leftarrow> entityId (bn_id b);
     rv \<leftarrow> positive (bn_revision b);
     g \<leftarrow> nonEmptyString (bn_goalContractDigest b);
     cr \<leftarrow> entityId (bn_criterionId b);
     ob \<leftarrow> entityId (bn_obligationId b);
     c \<leftarrow> parse_exact_candidate (bn_candidate b);
     bl \<leftarrow> parse_exact_baseline (bn_baseline b);
     ps \<leftarrow> nonEmptyString (bn_proofStrategyDigest b);
     rc \<leftarrow> nonEmptyString (bn_recipeDigest b);
     en \<leftarrow> nonEmptyString (bn_environmentDigest b);
     se \<leftarrow> nonEmptyString (bn_selectorDigest b);
     ou \<leftarrow> nonEmptyString (bn_outputDigest b);
     d \<leftarrow> nonEmptyString (bn_digest b);
     Some \<lparr>bn_id = i, bn_revision = rv, bn_goalContractDigest = g, bn_criterionId = cr,
       bn_obligationId = ob, bn_candidate = c, bn_baseline = bl, bn_proofStrategyDigest = ps,
       bn_mode = bn_mode b, bn_authority = bn_authority b, bn_recipeDigest = rc,
       bn_environmentDigest = en, bn_selectorDigest = se, bn_outputDigest = ou,
       bn_outcome = bn_outcome b, bn_digest = d\<rparr> }"

interpretation evidence_binding: schema parse_evidence_binding
  by unfold_locales (auto simp: parse_evidence_binding_def parse_simps schema_idem)

section \<open>Recovery diagnostics\<close>

datatype recovery_diagnostic =
    Corrupt_journal (rd_runId: string) (rd_sequence: int) (rd_detail: string)
  | Missing_object (rd_oid: string) (rd_expectedBy: string)
  | Unresolved_process (rd_processId: string) (rd_lastReceiptId: string)
  | Stale_decision (rd_decisionId: string) (rd_raisedAt: int) (rd_current: int)
  | Target_divergence (rd_ref: string) (rd_expectedOid: string) (rd_actualOid: string)
  | Unrecoverable_external_effect (rd_effectId: string) (rd_effectDetail: string)

fun parse_recovery_diagnostic :: "recovery_diagnostic \<Rightarrow> recovery_diagnostic option" where
  "parse_recovery_diagnostic (Corrupt_journal r s d) = do {
     r' \<leftarrow> entityId r; s' \<leftarrow> nonnegative s; d' \<leftarrow> nonEmptyString d; Some (Corrupt_journal r' s' d') }"
| "parse_recovery_diagnostic (Missing_object x b) = do {
     x' \<leftarrow> nonEmptyString x; b' \<leftarrow> nonEmptyString b; Some (Missing_object x' b') }"
| "parse_recovery_diagnostic (Unresolved_process p l) = do {
     p' \<leftarrow> nonEmptyString p; l' \<leftarrow> nonEmptyString l; Some (Unresolved_process p' l') }"
| "parse_recovery_diagnostic (Stale_decision d r c) = do {
     d' \<leftarrow> entityId d; r' \<leftarrow> nonnegative r; c' \<leftarrow> nonnegative c; Some (Stale_decision d' r' c') }"
| "parse_recovery_diagnostic (Target_divergence f e a) = do {
     f' \<leftarrow> nonEmptyString f; e' \<leftarrow> nonEmptyString e; a' \<leftarrow> nonEmptyString a;
     Some (Target_divergence f' e' a') }"
| "parse_recovery_diagnostic (Unrecoverable_external_effect e d) = do {
     e' \<leftarrow> nonEmptyString e; d' \<leftarrow> nonEmptyString d; Some (Unrecoverable_external_effect e' d') }"

interpretation recovery_diagnostic: schema parse_recovery_diagnostic
proof unfold_locales
  fix x y assume "parse_recovery_diagnostic x = Some y"
  then show "parse_recovery_diagnostic y = Some y"
    by (cases x) (auto simp: parse_simps schema_idem)
qed

section \<open>Artifact manifests\<close>

definition gitOid :: "string \<Rightarrow> string option" where
  "gitOid s = do { t \<leftarrow> nonEmptyString s; refine (list_all is_hex) t }"

definition gitMode :: "string \<Rightarrow> string option" where
  "gitMode s = do { t \<leftarrow> nonEmptyString s;
     refine (\<lambda>t. length t = 6 \<and> list_all (in_range CHR ''0'' CHR ''7'') t) t }"

fun split_on :: "char \<Rightarrow> string \<Rightarrow> string list" where
  "split_on c [] = [[]]"
| "split_on c (x # xs) = (if x = c then [] # split_on c xs
     else (case split_on c xs of w # ws \<Rightarrow> (x # w) # ws | [] \<Rightarrow> [[x]]))"

text \<open>
  \<open>unsafeRepoRelativePathReason\<close> as the test that no reason applies. The character 92 is the backslash.
\<close>

definition backslash :: char where
  "backslash = char_of (92 :: nat)"

definition safeRepoRelativePath :: "string \<Rightarrow> bool" where
  "safeRepoRelativePath p =
     (list_all (\<lambda>c. of_char c > (31 :: nat)) p \<and>
      \<not> (p \<noteq> [] \<and> (hd p = CHR ''/'' \<or> hd p = backslash)) \<and>
      \<not> (1 < length p \<and> (in_range CHR ''A'' CHR ''Z'' (hd p) \<or> in_range CHR ''a'' CHR ''z'' (hd p)) \<and>
         p ! 1 = CHR '':'') \<and>
      \<not> (p \<noteq> [] \<and> hd p = CHR ''~'') \<and>
      ''..'' \<notin> set (split_on CHR ''/'' (map (\<lambda>c. if c = backslash then CHR ''/'' else c) p)))"

definition repoRelativePath :: "string \<Rightarrow> string option" where
  "repoRelativePath s = do { t \<leftarrow> nonEmptyString s; refine safeRepoRelativePath t }"

interpretation gitOid: schema gitOid
  by unfold_locales (auto simp: gitOid_def nonEmptyString_Some parse_simps)

interpretation gitMode: schema gitMode
  by unfold_locales (auto simp: gitMode_def nonEmptyString_Some parse_simps)

interpretation repoRelativePath: schema repoRelativePath
  by unfold_locales (auto simp: repoRelativePath_def nonEmptyString_Some parse_simps)

lemmas [schema_idem] =
  evidence_binding.idem evidence_binding.arr_idem
  recovery_diagnostic.idem recovery_diagnostic.opt_idem
  gitOid.idem gitOid.opt_idem gitMode.idem gitMode.opt_idem
  repoRelativePath.idem repoRelativePath.opt_idem

datatype object_format = Sha1 | Sha256

record manifest_identity =
  mi_id :: string
  mi_contract :: contract_ref
  mi_producerNodeId :: string
  mi_producerAttemptId :: string
  mi_inputFingerprint :: string
  mi_repositoryObjectStoreId :: string
  mi_objectFormat :: object_format
  mi_sourceCandidate :: exact_baseline
  mi_retainedByRef :: string

definition parse_manifest_identity :: "manifest_identity \<Rightarrow> manifest_identity option" where
  "parse_manifest_identity m = do {
     i \<leftarrow> entityId (mi_id m);
     c \<leftarrow> parse_contract_ref (mi_contract m);
     pn \<leftarrow> entityId (mi_producerNodeId m);
     pa \<leftarrow> entityId (mi_producerAttemptId m);
     f \<leftarrow> nonEmptyString (mi_inputFingerprint m);
     st \<leftarrow> entityId (mi_repositoryObjectStoreId m);
     co \<leftarrow> gitOid (eb_commitOid (mi_sourceCandidate m));
     tr \<leftarrow> gitOid (eb_treeOid (mi_sourceCandidate m));
     r \<leftarrow> nonEmptyString (mi_retainedByRef m);
     Some \<lparr>mi_id = i, mi_contract = c, mi_producerNodeId = pn, mi_producerAttemptId = pa,
       mi_inputFingerprint = f, mi_repositoryObjectStoreId = st, mi_objectFormat = mi_objectFormat m,
       mi_sourceCandidate = \<lparr>eb_commitOid = co, eb_treeOid = tr\<rparr>, mi_retainedByRef = r\<rparr> }"

interpretation manifest_identity: schema parse_manifest_identity
  by unfold_locales (auto simp: parse_manifest_identity_def parse_simps schema_idem)

datatype change_operation = Op_add | Op_modify | Op_delete | Op_type_change

record change_set_entry =
  ce_oldPath :: "string option"
  ce_newPath :: "string option"
  ce_operation :: change_operation
  ce_oldOid :: "string option"
  ce_newOid :: "string option"
  ce_oldMode :: "string option"
  ce_newMode :: "string option"
  ce_detectedRenameFrom :: "string option"

definition gitObjectType :: "string \<Rightarrow> string" where
  "gitObjectType mode = take 3 mode"

text \<open>The entry's \<open>superRefine\<close>: \<open>True\<close> when it adds no issue.\<close>

definition change_set_entry_ok :: "change_set_entry \<Rightarrow> bool" where
  "change_set_entry_ok e = (case ce_operation e of
     Op_add \<Rightarrow>
       ce_newPath e \<noteq> None \<and> ce_newOid e \<noteq> None \<and> ce_newMode e \<noteq> None \<and>
       ce_oldPath e = None \<and> ce_oldOid e = None \<and> ce_oldMode e = None
   | Op_delete \<Rightarrow>
       ce_oldPath e \<noteq> None \<and> ce_oldOid e \<noteq> None \<and> ce_oldMode e \<noteq> None \<and>
       ce_newPath e = None \<and> ce_newOid e = None \<and> ce_newMode e = None \<and>
       ce_detectedRenameFrom e = None
   | opr \<Rightarrow>
       ce_oldPath e \<noteq> None \<and> ce_newPath e \<noteq> None \<and> ce_oldOid e \<noteq> None \<and>
       ce_newOid e \<noteq> None \<and> ce_oldMode e \<noteq> None \<and> ce_newMode e \<noteq> None \<and>
       ce_oldPath e = ce_newPath e \<and>
       (opr = Op_modify \<longrightarrow> map_option gitObjectType (ce_oldMode e) = map_option gitObjectType (ce_newMode e)) \<and>
       (opr = Op_type_change \<longrightarrow> map_option gitObjectType (ce_oldMode e) \<noteq> map_option gitObjectType (ce_newMode e)) \<and>
       ce_detectedRenameFrom e = None)"

definition parse_change_set_entry :: "change_set_entry \<Rightarrow> change_set_entry option" where
  "parse_change_set_entry e = do {
     op1 \<leftarrow> opt_of repoRelativePath (ce_oldPath e);
     np \<leftarrow> opt_of repoRelativePath (ce_newPath e);
     oo \<leftarrow> opt_of gitOid (ce_oldOid e);
     no \<leftarrow> opt_of gitOid (ce_newOid e);
     om \<leftarrow> opt_of gitMode (ce_oldMode e);
     nm \<leftarrow> opt_of gitMode (ce_newMode e);
     dr \<leftarrow> opt_of repoRelativePath (ce_detectedRenameFrom e);
     refine change_set_entry_ok \<lparr>ce_oldPath = op1, ce_newPath = np, ce_operation = ce_operation e,
       ce_oldOid = oo, ce_newOid = no, ce_oldMode = om, ce_newMode = nm, ce_detectedRenameFrom = dr\<rparr> }"

interpretation change_set_entry: schema parse_change_set_entry
  by unfold_locales (auto simp: parse_change_set_entry_def parse_simps schema_idem)

datatype artifact_manifest =
    Change_set (am_identity: manifest_identity) (am_manifestDigest: string)
      (am_baseTreeSha: string) (am_resultTreeSha: string) (am_entries: "change_set_entry list")
  | Candidate_tree (am_identity: manifest_identity) (am_manifestDigest: string)
      (am_baseCommitOid: string) (am_commitOid: string) (am_treeOid: string)

definition nul :: char where
  "nul = char_of (0 :: nat)"

definition operation_name :: "change_operation \<Rightarrow> string" where
  "operation_name x = (case x of Op_add \<Rightarrow> ''add'' | Op_modify \<Rightarrow> ''modify''
     | Op_delete \<Rightarrow> ''delete'' | Op_type_change \<Rightarrow> ''type_change'')"

definition entryIdentity :: "change_set_entry \<Rightarrow> string" where
  "entryIdentity e = (case ce_oldPath e of None \<Rightarrow> [] | Some p \<Rightarrow> p) @ nul #
     (case ce_newPath e of None \<Rightarrow> [] | Some p \<Rightarrow> p) @ nul # operation_name (ce_operation e)"

definition opt_list :: "'a option \<Rightarrow> 'a list" where
  "opt_list v = (case v of None \<Rightarrow> [] | Some x \<Rightarrow> [x])"

text \<open>The fields \<open>visitOidFields\<close> reaches: the keys that end in \<open>Oid\<close> or \<open>Sha\<close>, at every depth.\<close>

definition oid_fields :: "artifact_manifest \<Rightarrow> string list" where
  "oid_fields m =
     [eb_commitOid (mi_sourceCandidate (am_identity m)), eb_treeOid (mi_sourceCandidate (am_identity m))] @
     (case m of
        Change_set i d b r es \<Rightarrow>
          b # r # concat (map (\<lambda>e. opt_list (ce_oldOid e) @ opt_list (ce_newOid e)) es)
      | Candidate_tree i d b c t \<Rightarrow> [b, c, t])"

definition oid_lengths_ok :: "artifact_manifest \<Rightarrow> bool" where
  "oid_lengths_ok m =
     list_all (\<lambda>x. length x = (case mi_objectFormat (am_identity m) of Sha1 \<Rightarrow> 40 | Sha256 \<Rightarrow> 64))
       (oid_fields m)"

definition unique_entries :: "artifact_manifest \<Rightarrow> bool" where
  "unique_entries m = (case m of
     Change_set i d b r es \<Rightarrow> distinct (map entryIdentity es) | Candidate_tree i d b c t \<Rightarrow> True)"

fun parse_artifact_manifest :: "artifact_manifest \<Rightarrow> artifact_manifest option" where
  "parse_artifact_manifest (Change_set i d b r es) = do {
     i' \<leftarrow> parse_manifest_identity i; b' \<leftarrow> gitOid b; r' \<leftarrow> gitOid r;
     es' \<leftarrow> arr_of parse_change_set_entry es; d' \<leftarrow> nonEmptyString d;
     refine (\<lambda>m. oid_lengths_ok m \<and> unique_entries m) (Change_set i' d' b' r' es') }"
| "parse_artifact_manifest (Candidate_tree i d b c t) = do {
     i' \<leftarrow> parse_manifest_identity i; b' \<leftarrow> gitOid b; c' \<leftarrow> gitOid c; t' \<leftarrow> gitOid t;
     d' \<leftarrow> nonEmptyString d;
     refine oid_lengths_ok (Candidate_tree i' d' b' c' t') }"

lemmas [schema_idem] = manifest_identity.idem change_set_entry.arr_idem

interpretation artifact_manifest: schema parse_artifact_manifest
proof unfold_locales
  fix x y assume "parse_artifact_manifest x = Some y"
  then show "parse_artifact_manifest y = Some y"
    by (cases x) (auto simp: parse_simps schema_idem)
qed

lemmas [schema_idem] = artifact_manifest.idem artifact_manifest.opt_idem

end
