(* ===== verification/Effect_Protocol.thy ===== *)
theory Effect_Protocol
  imports Contracts
begin

text \<open>
  Durable effects: the intent a run actor journals before anything physical happens, the receipts
  adapters publish about it, their content-addressed identities, and the replay of a receipt stream.

  Source: packages/contracts/src/effect-protocol.ts.
\<close>

section \<open>Intents\<close>

datatype effect_kind = Model_call | Process_spawn | Process_terminate | Sandbox_create | Git_mutation
  | Artifact_materialize | Validation | Delivery | Cleanup

datatype effect_idempotency = Repeat_safe | Reconcile_then_repeat | Never_repeat_unknown

record effect_intent_material =
  ei_runId :: string
  ei_attemptId :: "string option"
  ei_kind :: effect_kind
  ei_inputDigest :: string
  ei_daemonEpoch :: string
  ei_idempotency :: effect_idempotency
  ei_requestedAt :: string

record effect_intent = effect_intent_material +
  ei_effectId :: string

definition parse_effect_intent_material ::
  "host \<Rightarrow> effect_intent_material \<Rightarrow> effect_intent_material option" where
  "parse_effect_intent_material h i = do {
     r \<leftarrow> entityId (ei_runId i);
     a \<leftarrow> opt_of entityId (ei_attemptId i);
     d \<leftarrow> nonEmptyString (ei_inputDigest i);
     ep \<leftarrow> entityId (ei_daemonEpoch i);
     t \<leftarrow> isoDatetime h (ei_requestedAt i);
     Some \<lparr>ei_runId = r, ei_attemptId = a, ei_kind = ei_kind i, ei_inputDigest = d,
       ei_daemonEpoch = ep, ei_idempotency = ei_idempotency i, ei_requestedAt = t\<rparr> }"

definition parse_effect_intent :: "host \<Rightarrow> effect_intent \<Rightarrow> effect_intent option" where
  "parse_effect_intent h i = do {
     m \<leftarrow> parse_effect_intent_material h (effect_intent_material.truncate i);
     e \<leftarrow> nonEmptyString (ei_effectId i);
     Some (effect_intent_material.extend m (effect_intent.fields e)) }"

interpretation effect_intent_material: schema "parse_effect_intent_material h" for h
  by unfold_locales (auto simp: parse_effect_intent_material_def parse_simps schema_idem)

lemma effect_intent_material_truncate_extend [simp]:
  "effect_intent_material.truncate (effect_intent_material.extend m x) = (m :: effect_intent_material)"
  by (simp add: effect_intent_material.defs)

lemma ei_effectId_extend [simp]:
  "ei_effectId (effect_intent_material.extend m (effect_intent.fields e)) = e"
  by (simp add: effect_intent_material.defs effect_intent.defs)

interpretation effect_intent: schema "parse_effect_intent h" for h
  by unfold_locales (auto simp: parse_effect_intent_def parse_simps schema_idem effect_intent_material.idem)

definition kind_name :: "effect_kind \<Rightarrow> string" where
  "kind_name k = (case k of Model_call \<Rightarrow> ''model_call'' | Process_spawn \<Rightarrow> ''process_spawn''
     | Process_terminate \<Rightarrow> ''process_terminate'' | Sandbox_create \<Rightarrow> ''sandbox_create''
     | Git_mutation \<Rightarrow> ''git_mutation'' | Artifact_materialize \<Rightarrow> ''artifact_materialize''
     | Validation \<Rightarrow> ''validation'' | Delivery \<Rightarrow> ''delivery'' | Cleanup \<Rightarrow> ''cleanup'')"

definition idempotency_name :: "effect_idempotency \<Rightarrow> string" where
  "idempotency_name k = (case k of Repeat_safe \<Rightarrow> ''repeat_safe''
     | Reconcile_then_repeat \<Rightarrow> ''reconcile_then_repeat''
     | Never_repeat_unknown \<Rightarrow> ''never_repeat_unknown'')"

text \<open>An optional property is absent from the object when the field is \<open>undefined\<close>.\<close>

definition opt_prop :: "string \<Rightarrow> ('a \<Rightarrow> json) \<Rightarrow> 'a option \<Rightarrow> (string \<times> json) list" where
  "opt_prop k f v = (case v of None \<Rightarrow> [] | Some x \<Rightarrow> [(k, f x)])"

definition intent_material_json :: "effect_intent_material \<Rightarrow> json" where
  "intent_material_json i = JObj (
     [(''runId'', JStr (ei_runId i))] @ opt_prop ''attemptId'' JStr (ei_attemptId i) @
     [(''kind'', JStr (kind_name (ei_kind i))), (''inputDigest'', JStr (ei_inputDigest i)),
      (''daemonEpoch'', JStr (ei_daemonEpoch i)),
      (''idempotency'', JStr (idempotency_name (ei_idempotency i))),
      (''requestedAt'', JStr (ei_requestedAt i))])"

definition buildEffectIntent :: "host \<Rightarrow> effect_intent_material \<Rightarrow> effect_intent option" where
  "buildEffectIntent h i = do {
     m \<leftarrow> parse_effect_intent_material h i;
     Some (effect_intent_material.extend m
       (effect_intent.fields (computeCanonicalDigest h (intent_material_json m)))) }"

datatype identity_issue = Schema_invalid | Id_mismatch

text \<open>The issue list is empty exactly when the code's result says \<open>ok\<close>.\<close>

definition validateEffectIntentIdentity :: "host \<Rightarrow> effect_intent \<Rightarrow> identity_issue list" where
  "validateEffectIntentIdentity h i = (case parse_effect_intent h i of
     None \<Rightarrow> [Schema_invalid]
   | Some p \<Rightarrow>
       if computeCanonicalDigest h (intent_material_json (effect_intent_material.truncate p)) \<noteq> ei_effectId p
       then [Id_mismatch] else [])"

section \<open>Physical receipts\<close>

record process_identity =
  pi_pid :: int
  pi_creationIdentity :: string
  pi_supervisorNonce :: string

datatype physical_observation = Started | Succeeded | Failed

record receipt_material =
  pr_effectId :: string
  pr_observation :: physical_observation
  pr_inputDigest :: string
  pr_daemonEpoch :: string
  pr_processIdentity :: "process_identity option"
  pr_resultDigest :: "string option"
  pr_reason :: "string option"
  pr_observedAt :: string

record physical_receipt = receipt_material +
  pr_receiptId :: string

definition parse_process_identity :: "process_identity \<Rightarrow> process_identity option" where
  "parse_process_identity p = do {
     i \<leftarrow> positive (pi_pid p); c \<leftarrow> nonEmptyString (pi_creationIdentity p);
     n \<leftarrow> nonEmptyString (pi_supervisorNonce p);
     Some \<lparr>pi_pid = i, pi_creationIdentity = c, pi_supervisorNonce = n\<rparr> }"

interpretation process_identity: schema parse_process_identity
  by unfold_locales (auto simp: parse_process_identity_def parse_simps schema_idem)

definition parse_receipt_material :: "host \<Rightarrow> receipt_material \<Rightarrow> receipt_material option" where
  "parse_receipt_material h r = do {
     e \<leftarrow> nonEmptyString (pr_effectId r);
     d \<leftarrow> nonEmptyString (pr_inputDigest r);
     ep \<leftarrow> entityId (pr_daemonEpoch r);
     p \<leftarrow> opt_of parse_process_identity (pr_processIdentity r);
     rd \<leftarrow> opt_of nonEmptyString (pr_resultDigest r);
     rs \<leftarrow> opt_of nonEmptyString (pr_reason r);
     t \<leftarrow> isoDatetime h (pr_observedAt r);
     Some \<lparr>pr_effectId = e, pr_observation = pr_observation r, pr_inputDigest = d, pr_daemonEpoch = ep,
       pr_processIdentity = p, pr_resultDigest = rd, pr_reason = rs, pr_observedAt = t\<rparr> }"

definition parse_physical_receipt :: "host \<Rightarrow> physical_receipt \<Rightarrow> physical_receipt option" where
  "parse_physical_receipt h r = do {
     m \<leftarrow> parse_receipt_material h (receipt_material.truncate r);
     i \<leftarrow> nonEmptyString (pr_receiptId r);
     Some (receipt_material.extend m (physical_receipt.fields i)) }"

interpretation receipt_material: schema "parse_receipt_material h" for h
  by unfold_locales
    (auto simp: parse_receipt_material_def parse_simps schema_idem process_identity.opt_idem)

lemma receipt_material_truncate_extend [simp]:
  "receipt_material.truncate (receipt_material.extend m x) = (m :: receipt_material)"
  by (simp add: receipt_material.defs)

lemma pr_receiptId_extend [simp]:
  "pr_receiptId (receipt_material.extend m (physical_receipt.fields e)) = e"
  by (simp add: receipt_material.defs physical_receipt.defs)

interpretation physical_receipt: schema "parse_physical_receipt h" for h
  by unfold_locales (auto simp: parse_physical_receipt_def parse_simps schema_idem receipt_material.idem)

lemmas [schema_idem] = effect_intent.idem physical_receipt.idem

definition observation_name :: "physical_observation \<Rightarrow> string" where
  "observation_name x = (case x of Started \<Rightarrow> ''started'' | Succeeded \<Rightarrow> ''succeeded'' | Failed \<Rightarrow> ''failed'')"

definition process_identity_json :: "process_identity \<Rightarrow> json" where
  "process_identity_json p = JObj [(''pid'', JNum (of_int (pi_pid p))),
     (''creationIdentity'', JStr (pi_creationIdentity p)),
     (''supervisorNonce'', JStr (pi_supervisorNonce p))]"

definition receipt_props :: "receipt_material \<Rightarrow> (string \<times> json) list" where
  "receipt_props r =
     [(''effectId'', JStr (pr_effectId r)), (''observation'', JStr (observation_name (pr_observation r))),
      (''inputDigest'', JStr (pr_inputDigest r)), (''daemonEpoch'', JStr (pr_daemonEpoch r))] @
     opt_prop ''processIdentity'' process_identity_json (pr_processIdentity r) @
     opt_prop ''resultDigest'' JStr (pr_resultDigest r) @
     opt_prop ''reason'' JStr (pr_reason r) @
     [(''observedAt'', JStr (pr_observedAt r))]"

definition receipt_json :: "physical_receipt \<Rightarrow> json" where
  "receipt_json r =
     JObj ((''receiptId'', JStr (pr_receiptId r)) # receipt_props (receipt_material.truncate r))"

definition buildPhysicalEffectReceipt :: "host \<Rightarrow> receipt_material \<Rightarrow> physical_receipt option" where
  "buildPhysicalEffectReceipt h i = do {
     m \<leftarrow> parse_receipt_material h i;
     Some (receipt_material.extend m
       (physical_receipt.fields (computeCanonicalDigest h (JObj (receipt_props m))))) }"

definition validatePhysicalEffectReceiptIdentity ::
  "host \<Rightarrow> physical_receipt \<Rightarrow> identity_issue list" where
  "validatePhysicalEffectReceiptIdentity h r = (case parse_physical_receipt h r of
     None \<Rightarrow> [Schema_invalid]
   | Some p \<Rightarrow>
       if computeCanonicalDigest h (JObj (receipt_props (receipt_material.truncate p))) \<noteq> pr_receiptId p
       then [Id_mismatch] else [])"

datatype binding_issue = Intent_identity_invalid | Receipt_identity_invalid
  | Effect_binding_mismatch | Input_digest_mismatch

definition validatePhysicalEffectReceiptBinding ::
  "host \<Rightarrow> physical_receipt \<Rightarrow> effect_intent \<Rightarrow> binding_issue list" where
  "validatePhysicalEffectReceiptBinding h r i = (
     let issues = (if validateEffectIntentIdentity h i = [] then [] else [Intent_identity_invalid]) @
                  (if validatePhysicalEffectReceiptIdentity h r = [] then [] else [Receipt_identity_invalid])
     in if issues \<noteq> [] then issues
        else (case (parse_effect_intent h i, parse_physical_receipt h r) of
            (Some intent, Some receipt) \<Rightarrow>
              (if pr_effectId receipt \<noteq> ei_effectId intent then [Effect_binding_mismatch] else []) @
              (if pr_inputDigest receipt \<noteq> ei_inputDigest intent then [Input_digest_mismatch] else [])
          | _ \<Rightarrow> []))"

section \<open>Replaying a receipt stream\<close>

datatype replay_issue =
    Replay_schema_invalid nat
  | Replay_id_mismatch nat string
  | Replay_id_conflict nat string

record replay_state =
  rs_byId :: "physical_receipt obj"
  rs_identical :: "string list"
  rs_issues :: "replay_issue list"

text \<open>\<open>canonicalJson(a) === canonicalJson(b)\<close>.\<close>

definition same_receipt :: "host \<Rightarrow> physical_receipt \<Rightarrow> physical_receipt \<Rightarrow> bool" where
  "same_receipt h a b \<longleftrightarrow>
     toCanonicalJsonValue h (receipt_json a) = toCanonicalJsonValue h (receipt_json b)"

definition set_add :: "'a \<Rightarrow> 'a list \<Rightarrow> 'a list" where
  "set_add x xs = (if x \<in> set xs then xs else xs @ [x])"

definition replay_step :: "host \<Rightarrow> nat \<times> physical_receipt \<Rightarrow> replay_state \<Rightarrow> replay_state" where
  "replay_step h ir s = (case parse_physical_receipt h (snd ir) of
     None \<Rightarrow> s\<lparr>rs_issues := rs_issues s @ [Replay_schema_invalid (fst ir)]\<rparr>
   | Some receipt \<Rightarrow> (case oget (rs_byId s) (pr_receiptId receipt) of
       Some existing \<Rightarrow>
         if same_receipt h existing receipt
         then s\<lparr>rs_identical := set_add (pr_receiptId receipt) (rs_identical s)\<rparr>
         else s\<lparr>rs_issues := rs_issues s @ [Replay_id_conflict (fst ir) (pr_receiptId receipt)]\<rparr>
     | None \<Rightarrow>
         if validatePhysicalEffectReceiptIdentity h receipt \<noteq> []
         then s\<lparr>rs_issues := rs_issues s @ [Replay_id_mismatch (fst ir) (pr_receiptId receipt)]\<rparr>
         else s\<lparr>rs_byId := oput (pr_receiptId receipt) receipt (rs_byId s)\<rparr>))"

definition replayPhysicalEffectReceipts :: "host \<Rightarrow> physical_receipt list \<Rightarrow> replay_state" where
  "replayPhysicalEffectReceipts h input =
     fold (replay_step h) (enumerate 0 input) \<lparr>rs_byId = [], rs_identical = [], rs_issues = []\<rparr>"

section \<open>Identity\<close>

lemma buildEffectIntent_valid:
  assumes "buildEffectIntent h m = Some i"
    and "trim (ei_effectId i) = ei_effectId i" "ei_effectId i \<noteq> []"
  shows "validateEffectIntentIdentity h i = []"
proof -
  from assms(1) obtain m' where m': "parse_effect_intent_material h m = Some m'"
    and i: "i = effect_intent_material.extend m'
       (effect_intent.fields (computeCanonicalDigest h (intent_material_json m')))"
    by (auto simp: buildEffectIntent_def parse_simps)
  have "parse_effect_intent h i = Some i"
    using assms(2,3) effect_intent_material.idem[OF m']
    by (simp add: i parse_effect_intent_def nonEmptyString_Some parse_simps)
  then show ?thesis by (simp add: validateEffectIntentIdentity_def i)
qed

lemma buildPhysicalEffectReceipt_valid:
  assumes "buildPhysicalEffectReceipt h m = Some r"
    and "trim (pr_receiptId r) = pr_receiptId r" "pr_receiptId r \<noteq> []"
  shows "validatePhysicalEffectReceiptIdentity h r = []"
proof -
  from assms(1) obtain m' where m': "parse_receipt_material h m = Some m'"
    and r: "r = receipt_material.extend m'
       (physical_receipt.fields (computeCanonicalDigest h (JObj (receipt_props m'))))"
    by (auto simp: buildPhysicalEffectReceipt_def parse_simps)
  have "parse_physical_receipt h r = Some r"
    using assms(2,3) receipt_material.idem[OF m']
    by (simp add: r parse_physical_receipt_def nonEmptyString_Some parse_simps)
  then show ?thesis by (simp add: validatePhysicalEffectReceiptIdentity_def r)
qed

end
