(* ===== verification/Command_Envelope.thy ===== *)
theory Command_Envelope
  imports Effect_Protocol
begin

text \<open>
  Run commands and their durable acknowledgements: content-addressed envelopes, receipts, and the
  classification of a command that arrives again.

  Source: packages/run-coordinator/src/command-envelope.ts.
\<close>

text \<open>\<open>RunCommandPayloadSchema\<close>: a JSON object whose \<open>type\<close> is a non-blank string.\<close>

type_synonym command_payload = "(string \<times> json) list"

definition payload_type :: "command_payload \<Rightarrow> string option" where
  "payload_type c = (case oget c ''type'' of Some (JStr s) \<Rightarrow> Some s | _ \<Rightarrow> None)"

definition parse_command_payload :: "command_payload \<Rightarrow> command_payload option" where
  "parse_command_payload =
     refine (\<lambda>c. case payload_type c of Some s \<Rightarrow> trim s \<noteq> [] | None \<Rightarrow> False)"

interpretation command_payload: schema parse_command_payload
  by unfold_locales (auto simp: parse_command_payload_def)

record command_envelope_input =
  cv_commandId :: string
  cv_runId :: string
  cv_expectedRevision :: int
  cv_submittedAt :: string
  cv_command :: command_payload

record command_envelope = command_envelope_input +
  cv_commandDigest :: string

definition parse_command_envelope_input ::
  "host \<Rightarrow> command_envelope_input \<Rightarrow> command_envelope_input option" where
  "parse_command_envelope_input h c = do {
     i \<leftarrow> entityId (cv_commandId c);
     r \<leftarrow> entityId (cv_runId c);
     v \<leftarrow> nonnegative (cv_expectedRevision c);
     t \<leftarrow> isoDatetime h (cv_submittedAt c);
     p \<leftarrow> parse_command_payload (cv_command c);
     Some \<lparr>cv_commandId = i, cv_runId = r, cv_expectedRevision = v, cv_submittedAt = t, cv_command = p\<rparr> }"

definition parse_command_envelope :: "host \<Rightarrow> command_envelope \<Rightarrow> command_envelope option" where
  "parse_command_envelope h c = do {
     m \<leftarrow> parse_command_envelope_input h (command_envelope_input.truncate c);
     d \<leftarrow> nonEmptyString (cv_commandDigest c);
     Some (command_envelope_input.extend m (command_envelope.fields d)) }"

interpretation command_envelope_input: schema "parse_command_envelope_input h" for h
  by unfold_locales
    (auto simp: parse_command_envelope_input_def parse_simps schema_idem command_payload.idem)

lemma command_envelope_input_truncate_extend [simp]:
  "command_envelope_input.truncate (command_envelope_input.extend m x) = (m :: command_envelope_input)"
  by (simp add: command_envelope_input.defs)

lemma command_envelope_extend_simps [simp]:
  "cv_commandDigest (command_envelope_input.extend m (command_envelope.fields d)) = d"
  "cv_commandId (command_envelope_input.extend m x) = cv_commandId m"
  "cv_runId (command_envelope_input.extend m x) = cv_runId m"
  "cv_expectedRevision (command_envelope_input.extend m x) = cv_expectedRevision m"
  "cv_command (command_envelope_input.extend m x) = cv_command m"
  by (simp_all add: command_envelope_input.defs command_envelope.defs)

interpretation command_envelope: schema "parse_command_envelope h" for h
  by unfold_locales
    (auto simp: parse_command_envelope_def parse_simps schema_idem command_envelope_input.idem)

record command_receipt_material =
  rc_commandId :: string
  rc_runId :: string
  rc_commandDigest :: string
  rc_acceptedRevision :: int
  rc_daemonEpoch :: string
  rc_acceptedAt :: string

record command_receipt = command_receipt_material +
  rc_receiptId :: string

definition parse_command_receipt_material ::
  "host \<Rightarrow> command_receipt_material \<Rightarrow> command_receipt_material option" where
  "parse_command_receipt_material h c = do {
     i \<leftarrow> entityId (rc_commandId c);
     r \<leftarrow> entityId (rc_runId c);
     d \<leftarrow> nonEmptyString (rc_commandDigest c);
     v \<leftarrow> positive (rc_acceptedRevision c);
     ep \<leftarrow> entityId (rc_daemonEpoch c);
     t \<leftarrow> isoDatetime h (rc_acceptedAt c);
     Some \<lparr>rc_commandId = i, rc_runId = r, rc_commandDigest = d, rc_acceptedRevision = v,
       rc_daemonEpoch = ep, rc_acceptedAt = t\<rparr> }"

definition parse_command_receipt :: "host \<Rightarrow> command_receipt \<Rightarrow> command_receipt option" where
  "parse_command_receipt h c = do {
     m \<leftarrow> parse_command_receipt_material h (command_receipt_material.truncate c);
     d \<leftarrow> nonEmptyString (rc_receiptId c);
     Some (command_receipt_material.extend m (command_receipt.fields d)) }"

interpretation command_receipt_material: schema "parse_command_receipt_material h" for h
  by unfold_locales (auto simp: parse_command_receipt_material_def parse_simps schema_idem)

lemma command_receipt_material_truncate_extend [simp]:
  "command_receipt_material.truncate (command_receipt_material.extend m x) = (m :: command_receipt_material)"
  by (simp add: command_receipt_material.defs)

lemma command_receipt_extend_simps [simp]:
  "rc_receiptId (command_receipt_material.extend m (command_receipt.fields d)) = d"
  "rc_commandId (command_receipt_material.extend m x) = rc_commandId m"
  "rc_runId (command_receipt_material.extend m x) = rc_runId m"
  "rc_commandDigest (command_receipt_material.extend m x) = rc_commandDigest m"
  by (simp_all add: command_receipt_material.defs command_receipt.defs)

interpretation command_receipt: schema "parse_command_receipt h" for h
  by unfold_locales
    (auto simp: parse_command_receipt_def parse_simps schema_idem command_receipt_material.idem)

lemmas [schema_idem] = command_envelope.idem command_envelope.opt_idem command_receipt.idem

definition receipt_material_json :: "command_receipt_material \<Rightarrow> json" where
  "receipt_material_json m = JObj [(''schemaVersion'', JNum 1), (''commandId'', JStr (rc_commandId m)),
     (''runId'', JStr (rc_runId m)), (''commandDigest'', JStr (rc_commandDigest m)),
     (''acceptedRevision'', JNum (of_int (rc_acceptedRevision m))),
     (''daemonEpoch'', JStr (rc_daemonEpoch m)), (''acceptedAt'', JStr (rc_acceptedAt m))]"

definition buildCommandReceipt :: "host \<Rightarrow> command_receipt_material \<Rightarrow> command_receipt option" where
  "buildCommandReceipt h input = do {
     m \<leftarrow> parse_command_receipt_material h input;
     parse_command_receipt h (command_receipt_material.extend m
       (command_receipt.fields (computeCanonicalDigest h (receipt_material_json m)))) }"

definition validateCommandReceiptIdentity :: "host \<Rightarrow> command_receipt \<Rightarrow> identity_issue list" where
  "validateCommandReceiptIdentity h r = (case parse_command_receipt h r of
     None \<Rightarrow> [Schema_invalid]
   | Some p \<Rightarrow>
       if computeCanonicalDigest h (receipt_material_json (command_receipt_material.truncate p)) \<noteq> rc_receiptId p
       then [Id_mismatch] else [])"

text \<open>\<open>commandIdentityMaterial\<close>: what the digest of a command covers.\<close>

definition commandIdentityMaterial :: "('a) command_envelope_input_scheme \<Rightarrow> json" where
  "commandIdentityMaterial c = JObj [(''schemaVersion'', JNum 1), (''runId'', JStr (cv_runId c)),
     (''expectedRevision'', JNum (of_int (cv_expectedRevision c))), (''command'', JObj (cv_command c))]"

definition buildRunCommandEnvelope :: "host \<Rightarrow> command_envelope_input \<Rightarrow> command_envelope option" where
  "buildRunCommandEnvelope h input = do {
     parsed \<leftarrow> parse_command_envelope_input h input;
     parse_command_envelope h (command_envelope_input.extend parsed
       (command_envelope.fields (computeCanonicalDigest h (commandIdentityMaterial parsed)))) }"

definition validateRunCommandEnvelopeIdentity :: "host \<Rightarrow> command_envelope \<Rightarrow> identity_issue list" where
  "validateRunCommandEnvelopeIdentity h c = (case parse_command_envelope h c of
     None \<Rightarrow> [Schema_invalid]
   | Some p \<Rightarrow>
       if cv_commandDigest p \<noteq> computeCanonicalDigest h (commandIdentityMaterial p)
       then [Id_mismatch] else [])"

text \<open>\<open>parseVerifiedEnvelope\<close>: the errors carry the code the thrown \<open>TypeError\<close> reports.\<close>

definition parseVerifiedEnvelope :: "host \<Rightarrow> command_envelope \<Rightarrow> identity_issue + command_envelope" where
  "parseVerifiedEnvelope h c = (case parse_command_envelope h c of
     None \<Rightarrow> Inl Schema_invalid
   | Some p \<Rightarrow> (case validateRunCommandEnvelopeIdentity h p of [] \<Rightarrow> Inr p | e # _ \<Rightarrow> Inl e))"

datatype replay_class =
    New command_envelope
  | Duplicate command_envelope
  | Conflict string string string

definition classifyRunCommandReplay ::
  "host \<Rightarrow> command_envelope option \<Rightarrow> command_envelope \<Rightarrow> identity_issue + replay_class" where
  "classifyRunCommandReplay h existing incoming =
     bindE (parseVerifiedEnvelope h incoming) (\<lambda>inc.
       (case existing of
          None \<Rightarrow> Inr (New inc)
        | Some e \<Rightarrow> bindE (parseVerifiedEnvelope h e) (\<lambda>ex.
            if cv_commandId ex \<noteq> cv_commandId inc then Inr (New inc)
            else if cv_commandDigest ex = cv_commandDigest inc then Inr (Duplicate ex)
            else Inr (Conflict (cv_commandId inc) (cv_commandDigest ex) (cv_commandDigest inc)))))"

section \<open>Facts about envelopes and receipts\<close>

lemma parseVerifiedEnvelope_Inr:
  "parseVerifiedEnvelope h c = Inr p \<longleftrightarrow>
     parse_command_envelope h c = Some p \<and>
     cv_commandDigest p = computeCanonicalDigest h (commandIdentityMaterial p)"
  by (auto simp: parseVerifiedEnvelope_def validateRunCommandEnvelopeIdentity_def command_envelope.idem
      split: option.splits list.splits if_splits)

lemma buildCommandReceipt_fields:
  assumes "buildCommandReceipt h m = Some r"
  shows "\<exists>m'. parse_command_receipt_material h m = Some m' \<and>
    command_receipt_material.truncate r = m' \<and> parse_command_receipt h r = Some r"
  using assms
  by (auto simp: buildCommandReceipt_def parse_command_receipt_def parse_simps schema_idem
      command_receipt_material.idem)

lemma buildCommandReceipt_valid:
  assumes "buildCommandReceipt h m = Some r"
    and "\<And>v. trim (h_digest h v) = h_digest h v"
  shows "validateCommandReceiptIdentity h r = []"
proof -
  from buildCommandReceipt_fields[OF assms(1)] have "parse_command_receipt h r = Some r" by blast
  moreover have "computeCanonicalDigest h (receipt_material_json (command_receipt_material.truncate r))
      = rc_receiptId r"
    using assms
    by (auto simp: buildCommandReceipt_def parse_command_receipt_def parse_simps
        command_receipt_material.idem nonEmptyString_Some computeCanonicalDigest_def)
  ultimately show ?thesis by (simp add: validateCommandReceiptIdentity_def)
qed

lemma buildRunCommandEnvelope_verified:
  assumes "buildRunCommandEnvelope h m = Some c"
    and "\<And>v. trim (h_digest h v) = h_digest h v"
  shows "parseVerifiedEnvelope h c = Inr c"
  using assms
  by (auto simp: buildRunCommandEnvelope_def parseVerifiedEnvelope_Inr parse_command_envelope_def
      parse_simps schema_idem command_envelope_input.idem nonEmptyString_Some computeCanonicalDigest_def
      commandIdentityMaterial_def)

end
