(* ===== verification/Domain.thy ===== *)
theory Domain
  imports Command_Envelope
begin

text \<open>
  The domain values of a run: its lifecycle and outcomes, decisions, human reviews, adopted artifacts,
  failures and evidence matrices, and the definition a run is created from.

  Sources under packages/run-coordinator/src: domain/lifecycle.ts, domain/outcomes.ts,
  domain/autonomy.ts (the enums), domain/decisions.ts, domain/artifacts.ts, domain/human-review.ts,
  domain/failures.ts, domain/evidence.ts, product-lifecycle.ts; and packages/shared/src/index.ts.
\<close>

section \<open>Lifecycle\<close>

datatype lifecycle = Planning | Needs_approval | Running | Waiting_for_input | Paused | Cancelling
  | Interrupted | Result_ready | Delivering | Completed | Failed_run

instantiation lifecycle :: enum
begin

definition enum_lifecycle :: "lifecycle list" where
  "enum_lifecycle = [Planning, Needs_approval, Running, Waiting_for_input, Paused, Cancelling,
     Interrupted, Result_ready, Delivering, Completed, Failed_run]"

definition enum_all_lifecycle :: "(lifecycle \<Rightarrow> bool) \<Rightarrow> bool" where
  "enum_all_lifecycle P = list_all P enum_class.enum"

definition enum_ex_lifecycle :: "(lifecycle \<Rightarrow> bool) \<Rightarrow> bool" where
  "enum_ex_lifecycle P = list_ex P enum_class.enum"

instance
proof
  show univ: "(UNIV :: lifecycle set) = set enum_class.enum"
    by (auto simp: enum_lifecycle_def intro: lifecycle.exhaust)
  show "distinct (enum_class.enum :: lifecycle list)" by (simp add: enum_lifecycle_def)
  show "enum_class.enum_all P \<longleftrightarrow> Ball UNIV P" for P :: "lifecycle \<Rightarrow> bool"
    by (simp add: univ enum_all_lifecycle_def list_all_iff)
  show "enum_class.enum_ex P \<longleftrightarrow> Bex UNIV P" for P :: "lifecycle \<Rightarrow> bool"
    by (simp add: univ enum_ex_lifecycle_def list_ex_iff)
qed

end

fun legal_transitions :: "lifecycle \<Rightarrow> lifecycle list" where
  "legal_transitions Planning = [Needs_approval, Cancelling, Failed_run]"
| "legal_transitions Needs_approval = [Planning, Running, Cancelling, Failed_run]"
| "legal_transitions Running =
     [Needs_approval, Waiting_for_input, Paused, Cancelling, Result_ready, Failed_run]"
| "legal_transitions Waiting_for_input = [Running, Paused, Cancelling, Failed_run]"
| "legal_transitions Paused = [Running, Waiting_for_input, Cancelling, Failed_run]"
| "legal_transitions Cancelling = [Interrupted, Failed_run]"
| "legal_transitions Interrupted = [Running, Cancelling, Failed_run]"
| "legal_transitions Result_ready = [Delivering, Cancelling, Failed_run]"
| "legal_transitions Delivering = [Result_ready, Cancelling, Completed, Failed_run]"
| "legal_transitions Completed = []"
| "legal_transitions Failed_run = [Running]"

text \<open>\<open>assertLifecycleTransition\<close> as a test.\<close>

definition transition_ok :: "lifecycle \<Rightarrow> lifecycle \<Rightarrow> bool" where
  "transition_ok src tgt = (src = tgt \<or> tgt \<in> set (legal_transitions src))"

section \<open>Outcomes and delivery\<close>

datatype execution_outcome = Ex_pending | Ex_succeeded | Ex_failed | Ex_interrupted
datatype artifact_outcome = Ar_missing | Ar_candidate | Ar_verified | Ar_unverified | Ar_failed
datatype delivery_outcome = De_not_started | De_ready | De_published | De_failed

record run_outcomes =
  oc_execution :: execution_outcome
  oc_artifact :: artifact_outcome
  oc_delivery :: delivery_outcome

definition initial_run_outcomes :: run_outcomes where
  "initial_run_outcomes =
     \<lparr>oc_execution = Ex_pending, oc_artifact = Ar_missing, oc_delivery = De_not_started\<rparr>"

datatype disposition = Delivered | Delivery_conflict | Delivery_failed

record delivery_receipt =
  dr_receiptId :: string
  dr_requestFingerprint :: "string option"
  dr_manifestId :: string
  dr_finalSha :: "string option"
  dr_targetBranch :: "string option"
  dr_targetHeadBefore :: "string option"
  dr_targetHeadAfter :: "string option"
  dr_disposition :: "disposition option"
  dr_destination :: "string option"
  dr_deliveredTreeSha :: "string option"
  dr_cleanlinessPolicyId :: "string option"
  dr_confirmed :: bool

text \<open>\<open>z.string().min(1)\<close>: not trimmed.\<close>

definition minString :: "string \<Rightarrow> string option" where
  "minString = refine (\<lambda>s. s \<noteq> [])"

interpretation minString: schema minString
  by unfold_locales (auto simp: minString_def)

lemmas [schema_idem] = minString.idem minString.opt_idem

definition parse_delivery_receipt :: "delivery_receipt \<Rightarrow> delivery_receipt option" where
  "parse_delivery_receipt r = do {
     i \<leftarrow> minString (dr_receiptId r);
     f \<leftarrow> opt_of minString (dr_requestFingerprint r);
     m \<leftarrow> minString (dr_manifestId r);
     s \<leftarrow> opt_of minString (dr_finalSha r);
     tb \<leftarrow> opt_of minString (dr_targetBranch r);
     hb \<leftarrow> opt_of minString (dr_targetHeadBefore r);
     ha \<leftarrow> opt_of minString (dr_targetHeadAfter r);
     de \<leftarrow> opt_of minString (dr_destination r);
     tr \<leftarrow> opt_of minString (dr_deliveredTreeSha r);
     cp \<leftarrow> opt_of minString (dr_cleanlinessPolicyId r);
     Some \<lparr>dr_receiptId = i, dr_requestFingerprint = f, dr_manifestId = m, dr_finalSha = s,
       dr_targetBranch = tb, dr_targetHeadBefore = hb, dr_targetHeadAfter = ha,
       dr_disposition = dr_disposition r, dr_destination = de, dr_deliveredTreeSha = tr,
       dr_cleanlinessPolicyId = cp, dr_confirmed = dr_confirmed r\<rparr> }"

interpretation delivery_receipt: schema parse_delivery_receipt
  by unfold_locales (auto simp: parse_delivery_receipt_def parse_simps schema_idem)

record delivery_approval =
  da_manifestId :: string
  da_finalSha :: string
  da_targetBranch :: string
  da_targetHead :: string
  da_targetFingerprint :: string
  da_actor :: string
  da_idempotencyKey :: string
  da_cleanlinessPolicyId :: "string option"

definition parse_delivery_approval :: "delivery_approval \<Rightarrow> delivery_approval option" where
  "parse_delivery_approval a = do {
     m \<leftarrow> minString (da_manifestId a);
     s \<leftarrow> minString (da_finalSha a);
     b \<leftarrow> minString (da_targetBranch a);
     hd \<leftarrow> minString (da_targetHead a);
     f \<leftarrow> minString (da_targetFingerprint a);
     ac \<leftarrow> minString (da_actor a);
     k \<leftarrow> minString (da_idempotencyKey a);
     c \<leftarrow> opt_of minString (da_cleanlinessPolicyId a);
     Some \<lparr>da_manifestId = m, da_finalSha = s, da_targetBranch = b, da_targetHead = hd,
       da_targetFingerprint = f, da_actor = ac, da_idempotencyKey = k, da_cleanlinessPolicyId = c\<rparr> }"

interpretation delivery_approval: schema parse_delivery_approval
  by unfold_locales (auto simp: parse_delivery_approval_def parse_simps schema_idem)

record granularity_manifest =
  gm_policyVersion :: string
  gm_maxLeafContextTokens :: int
  gm_maxLeafScopePaths :: int
  gm_maxLeafPlannedPaths :: int

definition parse_granularity_manifest :: "granularity_manifest \<Rightarrow> granularity_manifest option" where
  "parse_granularity_manifest g = do {
     v \<leftarrow> nonEmptyString (gm_policyVersion g); t \<leftarrow> nonnegative (gm_maxLeafContextTokens g);
     s \<leftarrow> positive (gm_maxLeafScopePaths g); p \<leftarrow> positive (gm_maxLeafPlannedPaths g);
     Some \<lparr>gm_policyVersion = v, gm_maxLeafContextTokens = t, gm_maxLeafScopePaths = s,
       gm_maxLeafPlannedPaths = p\<rparr> }"

interpretation granularity_manifest: schema parse_granularity_manifest
  by unfold_locales (auto simp: parse_granularity_manifest_def parse_simps schema_idem)

record final_manifest =
  fm_commitSha :: string
  fm_treeSha :: string
  fm_graphRevision :: int
  fm_artifactIds :: "string list"
  fm_evidenceMatrixId :: string
  fm_validationRecipeDigest :: string
  fm_deliveryTarget :: string
  fm_granularityPolicy :: "granularity_manifest option"

definition parse_final_manifest :: "final_manifest \<Rightarrow> final_manifest option" where
  "parse_final_manifest m = do {
     c \<leftarrow> nonEmptyString (fm_commitSha m);
     t \<leftarrow> nonEmptyString (fm_treeSha m);
     g \<leftarrow> nonnegative (fm_graphRevision m);
     a \<leftarrow> arr_of entityId (fm_artifactIds m);
     e \<leftarrow> entityId (fm_evidenceMatrixId m);
     v \<leftarrow> nonEmptyString (fm_validationRecipeDigest m);
     d \<leftarrow> nonEmptyString (fm_deliveryTarget m);
     p \<leftarrow> opt_of parse_granularity_manifest (fm_granularityPolicy m);
     Some \<lparr>fm_commitSha = c, fm_treeSha = t, fm_graphRevision = g, fm_artifactIds = a,
       fm_evidenceMatrixId = e, fm_validationRecipeDigest = v, fm_deliveryTarget = d,
       fm_granularityPolicy = p\<rparr> }"

interpretation final_manifest: schema parse_final_manifest
  by unfold_locales
    (auto simp: parse_final_manifest_def parse_simps schema_idem granularity_manifest.opt_idem)

text \<open>\<open>FinalCandidate\<close>: the field \<open>evidenceEligible\<close> has the one value \<open>true\<close>.\<close>

record final_candidate =
  fc_manifestId :: string
  fc_commit :: string
  fc_evidenceMatrixId :: string
  fc_sourceTargetFingerprint :: string
  fc_targetBranch :: string
  fc_targetHead :: string
  fc_finalManifest :: "final_manifest option"

section \<open>Autonomy, decisions and human reviews\<close>

datatype autonomy_level = Supervised | Semi | Autonomous

datatype decision_kind = Clarify_goal | Approve_plan | Approve_amendment | Resolve_conflict | Approve_delivery
datatype decision_impact = Im_behavior | Im_architecture | Im_scope | Im_risk | Im_acceptance
datatype blocker_cause = Evidence_missing | Shared_evidence_invalid | Capability_missing
datatype decision_status = Pending | Resolved | Expired

record decision_option =
  do_id :: string
  do_label :: string
  do_description :: "string option"

record decision_blocker =
  db_obligationId :: string
  db_cause :: blocker_cause
  db_detail :: string

definition parse_decision_option :: "decision_option \<Rightarrow> decision_option option" where
  "parse_decision_option p = do {
     i \<leftarrow> entityId (do_id p); l \<leftarrow> nonEmptyString (do_label p);
     d \<leftarrow> opt_of nonEmptyString (do_description p);
     Some \<lparr>do_id = i, do_label = l, do_description = d\<rparr> }"

definition parse_decision_blocker :: "decision_blocker \<Rightarrow> decision_blocker option" where
  "parse_decision_blocker b = do {
     i \<leftarrow> nonEmptyString (db_obligationId b); d \<leftarrow> nonEmptyString (db_detail b);
     Some \<lparr>db_obligationId = i, db_cause = db_cause b, db_detail = d\<rparr> }"

interpretation decision_option: schema parse_decision_option
  by unfold_locales (auto simp: parse_decision_option_def parse_simps schema_idem)

interpretation decision_blocker: schema parse_decision_blocker
  by unfold_locales (auto simp: parse_decision_blocker_def parse_simps schema_idem)

text \<open>\<open>z.array(S).min(n)\<close>.\<close>

definition arr_min :: "nat \<Rightarrow> ('a \<Rightarrow> 'a option) \<Rightarrow> 'a list \<Rightarrow> 'a list option" where
  "arr_min n p xs = do { ys \<leftarrow> arr_of p xs; min_len n ys }"

context schema
begin

lemma arr_min_idem: "arr_min n parse xs = Some ys \<Longrightarrow> arr_min n parse ys = Some ys"
  by (auto simp: arr_min_def parse_simps arr_idem)

end

lemma opt_of_idem: "(\<And>x y. p x = Some y \<Longrightarrow> p y = Some y) \<Longrightarrow> opt_of p x = Some y \<Longrightarrow> opt_of p y = Some y"
  by (auto simp: opt_of_def split: option.splits)

lemmas [schema_idem] =
  delivery_receipt.idem delivery_approval.idem final_manifest.opt_idem
  decision_option.arr_min_idem entityId.arr_min_idem nonEmptyString.arr_min_idem
  opt_of_idem[OF decision_blocker.arr_min_idem]

record decision_input =
  dc_id :: string
  dc_kind :: decision_kind
  dc_question :: string
  dc_options :: "decision_option list"
  dc_affectedNodeIds :: "string list"
  dc_repairTargetNodeId :: "string option"
  dc_evidenceRefs :: "string list"
  dc_blockers :: "decision_blocker list option"
  dc_impact :: decision_impact
  dc_raisedAtGraphRevision :: "int option"

definition parse_decision_input :: "decision_input \<Rightarrow> decision_input option" where
  "parse_decision_input d = do {
     i \<leftarrow> entityId (dc_id d);
     q \<leftarrow> nonEmptyString (dc_question d);
     os \<leftarrow> arr_min 2 parse_decision_option (dc_options d);
     af \<leftarrow> arr_min 1 entityId (dc_affectedNodeIds d);
     rt \<leftarrow> opt_of entityId (dc_repairTargetNodeId d);
     ev \<leftarrow> arr_of nonEmptyString (dc_evidenceRefs d);
     bl \<leftarrow> opt_of (arr_min 1 parse_decision_blocker) (dc_blockers d);
     rv \<leftarrow> opt_of positive (dc_raisedAtGraphRevision d);
     Some \<lparr>dc_id = i, dc_kind = dc_kind d, dc_question = q, dc_options = os,
       dc_affectedNodeIds = af, dc_repairTargetNodeId = rt, dc_evidenceRefs = ev, dc_blockers = bl,
       dc_impact = dc_impact d, dc_raisedAtGraphRevision = rv\<rparr> }"

interpretation decision_input: schema parse_decision_input
  by unfold_locales (auto simp: parse_decision_input_def parse_simps schema_idem)

record decision_resolution =
  rs_optionId :: "string option"
  rs_answer :: "string option"

record decision = decision_input +
  dc_status :: decision_status
  dc_resolution :: "decision_resolution option"
  dc_authorizedBy :: "autonomy_level option"

definition decisionBlocksNode :: "decision \<Rightarrow> string \<Rightarrow> bool" where
  "decisionBlocksNode d n = (dc_status d = Pending \<and> n \<in> set (dc_affectedNodeIds d))"

definition supersededDecisionIds :: "decision obj \<Rightarrow> int \<Rightarrow> string list" where
  "supersededDecisionIds ds newApprovedRevision =
     sort (map dc_id (filter (\<lambda>d. dc_status d = Pending \<and>
       (case dc_raisedAtGraphRevision d of None \<Rightarrow> False | Some r \<Rightarrow> r < newApprovedRevision)) (ovalues ds)))"

datatype review_decision = Approved | Rejected
datatype review_status = Active | Stale

record human_review_input =
  hr_reviewId :: string
  hr_attemptId :: string
  hr_nodeId :: string
  hr_candidate :: exact_candidate
  hr_rubricDigest :: string
  hr_reviewerId :: string
  hr_decision :: review_decision
  hr_reviewedAt :: string

definition parse_human_review_input :: "human_review_input \<Rightarrow> human_review_input option" where
  "parse_human_review_input r = do {
     i \<leftarrow> entityId (hr_reviewId r);
     a \<leftarrow> entityId (hr_attemptId r);
     n \<leftarrow> entityId (hr_nodeId r);
     c \<leftarrow> parse_exact_candidate (hr_candidate r);
     d \<leftarrow> nonEmptyString (hr_rubricDigest r);
     w \<leftarrow> nonEmptyString (hr_reviewerId r);
     t \<leftarrow> nonEmptyString (hr_reviewedAt r);
     Some \<lparr>hr_reviewId = i, hr_attemptId = a, hr_nodeId = n, hr_candidate = c, hr_rubricDigest = d,
       hr_reviewerId = w, hr_decision = hr_decision r, hr_reviewedAt = t\<rparr> }"

interpretation human_review_input: schema parse_human_review_input
  by unfold_locales (auto simp: parse_human_review_input_def parse_simps schema_idem)

record human_review = human_review_input +
  hr_status :: review_status

section \<open>Adopted artifacts\<close>

datatype artifact_kind = Ak_commit | Ak_files | Ak_manifest | Ak_logical

record rev_ref =
  rr_id :: string
  rr_revision :: string

definition parse_rev_ref :: "rev_ref \<Rightarrow> rev_ref option" where
  "parse_rev_ref r = do { i \<leftarrow> entityId (rr_id r); v \<leftarrow> nonEmptyString (rr_revision r);
     Some \<lparr>rr_id = i, rr_revision = v\<rparr> }"

interpretation rev_ref: schema parse_rev_ref
  by unfold_locales (auto simp: parse_rev_ref_def parse_simps schema_idem)

lemmas [schema_idem] = decision_input.idem human_review_input.idem rev_ref.idem

text \<open>\<open>cherryPickMainline\<close> is the literal 1 or absent.\<close>

record adopted_artifact =
  aa_artifactId :: string
  aa_runId :: string
  aa_nodeId :: string
  aa_digest :: string
  aa_producerAttemptId :: string
  aa_contract :: rev_ref
  aa_kind :: artifact_kind
  aa_location :: string
  aa_manifest :: "artifact_manifest option"
  aa_cherryPickMainline :: bool
  aa_adoptedAt :: string

definition adopted_artifact_ok :: "adopted_artifact \<Rightarrow> bool" where
  "adopted_artifact_ok a =
     (if aa_kind a = Ak_manifest
      then (case aa_manifest a of None \<Rightarrow> False | Some m \<Rightarrow> aa_location a = am_manifestDigest m)
      else aa_manifest a = None)"

definition parse_adopted_artifact :: "adopted_artifact \<Rightarrow> adopted_artifact option" where
  "parse_adopted_artifact a = do {
     i \<leftarrow> entityId (aa_artifactId a);
     r \<leftarrow> entityId (aa_runId a);
     n \<leftarrow> entityId (aa_nodeId a);
     d \<leftarrow> nonEmptyString (aa_digest a);
     p \<leftarrow> entityId (aa_producerAttemptId a);
     c \<leftarrow> parse_rev_ref (aa_contract a);
     l \<leftarrow> nonEmptyString (aa_location a);
     m \<leftarrow> opt_of parse_artifact_manifest (aa_manifest a);
     t \<leftarrow> nonEmptyString (aa_adoptedAt a);
     refine adopted_artifact_ok \<lparr>aa_artifactId = i, aa_runId = r, aa_nodeId = n, aa_digest = d,
       aa_producerAttemptId = p, aa_contract = c, aa_kind = aa_kind a, aa_location = l,
       aa_manifest = m, aa_cherryPickMainline = aa_cherryPickMainline a, aa_adoptedAt = t\<rparr> }"

interpretation adopted_artifact: schema parse_adopted_artifact
  by unfold_locales (auto simp: parse_adopted_artifact_def parse_simps schema_idem)

record release_authorization =
  ra_decisionId :: string
  ra_artifactId :: string
  ra_retainedByRef :: string
  ra_candidateCommit :: string
  ra_authorizedAt :: string

definition parse_release_authorization :: "release_authorization \<Rightarrow> release_authorization option" where
  "parse_release_authorization a = do {
     d \<leftarrow> entityId (ra_decisionId a);
     i \<leftarrow> entityId (ra_artifactId a);
     r \<leftarrow> nonEmptyString (ra_retainedByRef a);
     c \<leftarrow> nonEmptyString (ra_candidateCommit a);
     t \<leftarrow> nonEmptyString (ra_authorizedAt a);
     Some \<lparr>ra_decisionId = d, ra_artifactId = i, ra_retainedByRef = r, ra_candidateCommit = c,
       ra_authorizedAt = t\<rparr> }"

interpretation release_authorization: schema parse_release_authorization
  by unfold_locales (auto simp: parse_release_authorization_def parse_simps schema_idem)

section \<open>Failures\<close>

datatype failure_class = Transient | Executor_timeout | Environment_auth_executor | Code_test
  | Contract_decomposition | Undeclared_artifact | Upstream_artifact_unusable
  | Scope_unexpected_commit | Integration | Shared_infrastructure | Environment_workspace | Unclassified

datatype failure_source = Fs_executor | Fs_validation | Fs_planning | Fs_artifact | Fs_scope | Fs_integration

record failure_observation =
  fo_source :: failure_source
  fo_code :: "string option"
  fo_artifactId :: "string option"
  fo_producerNodeId :: "string option"
  fo_exitCode :: "int option"
  fo_timedOut :: "bool option"
  fo_message :: "string option"

definition parse_failure_observation :: "failure_observation \<Rightarrow> failure_observation option" where
  "parse_failure_observation f = do {
     c \<leftarrow> opt_of minString (fo_code f);
     a \<leftarrow> opt_of entityId (fo_artifactId f);
     p \<leftarrow> opt_of entityId (fo_producerNodeId f);
     Some (f\<lparr>fo_code := c, fo_artifactId := a, fo_producerNodeId := p\<rparr>) }"

interpretation failure_observation: schema parse_failure_observation
  by unfold_locales (auto simp: parse_failure_observation_def parse_simps schema_idem)

section \<open>Evidence matrices\<close>

datatype criterion_status = Cs_satisfied | Cs_failed | Cs_uncovered | Cs_flaky | Cs_not_applicable
datatype matrix_outcome = Verified | Unverified | Failed_matrix
datatype evidence_kind = Static_analysis | Test_result | Runtime_observation | Artifact_inspection
  | Manual_attestation
datatype integrity_code = Test_removed | Test_script_weakened | Test_configuration_changed | Test_skipped
  | Test_only | Assertion_removed | Surface_unchanged | Surface_unrepresented
datatype integrity_disposition = Blocking | Rebutted

record criterion_evidence =
  ce_criterionId :: string
  ce_obligationId :: string
  ce_status :: criterion_status
  ce_justification :: string
  ce_evidenceRefs :: "string list"

definition parse_criterion_evidence :: "criterion_evidence \<Rightarrow> criterion_evidence option" where
  "parse_criterion_evidence c = do {
     i \<leftarrow> entityId (ce_criterionId c); ob \<leftarrow> entityId (ce_obligationId c);
     j \<leftarrow> nonEmptyString (ce_justification c); e \<leftarrow> arr_of nonEmptyString (ce_evidenceRefs c);
     Some \<lparr>ce_criterionId = i, ce_obligationId = ob, ce_status = ce_status c, ce_justification = j,
       ce_evidenceRefs = e\<rparr> }"

interpretation criterion_evidence: schema parse_criterion_evidence
  by unfold_locales (auto simp: parse_criterion_evidence_def parse_simps schema_idem)

record criterion_observation =
  co_evidenceId :: string
  co_kind :: evidence_kind
  co_commandDigest :: string
  co_durationMs :: rat
  co_passed :: bool
  co_attempt :: int
  co_outputDigest :: string
  co_criterionIds :: "string list"
  co_obligationIds :: "string list"
  co_references :: "string list"

definition parse_criterion_observation :: "criterion_observation \<Rightarrow> criterion_observation option" where
  "parse_criterion_observation c = do {
     i \<leftarrow> entityId (co_evidenceId c);
     d \<leftarrow> hexDigest64 (co_commandDigest c);
     ms \<leftarrow> nonnegative (co_durationMs c);
     a \<leftarrow> positive (co_attempt c);
     ou \<leftarrow> hexDigest64 (co_outputDigest c);
     cr \<leftarrow> arr_min 1 entityId (co_criterionIds c);
     ob \<leftarrow> arr_min 1 entityId (co_obligationIds c);
     rf \<leftarrow> arr_min 1 nonEmptyString (co_references c);
     Some \<lparr>co_evidenceId = i, co_kind = co_kind c, co_commandDigest = d, co_durationMs = ms,
       co_passed = co_passed c, co_attempt = a, co_outputDigest = ou, co_criterionIds = cr,
       co_obligationIds = ob, co_references = rf\<rparr> }"

interpretation criterion_observation: schema parse_criterion_observation
  by unfold_locales (auto simp: parse_criterion_observation_def parse_simps schema_idem)

record integrity_finding =
  if_findingId :: string
  if_code :: integrity_code
  if_path :: string
  if_message :: string
  if_disposition :: "integrity_disposition option"
  if_rebuttalEvidenceRefs :: "string list option"

definition parse_integrity_finding :: "integrity_finding \<Rightarrow> integrity_finding option" where
  "parse_integrity_finding f = do {
     i \<leftarrow> entityId (if_findingId f); p \<leftarrow> nonEmptyString (if_path f); m \<leftarrow> nonEmptyString (if_message f);
     r \<leftarrow> opt_of (arr_of nonEmptyString) (if_rebuttalEvidenceRefs f);
     Some \<lparr>if_findingId = i, if_code = if_code f, if_path = p, if_message = m,
       if_disposition = if_disposition f, if_rebuttalEvidenceRefs = r\<rparr> }"

interpretation integrity_finding: schema parse_integrity_finding
  by unfold_locales
    (auto simp: parse_integrity_finding_def parse_simps schema_idem opt_of_idem[OF nonEmptyString.arr_idem])

record negative_control =
  nc_evidenceId :: string
  nc_obligationId :: string
  nc_detectedFailure :: bool
  nc_outputDigest :: string

definition parse_negative_control :: "negative_control \<Rightarrow> negative_control option" where
  "parse_negative_control n = do {
     i \<leftarrow> entityId (nc_evidenceId n); ob \<leftarrow> entityId (nc_obligationId n); d \<leftarrow> hexDigest64 (nc_outputDigest n);
     Some \<lparr>nc_evidenceId = i, nc_obligationId = ob, nc_detectedFailure = nc_detectedFailure n,
       nc_outputDigest = d\<rparr> }"

interpretation negative_control: schema parse_negative_control
  by unfold_locales (auto simp: parse_negative_control_def parse_simps schema_idem)

record evidence_matrix =
  em_matrixId :: string
  em_candidateCommit :: string
  em_validationContract :: rev_ref
  em_criteria :: "criterion_evidence list"
  em_outcome :: matrix_outcome
  em_validationRecipeDigest :: "string option"
  em_observations :: "criterion_observation list"
  em_evidenceBindings :: "evidence_binding list"
  em_integrityFindings :: "integrity_finding list option"
  em_negativeControls :: "negative_control list option"

definition has_blocking_criterion :: "evidence_matrix \<Rightarrow> bool" where
  "has_blocking_criterion m = list_ex (\<lambda>c.
     ce_status c = Cs_failed \<or>
     (ce_status c = Cs_uncovered \<and>
      \<not> list_ex (\<lambda>b. bn_obligationId b = ce_obligationId c \<and> bn_outcome b = Ev_inconclusive)
          (em_evidenceBindings m))) (em_criteria m)"

definition evidence_matrix_ok :: "evidence_matrix \<Rightarrow> bool" where
  "evidence_matrix_ok m =
     (\<not> (em_outcome m = Verified \<and> has_blocking_criterion m) \<and>
      \<not> (em_outcome m = Verified \<and>
         (case em_integrityFindings m of None \<Rightarrow> False
          | Some fs \<Rightarrow> list_ex (\<lambda>f. if_disposition f \<noteq> Some Rebutted) fs)) \<and>
      \<not> (em_outcome m = Verified \<and>
         (case em_negativeControls m of None \<Rightarrow> False
          | Some cs \<Rightarrow> list_ex (\<lambda>c. \<not> nc_detectedFailure c) cs)))"

lemmas [schema_idem] =
  adopted_artifact.idem release_authorization.idem failure_observation.idem
  criterion_evidence.arr_min_idem criterion_observation.arr_idem
  opt_of_idem[OF integrity_finding.arr_idem] opt_of_idem[OF negative_control.arr_idem]

definition parse_evidence_matrix :: "evidence_matrix \<Rightarrow> evidence_matrix option" where
  "parse_evidence_matrix m = do {
     i \<leftarrow> entityId (em_matrixId m);
     c \<leftarrow> nonEmptyString (em_candidateCommit m);
     v \<leftarrow> parse_rev_ref (em_validationContract m);
     cs \<leftarrow> arr_min 1 parse_criterion_evidence (em_criteria m);
     r \<leftarrow> opt_of nonEmptyString (em_validationRecipeDigest m);
     os \<leftarrow> arr_of parse_criterion_observation (em_observations m);
     bs \<leftarrow> arr_of parse_evidence_binding (em_evidenceBindings m);
     fs \<leftarrow> opt_of (arr_of parse_integrity_finding) (em_integrityFindings m);
     ns \<leftarrow> opt_of (arr_of parse_negative_control) (em_negativeControls m);
     refine evidence_matrix_ok \<lparr>em_matrixId = i, em_candidateCommit = c, em_validationContract = v,
       em_criteria = cs, em_outcome = em_outcome m, em_validationRecipeDigest = r,
       em_observations = os, em_evidenceBindings = bs, em_integrityFindings = fs,
       em_negativeControls = ns\<rparr> }"

interpretation evidence_matrix: schema parse_evidence_matrix
  by unfold_locales (auto simp: parse_evidence_matrix_def parse_simps schema_idem)

section \<open>The definition of a run\<close>

record stage_selection =
  ss_executorId :: string
  ss_model :: string
  ss_effort :: "string option"

definition parse_stage_selection :: "stage_selection \<Rightarrow> stage_selection option" where
  "parse_stage_selection s = do {
     e \<leftarrow> entityId (ss_executorId s); m \<leftarrow> nonEmptyString (ss_model s);
     f \<leftarrow> opt_of nonEmptyString (ss_effort s);
     Some \<lparr>ss_executorId = e, ss_model = m, ss_effort = f\<rparr> }"

interpretation stage_selection: schema parse_stage_selection
  by unfold_locales (auto simp: parse_stage_selection_def parse_simps schema_idem)

datatype study_condition = Cond_A | Cond_B | Cond_C

text \<open>\<open>granularityCondition\<close> takes the values \<open>A\<close> and \<open>C\<close> only.\<close>

record run_definition =
  rdef_workspaceId :: string
  rdef_userPrompt :: string
  rdef_acceptanceCriteria :: "string list"
  rdef_title :: string
  rdef_createdAt :: "string option"
  rdef_planningSelection :: stage_selection
  rdef_executionSelection :: stage_selection
  rdef_repairSelection :: stage_selection
  rdef_executionConfig :: "(string \<times> json) list"
  rdef_granularityCondition :: "study_condition option"
  rdef_autonomy :: "autonomy_level option"
  rdef_targetContext :: "(string \<times> json) list"

definition parse_run_definition :: "run_definition \<Rightarrow> run_definition option" where
  "parse_run_definition d = do {
     w \<leftarrow> entityId (rdef_workspaceId d);
     u \<leftarrow> nonEmptyString (rdef_userPrompt d);
     a \<leftarrow> arr_of nonEmptyString (rdef_acceptanceCriteria d);
     t \<leftarrow> nonEmptyString (rdef_title d);
     c \<leftarrow> opt_of nonEmptyString (rdef_createdAt d);
     p \<leftarrow> parse_stage_selection (rdef_planningSelection d);
     e \<leftarrow> parse_stage_selection (rdef_executionSelection d);
     r \<leftarrow> parse_stage_selection (rdef_repairSelection d);
     g \<leftarrow> opt_of (refine (\<lambda>g. g \<noteq> Cond_B)) (rdef_granularityCondition d);
     Some \<lparr>rdef_workspaceId = w, rdef_userPrompt = u, rdef_acceptanceCriteria = a, rdef_title = t,
       rdef_createdAt = c, rdef_planningSelection = p, rdef_executionSelection = e,
       rdef_repairSelection = r, rdef_executionConfig = rdef_executionConfig d,
       rdef_granularityCondition = g, rdef_autonomy = rdef_autonomy d,
       rdef_targetContext = rdef_targetContext d\<rparr> }"

lemma refine_opt_idem: "opt_of (refine P) x = Some y \<Longrightarrow> opt_of (refine P) y = Some y"
  by (rule opt_of_idem) auto

interpretation run_definition: schema parse_run_definition
  by unfold_locales
    (auto simp: parse_run_definition_def parse_simps schema_idem stage_selection.idem refine_opt_idem)

lemmas [schema_idem] = evidence_matrix.idem evidence_matrix.opt_idem run_definition.opt_idem

end
