(* ===== verification/Events.thy ===== *)
theory Events
  imports Domain
begin

text \<open>
  The vocabulary of the run journal: every event type with its payload, and \<open>RunEventSchema.parse\<close>.
  The types are grouped by the family their name starts with; a payload with more than a few fields
  is a record.

  Sources: packages/run-coordinator/src/domain/events.ts; the projections' planning records are
  those of packages/run-coordinator/src/reducer.ts.
\<close>

type_synonym json_obj = "(string \<times> json) list"

section \<open>Payload records\<close>

datatype usage_source = Reported | Estimated | Unavailable

record attempt_usage =
  us_tokensIn :: "int option"
  us_tokensTotal :: "int option"
  us_tokensOut :: "int option"
  us_costUsd :: "rat option"
  us_source :: usage_source

definition parse_attempt_usage :: "attempt_usage \<Rightarrow> attempt_usage option" where
  "parse_attempt_usage u = do {
     i \<leftarrow> opt_of nonnegative (us_tokensIn u); t \<leftarrow> opt_of nonnegative (us_tokensTotal u);
     n \<leftarrow> opt_of nonnegative (us_tokensOut u); c \<leftarrow> opt_of nonnegative (us_costUsd u);
     Some \<lparr>us_tokensIn = i, us_tokensTotal = t, us_tokensOut = n, us_costUsd = c,
       us_source = us_source u\<rparr> }"

interpretation attempt_usage: schema parse_attempt_usage
  by unfold_locales (auto simp: parse_attempt_usage_def parse_simps schema_idem)

record candidate_diagnostic =
  cd_code :: string
  cd_message :: string
  cd_refs :: "string list"

definition parse_candidate_diagnostic :: "candidate_diagnostic \<Rightarrow> candidate_diagnostic option" where
  "parse_candidate_diagnostic d = do {
     c \<leftarrow> nonEmptyString (cd_code d); m \<leftarrow> nonEmptyString (cd_message d);
     r \<leftarrow> arr_of nonEmptyString (cd_refs d);
     Some \<lparr>cd_code = c, cd_message = m, cd_refs = r\<rparr> }"

interpretation candidate_diagnostic: schema parse_candidate_diagnostic
  by unfold_locales (auto simp: parse_candidate_diagnostic_def parse_simps schema_idem)

record candidate_gate =
  cg_gate :: string
  cg_passed :: bool
  cg_diagnosticCodes :: "string list"

definition parse_candidate_gate :: "candidate_gate \<Rightarrow> candidate_gate option" where
  "parse_candidate_gate g = do {
     n \<leftarrow> nonEmptyString (cg_gate g); c \<leftarrow> arr_of nonEmptyString (cg_diagnosticCodes g);
     Some \<lparr>cg_gate = n, cg_passed = cg_passed g, cg_diagnosticCodes = c\<rparr> }"

interpretation candidate_gate: schema parse_candidate_gate
  by unfold_locales (auto simp: parse_candidate_gate_def parse_simps schema_idem)

lemmas [schema_idem] =
  attempt_usage.opt_idem candidate_diagnostic.arr_idem candidate_gate.arr_idem

record candidate_evaluation =
  cn_candidateId :: string
  cn_candidateHash :: string
  cn_candidate :: json_obj
  cn_valid :: bool
  cn_score :: "rat option"
  cn_gates :: "candidate_gate list"
  cn_diagnostics :: "candidate_diagnostic list"

definition parse_candidate_evaluation :: "candidate_evaluation \<Rightarrow> candidate_evaluation option" where
  "parse_candidate_evaluation c = do {
     i \<leftarrow> entityId (cn_candidateId c);
     ha \<leftarrow> nonEmptyString (cn_candidateHash c);
     g \<leftarrow> arr_of parse_candidate_gate (cn_gates c);
     d \<leftarrow> arr_of parse_candidate_diagnostic (cn_diagnostics c);
     Some \<lparr>cn_candidateId = i, cn_candidateHash = ha, cn_candidate = cn_candidate c,
       cn_valid = cn_valid c, cn_score = cn_score c, cn_gates = g, cn_diagnostics = d\<rparr> }"

interpretation candidate_evaluation: schema parse_candidate_evaluation
  by unfold_locales (auto simp: parse_candidate_evaluation_def parse_simps schema_idem)

text \<open>The tie break is its \<open>applied\<close> flag and contenders; its kind is a literal.\<close>

datatype candidate_selection =
    Selected (sel_candidateId: string) (sel_score: rat) (sel_rejected: "string list")
      (sel_tieBreak: "(bool \<times> string list) option")
  | Replan_required (sel_reason: string) (sel_rejected: "string list")
      (sel_diagnostics: "candidate_diagnostic list")

definition parse_tie_break :: "bool \<times> string list \<Rightarrow> (bool \<times> string list) option" where
  "parse_tie_break tb = do { c \<leftarrow> arr_of entityId (snd tb); Some (fst tb, c) }"

interpretation tie_break: schema parse_tie_break
  by unfold_locales (auto simp: parse_tie_break_def parse_simps schema_idem)

fun parse_candidate_selection :: "candidate_selection \<Rightarrow> candidate_selection option" where
  "parse_candidate_selection (Selected c s r tb) = do {
     c' \<leftarrow> entityId c; r' \<leftarrow> arr_of entityId r; tb' \<leftarrow> opt_of parse_tie_break tb;
     Some (Selected c' s r' tb') }"
| "parse_candidate_selection (Replan_required x r ds) = do {
     x' \<leftarrow> nonEmptyString x; r' \<leftarrow> arr_of entityId r; ds' \<leftarrow> arr_of parse_candidate_diagnostic ds;
     Some (Replan_required x' r' ds') }"

interpretation candidate_selection: schema parse_candidate_selection
proof unfold_locales
  fix x y assume "parse_candidate_selection x = Some y"
  then show "parse_candidate_selection y = Some y"
    by (cases x) (auto simp: parse_simps schema_idem tie_break.opt_idem)
qed

record planning_candidates =
  pc_envelope :: json_obj
  pc_policy :: "(string \<times> study_condition \<times> string) option"
  pc_candidates :: "candidate_evaluation list"
  pc_selection :: candidate_selection

definition parse_candidates_policy ::
  "string \<times> study_condition \<times> string \<Rightarrow> (string \<times> study_condition \<times> string) option" where
  "parse_candidates_policy p = do {
     v \<leftarrow> nonEmptyString (fst p); b \<leftarrow> nonEmptyString (snd (snd p)); Some (v, fst (snd p), b) }"

interpretation candidates_policy: schema parse_candidates_policy
  by unfold_locales (auto simp: parse_candidates_policy_def parse_simps schema_idem)

lemmas [schema_idem] =
  candidate_evaluation.arr_min_idem candidate_selection.idem candidates_policy.opt_idem

definition parse_planning_candidates :: "planning_candidates \<Rightarrow> planning_candidates option" where
  "parse_planning_candidates c = do {
     p \<leftarrow> opt_of parse_candidates_policy (pc_policy c);
     cs \<leftarrow> arr_min 1 parse_candidate_evaluation (pc_candidates c);
     s \<leftarrow> parse_candidate_selection (pc_selection c);
     Some \<lparr>pc_envelope = pc_envelope c, pc_policy = p, pc_candidates = cs, pc_selection = s\<rparr> }"

interpretation planning_candidates: schema parse_planning_candidates
  by unfold_locales (auto simp: parse_planning_candidates_def parse_simps schema_idem)

text \<open>Scheduler records: \<open>passthrough\<close> keeps unknown properties, here the object \<open>extra\<close>.\<close>

record scheduler_explanation =
  se_nodeId :: string
  se_ready :: bool
  se_reasons :: "(string \<times> json_obj) list"
  se_deferred :: "bool option"

definition parse_scheduler_reason :: "string \<times> json_obj \<Rightarrow> (string \<times> json_obj) option" where
  "parse_scheduler_reason r = do { c \<leftarrow> nonEmptyString (fst r); Some (c, snd r) }"

interpretation scheduler_reason: schema parse_scheduler_reason
  by unfold_locales (auto simp: parse_scheduler_reason_def parse_simps schema_idem)

definition parse_scheduler_explanation :: "scheduler_explanation \<Rightarrow> scheduler_explanation option" where
  "parse_scheduler_explanation x = do {
     n \<leftarrow> entityId (se_nodeId x); r \<leftarrow> arr_of parse_scheduler_reason (se_reasons x);
     Some \<lparr>se_nodeId = n, se_ready = se_ready x, se_reasons = r, se_deferred = se_deferred x\<rparr> }"

interpretation scheduler_explanation: schema parse_scheduler_explanation
  by unfold_locales
    (auto simp: parse_scheduler_explanation_def parse_simps schema_idem scheduler_reason.arr_idem)

record scheduler_config =
  sc_maxParallel :: "int option"
  sc_maxTokensTotal :: "int option"
  sc_maxCostUsd :: "rat option"
  sc_extra :: json_obj

definition parse_scheduler_config :: "scheduler_config \<Rightarrow> scheduler_config option" where
  "parse_scheduler_config c = do {
     p \<leftarrow> opt_of positive (sc_maxParallel c); t \<leftarrow> opt_of positive (sc_maxTokensTotal c);
     u \<leftarrow> opt_of nonnegative (sc_maxCostUsd c);
     Some \<lparr>sc_maxParallel = p, sc_maxTokensTotal = t, sc_maxCostUsd = u, sc_extra = sc_extra c\<rparr> }"

interpretation scheduler_config: schema parse_scheduler_config
  by unfold_locales (auto simp: parse_scheduler_config_def parse_simps schema_idem)

record scheduler_state =
  sst_materializableNodeIds :: "string list"
  sst_activeResourceNodeIds :: "string list"
  sst_openCircuitBreakerNodeIds :: "string list"
  sst_availableExecutorNodeIds :: "string list"
  sst_stoppedNodeIds :: "string list"
  sst_budgetAvailable :: bool

definition parse_scheduler_state :: "scheduler_state \<Rightarrow> scheduler_state option" where
  "parse_scheduler_state s = do {
     m \<leftarrow> arr_of entityId (sst_materializableNodeIds s);
     a \<leftarrow> arr_of entityId (sst_activeResourceNodeIds s);
     b \<leftarrow> arr_of entityId (sst_openCircuitBreakerNodeIds s);
     e \<leftarrow> arr_of entityId (sst_availableExecutorNodeIds s);
     t \<leftarrow> arr_of entityId (sst_stoppedNodeIds s);
     Some \<lparr>sst_materializableNodeIds = m, sst_activeResourceNodeIds = a,
       sst_openCircuitBreakerNodeIds = b, sst_availableExecutorNodeIds = e, sst_stoppedNodeIds = t,
       sst_budgetAvailable = sst_budgetAvailable s\<rparr> }"

interpretation scheduler_state: schema parse_scheduler_state
  by unfold_locales (auto simp: parse_scheduler_state_def parse_simps schema_idem)

record conflict_evidence =
  cf_id :: string
  cf_leftNodeId :: string
  cf_rightNodeId :: string
  cf_reason :: string
  cf_risk :: string
  cf_mode :: "string option"
  cf_resourceId :: "string option"
  cf_extra :: json_obj

definition parse_conflict_evidence :: "conflict_evidence \<Rightarrow> conflict_evidence option" where
  "parse_conflict_evidence c = do {
     i \<leftarrow> entityId (cf_id c); l \<leftarrow> entityId (cf_leftNodeId c); r \<leftarrow> entityId (cf_rightNodeId c);
     re \<leftarrow> nonEmptyString (cf_reason c); k \<leftarrow> minString (cf_risk c);
     m \<leftarrow> opt_of minString (cf_mode c); rs \<leftarrow> opt_of nonEmptyString (cf_resourceId c);
     Some \<lparr>cf_id = i, cf_leftNodeId = l, cf_rightNodeId = r, cf_reason = re, cf_risk = k,
       cf_mode = m, cf_resourceId = rs, cf_extra = cf_extra c\<rparr> }"

interpretation conflict_evidence: schema parse_conflict_evidence
  by unfold_locales (auto simp: parse_conflict_evidence_def parse_simps schema_idem)

text \<open>Planning records.\<close>

datatype inspection_disposition = Insp_complete | Insp_partial | Insp_unavailable

record repository_inspection =
  ri_snapshotId :: string
  ri_disposition :: inspection_disposition
  ri_snapshot :: json_obj
  ri_repositoryModelDigest :: "string option"
  ri_repositoryView :: "repository_view_ref option"
  ri_queryDigests :: "string list option"

definition parse_repository_inspection :: "repository_inspection \<Rightarrow> repository_inspection option" where
  "parse_repository_inspection r = do {
     i \<leftarrow> nonEmptyString (ri_snapshotId r); d \<leftarrow> opt_of nonEmptyString (ri_repositoryModelDigest r);
     v \<leftarrow> opt_of parse_repository_view_ref (ri_repositoryView r);
     q \<leftarrow> opt_of (arr_of nonEmptyString) (ri_queryDigests r);
     Some \<lparr>ri_snapshotId = i, ri_disposition = ri_disposition r, ri_snapshot = ri_snapshot r,
       ri_repositoryModelDigest = d, ri_repositoryView = v, ri_queryDigests = q\<rparr> }"

interpretation repository_inspection: schema parse_repository_inspection
  by unfold_locales
    (auto simp: parse_repository_inspection_def parse_simps schema_idem opt_of_idem[OF nonEmptyString.arr_idem])

record discovered_node =
  dn_nodeId :: string
  dn_parentNodeId :: "string option"
  dn_key :: string
  dn_parentKey :: "string option"
  dn_isLeaf :: bool
  dn_title :: string
  dn_objective :: string
  dn_siblingIndex :: int
  dn_siblingCount :: int

definition parse_discovered_node :: "discovered_node \<Rightarrow> discovered_node option" where
  "parse_discovered_node d = do {
     i \<leftarrow> entityId (dn_nodeId d); p \<leftarrow> opt_of entityId (dn_parentNodeId d); k \<leftarrow> entityId (dn_key d);
     pk \<leftarrow> opt_of entityId (dn_parentKey d); t \<leftarrow> nonEmptyString (dn_title d);
     ob \<leftarrow> nonEmptyString (dn_objective d); si \<leftarrow> nonnegative (dn_siblingIndex d);
     sc \<leftarrow> positive (dn_siblingCount d);
     Some \<lparr>dn_nodeId = i, dn_parentNodeId = p, dn_key = k, dn_parentKey = pk, dn_isLeaf = dn_isLeaf d,
       dn_title = t, dn_objective = ob, dn_siblingIndex = si, dn_siblingCount = sc\<rparr> }"

interpretation discovered_node: schema parse_discovered_node
  by unfold_locales (auto simp: parse_discovered_node_def parse_simps schema_idem)

datatype strategy_choice = Leaf | Split | Semantic_replan

record strategy_assessment =
  sa_unitKey :: string
  sa_nodeId :: string
  sa_selected :: strategy_choice
  sa_leafFeasible :: bool
  sa_splitViable :: bool
  sa_doesNotFit :: bool
  sa_runsInParallel :: bool
  sa_verifiableApart :: bool
  sa_evidenceRefs :: "string list"
  sa_rationale :: string

definition parse_strategy_assessment :: "strategy_assessment \<Rightarrow> strategy_assessment option" where
  "parse_strategy_assessment a = do {
     u \<leftarrow> entityId (sa_unitKey a); n \<leftarrow> entityId (sa_nodeId a);
     e \<leftarrow> arr_of nonEmptyString (sa_evidenceRefs a); r \<leftarrow> nonEmptyString (sa_rationale a);
     Some (a\<lparr>sa_unitKey := u, sa_nodeId := n, sa_evidenceRefs := e, sa_rationale := r\<rparr>) }"

interpretation strategy_assessment: schema parse_strategy_assessment
  by unfold_locales (auto simp: parse_strategy_assessment_def parse_simps schema_idem)

record granularity_config =
  gc_maxLeafContextTokens :: int
  gc_maxLeafScopePaths :: int
  gc_maxLeafPlannedPaths :: int

definition parse_granularity_config :: "granularity_config \<Rightarrow> granularity_config option" where
  "parse_granularity_config g = do {
     t \<leftarrow> positive (gc_maxLeafContextTokens g); s \<leftarrow> positive (gc_maxLeafScopePaths g);
     p \<leftarrow> positive (gc_maxLeafPlannedPaths g);
     Some \<lparr>gc_maxLeafContextTokens = t, gc_maxLeafScopePaths = s, gc_maxLeafPlannedPaths = p\<rparr> }"

interpretation granularity_config: schema parse_granularity_config
  by unfold_locales (auto simp: parse_granularity_config_def parse_simps schema_idem)

record granularity_metrics =
  gx_maxGraphDepth :: int
  gx_totalLeafCount :: int
  gx_averageBranchingFactor :: rat

definition parse_granularity_metrics :: "granularity_metrics \<Rightarrow> granularity_metrics option" where
  "parse_granularity_metrics g = do {
     d \<leftarrow> nonnegative (gx_maxGraphDepth g); l \<leftarrow> positive (gx_totalLeafCount g);
     b \<leftarrow> nonnegative (gx_averageBranchingFactor g);
     Some \<lparr>gx_maxGraphDepth = d, gx_totalLeafCount = l, gx_averageBranchingFactor = b\<rparr> }"

interpretation granularity_metrics: schema parse_granularity_metrics
  by unfold_locales (auto simp: parse_granularity_metrics_def parse_simps schema_idem)

lemmas [schema_idem] =
  scheduler_explanation.arr_idem opt_of_idem[OF scheduler_explanation.arr_idem]
  scheduler_config.opt_idem scheduler_state.opt_idem opt_of_idem[OF conflict_evidence.arr_idem]
  repository_inspection.idem discovered_node.idem strategy_assessment.arr_min_idem
  granularity_config.idem granularity_metrics.idem planning_candidates.idem

record granularity_selection =
  gs_policyVersion :: string
  gs_condition :: study_condition
  gs_candidateTreeHash :: string
  gs_candidateTree :: "(json \<times> json list \<times> json list) option"
  gs_candidateSourceHash :: "string option"
  gs_config :: granularity_config
  gs_assessments :: "strategy_assessment list"
  gs_metrics :: granularity_metrics

definition parse_granularity_selection :: "granularity_selection \<Rightarrow> granularity_selection option" where
  "parse_granularity_selection g = do {
     v \<leftarrow> nonEmptyString (gs_policyVersion g); cn \<leftarrow> refine (\<lambda>c. c \<noteq> Cond_B) (gs_condition g);
     t \<leftarrow> nonEmptyString (gs_candidateTreeHash g);
     s \<leftarrow> opt_of nonEmptyString (gs_candidateSourceHash g); c \<leftarrow> parse_granularity_config (gs_config g);
     a \<leftarrow> arr_min 1 parse_strategy_assessment (gs_assessments g);
     m \<leftarrow> parse_granularity_metrics (gs_metrics g);
     Some \<lparr>gs_policyVersion = v, gs_condition = cn, gs_candidateTreeHash = t,
       gs_candidateTree = gs_candidateTree g, gs_candidateSourceHash = s, gs_config = c,
       gs_assessments = a, gs_metrics = m\<rparr> }"

interpretation granularity_selection: schema parse_granularity_selection
  by unfold_locales (auto simp: parse_granularity_selection_def parse_simps schema_idem)

text \<open>The three requirements of the envelope are literals \<open>true\<close>.\<close>

record planning_envelope =
  pe_policyVersion :: string
  pe_repositorySnapshotId :: string
  pe_goalDigest :: string
  pe_candidateMinimum :: int
  pe_candidateMaximum :: int
  pe_maxLeafContextTokens :: int
  pe_maxLeafScopePaths :: int
  pe_maxParallelism :: int

definition parse_planning_envelope :: "planning_envelope \<Rightarrow> planning_envelope option" where
  "parse_planning_envelope p = do {
     v \<leftarrow> nonEmptyString (pe_policyVersion p); r \<leftarrow> nonEmptyString (pe_repositorySnapshotId p);
     g \<leftarrow> nonEmptyString (pe_goalDigest p); mn \<leftarrow> positive (pe_candidateMinimum p);
     mx \<leftarrow> positive (pe_candidateMaximum p); t \<leftarrow> positive (pe_maxLeafContextTokens p);
     s \<leftarrow> positive (pe_maxLeafScopePaths p); q \<leftarrow> positive (pe_maxParallelism p);
     refine (\<lambda>x. pe_candidateMaximum x \<le> 8 \<and> pe_candidateMinimum x \<le> pe_candidateMaximum x)
       \<lparr>pe_policyVersion = v, pe_repositorySnapshotId = r, pe_goalDigest = g,
        pe_candidateMinimum = mn, pe_candidateMaximum = mx, pe_maxLeafContextTokens = t,
        pe_maxLeafScopePaths = s, pe_maxParallelism = q\<rparr> }"

interpretation planning_envelope: schema parse_planning_envelope
  by unfold_locales (auto simp: parse_planning_envelope_def parse_simps schema_idem)

datatype finding_severity = Sev_error | Sev_warning | Sev_advisory

record planning_finding =
  pf_code :: "string option"
  pf_message :: string
  pf_severity :: finding_severity
  pf_evidenceRefs :: "string list"

definition parse_planning_finding :: "planning_finding \<Rightarrow> planning_finding option" where
  "parse_planning_finding f = do {
     c \<leftarrow> opt_of nonEmptyString (pf_code f); m \<leftarrow> nonEmptyString (pf_message f);
     e \<leftarrow> arr_of nonEmptyString (pf_evidenceRefs f);
     Some \<lparr>pf_code = c, pf_message = m, pf_severity = pf_severity f, pf_evidenceRefs = e\<rparr> }"

interpretation planning_finding: schema parse_planning_finding
  by unfold_locales (auto simp: parse_planning_finding_def parse_simps schema_idem)

record compiled_graph =
  cgr_graphId :: string
  cgr_revision :: int
  cgr_graph :: json_obj
  cgr_contracts :: "json_obj list"
  cgr_evidenceAuthority :: "(json_obj \<times> json_obj list \<times> json_obj list) option"
  cgr_review :: json_obj
  cgr_trace :: json_obj

definition parse_compiled_graph :: "compiled_graph \<Rightarrow> compiled_graph option" where
  "parse_compiled_graph g = do {
     i \<leftarrow> entityId (cgr_graphId g); r \<leftarrow> positive (cgr_revision g);
     Some (g\<lparr>cgr_graphId := i, cgr_revision := r\<rparr>) }"

interpretation compiled_graph: schema parse_compiled_graph
  by unfold_locales (auto simp: parse_compiled_graph_def parse_simps schema_idem)

lemmas [schema_idem] =
  granularity_selection.idem planning_envelope.idem opt_of_idem[OF planning_finding.arr_idem]
  compiled_graph.idem

section \<open>The families\<close>

datatype failure_area = Area_execution | Area_artifact | Area_delivery | Area_domain

datatype run_fact =
    Run_created string "run_definition option"
  | Run_renamed string
  | Run_archived string
  | Legacy_run_imported string string string "string list"
  | Run_pause_requested string
  | Run_resume_requested string
  | Run_restart_requested string
  | Operation_cancel_requested string string
  | Operation_interrupted string
  | Run_failed string failure_area

datatype protocol_fact =
    Command_accepted command_receipt "command_envelope option"
  | Effect_requested effect_intent
  | Effect_observed physical_receipt
  | Effect_completed string string
  | Effect_failed string string string
  | Effect_interrupted string "string option" string

text \<open>\<open>planning.completed\<close>: exactly one of the legacy pair and the semantic plan.\<close>

datatype planning_fact =
    Repository_inspected repository_inspection
  | Planning_attempt_started int
  | Planning_node_discovered int discovered_node
  | Planning_attempt_failed int string
  | Planning_unit_unresolved string string "string option" int "string list"
  | Planning_granularity_selected granularity_selection
  | Planning_envelope_created planning_envelope
  | Planning_candidates_evaluated planning_candidates
  | Planning_completed "string option" "json_obj option" "json_obj option" "json_obj option"
  | Graph_compiled compiled_graph
  | Planning_critic_recorded string "json_obj list"
  | Planning_failed string "planning_finding list option"

text \<open>\<open>attempt.started\<close> and \<open>integration.started\<close> share their first five fields.\<close>

record attempt_start =
  as_attemptId :: string
  as_nodeId :: string
  as_inputFingerprint :: string
  as_retryOfAttemptId :: "string option"
  as_executorProfile :: rev_ref

record attempt_candidate =
  ac_attemptId :: string
  ac_nodeId :: string
  ac_candidateCommit :: string
  ac_candidate :: "exact_candidate option"
  ac_outputDigest :: string
  ac_changedFiles :: "string list"
  ac_usage :: "attempt_usage option"

record failure_classification =
  fl_attemptId :: "string option"
  fl_nodeId :: string
  fl_failureClass :: failure_class
  fl_observation :: failure_observation
  fl_allowedActions :: "string list"
  fl_automaticRetryBudget :: int
  fl_discardCandidate :: bool

datatype attempt_fact =
    Attempt_started attempt_start
  | Attempt_candidate_created attempt_candidate
  | Attempt_repair_attempted string string int "string list"
  | Attempt_failed string string string "attempt_usage option"
  | Attempt_discarded string string string
  | Attempt_stale string string string string string
  | Failure_classified failure_classification
  | Validation_started string string rev_ref string
  | Validation_evidence_recorded string string string string string bool
  | Validation_completed string string evidence_matrix
  | Evidence_matrix_recorded evidence_matrix
  | Human_review_recorded human_review_input
  | Artifact_adopted adopted_artifact
  | Artifact_release_authorized release_authorization

datatype integration_fact =
    Integration_started attempt_start "string list"
  | Integration_repair_attempted string string int "string list"
  | Integration_completed string string string string "exact_candidate option" evidence_matrix
  | Integration_failed string string "string option" "string option" "evidence_matrix option" string bool

datatype amendment_kind = Am_artifact_requirement | Am_graph_revision

record amendment_proposal =
  ap_proposalId :: string
  ap_graphId :: string
  ap_sourceRevision :: int
  ap_kind :: amendment_kind
  ap_rationale :: string
  ap_evidenceRefs :: "string list"
  ap_operations :: "json_obj list"

record readiness_observation =
  ro_readyNodeIds :: "string list"
  ro_pendingDecisionIds :: "string list"
  ro_explanations :: "scheduler_explanation list option"
  ro_effectiveConfig :: "scheduler_config option"
  ro_schedulerState :: "scheduler_state option"
  ro_budgetAvailable :: "bool option"
  ro_conflictEvidence :: "conflict_evidence list option"
  ro_evaluatedAt :: "string option"

record wave_selection =
  ws_waveId :: string
  ws_nodeIds :: "string list"
  ws_maxParallel :: int
  ws_blocked :: "scheduler_explanation list option"
  ws_effectiveConfig :: "scheduler_config option"
  ws_conflictEvidence :: "conflict_evidence list option"
  ws_evaluatedAt :: "string option"

datatype graph_fact =
    Graph_amendment_proposed amendment_proposal
  | Graph_revision_proposed string int
  | Graph_revision_approved string int
  | Decision_raised decision_input
  | Decision_resolved string "string option" "string option" "autonomy_level option"
  | Decision_expired string int string
  | Readiness_observed readiness_observation
  | Wave_selected wave_selection

record candidate_verification =
  vf_manifestId :: string
  vf_commit :: string
  vf_evidenceMatrixId :: string
  vf_evidenceEligible :: bool
  vf_executionSucceeded :: bool
  vf_sourceTargetFingerprint :: string
  vf_targetBranch :: string
  vf_targetHead :: string
  vf_finalManifest :: "final_manifest option"

datatype delivery_fact =
    Final_candidate_verified candidate_verification
  | Delivery_started delivery_approval
  | Delivery_published delivery_receipt
  | Delivery_failed_fact string string bool "recovery_diagnostic option"

datatype event_payload =
    Run_ev run_fact
  | Protocol_ev protocol_fact
  | Planning_ev planning_fact
  | Attempt_ev attempt_fact
  | Integration_ev integration_fact
  | Graph_ev graph_fact
  | Delivery_ev delivery_fact

text \<open>
  \<open>RunEventDraft\<close> is a payload, \<open>RunEventInput\<close> adds the id and the time, \<open>RunEvent\<close> the run and
  the place in its journal.
\<close>

record run_event_input =
  ev_eventId :: string
  ev_occurredAt :: string
  ev_payload :: event_payload

record run_event = run_event_input +
  ev_runId :: string
  ev_sequence :: int

section \<open>Parsing the families\<close>

fun parse_run_fact :: "run_fact \<Rightarrow> run_fact option" where
  "parse_run_fact (Run_created g d) = do {
     g' \<leftarrow> nonEmptyString g; d' \<leftarrow> opt_of parse_run_definition d; Some (Run_created g' d') }"
| "parse_run_fact (Run_renamed t) = do { t' \<leftarrow> nonEmptyString t; Some (Run_renamed t') }"
| "parse_run_fact (Run_archived t) = do { t' \<leftarrow> nonEmptyString t; Some (Run_archived t') }"
| "parse_run_fact (Legacy_run_imported s a st w) = do {
     s' \<leftarrow> nonEmptyString s; a' \<leftarrow> nonEmptyString a; st' \<leftarrow> nonEmptyString st;
     w' \<leftarrow> arr_of nonEmptyString w; Some (Legacy_run_imported s' a' st' w') }"
| "parse_run_fact (Run_pause_requested r) = do { r' \<leftarrow> nonEmptyString r; Some (Run_pause_requested r') }"
| "parse_run_fact (Run_resume_requested r) = do { r' \<leftarrow> nonEmptyString r; Some (Run_resume_requested r') }"
| "parse_run_fact (Run_restart_requested r) = do { r' \<leftarrow> nonEmptyString r; Some (Run_restart_requested r') }"
| "parse_run_fact (Operation_cancel_requested i r) = do {
     i' \<leftarrow> entityId i; r' \<leftarrow> nonEmptyString r; Some (Operation_cancel_requested i' r') }"
| "parse_run_fact (Operation_interrupted i) = do { i' \<leftarrow> entityId i; Some (Operation_interrupted i') }"
| "parse_run_fact (Run_failed r a) = do { r' \<leftarrow> nonEmptyString r; Some (Run_failed r' a) }"

fun parse_protocol_fact :: "host \<Rightarrow> protocol_fact \<Rightarrow> protocol_fact option" where
  "parse_protocol_fact h (Command_accepted r c) = do {
     r' \<leftarrow> parse_command_receipt h r; c' \<leftarrow> opt_of (parse_command_envelope h) c;
     Some (Command_accepted r' c') }"
| "parse_protocol_fact h (Effect_requested i) = do {
     i' \<leftarrow> parse_effect_intent h i; Some (Effect_requested i') }"
| "parse_protocol_fact h (Effect_observed r) = do {
     r' \<leftarrow> parse_physical_receipt h r; Some (Effect_observed r') }"
| "parse_protocol_fact h (Effect_completed e r) = do {
     e' \<leftarrow> nonEmptyString e; r' \<leftarrow> nonEmptyString r; Some (Effect_completed e' r') }"
| "parse_protocol_fact h (Effect_failed e r x) = do {
     e' \<leftarrow> nonEmptyString e; r' \<leftarrow> nonEmptyString r; x' \<leftarrow> nonEmptyString x;
     Some (Effect_failed e' r' x') }"
| "parse_protocol_fact h (Effect_interrupted e r x) = do {
     e' \<leftarrow> nonEmptyString e; r' \<leftarrow> opt_of nonEmptyString r; x' \<leftarrow> nonEmptyString x;
     Some (Effect_interrupted e' r' x') }"

fun parse_planning_fact :: "planning_fact \<Rightarrow> planning_fact option" where
  "parse_planning_fact (Repository_inspected r) = do {
     r' \<leftarrow> parse_repository_inspection r; Some (Repository_inspected r') }"
| "parse_planning_fact (Planning_attempt_started n) = do { n' \<leftarrow> positive n; Some (Planning_attempt_started n') }"
| "parse_planning_fact (Planning_node_discovered n d) = do {
     n' \<leftarrow> positive n; d' \<leftarrow> parse_discovered_node d; Some (Planning_node_discovered n' d') }"
| "parse_planning_fact (Planning_attempt_failed n r) = do {
     n' \<leftarrow> positive n; r' \<leftarrow> nonEmptyString r; Some (Planning_attempt_failed n' r') }"
| "parse_planning_fact (Planning_unit_unresolved n k p d ds) = do {
     n' \<leftarrow> entityId n; k' \<leftarrow> entityId k; p' \<leftarrow> opt_of entityId p; d' \<leftarrow> nonnegative d;
     ds' \<leftarrow> arr_min 1 nonEmptyString ds; Some (Planning_unit_unresolved n' k' p' d' ds') }"
| "parse_planning_fact (Planning_granularity_selected g) = do {
     g' \<leftarrow> parse_granularity_selection g; Some (Planning_granularity_selected g') }"
| "parse_planning_fact (Planning_envelope_created e) = do {
     e' \<leftarrow> parse_planning_envelope e; Some (Planning_envelope_created e') }"
| "parse_planning_fact (Planning_candidates_evaluated c) = do {
     c' \<leftarrow> parse_planning_candidates c; Some (Planning_candidates_evaluated c') }"
| "parse_planning_fact (Planning_completed bi b s t) = do {
     bi' \<leftarrow> opt_of entityId bi;
     refine (\<lambda>x. (bi' \<noteq> None \<and> b \<noteq> None) \<noteq> (s \<noteq> None)) (Planning_completed bi' b s t) }"
| "parse_planning_fact (Graph_compiled g) = do { g' \<leftarrow> parse_compiled_graph g; Some (Graph_compiled g') }"
| "parse_planning_fact (Planning_critic_recorded c f) = do {
     c' \<leftarrow> nonEmptyString c; Some (Planning_critic_recorded c' f) }"
| "parse_planning_fact (Planning_failed r f) = do {
     r' \<leftarrow> nonEmptyString r; f' \<leftarrow> opt_of (arr_of parse_planning_finding) f; Some (Planning_failed r' f') }"

definition parse_attempt_start :: "attempt_start \<Rightarrow> attempt_start option" where
  "parse_attempt_start a = do {
     i \<leftarrow> entityId (as_attemptId a); n \<leftarrow> entityId (as_nodeId a);
     f \<leftarrow> nonEmptyString (as_inputFingerprint a); r \<leftarrow> opt_of entityId (as_retryOfAttemptId a);
     e \<leftarrow> parse_rev_ref (as_executorProfile a);
     Some \<lparr>as_attemptId = i, as_nodeId = n, as_inputFingerprint = f, as_retryOfAttemptId = r,
       as_executorProfile = e\<rparr> }"

definition parse_attempt_candidate :: "attempt_candidate \<Rightarrow> attempt_candidate option" where
  "parse_attempt_candidate a = do {
     i \<leftarrow> entityId (ac_attemptId a); n \<leftarrow> entityId (ac_nodeId a);
     c \<leftarrow> nonEmptyString (ac_candidateCommit a); x \<leftarrow> opt_of parse_exact_candidate (ac_candidate a);
     d \<leftarrow> nonEmptyString (ac_outputDigest a); cf \<leftarrow> arr_of nonEmptyString (ac_changedFiles a);
     u \<leftarrow> opt_of parse_attempt_usage (ac_usage a);
     Some \<lparr>ac_attemptId = i, ac_nodeId = n, ac_candidateCommit = c, ac_candidate = x,
       ac_outputDigest = d, ac_changedFiles = cf, ac_usage = u\<rparr> }"

definition parse_failure_classification :: "failure_classification \<Rightarrow> failure_classification option" where
  "parse_failure_classification f = do {
     a \<leftarrow> opt_of entityId (fl_attemptId f); n \<leftarrow> entityId (fl_nodeId f);
     ob \<leftarrow> parse_failure_observation (fl_observation f); al \<leftarrow> arr_of nonEmptyString (fl_allowedActions f);
     b \<leftarrow> nonnegative (fl_automaticRetryBudget f);
     Some \<lparr>fl_attemptId = a, fl_nodeId = n, fl_failureClass = fl_failureClass f,
       fl_observation = ob, fl_allowedActions = al, fl_automaticRetryBudget = b,
       fl_discardCandidate = fl_discardCandidate f\<rparr> }"

interpretation attempt_start: schema parse_attempt_start
  by unfold_locales (auto simp: parse_attempt_start_def parse_simps schema_idem)

interpretation attempt_candidate: schema parse_attempt_candidate
  by unfold_locales (auto simp: parse_attempt_candidate_def parse_simps schema_idem)

interpretation failure_classification: schema parse_failure_classification
  by unfold_locales (auto simp: parse_failure_classification_def parse_simps schema_idem)

lemmas [schema_idem] = attempt_start.idem attempt_candidate.idem failure_classification.idem

fun parse_attempt_fact :: "attempt_fact \<Rightarrow> attempt_fact option" where
  "parse_attempt_fact (Attempt_started a) = do { a' \<leftarrow> parse_attempt_start a; Some (Attempt_started a') }"
| "parse_attempt_fact (Attempt_candidate_created c) = do {
     c' \<leftarrow> parse_attempt_candidate c; Some (Attempt_candidate_created c') }"
| "parse_attempt_fact (Attempt_repair_attempted a n p ev) = do {
     a' \<leftarrow> entityId a; n' \<leftarrow> entityId n; p' \<leftarrow> positive p; ev' \<leftarrow> arr_of nonEmptyString ev;
     Some (Attempt_repair_attempted a' n' p' ev') }"
| "parse_attempt_fact (Attempt_failed a n r u) = do {
     a' \<leftarrow> entityId a; n' \<leftarrow> entityId n; r' \<leftarrow> nonEmptyString r; u' \<leftarrow> opt_of parse_attempt_usage u;
     Some (Attempt_failed a' n' r' u') }"
| "parse_attempt_fact (Attempt_discarded a n r) = do {
     a' \<leftarrow> entityId a; n' \<leftarrow> entityId n; r' \<leftarrow> nonEmptyString r; Some (Attempt_discarded a' n' r') }"
| "parse_attempt_fact (Attempt_stale a n f c r) = do {
     a' \<leftarrow> entityId a; n' \<leftarrow> entityId n; f' \<leftarrow> nonEmptyString f; c' \<leftarrow> nonEmptyString c;
     r' \<leftarrow> nonEmptyString r; Some (Attempt_stale a' n' f' c' r') }"
| "parse_attempt_fact (Failure_classified f) = do {
     f' \<leftarrow> parse_failure_classification f; Some (Failure_classified f') }"
| "parse_attempt_fact (Validation_started a n v c) = do {
     a' \<leftarrow> entityId a; n' \<leftarrow> entityId n; v' \<leftarrow> parse_rev_ref v; c' \<leftarrow> nonEmptyString c;
     Some (Validation_started a' n' v' c') }"
| "parse_attempt_fact (Validation_evidence_recorded a n e ob k p) = do {
     a' \<leftarrow> entityId a; n' \<leftarrow> entityId n; e' \<leftarrow> entityId e; ob' \<leftarrow> entityId ob; k' \<leftarrow> nonEmptyString k;
     Some (Validation_evidence_recorded a' n' e' ob' k' p) }"
| "parse_attempt_fact (Validation_completed a n m) = do {
     a' \<leftarrow> entityId a; n' \<leftarrow> entityId n; m' \<leftarrow> parse_evidence_matrix m;
     Some (Validation_completed a' n' m') }"
| "parse_attempt_fact (Evidence_matrix_recorded m) = do {
     m' \<leftarrow> parse_evidence_matrix m; Some (Evidence_matrix_recorded m') }"
| "parse_attempt_fact (Human_review_recorded r) = do {
     r' \<leftarrow> parse_human_review_input r; Some (Human_review_recorded r') }"
| "parse_attempt_fact (Artifact_adopted a) = do { a' \<leftarrow> parse_adopted_artifact a; Some (Artifact_adopted a') }"
| "parse_attempt_fact (Artifact_release_authorized a) = do {
     a' \<leftarrow> parse_release_authorization a; Some (Artifact_release_authorized a') }"

fun parse_integration_fact :: "integration_fact \<Rightarrow> integration_fact option" where
  "parse_integration_fact (Integration_started a r) = do {
     a' \<leftarrow> parse_attempt_start a; r' \<leftarrow> arr_min 1 entityId r; Some (Integration_started a' r') }"
| "parse_integration_fact (Integration_repair_attempted a n p ev) = do {
     a' \<leftarrow> entityId a; n' \<leftarrow> entityId n; p' \<leftarrow> positive p; ev' \<leftarrow> arr_of nonEmptyString ev;
     Some (Integration_repair_attempted a' n' p' ev') }"
| "parse_integration_fact (Integration_completed a n m c x em) = do {
     a' \<leftarrow> entityId a; n' \<leftarrow> entityId n; m' \<leftarrow> entityId m; c' \<leftarrow> nonEmptyString c;
     x' \<leftarrow> opt_of parse_exact_candidate x; em' \<leftarrow> parse_evidence_matrix em;
     Some (Integration_completed a' n' m' c' x' em') }"
| "parse_integration_fact (Integration_failed a n m c em r d) = do {
     a' \<leftarrow> entityId a; n' \<leftarrow> entityId n; m' \<leftarrow> opt_of entityId m; c' \<leftarrow> opt_of nonEmptyString c;
     em' \<leftarrow> opt_of parse_evidence_matrix em; r' \<leftarrow> nonEmptyString r;
     Some (Integration_failed a' n' m' c' em' r' d) }"

definition parse_amendment_proposal :: "amendment_proposal \<Rightarrow> amendment_proposal option" where
  "parse_amendment_proposal p = do {
     i \<leftarrow> entityId (ap_proposalId p); g \<leftarrow> entityId (ap_graphId p); s \<leftarrow> positive (ap_sourceRevision p);
     r \<leftarrow> nonEmptyString (ap_rationale p); e \<leftarrow> arr_min 1 nonEmptyString (ap_evidenceRefs p);
     os \<leftarrow> min_len 1 (ap_operations p);
     Some \<lparr>ap_proposalId = i, ap_graphId = g, ap_sourceRevision = s, ap_kind = ap_kind p,
       ap_rationale = r, ap_evidenceRefs = e, ap_operations = os\<rparr> }"

definition parse_readiness_observation :: "readiness_observation \<Rightarrow> readiness_observation option" where
  "parse_readiness_observation r = do {
     n \<leftarrow> arr_of entityId (ro_readyNodeIds r); d \<leftarrow> arr_of entityId (ro_pendingDecisionIds r);
     x \<leftarrow> opt_of (arr_of parse_scheduler_explanation) (ro_explanations r);
     c \<leftarrow> opt_of parse_scheduler_config (ro_effectiveConfig r);
     s \<leftarrow> opt_of parse_scheduler_state (ro_schedulerState r);
     f \<leftarrow> opt_of (arr_of parse_conflict_evidence) (ro_conflictEvidence r);
     t \<leftarrow> opt_of nonEmptyString (ro_evaluatedAt r);
     Some \<lparr>ro_readyNodeIds = n, ro_pendingDecisionIds = d, ro_explanations = x,
       ro_effectiveConfig = c, ro_schedulerState = s, ro_budgetAvailable = ro_budgetAvailable r,
       ro_conflictEvidence = f, ro_evaluatedAt = t\<rparr> }"

definition parse_wave_selection :: "wave_selection \<Rightarrow> wave_selection option" where
  "parse_wave_selection w = do {
     i \<leftarrow> entityId (ws_waveId w); n \<leftarrow> arr_min 1 entityId (ws_nodeIds w);
     p \<leftarrow> positive (ws_maxParallel w);
     b \<leftarrow> opt_of (arr_of parse_scheduler_explanation) (ws_blocked w);
     c \<leftarrow> opt_of parse_scheduler_config (ws_effectiveConfig w);
     f \<leftarrow> opt_of (arr_of parse_conflict_evidence) (ws_conflictEvidence w);
     t \<leftarrow> opt_of nonEmptyString (ws_evaluatedAt w);
     Some \<lparr>ws_waveId = i, ws_nodeIds = n, ws_maxParallel = p, ws_blocked = b,
       ws_effectiveConfig = c, ws_conflictEvidence = f, ws_evaluatedAt = t\<rparr> }"

interpretation amendment_proposal: schema parse_amendment_proposal
  by unfold_locales (auto simp: parse_amendment_proposal_def parse_simps schema_idem)

interpretation readiness_observation: schema parse_readiness_observation
  by unfold_locales (auto simp: parse_readiness_observation_def parse_simps schema_idem)

interpretation wave_selection: schema parse_wave_selection
  by unfold_locales (auto simp: parse_wave_selection_def parse_simps schema_idem)

lemmas [schema_idem] = amendment_proposal.idem readiness_observation.idem wave_selection.idem

fun parse_graph_fact :: "graph_fact \<Rightarrow> graph_fact option" where
  "parse_graph_fact (Graph_amendment_proposed p) = do {
     p' \<leftarrow> parse_amendment_proposal p; Some (Graph_amendment_proposed p') }"
| "parse_graph_fact (Graph_revision_proposed g r) = do {
     g' \<leftarrow> entityId g; r' \<leftarrow> positive r; Some (Graph_revision_proposed g' r') }"
| "parse_graph_fact (Graph_revision_approved g r) = do {
     g' \<leftarrow> entityId g; r' \<leftarrow> positive r; Some (Graph_revision_approved g' r') }"
| "parse_graph_fact (Decision_raised d) = do { d' \<leftarrow> parse_decision_input d; Some (Decision_raised d') }"
| "parse_graph_fact (Decision_resolved d oi an au) = do {
     d' \<leftarrow> entityId d; oi' \<leftarrow> opt_of entityId oi; an' \<leftarrow> opt_of nonEmptyString an;
     refine (\<lambda>x. oi' \<noteq> None \<or> an' \<noteq> None) (Decision_resolved d' oi' an' au) }"
| "parse_graph_fact (Decision_expired d s r) = do {
     d' \<leftarrow> entityId d; s' \<leftarrow> positive s; r' \<leftarrow> nonEmptyString r; Some (Decision_expired d' s' r') }"
| "parse_graph_fact (Readiness_observed r) = do {
     r' \<leftarrow> parse_readiness_observation r; Some (Readiness_observed r') }"
| "parse_graph_fact (Wave_selected w) = do { w' \<leftarrow> parse_wave_selection w; Some (Wave_selected w') }"

definition parse_candidate_verification :: "candidate_verification \<Rightarrow> candidate_verification option" where
  "parse_candidate_verification v = do {
     m \<leftarrow> entityId (vf_manifestId v); c \<leftarrow> nonEmptyString (vf_commit v);
     e \<leftarrow> entityId (vf_evidenceMatrixId v); f \<leftarrow> nonEmptyString (vf_sourceTargetFingerprint v);
     b \<leftarrow> nonEmptyString (vf_targetBranch v); hd \<leftarrow> nonEmptyString (vf_targetHead v);
     fm \<leftarrow> opt_of parse_final_manifest (vf_finalManifest v);
     Some \<lparr>vf_manifestId = m, vf_commit = c, vf_evidenceMatrixId = e,
       vf_evidenceEligible = vf_evidenceEligible v, vf_executionSucceeded = vf_executionSucceeded v,
       vf_sourceTargetFingerprint = f, vf_targetBranch = b, vf_targetHead = hd,
       vf_finalManifest = fm\<rparr> }"

interpretation candidate_verification: schema parse_candidate_verification
  by unfold_locales (auto simp: parse_candidate_verification_def parse_simps schema_idem)

fun parse_delivery_fact :: "delivery_fact \<Rightarrow> delivery_fact option" where
  "parse_delivery_fact (Final_candidate_verified v) = do {
     v' \<leftarrow> parse_candidate_verification v; Some (Final_candidate_verified v') }"
| "parse_delivery_fact (Delivery_started a) = do { a' \<leftarrow> parse_delivery_approval a; Some (Delivery_started a') }"
| "parse_delivery_fact (Delivery_published r) = do { r' \<leftarrow> parse_delivery_receipt r; Some (Delivery_published r') }"
| "parse_delivery_fact (Delivery_failed_fact m r t d) = do {
     m' \<leftarrow> entityId m; r' \<leftarrow> nonEmptyString r; d' \<leftarrow> opt_of parse_recovery_diagnostic d;
     Some (Delivery_failed_fact m' r' t d') }"

fun parse_payload :: "host \<Rightarrow> event_payload \<Rightarrow> event_payload option" where
  "parse_payload h (Run_ev f) = map_option Run_ev (parse_run_fact f)"
| "parse_payload h (Protocol_ev f) = map_option Protocol_ev (parse_protocol_fact h f)"
| "parse_payload h (Planning_ev f) = map_option Planning_ev (parse_planning_fact f)"
| "parse_payload h (Attempt_ev f) = map_option Attempt_ev (parse_attempt_fact f)"
| "parse_payload h (Integration_ev f) = map_option Integration_ev (parse_integration_fact f)"
| "parse_payload h (Graph_ev f) = map_option Graph_ev (parse_graph_fact f)"
| "parse_payload h (Delivery_ev f) = map_option Delivery_ev (parse_delivery_fact f)"

text \<open>\<open>RunEventSchema.parse\<close>.\<close>

definition parse_run_event :: "host \<Rightarrow> run_event \<Rightarrow> run_event option" where
  "parse_run_event h e = do {
     i \<leftarrow> entityId (ev_eventId e); t \<leftarrow> nonEmptyString (ev_occurredAt e);
     p \<leftarrow> parse_payload h (ev_payload e);
     r \<leftarrow> entityId (ev_runId e); s \<leftarrow> positive (ev_sequence e);
     Some \<lparr>ev_eventId = i, ev_occurredAt = t, ev_payload = p, ev_runId = r, ev_sequence = s\<rparr> }"

interpretation run_fact: schema parse_run_fact
proof unfold_locales
  fix x y assume "parse_run_fact x = Some y"
  then show "parse_run_fact y = Some y" by (cases x) (auto simp: parse_simps schema_idem)
qed

interpretation protocol_fact: schema "parse_protocol_fact h" for h
proof unfold_locales
  fix x y assume "parse_protocol_fact h x = Some y"
  then show "parse_protocol_fact h y = Some y" by (cases x) (auto simp: parse_simps schema_idem)
qed

interpretation planning_fact: schema parse_planning_fact
proof unfold_locales
  fix x y assume "parse_planning_fact x = Some y"
  then show "parse_planning_fact y = Some y" by (cases x) (auto simp: parse_simps schema_idem)
qed

interpretation attempt_fact: schema parse_attempt_fact
proof unfold_locales
  fix x y assume "parse_attempt_fact x = Some y"
  then show "parse_attempt_fact y = Some y" by (cases x) (auto simp: parse_simps schema_idem)
qed

interpretation integration_fact: schema parse_integration_fact
proof unfold_locales
  fix x y assume "parse_integration_fact x = Some y"
  then show "parse_integration_fact y = Some y" by (cases x) (auto simp: parse_simps schema_idem)
qed

interpretation graph_fact: schema parse_graph_fact
proof unfold_locales
  fix x y assume "parse_graph_fact x = Some y"
  then show "parse_graph_fact y = Some y" by (cases x) (auto simp: parse_simps schema_idem)
qed

interpretation delivery_fact: schema parse_delivery_fact
proof unfold_locales
  fix x y assume "parse_delivery_fact x = Some y"
  then show "parse_delivery_fact y = Some y"
    by (cases x) (auto simp: parse_simps schema_idem candidate_verification.idem)
qed

interpretation payload: schema "parse_payload h" for h
proof unfold_locales
  fix x y assume "parse_payload h x = Some y"
  then show "parse_payload h y = Some y"
    by (cases x) (auto simp: run_fact.idem protocol_fact.idem planning_fact.idem attempt_fact.idem
        integration_fact.idem graph_fact.idem delivery_fact.idem)
qed

interpretation run_event: schema "parse_run_event h" for h
  by unfold_locales (auto simp: parse_run_event_def parse_simps schema_idem payload.idem)

end
