(* ===== verification/Projection.thy ===== *)
theory Projection
  imports Events
begin

text \<open>
  The state of a run as its journal determines it: the projections of attempts, integrations and
  planning, the record \<open>RunProjection\<close>, and what can be thrown while an event is folded into it.
  A field that is optional in the source is an option here; the optional \<open>stoppedNodeIds\<close> and
  \<open>artifactRetentionReleaseAuthorizations\<close> are always present in a folded run, and absent reads as
  empty in every place the source reads them.

  Source: packages/run-coordinator/src/reducer.ts.
\<close>

section \<open>Parts of the projection\<close>

datatype attempt_kind = Execution | Integration_kind

datatype attempt_status = At_running | At_candidate | At_validated | At_adopted | At_failed
  | At_discarded | At_stale

record attempt_projection =
  at_attemptId :: string
  at_nodeId :: string
  at_inputFingerprint :: string
  at_retryOfAttemptId :: "string option"
  at_kind :: attempt_kind
  at_status :: attempt_status
  at_candidateCommit :: "string option"
  at_candidate :: "exact_candidate option"
  at_outputDigest :: "string option"
  at_repairPasses :: int
  at_failureReason :: "string option"
  at_usage :: "attempt_usage option"

datatype integration_status = Int_running | Int_completed | Int_failed | Int_decision_required

record integration_projection =
  in_attemptId :: string
  in_nodeId :: string
  in_requiredArtifactIds :: "string list"
  in_status :: integration_status
  in_manifestId :: "string option"
  in_candidateCommit :: "string option"
  in_evidenceMatrixId :: "string option"
  in_repairPasses :: int
  in_failureReason :: "string option"

record granularity_projection =
  gp_policyVersion :: string
  gp_condition :: study_condition
  gp_candidateTreeHash :: string
  gp_candidateSourceHash :: "string option"
  gp_config :: granularity_config
  gp_assessments :: "strategy_assessment obj"
  gp_metrics :: granularity_metrics

datatype effect_terminal =
    Term_completed string
  | Term_failed string string
  | Term_interrupted "string option" string

fun terminal_receipt :: "effect_terminal \<Rightarrow> string option" where
  "terminal_receipt (Term_completed r) = Some r"
| "terminal_receipt (Term_failed r _) = Some r"
| "terminal_receipt (Term_interrupted r _) = r"

datatype recovery_entry =
    Recovery_failure string "string option" string failure_class
  | Recovery_amendment string

record matrix_summary =
  ms_candidateCommit :: string
  ms_outcome :: matrix_outcome
  ms_validationRecipeDigest :: "string option"

section \<open>The projection\<close>

record run_projection =
  p_runId :: string
  p_goal :: string
  p_definition :: "run_definition option"
  p_title :: "string option"
  p_archivedAt :: "string option"
  p_lifecycle :: lifecycle
  p_sequence :: int
  p_createdAt :: string
  p_updatedAt :: string
  p_appliedEventIds :: "string list"
  p_graphId :: "string option"
  p_graphRevision :: "int option"
  p_approvedGraphRevision :: "int option"
  p_granularityStrategy :: "granularity_projection option"
  p_planningEnvelope :: "planning_envelope option"
  p_planningCandidates :: "planning_candidates option"
  p_commandReceipts :: "command_receipt obj"
  p_commandEnvelopes :: "command_envelope obj"
  p_effectIntents :: "effect_intent obj"
  p_physicalEffectReceipts :: "physical_receipt obj"
  p_effectTerminals :: "effect_terminal obj"
  p_decisions :: "decision obj"
  p_stoppedNodeIds :: "string list"
  p_readiness :: readiness_observation
  p_selectedWaves :: "wave_selection list"
  p_attempts :: "attempt_projection obj"
  p_humanReviews :: "human_review obj"
  p_adoptedArtifacts :: "adopted_artifact obj"
  p_releaseAuthorizations :: "release_authorization obj"
  p_nodeEvidenceMatrixIds :: "string obj"
  p_integrations :: "integration_projection obj"
  p_recoveryHistory :: "recovery_entry list"
  p_evidenceMatrices :: "string list"
  p_evidenceMatrixSummaries :: "matrix_summary obj"
  p_outcomes :: run_outcomes
  p_finalCandidate :: "final_candidate option"
  p_deliveryReceipt :: "delivery_receipt option"
  p_deliveryApproval :: "delivery_approval option"
  p_lifecycleBeforePause :: "lifecycle option"
  p_failureReason :: "string option"
  p_planningFindings :: "planning_finding list option"
  p_recoveryDiagnostic :: "recovery_diagnostic option"

definition empty_readiness :: readiness_observation where
  "empty_readiness = \<lparr>ro_readyNodeIds = [], ro_pendingDecisionIds = [], ro_explanations = None,
     ro_effectiveConfig = None, ro_schedulerState = None, ro_budgetAvailable = None,
     ro_conflictEvidence = None, ro_evaluatedAt = None\<rparr>"

text \<open>The state \<open>run.created\<close> starts a run in.\<close>

definition created_projection ::
  "string \<Rightarrow> string \<Rightarrow> string \<Rightarrow> string \<Rightarrow> run_definition option \<Rightarrow> run_projection" where
  "created_projection runId eventId occurredAt goal def =
     \<lparr>p_runId = runId, p_goal = goal, p_definition = def, p_title = map_option rdef_title def,
      p_archivedAt = None, p_lifecycle = Planning, p_sequence = 1, p_createdAt = occurredAt,
      p_updatedAt = occurredAt, p_appliedEventIds = [eventId], p_graphId = None,
      p_graphRevision = None, p_approvedGraphRevision = None, p_granularityStrategy = None,
      p_planningEnvelope = None, p_planningCandidates = None, p_commandReceipts = [],
      p_commandEnvelopes = [], p_effectIntents = [], p_physicalEffectReceipts = [],
      p_effectTerminals = [], p_decisions = [], p_stoppedNodeIds = [],
      p_readiness = empty_readiness, p_selectedWaves = [], p_attempts = [], p_humanReviews = [],
      p_adoptedArtifacts = [], p_releaseAuthorizations = [], p_nodeEvidenceMatrixIds = [],
      p_integrations = [], p_recoveryHistory = [], p_evidenceMatrices = [],
      p_evidenceMatrixSummaries = [], p_outcomes = initial_run_outcomes, p_finalCandidate = None,
      p_deliveryReceipt = None, p_deliveryApproval = None, p_lifecycleBeforePause = None,
      p_failureReason = None, p_planningFindings = None, p_recoveryDiagnostic = None\<rparr>"

section \<open>Errors\<close>

text \<open>
  What the reducer throws. Three message shapes recur: an action that is refused in the current
  lifecycle, an identifier that already exists, and an illegal move of the lifecycle; the others are
  grouped by the part of the run they protect.
\<close>

datatype guarded_action = Archive_run | Planning_facts | Execution_artifacts | Record_review
  | Integrate | Classify_failure | Propose_amendment | Record_evidence | Propose_graph | Select_wave
  | Pause_run | Resume_run | Restart_run

datatype entity = Command | Command_receipt_entity | Effect | Receipt | Attempt | Human_review
  | Artifact | Release_authorization | Matrix | Decision | Wave

datatype journal_error = Empty_journal | Schema_rejected | Duplicate_event string
  | First_event_invalid | Foreign_event string | Sequence_gap int int | Created_not_first
  | Legacy_not_second

datatype protocol_error = Foreign_command string | Envelope_unbound string | Foreign_effect string
  | Receipt_without_effect string string | Receipt_input_mismatch string string
  | Complete_needs_succeeded string | Fail_needs_failed string | Terminal_without_intent string
  | Already_terminal string | Receipt_missing string string
  | Receipt_of_other_effect string string string

datatype attempt_error = Attempt_not_of_node string string | Candidate_while string attempt_status
  | Candidate_commit_mismatch string | Validation_while string attempt_status
  | Review_attempt_while string attempt_status | Review_unbound string string
  | Review_stale string string | Release_not_archived | Release_attempt_open | Release_review_active
  | Release_decision_pending | Release_no_manifest string | Release_mismatch string
  | Integration_not_of_node string string | Integration_commit_mismatch string

datatype graph_error = Approval_not_current string int | Decision_not_pending string
  | No_such_option string string | Decision_missing string | Readiness_not_pending string
  | Wave_too_wide string | Wave_not_ready string

datatype delivery_error = Execution_not_succeeded | Evidence_not_eligible | No_verified_matrix
  | Manifest_mismatch | Decisions_pending | Not_final_candidate string | Target_snapshot_mismatch
  | Receipt_unconfirmed | Receipt_not_eligible | Receipt_not_delivered | Receipt_sha_mismatch
  | Receipt_branch_mismatch | Receipt_head_mismatch | Receipt_tree_mismatch
  | Failure_not_active string

datatype reduce_error =
    While guarded_action lifecycle
  | Exists entity string
  | Illegal_transition lifecycle lifecycle
  | Journal_err journal_error
  | Protocol_err protocol_error
  | Attempt_err attempt_error
  | Graph_err graph_error
  | Delivery_err delivery_error

section \<open>Helpers of the reducer\<close>

text \<open>\<open>if (v !== undefined) target.field = v\<close>: the field afterwards.\<close>

definition assign_if :: "'a option \<Rightarrow> 'a option \<Rightarrow> 'a option" where
  "assign_if v old = (case v of None \<Rightarrow> old | Some x \<Rightarrow> Some x)"

lemma assign_if_simps [simp]: "assign_if None old = old" "assign_if (Some x) old = Some x"
  by (simp_all add: assign_if_def)

definition transition :: "lifecycle \<Rightarrow> run_projection \<Rightarrow> reduce_error + run_projection" where
  "transition tgt s = throwIf (\<not> transition_ok (p_lifecycle s) tgt) (Illegal_transition (p_lifecycle s) tgt)
     (Inr (s\<lparr>p_lifecycle := tgt\<rparr>))"

definition requireAttempt :: "run_projection \<Rightarrow> string \<Rightarrow> string \<Rightarrow> reduce_error + attempt_projection" where
  "requireAttempt s attemptId nodeId = (case oget (p_attempts s) attemptId of
     None \<Rightarrow> Inl (Attempt_err (Attempt_not_of_node attemptId nodeId))
   | Some a \<Rightarrow> throwIf (at_nodeId a \<noteq> nodeId) (Attempt_err (Attempt_not_of_node attemptId nodeId)) (Inr a))"

definition latestCandidateAttempt :: "run_projection \<Rightarrow> string \<Rightarrow> attempt_projection option" where
  "latestCandidateAttempt s nodeId =
     (case filter (\<lambda>a. at_nodeId a = nodeId \<and> at_candidateCommit a \<noteq> None) (ovalues (p_attempts s)) of
        [] \<Rightarrow> None | a # as \<Rightarrow> Some (last (a # as)))"

fun sameCandidate :: "exact_candidate option \<Rightarrow> exact_candidate option \<Rightarrow> bool" where
  "sameCandidate (Some l) (Some r) = (ec_manifestDigest l = ec_manifestDigest r \<and>
     ec_commitOid l = ec_commitOid r \<and> ec_treeOid l = ec_treeOid r)"
| "sameCandidate _ _ = False"

definition requireIntegration ::
  "run_projection \<Rightarrow> string \<Rightarrow> string \<Rightarrow> reduce_error + integration_projection" where
  "requireIntegration s attemptId nodeId = (case oget (p_integrations s) nodeId of
     None \<Rightarrow> Inl (Attempt_err (Integration_not_of_node attemptId nodeId))
   | Some i \<Rightarrow> throwIf (in_attemptId i \<noteq> attemptId) (Attempt_err (Integration_not_of_node attemptId nodeId)) (Inr i))"

definition assertEffectIntentPending :: "run_projection \<Rightarrow> string \<Rightarrow> reduce_error + effect_intent" where
  "assertEffectIntentPending s effectId = requireE (oget (p_effectIntents s) effectId)
     (Protocol_err (Terminal_without_intent effectId)) (\<lambda>i.
     throwIf (oget (p_effectTerminals s) effectId \<noteq> None) (Protocol_err (Already_terminal effectId)) (Inr i))"

definition assertEffectReceiptLink ::
  "run_projection \<Rightarrow> string \<Rightarrow> string \<Rightarrow> reduce_error + physical_receipt" where
  "assertEffectReceiptLink s effectId receiptId = requireE (oget (p_physicalEffectReceipts s) receiptId)
     (Protocol_err (Receipt_missing effectId receiptId)) (\<lambda>r.
     throwIf (pr_effectId r \<noteq> effectId) (Protocol_err (Receipt_of_other_effect receiptId (pr_effectId r) effectId)) (Inr r))"

definition assertEffectTerminalLink ::
  "run_projection \<Rightarrow> string \<Rightarrow> string \<Rightarrow> reduce_error + physical_receipt" where
  "assertEffectTerminalLink s effectId receiptId =
     bindE (assertEffectIntentPending s effectId) (\<lambda>_. assertEffectReceiptLink s effectId receiptId)"

lemma transition_Inr [simp]:
  "transition tgt s = Inr s' \<longleftrightarrow> transition_ok (p_lifecycle s) tgt \<and> s' = s\<lparr>p_lifecycle := tgt\<rparr>"
  by (auto simp: transition_def)

lemma requireAttempt_Inr [simp]:
  "requireAttempt s i n = Inr a \<longleftrightarrow> oget (p_attempts s) i = Some a \<and> at_nodeId a = n"
  by (auto simp: requireAttempt_def split: option.splits)

lemma requireIntegration_Inr [simp]:
  "requireIntegration s i n = Inr x \<longleftrightarrow> oget (p_integrations s) n = Some x \<and> in_attemptId x = i"
  by (auto simp: requireIntegration_def split: option.splits)

lemma assertEffectIntentPending_Inr [simp]:
  "assertEffectIntentPending s e = Inr i \<longleftrightarrow>
     oget (p_effectIntents s) e = Some i \<and> oget (p_effectTerminals s) e = None"
  by (auto simp: assertEffectIntentPending_def)

lemma assertEffectReceiptLink_Inr [simp]:
  "assertEffectReceiptLink s e i = Inr r \<longleftrightarrow>
     oget (p_physicalEffectReceipts s) i = Some r \<and> pr_effectId r = e"
  by (auto simp: assertEffectReceiptLink_def)

lemma assertEffectTerminalLink_Inr [simp]:
  "assertEffectTerminalLink s e i = Inr r \<longleftrightarrow>
     (\<exists>x. oget (p_effectIntents s) e = Some x) \<and> oget (p_effectTerminals s) e = None \<and>
     oget (p_physicalEffectReceipts s) i = Some r \<and> pr_effectId r = e"
  by (auto simp: assertEffectTerminalLink_def)

lemma sameCandidate_iff: "sameCandidate l r \<longleftrightarrow> (\<exists>c. l = Some c \<and> r = Some c)"
  by (cases l; cases r) auto

end
