(* ===== verification/Reducer.thy ===== *)
theory Reducer
  imports Projection
begin

text \<open>
  \<open>reduceRun\<close> and \<open>foldRun\<close>: one definition per event handler, with every guard in the order of the
  source; a family's dispatcher per group of event names; the whole step; the fold of a journal.
  A handler returns the thrown error or the next projection. The source mutates a structured clone and
  throws away the clone when it throws, so a handler that throws changes nothing.

  Source: packages/run-coordinator/src/reducer.ts.
\<close>

named_theorems handler_defs "the definitions of the event handlers"

abbreviation executing :: "lifecycle \<Rightarrow> bool" where
  "executing l \<equiv> l = Running \<or> l = Waiting_for_input"

abbreviation plannable :: "lifecycle \<Rightarrow> bool" where
  "plannable l \<equiv> l = Planning \<or> l = Needs_approval \<or> l = Running"

section \<open>The run\<close>

definition on_run_renamed :: "string \<Rightarrow> run_projection \<Rightarrow> reduce_error + run_projection" where
  [handler_defs]: "on_run_renamed title s = Inr (s\<lparr>p_title := Some title\<rparr>)"

definition on_run_archived :: "string \<Rightarrow> run_projection \<Rightarrow> reduce_error + run_projection" where
  [handler_defs]: "on_run_archived archivedAt s =
     throwIf (p_lifecycle s \<in> {Planning, Running, Waiting_for_input, Cancelling, Delivering})
       (While Archive_run (p_lifecycle s))
     (Inr (s\<lparr>p_archivedAt := Some archivedAt\<rparr>))"

definition on_legacy_run_imported :: "run_projection \<Rightarrow> reduce_error + run_projection" where
  [handler_defs]: "on_legacy_run_imported s =
     throwIf (p_sequence s \<noteq> 1 \<or> p_lifecycle s \<noteq> Planning) (Journal_err Legacy_not_second)
     (Inr (s\<lparr>p_outcomes := (p_outcomes s)\<lparr>oc_execution := Ex_interrupted\<rparr>, p_lifecycle := Interrupted\<rparr>))"

definition on_pause_requested :: "run_projection \<Rightarrow> reduce_error + run_projection" where
  [handler_defs]: "on_pause_requested s =
     throwIf (\<not> executing (p_lifecycle s)) (While Pause_run (p_lifecycle s))
     (transition Paused (s\<lparr>p_lifecycleBeforePause := Some (p_lifecycle s)\<rparr>))"

text \<open>The lifecycle a run with these observations has while it executes.\<close>

definition observed_lifecycle :: "readiness_observation \<Rightarrow> lifecycle" where
  "observed_lifecycle r =
     (if ro_readyNodeIds r = [] \<and> ro_pendingDecisionIds r \<noteq> [] then Waiting_for_input else Running)"

definition on_resume_requested :: "run_projection \<Rightarrow> reduce_error + run_projection" where
  [handler_defs]: "on_resume_requested s =
     throwIf (p_lifecycle s \<noteq> Paused) (While Resume_run (p_lifecycle s))
     (bindE (transition (observed_lifecycle (p_readiness s)) s) (\<lambda>s1.
        Inr (s1\<lparr>p_lifecycleBeforePause := None\<rparr>)))"

definition interrupt_attempt :: "attempt_projection \<Rightarrow> attempt_projection" where
  "interrupt_attempt a = (if at_status a = At_running
     then a\<lparr>at_status := At_failed,
            at_failureReason := Some ''Interrupted by failed run; restarted by operator.''\<rparr>
     else a)"

definition on_restart_requested :: "run_projection \<Rightarrow> reduce_error + run_projection" where
  [handler_defs]: "on_restart_requested s =
     throwIf (p_lifecycle s \<noteq> Interrupted \<and> p_lifecycle s \<noteq> Failed_run) (While Restart_run (p_lifecycle s))
     (transition Running (s\<lparr>
        p_attempts := (if p_lifecycle s = Failed_run then omap interrupt_attempt (p_attempts s) else p_attempts s),
        p_outcomes := (p_outcomes s)\<lparr>oc_execution := Ex_pending\<rparr>,
        p_failureReason := None\<rparr>))"

definition on_cancel_requested :: "run_projection \<Rightarrow> reduce_error + run_projection" where
  [handler_defs]: "on_cancel_requested s = transition Cancelling s"

definition on_operation_interrupted :: "run_projection \<Rightarrow> reduce_error + run_projection" where
  [handler_defs]: "on_operation_interrupted s =
     transition Interrupted (s\<lparr>p_outcomes := (p_outcomes s)\<lparr>oc_execution := Ex_interrupted\<rparr>\<rparr>)"

fun fail_area :: "failure_area \<Rightarrow> run_outcomes \<Rightarrow> run_outcomes" where
  "fail_area Area_execution u = u\<lparr>oc_execution := Ex_failed\<rparr>"
| "fail_area Area_artifact u = u\<lparr>oc_artifact := Ar_failed\<rparr>"
| "fail_area Area_delivery u = u\<lparr>oc_delivery := De_failed\<rparr>"
| "fail_area Area_domain u = u"

definition on_run_failed :: "string \<Rightarrow> failure_area \<Rightarrow> run_projection \<Rightarrow> reduce_error + run_projection" where
  [handler_defs]: "on_run_failed reason area s =
     transition Failed_run (s\<lparr>p_outcomes := fail_area area (p_outcomes s), p_failureReason := Some reason\<rparr>)"

fun reduce_run_fact :: "run_fact \<Rightarrow> run_projection \<Rightarrow> reduce_error + run_projection" where
  "reduce_run_fact (Run_created _ _) s = Inl (Journal_err Created_not_first)"
| "reduce_run_fact (Run_renamed t) s = on_run_renamed t s"
| "reduce_run_fact (Run_archived t) s = on_run_archived t s"
| "reduce_run_fact (Legacy_run_imported _ _ _ _) s = on_legacy_run_imported s"
| "reduce_run_fact (Run_pause_requested _) s = on_pause_requested s"
| "reduce_run_fact (Run_resume_requested _) s = on_resume_requested s"
| "reduce_run_fact (Run_restart_requested _) s = on_restart_requested s"
| "reduce_run_fact (Operation_cancel_requested _ _) s = on_cancel_requested s"
| "reduce_run_fact (Operation_interrupted _) s = on_operation_interrupted s"
| "reduce_run_fact (Run_failed r a) s = on_run_failed r a s"

section \<open>The command and effect protocol\<close>

text \<open>Receipt identifiers share one name space between commands and effects.\<close>

definition receipt_taken :: "run_projection \<Rightarrow> string \<Rightarrow> bool" where
  "receipt_taken s receiptId =
     (oget (p_physicalEffectReceipts s) receiptId \<noteq> None \<or>
      list_ex (\<lambda>r. rc_receiptId r = receiptId) (ovalues (p_commandReceipts s)))"

definition on_command_accepted ::
  "command_receipt \<Rightarrow> command_envelope option \<Rightarrow> run_projection \<Rightarrow> reduce_error + run_projection" where
  [handler_defs]: "on_command_accepted r c s =
     throwIf (rc_runId r \<noteq> p_runId s) (Protocol_err (Foreign_command (rc_commandId r)))
     (throwIf (oget (p_commandReceipts s) (rc_commandId r) \<noteq> None) (Exists Command (rc_commandId r))
     (throwIf (receipt_taken s (rc_receiptId r)) (Exists Command_receipt_entity (rc_receiptId r))
     (let s1 = s\<lparr>p_commandReceipts := oput (rc_commandId r) r (p_commandReceipts s)\<rparr> in
      case c of
        None \<Rightarrow> Inr s1
      | Some v \<Rightarrow> throwIf (cv_commandId v \<noteq> rc_commandId r \<or> cv_runId v \<noteq> rc_runId r \<or>
            cv_commandDigest v \<noteq> rc_commandDigest r) (Protocol_err (Envelope_unbound (cv_commandId v)))
          (Inr (s1\<lparr>p_commandEnvelopes := oput (cv_commandId v) v (p_commandEnvelopes s1)\<rparr>)))))"

definition on_effect_requested :: "effect_intent \<Rightarrow> run_projection \<Rightarrow> reduce_error + run_projection" where
  [handler_defs]: "on_effect_requested i s =
     throwIf (ei_runId i \<noteq> p_runId s) (Protocol_err (Foreign_effect (ei_effectId i)))
     (throwIf (oget (p_effectIntents s) (ei_effectId i) \<noteq> None) (Exists Effect (ei_effectId i))
     (Inr (s\<lparr>p_effectIntents := oput (ei_effectId i) i (p_effectIntents s)\<rparr>)))"

definition on_effect_observed :: "physical_receipt \<Rightarrow> run_projection \<Rightarrow> reduce_error + run_projection" where
  [handler_defs]: "on_effect_observed r s =
     throwIf (receipt_taken s (pr_receiptId r)) (Exists Receipt (pr_receiptId r))
     (requireE (oget (p_effectIntents s) (pr_effectId r))
        (Protocol_err (Receipt_without_effect (pr_receiptId r) (pr_effectId r))) (\<lambda>i.
      throwIf (pr_inputDigest r \<noteq> ei_inputDigest i)
        (Protocol_err (Receipt_input_mismatch (pr_receiptId r) (pr_effectId r)))
      (Inr (s\<lparr>p_physicalEffectReceipts := oput (pr_receiptId r) r (p_physicalEffectReceipts s)\<rparr>))))"

definition on_effect_completed :: "string \<Rightarrow> string \<Rightarrow> run_projection \<Rightarrow> reduce_error + run_projection" where
  [handler_defs]: "on_effect_completed effectId receiptId s =
     bindE (assertEffectTerminalLink s effectId receiptId) (\<lambda>r.
     throwIf (pr_observation r \<noteq> Succeeded) (Protocol_err (Complete_needs_succeeded effectId))
     (Inr (s\<lparr>p_effectTerminals := oput effectId (Term_completed receiptId) (p_effectTerminals s)\<rparr>)))"

definition on_effect_failed ::
  "string \<Rightarrow> string \<Rightarrow> string \<Rightarrow> run_projection \<Rightarrow> reduce_error + run_projection" where
  [handler_defs]: "on_effect_failed effectId receiptId reason s =
     bindE (assertEffectTerminalLink s effectId receiptId) (\<lambda>r.
     throwIf (pr_observation r \<noteq> Failed) (Protocol_err (Fail_needs_failed effectId))
     (Inr (s\<lparr>p_effectTerminals := oput effectId (Term_failed receiptId reason) (p_effectTerminals s)\<rparr>)))"

definition on_effect_interrupted ::
  "string \<Rightarrow> string option \<Rightarrow> string \<Rightarrow> run_projection \<Rightarrow> reduce_error + run_projection" where
  [handler_defs]: "on_effect_interrupted effectId receiptId reason s =
     bindE (assertEffectIntentPending s effectId) (\<lambda>_.
     let s1 = s\<lparr>p_effectTerminals := oput effectId (Term_interrupted receiptId reason) (p_effectTerminals s)\<rparr>
     in case receiptId of
          None \<Rightarrow> Inr s1
        | Some r \<Rightarrow> bindE (assertEffectReceiptLink s effectId r) (\<lambda>_. Inr s1))"

fun reduce_protocol_fact :: "protocol_fact \<Rightarrow> run_projection \<Rightarrow> reduce_error + run_projection" where
  "reduce_protocol_fact (Command_accepted r c) s = on_command_accepted r c s"
| "reduce_protocol_fact (Effect_requested i) s = on_effect_requested i s"
| "reduce_protocol_fact (Effect_observed r) s = on_effect_observed r s"
| "reduce_protocol_fact (Effect_completed e r) s = on_effect_completed e r s"
| "reduce_protocol_fact (Effect_failed e r x) s = on_effect_failed e r x s"
| "reduce_protocol_fact (Effect_interrupted e r x) s = on_effect_interrupted e r x s"

section \<open>Planning\<close>

definition on_planning_fact :: "run_projection \<Rightarrow> reduce_error + run_projection" where
  [handler_defs]: "on_planning_fact s =
     throwIf (\<not> plannable (p_lifecycle s)) (While Planning_facts (p_lifecycle s)) (Inr s)"

text \<open>\<open>Object.fromEntries\<close> keyed by the node: a later assessment of a node replaces an earlier one.\<close>

definition granularity_of :: "granularity_selection \<Rightarrow> granularity_projection" where
  "granularity_of g = \<lparr>gp_policyVersion = gs_policyVersion g, gp_condition = gs_condition g,
     gp_candidateTreeHash = gs_candidateTreeHash g, gp_candidateSourceHash = gs_candidateSourceHash g,
     gp_config = gs_config g,
     gp_assessments = fold (\<lambda>a. oput (sa_nodeId a) a) (gs_assessments g) [],
     gp_metrics = gs_metrics g\<rparr>"

definition on_granularity_selected ::
  "granularity_selection \<Rightarrow> run_projection \<Rightarrow> reduce_error + run_projection" where
  [handler_defs]: "on_granularity_selected g s =
     throwIf (\<not> plannable (p_lifecycle s)) (While Planning_facts (p_lifecycle s))
     (Inr (s\<lparr>p_granularityStrategy := Some (granularity_of g)\<rparr>))"

definition on_envelope_created :: "planning_envelope \<Rightarrow> run_projection \<Rightarrow> reduce_error + run_projection" where
  [handler_defs]: "on_envelope_created e s =
     throwIf (\<not> plannable (p_lifecycle s)) (While Planning_facts (p_lifecycle s))
     (Inr (s\<lparr>p_planningEnvelope := Some e\<rparr>))"

definition on_candidates_evaluated ::
  "planning_candidates \<Rightarrow> run_projection \<Rightarrow> reduce_error + run_projection" where
  [handler_defs]: "on_candidates_evaluated c s =
     throwIf (\<not> plannable (p_lifecycle s)) (While Planning_facts (p_lifecycle s))
     (Inr (s\<lparr>p_planningCandidates := Some c\<rparr>))"

definition on_planning_failed ::
  "string \<Rightarrow> planning_finding list option \<Rightarrow> run_projection \<Rightarrow> reduce_error + run_projection" where
  [handler_defs]: "on_planning_failed reason findings s =
     transition Failed_run (s\<lparr>p_failureReason := Some reason,
       p_planningFindings := assign_if findings (p_planningFindings s)\<rparr>)"

fun reduce_planning_fact :: "planning_fact \<Rightarrow> run_projection \<Rightarrow> reduce_error + run_projection" where
  "reduce_planning_fact (Planning_granularity_selected g) s = on_granularity_selected g s"
| "reduce_planning_fact (Planning_envelope_created e) s = on_envelope_created e s"
| "reduce_planning_fact (Planning_candidates_evaluated c) s = on_candidates_evaluated c s"
| "reduce_planning_fact (Planning_failed r f) s = on_planning_failed r f s"
| "reduce_planning_fact _ s = on_planning_fact s"

section \<open>Attempts, validation, reviews and artifacts\<close>

definition new_attempt :: "attempt_kind \<Rightarrow> attempt_start \<Rightarrow> attempt_projection" where
  "new_attempt k a = \<lparr>at_attemptId = as_attemptId a, at_nodeId = as_nodeId a,
     at_inputFingerprint = as_inputFingerprint a, at_retryOfAttemptId = as_retryOfAttemptId a,
     at_kind = k, at_status = At_running, at_candidateCommit = None, at_candidate = None,
     at_outputDigest = None, at_repairPasses = 0, at_failureReason = None, at_usage = None\<rparr>"

abbreviation put_attempt :: "attempt_projection \<Rightarrow> string \<Rightarrow> run_projection \<Rightarrow> run_projection" where
  "put_attempt a i s \<equiv> s\<lparr>p_attempts := oput i a (p_attempts s)\<rparr>"

definition on_attempt_started :: "attempt_start \<Rightarrow> run_projection \<Rightarrow> reduce_error + run_projection" where
  [handler_defs]: "on_attempt_started a s =
     throwIf (\<not> executing (p_lifecycle s)) (While Execution_artifacts (p_lifecycle s))
     (throwIf (oget (p_attempts s) (as_attemptId a) \<noteq> None) (Exists Attempt (as_attemptId a))
     (Inr (put_attempt (new_attempt Execution a) (as_attemptId a) s)))"

definition on_repair_attempted ::
  "string \<Rightarrow> string \<Rightarrow> int \<Rightarrow> run_projection \<Rightarrow> reduce_error + run_projection" where
  [handler_defs]: "on_repair_attempted i n pass s =
     bindE (requireAttempt s i n) (\<lambda>a.
     Inr (put_attempt (a\<lparr>at_repairPasses := max (at_repairPasses a) pass\<rparr>) i s))"

text \<open>Active reviews of the node that name another candidate become stale.\<close>

definition stale_review :: "attempt_projection \<Rightarrow> human_review \<Rightarrow> human_review" where
  "stale_review a r =
     (if hr_status r = Active \<and> hr_nodeId r = at_nodeId a \<and>
         \<not> sameCandidate (Some (hr_candidate r)) (at_candidate a)
      then r\<lparr>hr_status := Stale\<rparr> else r)"

definition on_candidate_created :: "attempt_candidate \<Rightarrow> run_projection \<Rightarrow> reduce_error + run_projection" where
  [handler_defs]: "on_candidate_created c s =
     bindE (requireAttempt s (ac_attemptId c) (ac_nodeId c)) (\<lambda>a.
     throwIf (at_status a \<noteq> At_running)
       (Attempt_err (Candidate_while (at_attemptId a) (at_status a)))
     (throwIf (case ac_candidate c of None \<Rightarrow> False | Some x \<Rightarrow> ec_commitOid x \<noteq> ac_candidateCommit c)
       (Attempt_err (Candidate_commit_mismatch (at_attemptId a)))
     (let a1 = a\<lparr>at_status := At_candidate, at_candidateCommit := Some (ac_candidateCommit c),
            at_candidate := assign_if (ac_candidate c) (at_candidate a),
            at_outputDigest := Some (ac_outputDigest c),
            at_usage := assign_if (ac_usage c) (at_usage a)\<rparr>
      in Inr ((put_attempt a1 (ac_attemptId c) s)\<lparr>p_humanReviews := omap (stale_review a1) (p_humanReviews s)\<rparr>))))"

definition on_attempt_failed ::
  "string \<Rightarrow> string \<Rightarrow> string \<Rightarrow> attempt_usage option \<Rightarrow> run_projection \<Rightarrow> reduce_error + run_projection" where
  [handler_defs]: "on_attempt_failed i n reason usage s =
     bindE (requireAttempt s i n) (\<lambda>a.
     Inr (put_attempt (a\<lparr>at_status := At_failed, at_failureReason := Some reason,
       at_usage := assign_if usage (at_usage a)\<rparr>) i s))"

definition on_attempt_discarded ::
  "string \<Rightarrow> string \<Rightarrow> string \<Rightarrow> run_projection \<Rightarrow> reduce_error + run_projection" where
  [handler_defs]: "on_attempt_discarded i n reason s =
     bindE (requireAttempt s i n) (\<lambda>a.
     Inr (put_attempt (a\<lparr>at_status := At_discarded, at_failureReason := Some reason\<rparr>) i s))"

definition on_attempt_stale :: "string \<Rightarrow> run_projection \<Rightarrow> reduce_error + run_projection" where
  [handler_defs]: "on_attempt_stale i s = (case oget (p_attempts s) i of
     None \<Rightarrow> Inr s
   | Some a \<Rightarrow> Inr (put_attempt (a\<lparr>at_status := At_stale\<rparr>) i s))"

definition on_validation_fact ::
  "string \<Rightarrow> string \<Rightarrow> run_projection \<Rightarrow> reduce_error + run_projection" where
  [handler_defs]: "on_validation_fact i n s = bindE (requireAttempt s i n) (\<lambda>_. Inr s)"

definition summary_of :: "evidence_matrix \<Rightarrow> matrix_summary" where
  "summary_of m = \<lparr>ms_candidateCommit = em_candidateCommit m, ms_outcome = em_outcome m,
     ms_validationRecipeDigest = em_validationRecipeDigest m\<rparr>"

text \<open>A matrix of a node: its id is added to the list once, its summary is written over.\<close>

definition record_matrix :: "string \<Rightarrow> evidence_matrix \<Rightarrow> run_projection \<Rightarrow> run_projection" where
  "record_matrix n m s = s\<lparr>
     p_nodeEvidenceMatrixIds := oput n (em_matrixId m) (p_nodeEvidenceMatrixIds s),
     p_evidenceMatrices := (if em_matrixId m \<in> set (p_evidenceMatrices s) then p_evidenceMatrices s
       else p_evidenceMatrices s @ [em_matrixId m]),
     p_evidenceMatrixSummaries := oput (em_matrixId m) (summary_of m) (p_evidenceMatrixSummaries s)\<rparr>"

definition on_validation_completed ::
  "string \<Rightarrow> string \<Rightarrow> evidence_matrix \<Rightarrow> run_projection \<Rightarrow> reduce_error + run_projection" where
  [handler_defs]: "on_validation_completed i n m s =
     bindE (requireAttempt s i n) (\<lambda>a.
     throwIf (at_status a \<noteq> At_candidate) (Attempt_err (Validation_while (at_attemptId a) (at_status a)))
     (Inr (record_matrix n m (put_attempt (a\<lparr>at_status := At_validated\<rparr>) i s))))"

definition on_human_review_recorded ::
  "human_review_input \<Rightarrow> run_projection \<Rightarrow> reduce_error + run_projection" where
  [handler_defs]: "on_human_review_recorded r s =
     throwIf (\<not> executing (p_lifecycle s)) (While Record_review (p_lifecycle s))
     (throwIf (oget (p_humanReviews s) (hr_reviewId r) \<noteq> None) (Exists Human_review (hr_reviewId r))
     (bindE (requireAttempt s (hr_attemptId r) (hr_nodeId r)) (\<lambda>a.
      throwIf (at_status a \<noteq> At_candidate \<and> at_status a \<noteq> At_validated)
        (Attempt_err (Review_attempt_while (at_attemptId a) (at_status a)))
      (throwIf (\<not> sameCandidate (at_candidate a) (Some (hr_candidate r)))
        (Attempt_err (Review_unbound (hr_reviewId r) (at_attemptId a)))
      (throwIf (case latestCandidateAttempt s (hr_nodeId r) of
           None \<Rightarrow> True
         | Some l \<Rightarrow> at_attemptId l \<noteq> at_attemptId a \<or> \<not> sameCandidate (at_candidate l) (Some (hr_candidate r)))
        (Attempt_err (Review_stale (hr_reviewId r) (hr_nodeId r)))
      (Inr (s\<lparr>p_humanReviews := oput (hr_reviewId r)
         (human_review_input.extend r (human_review.fields Active)) (p_humanReviews s)\<rparr>)))))))"

definition on_artifact_adopted :: "adopted_artifact \<Rightarrow> run_projection \<Rightarrow> reduce_error + run_projection" where
  [handler_defs]: "on_artifact_adopted x s =
     throwIf (\<not> executing (p_lifecycle s)) (While Execution_artifacts (p_lifecycle s))
     (throwIf (oget (p_adoptedArtifacts s) (aa_artifactId x) \<noteq> None) (Exists Artifact (aa_artifactId x))
     (let s1 = s\<lparr>p_adoptedArtifacts := oput (aa_artifactId x) x (p_adoptedArtifacts s)\<rparr> in
      case oget (p_attempts s) (aa_producerAttemptId x) of
        None \<Rightarrow> Inr s1
      | Some a \<Rightarrow> Inr (put_attempt (a\<lparr>at_status := At_adopted\<rparr>) (aa_producerAttemptId x) s1)))"

definition attempt_open :: "attempt_projection \<Rightarrow> bool" where
  "attempt_open a = (at_status a \<in> {At_running, At_candidate, At_validated})"

definition on_release_authorized ::
  "release_authorization \<Rightarrow> run_projection \<Rightarrow> reduce_error + run_projection" where
  [handler_defs]: "on_release_authorized u s =
     throwIf (p_archivedAt s = None) (Attempt_err Release_not_archived)
     (throwIf (list_ex attempt_open (ovalues (p_attempts s))) (Attempt_err Release_attempt_open)
     (throwIf (list_ex (\<lambda>r. hr_status r = Active) (ovalues (p_humanReviews s)))
       (Attempt_err Release_review_active)
     (throwIf (list_ex (\<lambda>d. dc_status d = Pending) (ovalues (p_decisions s)))
       (Attempt_err Release_decision_pending)
     (requireE (oget (p_adoptedArtifacts s) (ra_artifactId u))
        (Attempt_err (Release_no_manifest (ra_artifactId u))) (\<lambda>x.
      throwIf (aa_kind x \<noteq> Ak_manifest) (Attempt_err (Release_no_manifest (ra_artifactId u)))
      (requireE (aa_manifest x) (Attempt_err (Release_no_manifest (ra_artifactId u))) (\<lambda>m.
       throwIf (mi_retainedByRef (am_identity m) \<noteq> ra_retainedByRef u \<or>
           eb_commitOid (mi_sourceCandidate (am_identity m)) \<noteq> ra_candidateCommit u)
         (Attempt_err (Release_mismatch (ra_artifactId u)))
       (throwIf (oget (p_releaseAuthorizations s) (ra_artifactId u) \<noteq> None)
         (Exists Release_authorization (ra_artifactId u))
       (Inr (s\<lparr>p_releaseAuthorizations := oput (ra_artifactId u) u (p_releaseAuthorizations s)\<rparr>))))))))))"

definition on_failure_classified ::
  "string \<Rightarrow> failure_classification \<Rightarrow> run_projection \<Rightarrow> reduce_error + run_projection" where
  [handler_defs]: "on_failure_classified eventId f s =
     throwIf (\<not> executing (p_lifecycle s)) (While Classify_failure (p_lifecycle s))
     (Inr (s\<lparr>p_recoveryHistory := p_recoveryHistory s @
        [Recovery_failure eventId (fl_attemptId f) (fl_nodeId f) (fl_failureClass f)]\<rparr>))"

definition on_matrix_recorded :: "evidence_matrix \<Rightarrow> run_projection \<Rightarrow> reduce_error + run_projection" where
  [handler_defs]: "on_matrix_recorded m s =
     throwIf (\<not> executing (p_lifecycle s)) (While Record_evidence (p_lifecycle s))
     (throwIf (em_matrixId m \<in> set (p_evidenceMatrices s)) (Exists Matrix (em_matrixId m))
     (Inr (s\<lparr>p_evidenceMatrices := p_evidenceMatrices s @ [em_matrixId m],
        p_evidenceMatrixSummaries := oput (em_matrixId m) (summary_of m) (p_evidenceMatrixSummaries s)\<rparr>)))"

fun reduce_attempt_fact ::
  "string \<Rightarrow> attempt_fact \<Rightarrow> run_projection \<Rightarrow> reduce_error + run_projection" where
  "reduce_attempt_fact eid (Attempt_started a) s = on_attempt_started a s"
| "reduce_attempt_fact eid (Attempt_repair_attempted i n k _) s = on_repair_attempted i n k s"
| "reduce_attempt_fact eid (Attempt_candidate_created c) s = on_candidate_created c s"
| "reduce_attempt_fact eid (Attempt_failed i n r u) s = on_attempt_failed i n r u s"
| "reduce_attempt_fact eid (Attempt_discarded i n r) s = on_attempt_discarded i n r s"
| "reduce_attempt_fact eid (Attempt_stale i _ _ _ _) s = on_attempt_stale i s"
| "reduce_attempt_fact eid (Failure_classified f) s = on_failure_classified eid f s"
| "reduce_attempt_fact eid (Validation_started i n _ _) s = on_validation_fact i n s"
| "reduce_attempt_fact eid (Validation_evidence_recorded i n _ _ _ _) s = on_validation_fact i n s"
| "reduce_attempt_fact eid (Validation_completed i n m) s = on_validation_completed i n m s"
| "reduce_attempt_fact eid (Evidence_matrix_recorded m) s = on_matrix_recorded m s"
| "reduce_attempt_fact eid (Human_review_recorded r) s = on_human_review_recorded r s"
| "reduce_attempt_fact eid (Artifact_adopted x) s = on_artifact_adopted x s"
| "reduce_attempt_fact eid (Artifact_release_authorized u) s = on_release_authorized u s"

section \<open>Integrations\<close>

abbreviation put_integration :: "integration_projection \<Rightarrow> string \<Rightarrow> run_projection \<Rightarrow> run_projection" where
  "put_integration x n s \<equiv> s\<lparr>p_integrations := oput n x (p_integrations s)\<rparr>"

definition on_integration_started ::
  "attempt_start \<Rightarrow> string list \<Rightarrow> run_projection \<Rightarrow> reduce_error + run_projection" where
  [handler_defs]: "on_integration_started a req s =
     throwIf (\<not> executing (p_lifecycle s)) (While Integrate (p_lifecycle s))
     (throwIf (oget (p_attempts s) (as_attemptId a) \<noteq> None) (Exists Attempt (as_attemptId a))
     (Inr (put_integration
        \<lparr>in_attemptId = as_attemptId a, in_nodeId = as_nodeId a, in_requiredArtifactIds = req,
         in_status = Int_running, in_manifestId = None, in_candidateCommit = None,
         in_evidenceMatrixId = None, in_repairPasses = 0, in_failureReason = None\<rparr> (as_nodeId a)
        (put_attempt (new_attempt Integration_kind a) (as_attemptId a) s))))"

definition on_integration_repair_attempted ::
  "string \<Rightarrow> string \<Rightarrow> int \<Rightarrow> run_projection \<Rightarrow> reduce_error + run_projection" where
  [handler_defs]: "on_integration_repair_attempted i n pass s =
     bindE (requireIntegration s i n) (\<lambda>x.
     Inr (put_integration (x\<lparr>in_repairPasses := max (in_repairPasses x) pass\<rparr>) n s))"

definition on_integration_completed :: "string \<Rightarrow> string \<Rightarrow> string \<Rightarrow> string \<Rightarrow> exact_candidate option \<Rightarrow>
    evidence_matrix \<Rightarrow> run_projection \<Rightarrow> reduce_error + run_projection" where
  [handler_defs]: "on_integration_completed i n manifestId commit cand m s =
     bindE (requireIntegration s i n) (\<lambda>x.
     bindE (requireAttempt s i n) (\<lambda>a.
     throwIf (case cand of None \<Rightarrow> False | Some c \<Rightarrow> ec_commitOid c \<noteq> commit)
       (Attempt_err (Integration_commit_mismatch (at_attemptId a)))
     (let x1 = x\<lparr>in_status := Int_completed, in_manifestId := Some manifestId,
            in_candidateCommit := Some commit, in_evidenceMatrixId := Some (em_matrixId m)\<rparr>;
          a1 = a\<lparr>at_status := At_validated, at_candidateCommit := Some commit,
            at_candidate := assign_if cand (at_candidate a)\<rparr>
      in Inr (record_matrix n m
           ((put_attempt a1 i (put_integration x1 n s))\<lparr>p_humanReviews :=
              omap (stale_review a1) (p_humanReviews s)\<rparr>)))))"

definition on_integration_failed :: "string \<Rightarrow> string \<Rightarrow> string option \<Rightarrow> string option \<Rightarrow>
    evidence_matrix option \<Rightarrow> string \<Rightarrow> bool \<Rightarrow> run_projection \<Rightarrow> reduce_error + run_projection" where
  [handler_defs]: "on_integration_failed i n manifestId commit m reason decisionRequired s =
     bindE (requireIntegration s i n) (\<lambda>x.
     bindE (requireAttempt s i n) (\<lambda>a.
     let x1 = x\<lparr>in_status := (if decisionRequired then Int_decision_required else Int_failed),
           in_manifestId := assign_if manifestId (in_manifestId x),
           in_candidateCommit := assign_if commit (in_candidateCommit x),
           in_evidenceMatrixId := assign_if (map_option em_matrixId m) (in_evidenceMatrixId x),
           in_failureReason := Some reason\<rparr>;
         a1 = a\<lparr>at_candidateCommit := assign_if commit (at_candidateCommit a),
           at_status := At_failed, at_failureReason := Some reason\<rparr>;
         s1 = put_attempt a1 i (put_integration x1 n s)
     in Inr (case m of None \<Rightarrow> s1 | Some v \<Rightarrow> record_matrix n v s1)))"

fun reduce_integration_fact :: "integration_fact \<Rightarrow> run_projection \<Rightarrow> reduce_error + run_projection" where
  "reduce_integration_fact (Integration_started a r) s = on_integration_started a r s"
| "reduce_integration_fact (Integration_repair_attempted i n k _) s = on_integration_repair_attempted i n k s"
| "reduce_integration_fact (Integration_completed i n m c x em) s = on_integration_completed i n m c x em s"
| "reduce_integration_fact (Integration_failed i n m c em r d) s = on_integration_failed i n m c em r d s"

section \<open>The graph, decisions and the schedule\<close>

definition on_amendment_proposed :: "string \<Rightarrow> run_projection \<Rightarrow> reduce_error + run_projection" where
  [handler_defs]: "on_amendment_proposed eventId s =
     throwIf (\<not> executing (p_lifecycle s)) (While Propose_amendment (p_lifecycle s))
     (Inr (s\<lparr>p_recoveryHistory := p_recoveryHistory s @ [Recovery_amendment eventId]\<rparr>))"

definition on_revision_proposed :: "string \<Rightarrow> int \<Rightarrow> run_projection \<Rightarrow> reduce_error + run_projection" where
  [handler_defs]: "on_revision_proposed g revn s =
     throwIf (\<not> plannable (p_lifecycle s)) (While Propose_graph (p_lifecycle s))
     (transition Needs_approval (s\<lparr>p_graphId := Some g, p_graphRevision := Some revn\<rparr>))"

definition on_revision_approved :: "string \<Rightarrow> int \<Rightarrow> run_projection \<Rightarrow> reduce_error + run_projection" where
  [handler_defs]: "on_revision_approved g revn s =
     throwIf (p_graphId s \<noteq> Some g \<or> p_graphRevision s \<noteq> Some revn) (Graph_err (Approval_not_current g revn))
     (transition Running (s\<lparr>p_approvedGraphRevision := Some revn\<rparr>))"

definition pending_decision :: "decision_input \<Rightarrow> decision" where
  "pending_decision d = decision_input.extend d (decision.fields Pending None None)"

definition on_decision_raised :: "decision_input \<Rightarrow> run_projection \<Rightarrow> reduce_error + run_projection" where
  [handler_defs]: "on_decision_raised d s =
     throwIf (oget (p_decisions s) (dc_id d) \<noteq> None) (Exists Decision (dc_id d))
     (requireE (parse_decision_input d) (Journal_err Schema_rejected) (\<lambda>d1.
      Inr (s\<lparr>p_decisions := oput (dc_id d) (pending_decision d1) (p_decisions s)\<rparr>)))"

definition on_decision_resolved :: "string \<Rightarrow> string option \<Rightarrow> string option \<Rightarrow> autonomy_level option \<Rightarrow>
    run_projection \<Rightarrow> reduce_error + run_projection" where
  [handler_defs]: "on_decision_resolved i optionId answer authorizedBy s =
     requireE (oget (p_decisions s) i) (Graph_err (Decision_not_pending i)) (\<lambda>d.
     throwIf (dc_status d \<noteq> Pending) (Graph_err (Decision_not_pending i))
     (throwIf (case optionId of None \<Rightarrow> False | Some v \<Rightarrow> \<not> list_ex (\<lambda>x. do_id x = v) (dc_options d))
       (Graph_err (No_such_option (dc_id d) (case optionId of None \<Rightarrow> [] | Some v \<Rightarrow> v)))
     (let d1 = d\<lparr>dc_status := Resolved,
            dc_resolution := Some \<lparr>rs_optionId = optionId, rs_answer = answer\<rparr>,
            dc_authorizedBy := assign_if authorizedBy (dc_authorizedBy d)\<rparr>;
          r1 = (p_readiness s)\<lparr>ro_pendingDecisionIds :=
            filter (\<lambda>x. x \<noteq> dc_id d) (ro_pendingDecisionIds (p_readiness s))\<rparr>
      in Inr (s\<lparr>p_decisions := oput i d1 (p_decisions s), p_readiness := r1,
           p_stoppedNodeIds := (if optionId = Some ''stop''
             then uniq_sort (p_stoppedNodeIds s @ dc_affectedNodeIds d) else p_stoppedNodeIds s)\<rparr>))))"

definition on_decision_expired :: "string \<Rightarrow> run_projection \<Rightarrow> reduce_error + run_projection" where
  [handler_defs]: "on_decision_expired i s =
     requireE (oget (p_decisions s) i) (Graph_err (Decision_missing i)) (\<lambda>d.
     throwIf (dc_status d \<noteq> Pending) (Graph_err (Decision_not_pending i))
     (Inr (s\<lparr>p_decisions := oput i (d\<lparr>dc_status := Expired\<rparr>) (p_decisions s)\<rparr>)))"

definition decision_pending :: "run_projection \<Rightarrow> string \<Rightarrow> bool" where
  "decision_pending s i = (case oget (p_decisions s) i of None \<Rightarrow> False | Some d \<Rightarrow> dc_status d = Pending)"

definition on_readiness_observed ::
  "readiness_observation \<Rightarrow> run_projection \<Rightarrow> reduce_error + run_projection" where
  [handler_defs]: "on_readiness_observed r s =
     (case filter (\<lambda>i. \<not> decision_pending s i) (ro_pendingDecisionIds r) of
        i # _ \<Rightarrow> Inl (Graph_err (Readiness_not_pending i))
      | [] \<Rightarrow>
        (let r1 = r\<lparr>ro_readyNodeIds := uniq_sort (ro_readyNodeIds r),
               ro_pendingDecisionIds := uniq_sort (ro_pendingDecisionIds r)\<rparr>;
             s1 = s\<lparr>p_readiness := r1\<rparr>
         in if executing (p_lifecycle s) then transition (observed_lifecycle r1) s1 else Inr s1))"

definition on_wave_selected :: "wave_selection \<Rightarrow> run_projection \<Rightarrow> reduce_error + run_projection" where
  [handler_defs]: "on_wave_selected w s =
     throwIf (p_lifecycle s \<noteq> Running) (While Select_wave (p_lifecycle s))
     (throwIf (ws_maxParallel w < int (length (ws_nodeIds w))) (Graph_err (Wave_too_wide (ws_waveId w)))
     (throwIf (list_ex (\<lambda>n. n \<notin> set (ro_readyNodeIds (p_readiness s))) (ws_nodeIds w))
       (Graph_err (Wave_not_ready (ws_waveId w)))
     (throwIf (list_ex (\<lambda>v. ws_waveId v = ws_waveId w) (p_selectedWaves s)) (Exists Wave (ws_waveId w))
     (Inr (s\<lparr>p_selectedWaves := p_selectedWaves s @ [w]\<rparr>)))))"

fun reduce_graph_fact ::
  "string \<Rightarrow> graph_fact \<Rightarrow> run_projection \<Rightarrow> reduce_error + run_projection" where
  "reduce_graph_fact eid (Graph_amendment_proposed _) s = on_amendment_proposed eid s"
| "reduce_graph_fact eid (Graph_revision_proposed g r) s = on_revision_proposed g r s"
| "reduce_graph_fact eid (Graph_revision_approved g r) s = on_revision_approved g r s"
| "reduce_graph_fact eid (Decision_raised d) s = on_decision_raised d s"
| "reduce_graph_fact eid (Decision_resolved d v an au) s = on_decision_resolved d v an au s"
| "reduce_graph_fact eid (Decision_expired d _ _) s = on_decision_expired d s"
| "reduce_graph_fact eid (Readiness_observed r) s = on_readiness_observed r s"
| "reduce_graph_fact eid (Wave_selected w) s = on_wave_selected w s"

section \<open>The result and its delivery\<close>

definition final_manifest_matches ::
  "candidate_verification \<Rightarrow> matrix_summary \<Rightarrow> run_projection \<Rightarrow> final_manifest \<Rightarrow> bool" where
  "final_manifest_matches v ms s fm =
     (fm_commitSha fm = vf_commit v \<and> fm_evidenceMatrixId fm = vf_evidenceMatrixId v \<and>
      fm_deliveryTarget fm = vf_targetBranch v \<and> p_graphRevision s = Some (fm_graphRevision fm) \<and>
      ms_validationRecipeDigest ms = Some (fm_validationRecipeDigest fm))"

definition on_final_candidate_verified ::
  "candidate_verification \<Rightarrow> run_projection \<Rightarrow> reduce_error + run_projection" where
  [handler_defs]: "on_final_candidate_verified v s =
     throwIf (\<not> vf_executionSucceeded v) (Delivery_err Execution_not_succeeded)
     (throwIf (\<not> vf_evidenceEligible v) (Delivery_err Evidence_not_eligible)
     (requireE (oget (p_evidenceMatrixSummaries s) (vf_evidenceMatrixId v))
        (Delivery_err No_verified_matrix) (\<lambda>ms.
      throwIf (ms_outcome ms \<noteq> Verified \<or> ms_candidateCommit ms \<noteq> vf_commit v)
        (Delivery_err No_verified_matrix)
      (throwIf (case vf_finalManifest v of None \<Rightarrow> False | Some fm \<Rightarrow> \<not> final_manifest_matches v ms s fm)
        (Delivery_err Manifest_mismatch)
      (throwIf (list_ex (\<lambda>d. dc_status d = Pending) (ovalues (p_decisions s)))
        (Delivery_err Decisions_pending)
      (transition Result_ready (s\<lparr>
         p_finalCandidate := Some \<lparr>fc_manifestId = vf_manifestId v, fc_commit = vf_commit v,
           fc_evidenceMatrixId = vf_evidenceMatrixId v,
           fc_sourceTargetFingerprint = vf_sourceTargetFingerprint v,
           fc_targetBranch = vf_targetBranch v, fc_targetHead = vf_targetHead v,
           fc_finalManifest = vf_finalManifest v\<rparr>,
         p_outcomes := \<lparr>oc_execution = Ex_succeeded, oc_artifact = Ar_verified,
           oc_delivery = De_ready\<rparr>\<rparr>)))))))"

definition on_delivery_started :: "delivery_approval \<Rightarrow> run_projection \<Rightarrow> reduce_error + run_projection" where
  [handler_defs]: "on_delivery_started a s =
     requireE (p_finalCandidate s) (Delivery_err (Not_final_candidate (da_manifestId a))) (\<lambda>fc.
     throwIf (fc_manifestId fc \<noteq> da_manifestId a \<or> fc_commit fc \<noteq> da_finalSha a)
       (Delivery_err (Not_final_candidate (da_manifestId a)))
     (throwIf (fc_sourceTargetFingerprint fc \<noteq> da_targetFingerprint a \<or>
         fc_targetBranch fc \<noteq> da_targetBranch a \<or> fc_targetHead fc \<noteq> da_targetHead a)
       (Delivery_err Target_snapshot_mismatch)
     (transition Delivering (s\<lparr>p_deliveryApproval := Some a, p_failureReason := None\<rparr>))))"

text \<open>An absent field of a receipt is not compared; a present one has to equal the expected value.\<close>

definition agrees :: "'a option \<Rightarrow> 'a option \<Rightarrow> bool" where
  "agrees present expected = (present = None \<or> present = expected)"

definition on_delivery_published :: "delivery_receipt \<Rightarrow> run_projection \<Rightarrow> reduce_error + run_projection" where
  [handler_defs]: "on_delivery_published r s =
     throwIf (\<not> dr_confirmed r) (Delivery_err Receipt_unconfirmed)
     (requireE (p_finalCandidate s) (Delivery_err Receipt_not_eligible) (\<lambda>fc.
     throwIf (fc_manifestId fc \<noteq> dr_manifestId r) (Delivery_err Receipt_not_eligible)
     (throwIf (\<not> agrees (dr_disposition r) (Some Delivered)) (Delivery_err Receipt_not_delivered)
     (throwIf (\<not> agrees (dr_finalSha r) (map_option da_finalSha (p_deliveryApproval s)))
       (Delivery_err Receipt_sha_mismatch)
     (throwIf (\<not> agrees (dr_targetBranch r) (map_option da_targetBranch (p_deliveryApproval s)))
       (Delivery_err Receipt_branch_mismatch)
     (throwIf (\<not> agrees (dr_targetHeadBefore r) (map_option da_targetHead (p_deliveryApproval s)))
       (Delivery_err Receipt_head_mismatch)
     (throwIf (\<not> agrees (dr_deliveredTreeSha r) (map_option fm_treeSha (fc_finalManifest fc)))
       (Delivery_err Receipt_tree_mismatch)
     (transition Completed (s\<lparr>p_deliveryReceipt := Some r,
        p_outcomes := (p_outcomes s)\<lparr>oc_delivery := De_published\<rparr>, p_failureReason := None\<rparr>)))))))))"

definition on_delivery_failed ::
  "string \<Rightarrow> string \<Rightarrow> recovery_diagnostic option \<Rightarrow> run_projection \<Rightarrow> reduce_error + run_projection" where
  [handler_defs]: "on_delivery_failed manifestId reason diagnostic s =
     throwIf (map_option da_manifestId (p_deliveryApproval s) \<noteq> Some manifestId)
       (Delivery_err (Failure_not_active manifestId))
     (transition Result_ready (s\<lparr>p_outcomes := (p_outcomes s)\<lparr>oc_delivery := De_failed\<rparr>,
        p_failureReason := Some reason, p_recoveryDiagnostic := diagnostic\<rparr>))"

fun reduce_delivery_fact :: "delivery_fact \<Rightarrow> run_projection \<Rightarrow> reduce_error + run_projection" where
  "reduce_delivery_fact (Final_candidate_verified v) s = on_final_candidate_verified v s"
| "reduce_delivery_fact (Delivery_started a) s = on_delivery_started a s"
| "reduce_delivery_fact (Delivery_published r) s = on_delivery_published r s"
| "reduce_delivery_fact (Delivery_failed_fact m r _ d) s = on_delivery_failed m r d s"

section \<open>A step and a journal\<close>

fun reduce_payload :: "string \<Rightarrow> event_payload \<Rightarrow> run_projection \<Rightarrow> reduce_error + run_projection" where
  "reduce_payload eid (Run_ev f) s = reduce_run_fact f s"
| "reduce_payload eid (Protocol_ev f) s = reduce_protocol_fact f s"
| "reduce_payload eid (Planning_ev f) s = reduce_planning_fact f s"
| "reduce_payload eid (Attempt_ev f) s = reduce_attempt_fact eid f s"
| "reduce_payload eid (Integration_ev f) s = reduce_integration_fact f s"
| "reduce_payload eid (Graph_ev f) s = reduce_graph_fact eid f s"
| "reduce_payload eid (Delivery_ev f) s = reduce_delivery_fact f s"

definition reduceRun :: "run_projection \<Rightarrow> run_event \<Rightarrow> reduce_error + run_projection" where
  "reduceRun s e =
     bindE (reduce_payload (ev_eventId e) (ev_payload e) (s\<lparr>p_updatedAt := ev_occurredAt e\<rparr>)) (\<lambda>s1.
     Inr (s1\<lparr>p_sequence := ev_sequence e, p_appliedEventIds := p_appliedEventIds s1 @ [ev_eventId e]\<rparr>))"

text \<open>The loop of \<open>foldRun\<close> carries the state, absent before the first event, and the ids seen.\<close>

definition first_state :: "run_event \<Rightarrow> reduce_error + run_projection" where
  "first_state e = (case ev_payload e of
     Run_ev (Run_created goal def) \<Rightarrow> throwIf (ev_sequence e \<noteq> 1) (Journal_err First_event_invalid)
       (Inr (created_projection (ev_runId e) (ev_eventId e) (ev_occurredAt e) goal def))
   | _ \<Rightarrow> Inl (Journal_err First_event_invalid))"

definition next_state :: "run_projection \<Rightarrow> run_event \<Rightarrow> reduce_error + run_projection" where
  "next_state s e =
     throwIf (ev_runId e \<noteq> p_runId s) (Journal_err (Foreign_event (ev_eventId e)))
     (throwIf (ev_sequence e \<noteq> p_sequence s + 1)
       (Journal_err (Sequence_gap (p_sequence s + 1) (ev_sequence e)))
     (reduceRun s e))"

type_synonym fold_state = "run_projection option \<times> string list"

definition fold_step :: "host \<Rightarrow> fold_state \<Rightarrow> run_event \<Rightarrow> reduce_error + fold_state" where
  "fold_step h st raw = requireE (parse_run_event h raw) (Journal_err Schema_rejected) (\<lambda>e.
     throwIf (ev_eventId e \<in> set (snd st)) (Journal_err (Duplicate_event (ev_eventId e)))
     (bindE (case fst st of None \<Rightarrow> first_state e | Some s \<Rightarrow> next_state s e) (\<lambda>s1.
        Inr (Some s1, snd st @ [ev_eventId e]))))"

definition foldRun :: "host \<Rightarrow> run_event list \<Rightarrow> reduce_error + run_projection" where
  "foldRun h es = bindE (foldE (fold_step h) (None, []) es) (\<lambda>st.
     requireE (fst st) (Journal_err Empty_journal) Inr)"

end
