(* ===== verification/Journal_Laws.thy ===== *)
theory Journal_Laws
  imports Reducer
begin

text \<open>
  What folding a journal means: the states a journal can lead to as an inductive step relation, the
  agreement of that relation with \<open>foldRun\<close>, incremental replay, replay of the parsed journal, and the
  bookkeeping of sequence numbers and event ids. It starts with the frames of the event families: which
  regions of the projection each family leaves alone.
\<close>

section \<open>Regions and frames\<close>

named_theorems region_defs "the regions of the projection"

definition id_region where
  [region_defs]: "id_region s = (p_runId s, p_goal s, p_definition s, p_createdAt s)"

definition position_region where
  [region_defs]: "position_region s = (p_sequence s, p_appliedEventIds s, p_updatedAt s)"

definition protocol_region where
  [region_defs]: "protocol_region s = (p_commandReceipts s, p_commandEnvelopes s, p_effectIntents s,
     p_physicalEffectReceipts s, p_effectTerminals s)"

definition attempt_region where
  [region_defs]: "attempt_region s = (p_attempts s, p_integrations s, p_humanReviews s)"

definition artifact_region where
  [region_defs]: "artifact_region s = (p_adoptedArtifacts s, p_releaseAuthorizations s)"

definition evidence_region where
  [region_defs]: "evidence_region s =
     (p_nodeEvidenceMatrixIds s, p_evidenceMatrices s, p_evidenceMatrixSummaries s)"

definition decision_region where
  [region_defs]: "decision_region s =
     (p_decisions s, p_readiness s, p_stoppedNodeIds s, p_selectedWaves s)"

definition graph_region where
  [region_defs]: "graph_region s = (p_graphId s, p_graphRevision s, p_approvedGraphRevision s)"

definition delivery_region where
  [region_defs]: "delivery_region s = (p_finalCandidate s, p_deliveryReceipt s, p_deliveryApproval s)"

text \<open>What a handler leaves alone does not depend on its guards: these rules drop them.\<close>

lemma throwIf_D: "throwIf c e k = Inr y \<Longrightarrow> k = Inr y"
  by simp

lemma bindE_E: "bindE m f = Inr y \<Longrightarrow> (\<And>x. m = Inr x \<Longrightarrow> f x = Inr y \<Longrightarrow> P) \<Longrightarrow> P"
  by auto

lemma requireE_E: "requireE m e f = Inr y \<Longrightarrow> (\<And>x. f x = Inr y \<Longrightarrow> P) \<Longrightarrow> P"
  by auto

lemma run_fact_frame:
  assumes "reduce_run_fact f s = Inr s'"
  shows "id_region s' = id_region s \<and> position_region s' = position_region s \<and>
    protocol_region s' = protocol_region s \<and>
    artifact_region s' = artifact_region s \<and>
    evidence_region s' = evidence_region s \<and>
    decision_region s' = decision_region s \<and> graph_region s' = graph_region s \<and>
    delivery_region s' = delivery_region s \<and> p_humanReviews s' = p_humanReviews s \<and>
    p_integrations s' = p_integrations s \<and>
    p_recoveryHistory s' = p_recoveryHistory s \<and>
    (p_attempts s' = p_attempts s \<or> p_attempts s' = omap interrupt_attempt (p_attempts s))"
  using assms unfolding region_defs
  by (cases f; simp only: reduce_run_fact.simps handler_defs)
    (auto dest!: throwIf_D elim!: bindE_E requireE_E simp: Let_def record_matrix_def
      simp del: throwIf_Inr bindE_Inr requireE_Inr split: option.splits list.splits if_splits)

lemma protocol_fact_frame:
  assumes "reduce_protocol_fact f s = Inr s'"
  shows "id_region s' = id_region s \<and> position_region s' = position_region s \<and>
    attempt_region s' = attempt_region s \<and> artifact_region s' = artifact_region s \<and>
    evidence_region s' = evidence_region s \<and>
    decision_region s' = decision_region s \<and> graph_region s' = graph_region s \<and>
    delivery_region s' = delivery_region s \<and> p_lifecycle s' = p_lifecycle s \<and>
    p_archivedAt s' = p_archivedAt s \<and> p_outcomes s' = p_outcomes s \<and>
    p_recoveryHistory s' = p_recoveryHistory s"
  using assms unfolding region_defs
  by (cases f; simp only: reduce_protocol_fact.simps handler_defs)
    (auto dest!: throwIf_D elim!: bindE_E requireE_E simp: Let_def record_matrix_def
      simp del: throwIf_Inr bindE_Inr requireE_Inr split: option.splits list.splits if_splits)

lemma planning_fact_frame:
  assumes "reduce_planning_fact f s = Inr s'"
  shows "id_region s' = id_region s \<and> position_region s' = position_region s \<and>
    protocol_region s' = protocol_region s \<and> attempt_region s' = attempt_region s \<and>
    artifact_region s' = artifact_region s \<and>
    evidence_region s' = evidence_region s \<and>
    decision_region s' = decision_region s \<and> graph_region s' = graph_region s \<and>
    delivery_region s' = delivery_region s \<and> p_archivedAt s' = p_archivedAt s \<and>
    p_outcomes s' = p_outcomes s \<and> p_recoveryHistory s' = p_recoveryHistory s"
  using assms unfolding region_defs
  by (cases f; simp only: reduce_planning_fact.simps handler_defs)
    (auto dest!: throwIf_D elim!: bindE_E requireE_E simp: Let_def record_matrix_def
      simp del: throwIf_Inr bindE_Inr requireE_Inr split: option.splits list.splits if_splits)

lemma attempt_fact_frame:
  assumes "reduce_attempt_fact eid f s = Inr s'"
  shows "id_region s' = id_region s \<and> position_region s' = position_region s \<and>
    protocol_region s' = protocol_region s \<and>
    decision_region s' = decision_region s \<and> graph_region s' = graph_region s \<and>
    delivery_region s' = delivery_region s \<and> p_lifecycle s' = p_lifecycle s \<and>
    p_archivedAt s' = p_archivedAt s \<and> p_outcomes s' = p_outcomes s \<and>
    p_integrations s' = p_integrations s"
  using assms unfolding region_defs
  by (cases f; simp only: reduce_attempt_fact.simps handler_defs)
    (auto dest!: throwIf_D elim!: bindE_E requireE_E simp: Let_def record_matrix_def
      simp del: throwIf_Inr bindE_Inr requireE_Inr split: option.splits list.splits if_splits)

lemma integration_fact_frame:
  assumes "reduce_integration_fact f s = Inr s'"
  shows "id_region s' = id_region s \<and> position_region s' = position_region s \<and>
    protocol_region s' = protocol_region s \<and>
    artifact_region s' = artifact_region s \<and>
    decision_region s' = decision_region s \<and> graph_region s' = graph_region s \<and>
    delivery_region s' = delivery_region s \<and> p_lifecycle s' = p_lifecycle s \<and>
    p_archivedAt s' = p_archivedAt s \<and> p_outcomes s' = p_outcomes s \<and>
    p_recoveryHistory s' = p_recoveryHistory s"
  using assms unfolding region_defs
  by (cases f; simp only: reduce_integration_fact.simps handler_defs)
    (auto dest!: throwIf_D elim!: bindE_E requireE_E simp: Let_def record_matrix_def
      simp del: throwIf_Inr bindE_Inr requireE_Inr split: option.splits list.splits if_splits)

lemma graph_fact_frame:
  assumes "reduce_graph_fact eid f s = Inr s'"
  shows "id_region s' = id_region s \<and> position_region s' = position_region s \<and>
    protocol_region s' = protocol_region s \<and> attempt_region s' = attempt_region s \<and>
    artifact_region s' = artifact_region s \<and>
    evidence_region s' = evidence_region s \<and>
    delivery_region s' = delivery_region s \<and> p_archivedAt s' = p_archivedAt s \<and>
    p_outcomes s' = p_outcomes s"
  using assms unfolding region_defs
  by (cases f; simp only: reduce_graph_fact.simps handler_defs)
    (auto dest!: throwIf_D elim!: bindE_E requireE_E simp: Let_def record_matrix_def
      simp del: throwIf_Inr bindE_Inr requireE_Inr split: option.splits list.splits if_splits)

lemma delivery_fact_frame:
  assumes "reduce_delivery_fact f s = Inr s'"
  shows "id_region s' = id_region s \<and> position_region s' = position_region s \<and>
    protocol_region s' = protocol_region s \<and> attempt_region s' = attempt_region s \<and>
    artifact_region s' = artifact_region s \<and>
    evidence_region s' = evidence_region s \<and>
    decision_region s' = decision_region s \<and> graph_region s' = graph_region s \<and>
    p_archivedAt s' = p_archivedAt s \<and> p_recoveryHistory s' = p_recoveryHistory s"
  using assms unfolding region_defs
  by (cases f; simp only: reduce_delivery_fact.simps handler_defs)
    (auto dest!: throwIf_D elim!: bindE_E requireE_E simp: Let_def record_matrix_def
      simp del: throwIf_Inr bindE_Inr requireE_Inr split: option.splits list.splits if_splits)

text \<open>Every family keeps the identity of the run and its position.\<close>

lemma payload_frame:
  assumes "reduce_payload eid p s = Inr s'"
  shows "id_region s' = id_region s" "position_region s' = position_region s"
  using assms
  by (cases p; auto simp: run_fact_frame protocol_fact_frame planning_fact_frame attempt_fact_frame
      integration_fact_frame graph_fact_frame delivery_fact_frame)+

section \<open>Position\<close>

lemma reduceRun_Inr:
  "reduceRun s e = Inr s' \<longleftrightarrow> (\<exists>s1. reduce_payload (ev_eventId e) (ev_payload e)
       (s\<lparr>p_updatedAt := ev_occurredAt e\<rparr>) = Inr s1 \<and>
     s' = s1\<lparr>p_sequence := ev_sequence e, p_appliedEventIds := p_appliedEventIds s1 @ [ev_eventId e]\<rparr>)"
  by (auto simp: reduceRun_def)

lemma reduceRun_position:
  assumes "reduceRun s e = Inr s'"
  shows "p_runId s' = p_runId s \<and> p_goal s' = p_goal s \<and> p_definition s' = p_definition s \<and>
    p_createdAt s' = p_createdAt s \<and> p_sequence s' = ev_sequence e \<and>
    p_appliedEventIds s' = p_appliedEventIds s @ [ev_eventId e] \<and> p_updatedAt s' = ev_occurredAt e"
  using assms payload_frame by (fastforce simp: reduceRun_Inr region_defs)

lemma next_state_Inr:
  "next_state s e = Inr s' \<longleftrightarrow>
     ev_runId e = p_runId s \<and> ev_sequence e = p_sequence s + 1 \<and> reduceRun s e = Inr s'"
  by (auto simp: next_state_def)

lemma next_state_position:
  assumes "next_state s e = Inr s'"
  shows "p_runId s' = p_runId s \<and> p_goal s' = p_goal s \<and> p_definition s' = p_definition s \<and>
    p_createdAt s' = p_createdAt s \<and> p_sequence s' = p_sequence s + 1 \<and>
    p_appliedEventIds s' = p_appliedEventIds s @ [ev_eventId e] \<and> p_updatedAt s' = ev_occurredAt e"
  using assms reduceRun_position[of s e s'] by (simp add: next_state_Inr)

lemma first_state_Inr:
  "first_state e = Inr s \<longleftrightarrow> (\<exists>g d. ev_payload e = Run_ev (Run_created g d) \<and> ev_sequence e = 1 \<and>
     s = created_projection (ev_runId e) (ev_eventId e) (ev_occurredAt e) g d)"
  by (auto simp: first_state_def split: event_payload.splits run_fact.splits)

section \<open>Journal steps and reachable states\<close>

inductive journal_step :: "host \<Rightarrow> run_projection \<Rightarrow> run_event \<Rightarrow> run_projection \<Rightarrow> bool" for h where
  accept: "parse_run_event h e = Some e \<Longrightarrow> ev_eventId e \<notin> set (p_appliedEventIds s) \<Longrightarrow>
    next_state s e = Inr s' \<Longrightarrow> journal_step h s e s'"

inductive_simps journal_step_iff: "journal_step h s e s'"

inductive reachable :: "host \<Rightarrow> run_projection \<Rightarrow> bool" for h where
  created: "parse_run_event h e = Some e \<Longrightarrow> first_state e = Inr s \<Longrightarrow> reachable h s"
| step: "reachable h s \<Longrightarrow> journal_step h s e s' \<Longrightarrow> reachable h s'"

text \<open>The loop of \<open>foldRun\<close> sees exactly the ids the projection has applied.\<close>

lemma fold_step_ids:
  assumes "fold_step h st e = Inr st'" and "\<forall>s. fst st = Some s \<longrightarrow> p_appliedEventIds s = snd st"
    and "fst st = None \<longrightarrow> snd st = []"
  shows "\<exists>s. fst st' = Some s \<and> p_appliedEventIds s = snd st'"
  using assms
  by (auto simp: fold_step_def first_state_Inr created_projection_def dest!: next_state_position
      split: option.splits)

lemma fold_ids:
  assumes "foldE (fold_step h) (None, []) es = Inr st"
  shows "(fst st = None \<longrightarrow> es = [] \<and> snd st = []) \<and> (\<forall>s. fst st = Some s \<longrightarrow> p_appliedEventIds s = snd st)"
  using assms
proof (induction es arbitrary: st rule: rev_induct)
  case (snoc e es)
  then obtain st1 where st1: "foldE (fold_step h) (None, []) es = Inr st1" "fold_step h st1 e = Inr st"
    by (auto simp: foldE_append)
  from fold_step_ids[OF st1(2)] snoc.IH[OF st1(1)] show ?case by force
qed auto

text \<open>Appending one event to a journal is one step from the state of the journal.\<close>

definition extend_state :: "host \<Rightarrow> run_projection \<Rightarrow> run_event \<Rightarrow> reduce_error + run_projection" where
  "extend_state h s raw = requireE (parse_run_event h raw) (Journal_err Schema_rejected) (\<lambda>e.
     throwIf (ev_eventId e \<in> set (p_appliedEventIds s)) (Journal_err (Duplicate_event (ev_eventId e)))
     (next_state s e))"

lemma extend_state_Inr:
  "extend_state h s raw = Inr s' \<longleftrightarrow> (\<exists>e. parse_run_event h raw = Some e \<and> journal_step h s e s')"
  by (auto simp: extend_state_def journal_step_iff run_event.idem)

lemma foldRun_append1:
  assumes "es \<noteq> []"
  shows "foldRun h (es @ [e]) = bindE (foldRun h es) (\<lambda>s. extend_state h s e)"
proof (cases "foldE (fold_step h) (None, []) es")
  case (Inl x)
  then show ?thesis by (simp add: foldRun_def foldE_append)
next
  case (Inr st)
  with fold_ids[OF Inr] assms obtain s where s: "fst st = Some s" "p_appliedEventIds s = snd st"
    by (cases "fst st") auto
  then show ?thesis
    by (cases "parse_run_event h e"; cases "ev_eventId (the (parse_run_event h e)) \<in> set (snd st)";
        cases "next_state s (the (parse_run_event h e))")
      (auto simp: foldRun_def foldE_append Inr fold_step_def extend_state_def)
qed

lemma foldRun_single:
  "foldRun h [e] = requireE (parse_run_event h e) (Journal_err Schema_rejected) first_state"
  by (cases "parse_run_event h e"; cases "first_state (the (parse_run_event h e))")
    (auto simp: foldRun_def fold_step_def)

lemma foldRun_reachable: "foldRun h es = Inr s \<Longrightarrow> reachable h s"
proof (induction es arbitrary: s rule: rev_induct)
  case Nil
  then show ?case by (simp add: foldRun_def)
next
  case (snoc e es)
  show ?case
  proof (cases "es = []")
    case True
    with snoc.prems show ?thesis by (auto simp: foldRun_single intro: reachable.created run_event.idem)
  next
    case False
    with snoc show ?thesis by (auto simp: foldRun_append1 extend_state_Inr intro: reachable.step)
  qed
qed

lemma foldRun_nonempty: "foldRun h es = Inr s \<Longrightarrow> es \<noteq> []"
  by (auto simp: foldRun_def)

lemma reachable_foldRun: "reachable h s \<Longrightarrow> \<exists>es. foldRun h es = Inr s"
proof (induction rule: reachable.induct)
  case (created e s)
  then have "foldRun h [e] = Inr s" by (simp add: foldRun_single)
  then show ?case by blast
next
  case (step s e s')
  then obtain es where es: "foldRun h es = Inr s" by blast
  moreover from step.hyps(2) have "extend_state h s e = Inr s'"
    by (auto simp: extend_state_Inr journal_step_iff)
  ultimately have "foldRun h (es @ [e]) = Inr s'"
    by (simp add: foldRun_append1 foldRun_nonempty[OF es])
  then show ?case by blast
qed

lemma foldRun_invariant:
  assumes "foldRun h es = Inr s"
    and "\<And>e s. parse_run_event h e = Some e \<Longrightarrow> first_state e = Inr s \<Longrightarrow> P s"
    and "\<And>s e s'. reachable h s \<Longrightarrow> P s \<Longrightarrow> journal_step h s e s' \<Longrightarrow> P s'"
  shows "P s"
  using foldRun_reachable[OF assms(1)]
  by (induction rule: reachable.induct) (auto intro: assms(2,3))

text \<open>Every state on the way: a prefix of an accepted journal is accepted.\<close>

lemma foldRun_prefix:
  assumes "foldRun h (es @ fs) = Inr s" and "es \<noteq> []"
  shows "\<exists>s1. foldRun h es = Inr s1"
proof -
  from assms(1) obtain st where "foldE (fold_step h) (None, []) es = Inr st"
    by (auto simp: foldRun_def foldE_append)
  with fold_ids[OF this] assms(2) show ?thesis by (cases "fst st") (auto simp: foldRun_def)
qed

section \<open>Replaying the parsed journal\<close>

lemma fold_step_parse:
  "parse_run_event h e = Some e' \<Longrightarrow> fold_step h st e' = fold_step h st e"
  by (simp add: fold_step_def run_event.idem)

lemma foldE_parsed:
  "arr_of (parse_run_event h) es = Some es' \<Longrightarrow> foldE (fold_step h) st es' = foldE (fold_step h) st es"
proof (induction es arbitrary: es' st)
  case (Cons e es)
  then obtain e1 es1 where "parse_run_event h e = Some e1" "arr_of (parse_run_event h) es = Some es1"
    "es' = e1 # es1" by (auto simp: parse_simps)
  with Cons.IH show ?case by (simp add: fold_step_parse)
qed auto

lemma arr_of_append: "arr_of p (xs @ [x]) = do { ys \<leftarrow> arr_of p xs; y \<leftarrow> p x; Some (ys @ [y]) }"
  by (induction xs) (auto split: bind_splits)

lemma foldRun_accepts_parsed: "foldRun h es = Inr s \<Longrightarrow> \<exists>es'. arr_of (parse_run_event h) es = Some es'"
proof (induction es arbitrary: s rule: rev_induct)
  case (snoc e es)
  show ?case
  proof (cases "es = []")
    case True
    with snoc.prems show ?thesis by (auto simp: foldRun_single)
  next
    case False
    with snoc show ?thesis by (fastforce simp: foldRun_append1 extend_state_Inr arr_of_append)
  qed
qed auto

section \<open>Sequence numbers and event ids\<close>

lemma foldRun_positions:
  assumes "foldRun h es = Inr s" "arr_of (parse_run_event h) es = Some ps"
  shows "p_sequence s = int (length es) \<and> p_appliedEventIds s = map ev_eventId ps \<and>
    distinct (p_appliedEventIds s) \<and> map ev_sequence ps = map int [1..<Suc (length es)] \<and>
    (\<forall>p \<in> set ps. ev_runId p = p_runId s)"
  using assms
proof (induction es arbitrary: s ps rule: rev_induct)
  case Nil
  then show ?case by (simp add: foldRun_def)
next
  case (snoc e es)
  show ?case
  proof (cases "es = []")
    case True
    with snoc.prems show ?thesis
      by (auto simp: foldRun_single first_state_Inr created_projection_def parse_simps)
  next
    case False
    with snoc.prems(1) obtain t p where t: "foldRun h es = Inr t" "parse_run_event h e = Some p"
      "journal_step h t p s"
      by (auto simp: foldRun_append1 extend_state_Inr)
    from snoc.prems(2) t(2) obtain qs where qs: "arr_of (parse_run_event h) es = Some qs" "ps = qs @ [p]"
      by (auto simp: arr_of_append parse_simps)
    from t(3) have "p_sequence s = p_sequence t + 1" "p_runId s = p_runId t" "ev_sequence p = p_sequence t + 1"
      "ev_runId p = p_runId t" "p_appliedEventIds s = p_appliedEventIds t @ [ev_eventId p]"
      "ev_eventId p \<notin> set (p_appliedEventIds t)"
      by (auto simp: journal_step_iff next_state_Inr dest: reduceRun_position)
    with snoc.IH[OF t(1) qs(1)] qs(2) show ?thesis by auto
  qed
qed

end
