(* ===== verification/Run_Invariants.thy ===== *)
theory Run_Invariants
  imports Journal_Laws
begin

text \<open>
  Invariants of the folded run, one predicate per region of the projection. The locale
  \<open>projection_invariant\<close> is the contract of a predicate that no event can break; every predicate below
  is interpreted as one, which gives it for every state a journal leads to. The locale
  \<open>projection_order\<close> is the contract of a relation that only grows along a journal.
\<close>

section \<open>The two contracts\<close>

locale projection_invariant =
  fixes h :: host and P :: "run_projection \<Rightarrow> bool"
  assumes created: "P (created_projection r i t g d)"
    and updated: "P (s\<lparr>p_updatedAt := t\<rparr>) = P s"
    and moved: "P (s\<lparr>p_sequence := q, p_appliedEventIds := ids\<rparr>) = P s"
    and step: "P s \<Longrightarrow> parse_payload h p = Some p \<Longrightarrow> reduce_payload eid p s = Inr s' \<Longrightarrow> P s'"
begin

lemma preserved: "P s \<Longrightarrow> journal_step h s e s' \<Longrightarrow> P s'"
proof -
  assume "P s" and st: "journal_step h s e s'"
  then have u: "P (s\<lparr>p_updatedAt := ev_occurredAt e\<rparr>)" by (simp add: updated)
  from st have "parse_payload h (ev_payload e) = Some (ev_payload e)"
    by (auto simp: journal_step_iff parse_run_event_def parse_simps)
  with st u show "P s'"
    by (auto simp: journal_step_iff next_state_Inr reduceRun_Inr moved dest: step)
qed

lemma reachable_holds: "reachable h s \<Longrightarrow> P s"
  by (induction rule: reachable.induct) (auto simp: first_state_Inr created intro: preserved)

lemma holds: "foldRun h es = Inr s \<Longrightarrow> P s"
  by (rule reachable_holds) (rule foldRun_reachable)

end

locale projection_order =
  fixes h :: host and R :: "run_projection \<Rightarrow> run_projection \<Rightarrow> bool"
  assumes refl: "R s s"
    and trans: "R s t \<Longrightarrow> R t u \<Longrightarrow> R s u"
    and step: "reachable h s \<Longrightarrow> journal_step h s e s' \<Longrightarrow> R s s'"
begin

lemma grows: "foldRun h es = Inr s \<Longrightarrow> foldRun h (es @ fs) = Inr s' \<Longrightarrow> R s s'"
proof (induction fs arbitrary: s' rule: rev_induct)
  case Nil
  then show ?case by (simp add: refl)
next
  case (snoc f fs)
  from foldRun_nonempty[OF snoc.prems(1)] snoc.prems(2)
  obtain t e where "foldRun h (es @ fs) = Inr t" "journal_step h t e s'"
    by (auto simp: foldRun_append1 extend_state_Inr simp flip: append_assoc)
  with snoc.IH[OF snoc.prems(1)] show ?case by (blast intro: trans step foldRun_reachable)
qed

end

text \<open>Reading a dictionary with distinct keys through its values.\<close>

lemma list_ex_ovalues:
  "distinct (map fst ob) \<Longrightarrow> list_ex Q (ovalues ob) \<longleftrightarrow> (\<exists>k v. oget ob k = Some v \<and> Q v)"
  using ovalues_ex[of ob Q] by (simp add: list_ex_iff)

lemma created_simps [simp]:
  "p_runId (created_projection r i t g d) = r"
  "p_lifecycle (created_projection r i t g d) = Planning"
  "protocol_region (created_projection r i t g d) = ([], [], [], [], [])"
  "attempt_region (created_projection r i t g d) = ([], [], [])"
  "artifact_region (created_projection r i t g d) = ([], [])"
  "evidence_region (created_projection r i t g d) = ([], [], [])"
  "decision_region (created_projection r i t g d) = ([], empty_readiness, [], [])"
  "graph_region (created_projection r i t g d) = (None, None, None)"
  "delivery_region (created_projection r i t g d) = (None, None, None)"
  by (simp_all add: created_projection_def region_defs)

section \<open>The command and effect protocol\<close>

text \<open>A terminal fact rests on a receipt of the same effect that says the same thing.\<close>

fun terminal_linked :: "physical_receipt obj \<Rightarrow> string \<Rightarrow> effect_terminal \<Rightarrow> bool" where
  "terminal_linked rs e (Term_completed r) =
     (\<exists>x. oget rs r = Some x \<and> pr_effectId x = e \<and> pr_observation x = Succeeded)"
| "terminal_linked rs e (Term_failed r _) =
     (\<exists>x. oget rs r = Some x \<and> pr_effectId x = e \<and> pr_observation x = Failed)"
| "terminal_linked rs e (Term_interrupted None _) = True"
| "terminal_linked rs e (Term_interrupted (Some r) _) = (\<exists>x. oget rs r = Some x \<and> pr_effectId x = e)"

definition effects_ok :: "run_projection \<Rightarrow> bool" where
  "effects_ok s \<longleftrightarrow>
     (\<forall>k i. oget (p_effectIntents s) k = Some i \<longrightarrow> ei_effectId i = k \<and> ei_runId i = p_runId s) \<and>
     (\<forall>k r. oget (p_physicalEffectReceipts s) k = Some r \<longrightarrow> pr_receiptId r = k \<and>
        (\<exists>i. oget (p_effectIntents s) (pr_effectId r) = Some i \<and> ei_inputDigest i = pr_inputDigest r)) \<and>
     (\<forall>e t. oget (p_effectTerminals s) e = Some t \<longrightarrow>
        oget (p_effectIntents s) e \<noteq> None \<and> terminal_linked (p_physicalEffectReceipts s) e t)"

definition commands_ok :: "run_projection \<Rightarrow> bool" where
  "commands_ok s \<longleftrightarrow>
     distinct (map fst (p_commandReceipts s)) \<and>
     (\<forall>k c. oget (p_commandReceipts s) k = Some c \<longrightarrow> rc_commandId c = k \<and> rc_runId c = p_runId s \<and>
        oget (p_physicalEffectReceipts s) (rc_receiptId c) = None) \<and>
     (\<forall>k c l d. oget (p_commandReceipts s) k = Some c \<longrightarrow> oget (p_commandReceipts s) l = Some d \<longrightarrow>
        rc_receiptId c = rc_receiptId d \<longrightarrow> k = l) \<and>
     (\<forall>k v. oget (p_commandEnvelopes s) k = Some v \<longrightarrow> cv_commandId v = k \<and> cv_runId v = p_runId s \<and>
        (\<exists>c. oget (p_commandReceipts s) k = Some c \<and> rc_commandDigest c = cv_commandDigest v))"

lemma terminal_linked_oput:
  "terminal_linked rs e t \<Longrightarrow> oget rs k = None \<Longrightarrow> terminal_linked (oput k r rs) e t"
  by (cases "(rs, e, t)" rule: terminal_linked.cases) auto

lemma effects_region: "protocol_region s' = protocol_region s \<Longrightarrow> id_region s' = id_region s \<Longrightarrow>
  effects_ok s' = effects_ok s"
  by (simp add: effects_ok_def region_defs)

lemma commands_region: "protocol_region s' = protocol_region s \<Longrightarrow> id_region s' = id_region s \<Longrightarrow>
  commands_ok s' = commands_ok s"
  by (simp add: commands_ok_def region_defs)

lemma effects_ok_protocol: "effects_ok s \<Longrightarrow> reduce_protocol_fact f s = Inr s' \<Longrightarrow> effects_ok s'"
  by (cases f) (fastforce simp: effects_ok_def handler_defs receipt_taken_def Let_def terminal_linked_oput
      split: option.splits if_splits)+

lemma on_command_accepted_Inr:
  assumes "on_command_accepted r c s = Inr s'"
  shows "rc_runId r = p_runId s \<and> oget (p_commandReceipts s) (rc_commandId r) = None \<and>
    \<not> receipt_taken s (rc_receiptId r) \<and> id_region s' = id_region s \<and>
    p_commandReceipts s' = oput (rc_commandId r) r (p_commandReceipts s) \<and>
    p_physicalEffectReceipts s' = p_physicalEffectReceipts s \<and>
    (c = None \<and> p_commandEnvelopes s' = p_commandEnvelopes s \<or>
     (\<exists>v. c = Some v \<and> p_commandEnvelopes s' = oput (cv_commandId v) v (p_commandEnvelopes s) \<and>
        cv_commandId v = rc_commandId r \<and> cv_runId v = rc_runId r \<and> cv_commandDigest v = rc_commandDigest r))"
  using assms by (cases c) (auto simp: on_command_accepted_def Let_def id_region_def)

lemma commands_ok_accepted:
  assumes ok: "commands_ok s" and acc: "on_command_accepted r c s = Inr s'"
  shows "commands_ok s'"
proof -
  note r = on_command_accepted_Inr[OF acc]
  have free: "oget (p_physicalEffectReceipts s) (rc_receiptId r) = None"
    "oget (p_commandReceipts s) k = Some d \<Longrightarrow> rc_receiptId d \<noteq> rc_receiptId r" for k d
    using r ok by (auto simp: receipt_taken_def commands_ok_def list_ex_ovalues)
  have run: "p_runId s' = p_runId s" using r by (simp add: id_region_def)
  have fresh: "oget (p_commandEnvelopes s) (rc_commandId r) = None"
    using r ok unfolding commands_ok_def by (metis not_Some_eq)
  have env: "oget (p_commandEnvelopes s) k = Some v \<Longrightarrow> cv_commandId v = k \<and> cv_runId v = p_runId s \<and>
      (\<exists>d. oget (p_commandReceipts s) k = Some d \<and> rc_commandDigest d = cv_commandDigest v)" for k v
    using ok unfolding commands_ok_def by blast
  have "distinct (map fst (p_commandReceipts s'))" using r ok by (simp add: commands_ok_def)
  moreover have "rc_commandId d = k \<and> rc_runId d = p_runId s' \<and>
      oget (p_physicalEffectReceipts s') (rc_receiptId d) = None"
    if "oget (p_commandReceipts s') k = Some d" for k d
    using that r ok run free(1) by (auto simp: commands_ok_def split: if_splits)
  moreover have "k = l" if "oget (p_commandReceipts s') k = Some a" "oget (p_commandReceipts s') l = Some d"
    "rc_receiptId a = rc_receiptId d" for k l a d
  proof -
    from ok have inj: "oget (p_commandReceipts s) k = Some a \<Longrightarrow> oget (p_commandReceipts s) l = Some d \<Longrightarrow>
      rc_receiptId a = rc_receiptId d \<Longrightarrow> k = l" by (simp add: commands_ok_def)
    show ?thesis using that r free(2)[of k a] free(2)[of l d] inj by (auto split: if_splits)
  qed
  moreover have "cv_commandId v = k \<and> cv_runId v = p_runId s' \<and>
      (\<exists>d. oget (p_commandReceipts s') k = Some d \<and> rc_commandDigest d = cv_commandDigest v)"
    if "oget (p_commandEnvelopes s') k = Some v" for k v
    using that r run fresh env[of k v] by (cases "k = rc_commandId r") auto
  ultimately show ?thesis unfolding commands_ok_def by blast
qed

lemma commands_ok_observed:
  assumes ok: "commands_ok s" and obs: "on_effect_observed r s = Inr s'"
  shows "commands_ok s'"
proof -
  from obs have r: "\<not> receipt_taken s (pr_receiptId r)" "p_runId s' = p_runId s"
    "p_commandReceipts s' = p_commandReceipts s" "p_commandEnvelopes s' = p_commandEnvelopes s"
    "p_physicalEffectReceipts s' = oput (pr_receiptId r) r (p_physicalEffectReceipts s)"
    by (auto simp: on_effect_observed_def)
  with ok have "oget (p_commandReceipts s) k = Some d \<Longrightarrow> rc_receiptId d \<noteq> pr_receiptId r" for k d
    by (auto simp: receipt_taken_def commands_ok_def list_ex_ovalues)
  with ok show ?thesis unfolding commands_ok_def r by auto
qed

lemma commands_ok_protocol: "commands_ok s \<Longrightarrow> reduce_protocol_fact f s = Inr s' \<Longrightarrow> commands_ok s'"
proof (cases f)
  case (Command_accepted r c)
  then show "commands_ok s \<Longrightarrow> reduce_protocol_fact f s = Inr s' \<Longrightarrow> ?thesis"
    by (simp add: commands_ok_accepted)
next
  case (Effect_observed r)
  then show "commands_ok s \<Longrightarrow> reduce_protocol_fact f s = Inr s' \<Longrightarrow> ?thesis"
    by (simp add: commands_ok_observed)
qed (auto simp: commands_ok_def handler_defs Let_def split: option.splits)

lemmas non_protocol_frames = run_fact_frame planning_fact_frame attempt_fact_frame
  integration_fact_frame graph_fact_frame delivery_fact_frame

interpretation effects: projection_invariant h effects_ok for h
proof unfold_locales
  show "effects_ok (created_projection r i t g d)" for r i t g d
    by (simp add: effects_ok_def created_projection_def)
  fix s p eid s'
  assume "effects_ok s" "reduce_payload eid p s = Inr s'"
  then show "effects_ok s'"
    by (cases p) (auto intro: effects_ok_protocol effects_region[THEN iffD2] dest: non_protocol_frames)
qed (simp_all add: effects_ok_def)

interpretation commands: projection_invariant h commands_ok for h
proof unfold_locales
  show "commands_ok (created_projection r i t g d)" for r i t g d
    by (simp add: commands_ok_def created_projection_def)
  fix s p eid s'
  assume "commands_ok s" "reduce_payload eid p s = Inr s'"
  then show "commands_ok s'"
    by (cases p) (auto intro: commands_ok_protocol commands_region[THEN iffD2] dest: non_protocol_frames)
qed (simp_all add: commands_ok_def)

end
