(* ===== verification/Attempt_Invariants.thy ===== *)
theory Attempt_Invariants
  imports Run_Invariants
begin

text \<open>
  What every journal guarantees of attempts, integrations and human reviews, and how an attempt, a
  review, a decision or an artifact may change from one event to the next.
\<close>

declare map_of_eq_Some_iff [simp del] Some_eq_map_of_iff [simp del]

section \<open>Attempts and reviews\<close>

text \<open>
  What holds of every attempt: a running one has no candidate yet; one that waits for validation has
  a commit; an execution's exact candidate is the candidate at its commit.
\<close>

definition attempt_ok :: "string \<Rightarrow> attempt_projection \<Rightarrow> bool" where
  "attempt_ok k a \<longleftrightarrow> at_attemptId a = k \<and>
     (at_status a = At_running \<longrightarrow> at_candidate a = None \<and> at_candidateCommit a = None) \<and>
     (at_status a = At_candidate \<longrightarrow> at_candidateCommit a \<noteq> None) \<and>
     (at_kind a = Execution \<longrightarrow> (\<forall>c. at_candidate a = Some c \<longrightarrow> at_candidateCommit a = Some (ec_commitOid c)))"

definition attempts_ok :: "run_projection \<Rightarrow> bool" where
  "attempts_ok s \<longleftrightarrow> distinct (map fst (p_attempts s)) \<and>
     (\<forall>k a. oget (p_attempts s) k = Some a \<longrightarrow> attempt_ok k a) \<and>
     (\<forall>n x. oget (p_integrations s) n = Some x \<longrightarrow> in_nodeId x = n \<and>
        (\<exists>a. oget (p_attempts s) (in_attemptId x) = Some a \<and> at_kind a = Integration_kind \<and> at_nodeId a = n))"

definition reviews_ok :: "run_projection \<Rightarrow> bool" where
  "reviews_ok s \<longleftrightarrow> distinct (map fst (p_humanReviews s)) \<and>
     (\<forall>k r. oget (p_humanReviews s) k = Some r \<longrightarrow> hr_reviewId r = k \<and>
        (\<exists>a. oget (p_attempts s) (hr_attemptId r) = Some a \<and> at_nodeId a = hr_nodeId r \<and>
           at_status a \<noteq> At_running \<and> (hr_status r = Active \<longrightarrow> at_candidate a = Some (hr_candidate r))))"

lemma interrupt_attempt_simps [simp]:
  "at_attemptId (interrupt_attempt a) = at_attemptId a" "at_nodeId (interrupt_attempt a) = at_nodeId a"
  "at_inputFingerprint (interrupt_attempt a) = at_inputFingerprint a"
  "at_kind (interrupt_attempt a) = at_kind a" "at_candidate (interrupt_attempt a) = at_candidate a"
  "at_candidateCommit (interrupt_attempt a) = at_candidateCommit a"
  "at_status (interrupt_attempt a) \<noteq> At_running"
  "at_status (interrupt_attempt a) = At_candidate \<longleftrightarrow> at_status a = At_candidate"
  by (auto simp: interrupt_attempt_def)

lemma stale_review_simps [simp]:
  "hr_reviewId (stale_review a r) = hr_reviewId r" "hr_attemptId (stale_review a r) = hr_attemptId r"
  "hr_nodeId (stale_review a r) = hr_nodeId r" "hr_candidate (stale_review a r) = hr_candidate r"
  "hr_status (stale_review a r) = Active \<longleftrightarrow> hr_status r = Active \<and>
     (hr_nodeId r = at_nodeId a \<longrightarrow> at_candidate a = Some (hr_candidate r))"
  by (auto simp: stale_review_def sameCandidate_iff)

lemma attempt_ok_new [simp]: "attempt_ok (as_attemptId a) (new_attempt k a)"
  by (simp add: attempt_ok_def new_attempt_def)

lemma new_attempt_simps [simp]:
  "at_kind (new_attempt k a) = k" "at_nodeId (new_attempt k a) = as_nodeId a"
  "at_status (new_attempt k a) = At_running"
  by (simp_all add: new_attempt_def)

lemma record_matrix_simps [simp]:
  "p_attempts (record_matrix n m s) = p_attempts s" "p_integrations (record_matrix n m s) = p_integrations s"
  "p_humanReviews (record_matrix n m s) = p_humanReviews s" "p_runId (record_matrix n m s) = p_runId s"
  by (simp_all add: record_matrix_def)

section \<open>How attempts move\<close>

text \<open>
  The changes an attempt can undergo: its identity is fixed, its repair passes only grow, only a
  running attempt gets a candidate, only a candidate of an execution is validated, and the terminal
  statuses keep the candidate. An integration attempt is moved by the integration's own events.
\<close>

definition attempt_change :: "attempt_projection \<Rightarrow> attempt_projection \<Rightarrow> bool" where
  "attempt_change a b \<longleftrightarrow>
     at_attemptId b = at_attemptId a \<and> at_nodeId b = at_nodeId a \<and>
     at_inputFingerprint b = at_inputFingerprint a \<and> at_retryOfAttemptId b = at_retryOfAttemptId a \<and>
     at_kind b = at_kind a \<and> at_repairPasses a \<le> at_repairPasses b \<and>
     (at_candidate b = at_candidate a \<and> at_candidateCommit b = at_candidateCommit a \<and>
        (at_status b = at_status a \<or> at_status a = At_candidate \<and> at_status b = At_validated \<or>
         at_status b \<in> {At_adopted, At_failed, At_discarded, At_stale}) \<or>
      at_status a = At_running \<and> at_status b = At_candidate \<and>
        (\<exists>c. at_candidateCommit b = Some c \<and>
           (at_candidate b = at_candidate a \<or> (\<exists>x. at_candidate b = Some x \<and> ec_commitOid x = c))) \<or>
      at_kind a = Integration_kind \<and> at_status b \<in> {At_validated, At_failed})"

inductive attempts_step :: "attempt_projection obj \<Rightarrow> attempt_projection obj \<Rightarrow> bool" where
  keep: "attempts_step as as"
| start: "oget as (as_attemptId x) = None \<Longrightarrow> attempts_step as (oput (as_attemptId x) (new_attempt k x) as)"
| change: "oget as k = Some a \<Longrightarrow> attempt_change a b \<Longrightarrow> attempts_step as (oput k b as)"
| interrupt: "attempts_step as (omap interrupt_attempt as)"

lemma attempts_step_put:
  "oget as k \<noteq> None \<Longrightarrow> attempt_change (the (oget as k)) b \<Longrightarrow> attempts_step as (oput k b as)"
  by (auto intro: attempts_step.change)

lemma attempt_change_interrupt: "attempt_change a (interrupt_attempt a)"
  by (simp add: attempt_change_def interrupt_attempt_def)

lemma attempt_change_refl [simp]: "attempt_change a a"
  by (simp add: attempt_change_def)

lemmas attempts_step_intros = attempts_step_put attempts_step.start attempts_step.keep

lemma attempt_fact_step:
  "reduce_attempt_fact eid f s = Inr s' \<Longrightarrow> attempts_step (p_attempts s) (p_attempts s')"
  by (cases f) (auto simp: handler_defs Let_def attempt_change_def intro!: attempts_step_intros
      split: option.splits)

lemma integration_fact_step:
  assumes "attempts_ok s" "reduce_integration_fact f s = Inr s'"
  shows "attempts_step (p_attempts s) (p_attempts s')"
proof -
  have kind: "at_kind a = Integration_kind"
    if "oget (p_integrations s) n = Some x" "oget (p_attempts s) (in_attemptId x) = Some a" for n x a
    using that assms(1) unfolding attempts_ok_def by (metis option.inject)
  from assms(2) show ?thesis
    by (cases f) (auto simp: handler_defs Let_def attempt_change_def kind intro!: attempts_step_intros
        split: option.splits)
qed

lemma run_fact_step:
  "reduce_run_fact f s = Inr s' \<Longrightarrow> attempts_step (p_attempts s) (p_attempts s')"
  using run_fact_frame[of f s s'] by (auto intro: attempts_step.keep attempts_step.interrupt)

lemma attempt_region_eq:
  "attempt_region s' = attempt_region s \<Longrightarrow> p_attempts s' = p_attempts s"
  "attempt_region s' = attempt_region s \<Longrightarrow> p_integrations s' = p_integrations s"
  "attempt_region s' = attempt_region s \<Longrightarrow> p_humanReviews s' = p_humanReviews s"
  by (simp_all add: attempt_region_def)

lemma payload_attempts_step:
  assumes "attempts_ok s" "reduce_payload eid p s = Inr s'"
  shows "attempts_step (p_attempts s) (p_attempts s')"
proof -
  have same: "attempt_region s' = attempt_region s \<Longrightarrow> ?thesis"
    using attempts_step.keep[of "p_attempts s"] by (metis attempt_region_eq(1))
  show ?thesis
  proof (cases p)
    case (Run_ev f)
    with assms show ?thesis by (simp add: run_fact_step)
  next
    case (Attempt_ev f)
    with assms show ?thesis by (simp add: attempt_fact_step)
  next
    case (Integration_ev f)
    with assms show ?thesis by (simp add: integration_fact_step)
  next
    case (Protocol_ev f)
    with assms have "attempt_region s' = attempt_region s" by (simp add: protocol_fact_frame)
    then show ?thesis by (rule same)
  next
    case (Planning_ev f)
    with assms have "attempt_region s' = attempt_region s" by (simp add: planning_fact_frame)
    then show ?thesis by (rule same)
  next
    case (Graph_ev f)
    with assms have "attempt_region s' = attempt_region s" by (simp add: graph_fact_frame)
    then show ?thesis by (rule same)
  next
    case (Delivery_ev f)
    with assms have "attempt_region s' = attempt_region s" by (simp add: delivery_fact_frame)
    then show ?thesis by (rule same)
  qed
qed

section \<open>The invariant of attempts\<close>

lemma attempt_ok_change: "attempt_ok k a \<Longrightarrow> attempt_change a b \<Longrightarrow> attempt_ok k b"
  unfolding attempt_ok_def attempt_change_def by (cases "at_status b") auto

lemma attempts_step_get:
  assumes "attempts_step as bs" "oget as k = Some a"
  shows "\<exists>b. oget bs k = Some b \<and> attempt_change a b"
  using assms by (cases rule: attempts_step.cases) (auto simp: attempt_change_interrupt)

lemma attempts_step_new:
  assumes "attempts_step as bs" "oget as k = None" "oget bs k = Some b"
  shows "\<exists>x ki. as_attemptId x = k \<and> b = new_attempt ki x"
  using assms by (cases rule: attempts_step.cases) (auto split: if_splits)

lemma attempts_step_distinct:
  "attempts_step as bs \<Longrightarrow> distinct (map fst as) \<Longrightarrow> distinct (map fst bs)"
  by (cases rule: attempts_step.cases) auto

lemma attempts_step_ok:
  assumes "attempts_step as bs" "\<And>k a. oget as k = Some a \<Longrightarrow> attempt_ok k a" "oget bs k = Some b"
  shows "attempt_ok k b"
proof (cases "oget as k")
  case None
  with attempts_step_new[OF assms(1) _ assms(3)] show ?thesis by auto
next
  case (Some a)
  with attempts_step_get[OF assms(1)] assms(2,3) attempt_ok_change show ?thesis by fastforce
qed

lemma integration_fact_integrations:
  assumes "reduce_integration_fact f s = Inr s'" "oget (p_integrations s') n = Some x"
  shows "in_nodeId x = n \<and> (\<exists>k a. oget (p_attempts s') (in_attemptId x) = Some a \<and>
      a = new_attempt Integration_kind k \<and> as_nodeId k = n) \<or>
    (\<exists>y. oget (p_integrations s) n = Some y \<and> in_attemptId y = in_attemptId x \<and> in_nodeId y = in_nodeId x)"
  using assms by (cases f; auto simp: handler_defs Let_def split: option.splits if_splits; metis)

lemma payload_integrations:
  assumes "reduce_payload eid p s = Inr s'" "\<forall>f. p \<noteq> Integration_ev f"
  shows "p_integrations s' = p_integrations s"
  using assms
  by (cases p) (simp_all add: run_fact_frame attempt_fact_frame attempt_region_eq(2)[of s' s]
      protocol_fact_frame planning_fact_frame graph_fact_frame delivery_fact_frame)

lemma attempts_ok_payload:
  assumes ok: "attempts_ok s" and red: "reduce_payload eid p s = Inr s'"
  shows "attempts_ok s'"
proof -
  note st = payload_attempts_step[OF ok red]
  have link: "in_nodeId x = n \<and> (\<exists>a. oget (p_attempts s') (in_attemptId x) = Some a \<and>
      at_kind a = Integration_kind \<and> at_nodeId a = n)"
    if old: "oget (p_integrations s) n = Some y" "in_attemptId y = in_attemptId x" "in_nodeId y = in_nodeId x"
    for n x y
  proof -
    from ok old obtain a where a: "in_nodeId x = n" "oget (p_attempts s) (in_attemptId x) = Some a"
      "at_kind a = Integration_kind" "at_nodeId a = n"
      unfolding attempts_ok_def by metis
    from attempts_step_get[OF st a(2)] a show ?thesis by (auto simp: attempt_change_def)
  qed
  have "in_nodeId x = n \<and> (\<exists>a. oget (p_attempts s') (in_attemptId x) = Some a \<and>
      at_kind a = Integration_kind \<and> at_nodeId a = n)" if x: "oget (p_integrations s') n = Some x" for n x
  proof (cases "\<exists>f. p = Integration_ev f")
    case True
    with red obtain f where "reduce_integration_fact f s = Inr s'" by auto
    from integration_fact_integrations[OF this x] link show ?thesis by fastforce
  next
    case False
    with payload_integrations[OF red] x link[OF _ refl refl, of n x] show ?thesis by simp
  qed
  then show ?thesis
    using ok attempts_step_distinct[OF st] attempts_step_ok[OF st] unfolding attempts_ok_def by blast
qed

interpretation attempts: projection_invariant h attempts_ok for h
proof unfold_locales
  show "attempts_ok (created_projection r i t g d)" for r i t g d
    by (simp add: attempts_ok_def created_projection_def)
  show "attempts_ok s'" if "attempts_ok s" "reduce_payload eid p s = Inr s'" for s p eid s'
    using that by (rule attempts_ok_payload)
qed (simp_all add: attempts_ok_def)

section \<open>The invariant of reviews\<close>

text \<open>A step that keeps the candidate of every attempt that already has one.\<close>

definition candidates_kept :: "attempt_projection obj \<Rightarrow> attempt_projection obj \<Rightarrow> bool" where
  "candidates_kept as bs \<longleftrightarrow> (\<forall>k a. oget as k = Some a \<longrightarrow> at_status a \<noteq> At_running \<longrightarrow>
     (\<exists>b. oget bs k = Some b \<and> at_nodeId b = at_nodeId a \<and> at_status b \<noteq> At_running \<and>
        at_candidate b = at_candidate a))"

lemma reviews_ok_D:
  assumes "reviews_ok s" "oget (p_humanReviews s) k = Some r"
  obtains a where "hr_reviewId r = k" "oget (p_attempts s) (hr_attemptId r) = Some a"
    "at_nodeId a = hr_nodeId r" "at_status a \<noteq> At_running"
    "hr_status r = Active \<longrightarrow> at_candidate a = Some (hr_candidate r)"
  using assms unfolding reviews_ok_def by blast

lemma reviews_ok_kept:
  assumes ok: "reviews_ok s" and kept: "candidates_kept (p_attempts s) (p_attempts s')"
    and same: "p_humanReviews s' = p_humanReviews s"
  shows "reviews_ok s'"
  unfolding reviews_ok_def
proof (intro conjI allI impI)
  show "distinct (map fst (p_humanReviews s'))" using ok same by (simp add: reviews_ok_def)
  fix k r assume "oget (p_humanReviews s') k = Some r"
  with same have "oget (p_humanReviews s) k = Some r" by simp
  from reviews_ok_D[OF ok this] obtain a where r: "hr_reviewId r = k"
    "oget (p_attempts s) (hr_attemptId r) = Some a" "at_nodeId a = hr_nodeId r" "at_status a \<noteq> At_running"
    "hr_status r = Active \<longrightarrow> at_candidate a = Some (hr_candidate r)" .
  show "hr_reviewId r = k" by (rule r(1))
  from kept r(2,4) obtain b where "oget (p_attempts s') (hr_attemptId r) = Some b"
    "at_nodeId b = at_nodeId a" "at_status b \<noteq> At_running" "at_candidate b = at_candidate a"
    unfolding candidates_kept_def by blast
  with r(3,5) show "\<exists>a. oget (p_attempts s') (hr_attemptId r) = Some a \<and> at_nodeId a = hr_nodeId r \<and>
      at_status a \<noteq> At_running \<and> (hr_status r = Active \<longrightarrow> at_candidate a = Some (hr_candidate r))"
    by simp
qed

lemma reviews_ok_restale:
  assumes "reviews_ok s" "oget (p_attempts s) k = Some a" "at_nodeId b = at_nodeId a"
    "at_status b \<noteq> At_running" "p_attempts s' = oput k b (p_attempts s)"
    "p_humanReviews s' = omap (stale_review b) (p_humanReviews s)"
  shows "reviews_ok s'"
proof -
  have "hr_reviewId r = i \<and> (\<exists>a. oget (p_attempts s') (hr_attemptId r) = Some a \<and> at_nodeId a = hr_nodeId r \<and>
      at_status a \<noteq> At_running \<and> (hr_status r = Active \<longrightarrow> at_candidate a = Some (hr_candidate r)))"
    if "oget (p_humanReviews s') i = Some r" for i r
  proof -
    from that assms(6) obtain r0 where r0: "oget (p_humanReviews s) i = Some r0" "r = stale_review b r0"
      by auto
    from reviews_ok_D[OF assms(1) r0(1)] obtain c where c: "hr_reviewId r0 = i"
      "oget (p_attempts s) (hr_attemptId r0) = Some c" "at_nodeId c = hr_nodeId r0"
      "at_status c \<noteq> At_running" "hr_status r0 = Active \<longrightarrow> at_candidate c = Some (hr_candidate r0)" .
    show ?thesis
    proof (cases "hr_attemptId r0 = k")
      case True
      with c(2) assms(2) have "c = a" by simp
      with True c r0(2) assms(3-5) show ?thesis by simp
    next
      case False
      with c r0(2) assms(5) show ?thesis by simp
    qed
  qed
  moreover have "distinct (map fst (p_humanReviews s'))"
    using assms(1,6) unfolding reviews_ok_def by simp
  ultimately show ?thesis unfolding reviews_ok_def by blast
qed

lemma candidates_kept_put:
  "oget as k = Some a \<Longrightarrow> at_nodeId b = at_nodeId a \<Longrightarrow>
   at_status a \<noteq> At_running \<longrightarrow> at_status b \<noteq> At_running \<and> at_candidate b = at_candidate a \<Longrightarrow>
   candidates_kept as (oput k b as)"
  by (simp add: candidates_kept_def)

lemma candidates_kept_refl [simp]: "candidates_kept as as"
  by (simp add: candidates_kept_def)

lemma candidates_kept_new: "oget as k = None \<Longrightarrow> candidates_kept as (oput k b as)"
  by (simp add: candidates_kept_def)

lemma candidates_kept_interrupt [simp]: "candidates_kept as (omap interrupt_attempt as)"
  by (simp add: candidates_kept_def)

lemma reviews_ok_attempt:
  assumes ok: "reviews_ok s" and red: "reduce_attempt_fact eid f s = Inr s'"
  shows "reviews_ok s'"
proof (cases f)
  case (Attempt_candidate_created c)
  define b where "b a = a\<lparr>at_status := At_candidate, at_candidateCommit := Some (ac_candidateCommit c),
    at_candidate := assign_if (ac_candidate c) (at_candidate a),
    at_outputDigest := Some (ac_outputDigest c),
    at_usage := assign_if (ac_usage c) (at_usage a)\<rparr>" for a :: attempt_projection
  from Attempt_candidate_created red obtain a where A: "oget (p_attempts s) (ac_attemptId c) = Some a"
    "p_attempts s' = oput (ac_attemptId c) (b a) (p_attempts s)"
    "p_humanReviews s' = omap (stale_review (b a)) (p_humanReviews s)"
    by (auto simp: on_candidate_created_def Let_def b_def)
  show ?thesis by (rule reviews_ok_restale[OF ok A(1) _ _ A(2,3)]) (simp_all add: b_def)
next
  case (Human_review_recorded r)
  with red obtain a where A: "oget (p_attempts s) (hr_attemptId r) = Some a" "at_nodeId a = hr_nodeId r"
    "at_status a \<noteq> At_running" "at_candidate a = Some (hr_candidate r)" and s':
    "s' = s\<lparr>p_humanReviews := oput (hr_reviewId r)
       (human_review_input.extend r (human_review.fields Active)) (p_humanReviews s)\<rparr>"
    by (auto simp: on_human_review_recorded_def sameCandidate_iff)
  show ?thesis
    unfolding reviews_ok_def
  proof (intro conjI allI impI)
    show "distinct (map fst (p_humanReviews s'))" using ok s' by (simp add: reviews_ok_def)
    fix k v assume v: "oget (p_humanReviews s') k = Some v"
    have "hr_reviewId v = k \<and> (\<exists>a. oget (p_attempts s) (hr_attemptId v) = Some a \<and> at_nodeId a = hr_nodeId v \<and>
        at_status a \<noteq> At_running \<and> (hr_status v = Active \<longrightarrow> at_candidate a = Some (hr_candidate v)))"
    proof (cases "k = hr_reviewId r")
      case True
      with v s' A show ?thesis by (auto simp: human_review_input.defs human_review.defs)
    next
      case False
      with v s' ok show ?thesis by (simp add: reviews_ok_def)
    qed
    with s' show "hr_reviewId v = k" "\<exists>a. oget (p_attempts s') (hr_attemptId v) = Some a \<and>
        at_nodeId a = hr_nodeId v \<and> at_status a \<noteq> At_running \<and>
        (hr_status v = Active \<longrightarrow> at_candidate a = Some (hr_candidate v))" by simp_all
  qed
next
  case (Attempt_started a)
  with red show ?thesis
    by (auto simp: on_attempt_started_def candidates_kept_new intro!: reviews_ok_kept[OF ok])
qed (use red in \<open>auto simp: handler_defs Let_def candidates_kept_put split: option.splits
    intro!: reviews_ok_kept[OF ok]\<close>)

lemma reviews_ok_integration:
  assumes ok: "reviews_ok s" and red: "reduce_integration_fact f s = Inr s'"
  shows "reviews_ok s'"
proof (cases f)
  case (Integration_completed i n m c x em)
  define b where "b a = a\<lparr>at_status := At_validated, at_candidateCommit := Some c,
    at_candidate := assign_if x (at_candidate a)\<rparr>" for a :: attempt_projection
  from Integration_completed red obtain a where A: "oget (p_attempts s) i = Some a"
    "p_attempts s' = oput i (b a) (p_attempts s)"
    "p_humanReviews s' = omap (stale_review (b a)) (p_humanReviews s)"
    by (auto simp: on_integration_completed_def Let_def b_def)
  show ?thesis by (rule reviews_ok_restale[OF ok A(1) _ _ A(2,3)]) (simp_all add: b_def)
next
  case (Integration_started a r)
  with red show ?thesis
    by (auto simp: on_integration_started_def candidates_kept_new intro!: reviews_ok_kept[OF ok])
qed (use red in \<open>auto simp: handler_defs Let_def candidates_kept_put split: option.splits
    intro!: reviews_ok_kept[OF ok]\<close>)

lemma reviews_ok_payload:
  assumes ok: "reviews_ok s" and red: "reduce_payload eid p s = Inr s'"
  shows "reviews_ok s'"
proof -
  have same: "attempt_region s' = attempt_region s \<Longrightarrow> ?thesis"
    using ok by (simp add: reviews_ok_def attempt_region_def)
  show ?thesis
  proof (cases p)
    case (Run_ev f)
    with red have "reduce_run_fact f s = Inr s'" by simp
    note fr = run_fact_frame[OF this]
    show ?thesis by (rule reviews_ok_kept[OF ok]) (use fr in auto)
  next
    case (Attempt_ev f)
    with ok red show ?thesis by (simp add: reviews_ok_attempt)
  next
    case (Integration_ev f)
    with ok red show ?thesis by (simp add: reviews_ok_integration)
  qed (use red in \<open>auto intro!: same simp: protocol_fact_frame planning_fact_frame graph_fact_frame
      delivery_fact_frame\<close>)
qed

interpretation reviews: projection_invariant h reviews_ok for h
proof unfold_locales
  show "reviews_ok (created_projection r i t g d)" for r i t g d
    by (simp add: reviews_ok_def created_projection_def)
  show "reviews_ok s'" if "reviews_ok s" "reduce_payload eid p s = Inr s'" for s p eid s'
    using that by (rule reviews_ok_payload)
qed (simp_all add: reviews_ok_def)

end
