(* ===== verification/Decision_Invariants.thy ===== *)
theory Decision_Invariants
  imports Attempt_Invariants
begin

text \<open>
  What every journal guarantees of decisions, readiness and the selected waves. Only graph facts touch
  them.
\<close>

lemma payload_regions:
  assumes "reduce_payload eid p s = Inr s'"
  shows "\<forall>f. p \<noteq> Protocol_ev f \<Longrightarrow> protocol_region s' = protocol_region s"
    and "\<forall>f. p \<noteq> Graph_ev f \<Longrightarrow> decision_region s' = decision_region s \<and> graph_region s' = graph_region s"
    and "\<forall>f. p \<noteq> Attempt_ev f \<Longrightarrow> artifact_region s' = artifact_region s"
    and "\<forall>f g. p \<noteq> Attempt_ev f \<and> p \<noteq> Integration_ev g \<Longrightarrow> evidence_region s' = evidence_region s"
    and "\<forall>f. p \<noteq> Delivery_ev f \<Longrightarrow> delivery_region s' = delivery_region s"
  using assms
  by (cases p; simp add: run_fact_frame protocol_fact_frame planning_fact_frame attempt_fact_frame
      integration_fact_frame graph_fact_frame delivery_fact_frame)+

section \<open>Decisions\<close>

definition decision_ok :: "string \<Rightarrow> decision \<Rightarrow> bool" where
  "decision_ok k d \<longleftrightarrow> dc_id d = k \<and> 2 \<le> length (dc_options d) \<and> dc_affectedNodeIds d \<noteq> [] \<and>
     (dc_status d = Resolved \<longleftrightarrow> dc_resolution d \<noteq> None) \<and>
     (dc_authorizedBy d \<noteq> None \<longrightarrow> dc_status d = Resolved) \<and>
     (\<forall>r. dc_resolution d = Some r \<longrightarrow> (rs_optionId r \<noteq> None \<or> rs_answer r \<noteq> None) \<and>
        (\<forall>v. rs_optionId r = Some v \<longrightarrow> v \<in> do_id ` set (dc_options d)))"

definition decisions_ok :: "run_projection \<Rightarrow> bool" where
  "decisions_ok s \<longleftrightarrow> distinct (map fst (p_decisions s)) \<and>
     (\<forall>k d. oget (p_decisions s) k = Some d \<longrightarrow> decision_ok k d) \<and>
     (\<forall>i \<in> set (ro_pendingDecisionIds (p_readiness s)).
        \<exists>d. oget (p_decisions s) i = Some d \<and> dc_status d \<noteq> Resolved)"

text \<open>A decision changes at most once, and only its answer.\<close>

definition decision_change :: "decision \<Rightarrow> decision \<Rightarrow> bool" where
  "decision_change d e \<longleftrightarrow> e = d \<or>
     dc_status d = Pending \<and> dc_status e \<noteq> Pending \<and> decision_input.truncate e = decision_input.truncate d"

definition decisions_kept :: "decision obj \<Rightarrow> decision obj \<Rightarrow> bool" where
  "decisions_kept ds es \<longleftrightarrow> (\<forall>k d. oget ds k = Some d \<longrightarrow> (\<exists>e. oget es k = Some e \<and> decision_change d e))"

lemma decisions_kept_refl [simp]: "decisions_kept ds ds"
  by (simp add: decisions_kept_def decision_change_def)

lemma decision_change_trans: "decision_change d e \<Longrightarrow> decision_change e f \<Longrightarrow> decision_change d f"
  by (auto simp: decision_change_def)

lemma decisions_kept_trans: "decisions_kept ds es \<Longrightarrow> decisions_kept es fs \<Longrightarrow> decisions_kept ds fs"
  unfolding decisions_kept_def by (meson decision_change_trans)

lemma decisions_kept_put:
  "oget ds k = Some d \<Longrightarrow> decision_change d e \<Longrightarrow> decisions_kept ds (oput k e ds)"
  by (simp add: decisions_kept_def decision_change_def)

lemma decisions_kept_new: "oget ds k = None \<Longrightarrow> decisions_kept ds (oput k e ds)"
  by (simp add: decisions_kept_def decision_change_def)

lemma parse_decision_input_facts:
  "parse_decision_input d = Some e \<Longrightarrow>
     2 \<le> length (dc_options e) \<and> dc_affectedNodeIds e \<noteq> [] \<and> entityId (dc_id d) = Some (dc_id e)"
  by (auto simp: parse_decision_input_def parse_simps arr_min_def dest: arr_of_length)

lemma pending_decision_simps [simp]:
  "dc_id (pending_decision d) = dc_id d" "dc_options (pending_decision d) = dc_options d"
  "dc_affectedNodeIds (pending_decision d) = dc_affectedNodeIds d"
  "dc_status (pending_decision d) = Pending" "dc_resolution (pending_decision d) = None"
  "dc_authorizedBy (pending_decision d) = None"
  by (simp_all add: pending_decision_def decision_input.defs decision.defs)

lemma decision_truncate_simps [simp]:
  "decision_input.truncate (d\<lparr>dc_status := x\<rparr>) = decision_input.truncate d"
  "decision_input.truncate (d\<lparr>dc_resolution := y\<rparr>) = decision_input.truncate d"
  "decision_input.truncate (d\<lparr>dc_authorizedBy := z\<rparr>) = decision_input.truncate d"
  by (simp_all add: decision_input.defs)

text \<open>What an accepted observation of readiness writes.\<close>

lemma on_readiness_observed_Inr:
  assumes "on_readiness_observed r s = Inr s'"
  shows "(\<forall>i \<in> set (ro_pendingDecisionIds r). decision_pending s i) \<and> p_decisions s' = p_decisions s \<and>
    p_selectedWaves s' = p_selectedWaves s \<and> p_stoppedNodeIds s' = p_stoppedNodeIds s \<and>
    p_readiness s' = r\<lparr>ro_readyNodeIds := uniq_sort (ro_readyNodeIds r),
      ro_pendingDecisionIds := uniq_sort (ro_pendingDecisionIds r)\<rparr>"
proof (cases "filter (\<lambda>i. \<not> decision_pending s i) (ro_pendingDecisionIds r)")
  case Nil
  with assms show ?thesis
    by (cases "executing (p_lifecycle s)") (auto simp: on_readiness_observed_def Let_def filter_empty_conv)
next
  case (Cons i rest)
  with assms show ?thesis by (simp add: on_readiness_observed_def)
qed

lemma graph_fact_decisions_kept:
  "reduce_graph_fact eid f s = Inr s' \<Longrightarrow> decisions_kept (p_decisions s) (p_decisions s')"
proof (cases f)
  case (Decision_raised d)
  then show "reduce_graph_fact eid f s = Inr s' \<Longrightarrow> ?thesis"
    by (auto simp: on_decision_raised_def intro: decisions_kept_new)
next
  case (Decision_resolved i v an au)
  then show "reduce_graph_fact eid f s = Inr s' \<Longrightarrow> ?thesis"
    by (auto simp: on_decision_resolved_def Let_def decision_change_def simp del: split_paired_All
        elim!: decisions_kept_put)
next
  case (Decision_expired i r x)
  then show "reduce_graph_fact eid f s = Inr s' \<Longrightarrow> ?thesis"
    by (auto simp: on_decision_expired_def decision_change_def elim!: decisions_kept_put)
next
  case (Readiness_observed r)
  then show "reduce_graph_fact eid f s = Inr s' \<Longrightarrow> ?thesis"
    by (auto dest: on_readiness_observed_Inr)
qed (auto simp: handler_defs)

text \<open>The three events that write decisions, and the observation that lists the pending ones.\<close>

lemma decisions_ok_raised:
  assumes ok: "decisions_ok s" and red: "on_decision_raised d s = Inr s'" and "parse_decision_input d = Some d"
  shows "decisions_ok s'"
proof -
  from red assms(3) have s': "s' = s\<lparr>p_decisions := oput (dc_id d) (pending_decision d) (p_decisions s)\<rparr>"
    and free: "oget (p_decisions s) (dc_id d) = None"
    by (auto simp: on_decision_raised_def)
  have new: "decision_ok (dc_id d) (pending_decision d)"
    using parse_decision_input_facts[OF assms(3)] by (simp add: decision_ok_def)
  with ok free show ?thesis unfolding decisions_ok_def s' by auto
qed

lemma decisions_ok_resolved:
  assumes ok: "decisions_ok s" and red: "on_decision_resolved i v an au s = Inr s'"
    and given: "v \<noteq> None \<or> an \<noteq> None"
  shows "decisions_ok s'"
proof -
  from red obtain d e where d: "oget (p_decisions s) i = Some d" "dc_status d = Pending"
    and v: "case v of None \<Rightarrow> True | Some w \<Rightarrow> w \<in> do_id ` set (dc_options d)"
    and e: "e = d\<lparr>dc_status := Resolved, dc_resolution := Some \<lparr>rs_optionId = v, rs_answer = an\<rparr>,
      dc_authorizedBy := assign_if au (dc_authorizedBy d)\<rparr>"
    and ds: "p_decisions s' = oput i e (p_decisions s)"
    and rd: "ro_pendingDecisionIds (p_readiness s') =
      filter (\<lambda>x. x \<noteq> dc_id d) (ro_pendingDecisionIds (p_readiness s))"
    by (cases v) (auto simp: on_decision_resolved_def Let_def list_ex_iff)
  from ok d(1) have "decision_ok i d" by (simp add: decisions_ok_def)
  with v given e have "decision_ok i e" "dc_id d = i"
    by (auto simp: decision_ok_def split: option.splits)
  with ok ds rd show ?thesis unfolding decisions_ok_def by auto
qed

lemma decisions_ok_expired:
  assumes ok: "decisions_ok s" and red: "on_decision_expired i s = Inr s'"
  shows "decisions_ok s'"
proof -
  from red obtain d where d: "oget (p_decisions s) i = Some d" "dc_status d = Pending"
    and s': "s' = s\<lparr>p_decisions := oput i (d\<lparr>dc_status := Expired\<rparr>) (p_decisions s)\<rparr>"
    by (auto simp: on_decision_expired_def)
  from ok d have "decision_ok i (d\<lparr>dc_status := Expired\<rparr>)"
    unfolding decisions_ok_def by (force simp: decision_ok_def)
  with ok show ?thesis unfolding decisions_ok_def s' by auto
qed

lemma decisions_ok_observed:
  assumes ok: "decisions_ok s" and red: "on_readiness_observed r s = Inr s'"
  shows "decisions_ok s'"
proof -
  from on_readiness_observed_Inr[OF red]
  have pend: "\<forall>i \<in> set (ro_pendingDecisionIds r). decision_pending s i"
    and ds: "p_decisions s' = p_decisions s"
    and rd: "set (ro_pendingDecisionIds (p_readiness s')) = set (ro_pendingDecisionIds r)"
    by simp_all
  from pend have "\<exists>d. oget (p_decisions s) i = Some d \<and> dc_status d \<noteq> Resolved"
    if "i \<in> set (ro_pendingDecisionIds r)" for i
    using that by (auto simp: decision_pending_def split: option.splits)
  with ok ds rd show ?thesis unfolding decisions_ok_def by simp
qed

lemma graph_fact_other:
  assumes "reduce_graph_fact eid f s = Inr s'"
    and "\<And>d. f \<noteq> Decision_raised d" "\<And>d v an au. f \<noteq> Decision_resolved d v an au"
    and "\<And>d r x. f \<noteq> Decision_expired d r x" "\<And>r. f \<noteq> Readiness_observed r"
  shows "p_decisions s' = p_decisions s \<and> p_readiness s' = p_readiness s \<and>
    p_stoppedNodeIds s' = p_stoppedNodeIds s"
  using assms by (cases f) (auto simp: handler_defs)

lemma decisions_ok_graph:
  assumes ok: "decisions_ok s" and "parse_graph_fact f = Some f" and red: "reduce_graph_fact eid f s = Inr s'"
  shows "decisions_ok s'"
proof (cases f)
  case (Decision_raised d)
  with assms(2) have "parse_decision_input d = Some d" by (auto simp: parse_simps)
  moreover from Decision_raised red have "on_decision_raised d s = Inr s'" by simp
  ultimately show ?thesis by (intro decisions_ok_raised[OF ok])
next
  case (Decision_resolved d v an au)
  with assms(2) have "v \<noteq> None \<or> an \<noteq> None" by (auto simp: parse_simps)
  moreover from Decision_resolved red have "on_decision_resolved d v an au s = Inr s'" by simp
  ultimately show ?thesis by (intro decisions_ok_resolved[OF ok])
next
  case (Decision_expired d r x)
  with red have "on_decision_expired d s = Inr s'" by simp
  then show ?thesis by (rule decisions_ok_expired[OF ok])
next
  case (Readiness_observed r)
  with red have "on_readiness_observed r s = Inr s'" by simp
  then show ?thesis by (rule decisions_ok_observed[OF ok])
qed (insert graph_fact_other[OF red] ok, auto simp: decisions_ok_def)

interpretation decisions: projection_invariant h decisions_ok for h
proof unfold_locales
  show "decisions_ok (created_projection r i t g d)" for r i t g d
    by (simp add: decisions_ok_def created_projection_def empty_readiness_def)
  fix s p eid s'
  assume ok: "decisions_ok s" and parsed: "parse_payload h p = Some p" and red: "reduce_payload eid p s = Inr s'"
  show "decisions_ok s'"
  proof (cases "\<exists>f. p = Graph_ev f")
    case True
    with parsed red obtain f where "parse_graph_fact f = Some f" "reduce_graph_fact eid f s = Inr s'" by auto
    then show ?thesis by (rule decisions_ok_graph[OF ok])
  next
    case False
    with payload_regions(2)[OF red] ok show ?thesis by (simp add: decision_region_def decisions_ok_def)
  qed
qed (simp_all add: decisions_ok_def)

lemma payload_decisions_kept:
  assumes "reduce_payload eid p s = Inr s'"
  shows "decisions_kept (p_decisions s) (p_decisions s')"
proof (cases "\<exists>f. p = Graph_ev f")
  case True
  with assms obtain f where "reduce_graph_fact eid f s = Inr s'" by auto
  then show ?thesis by (rule graph_fact_decisions_kept)
next
  case False
  with payload_regions(2)[OF assms] show ?thesis by (simp add: decision_region_def)
qed

lemma journal_step_payload:
  assumes "journal_step h s e s'"
  obtains s1 where "reduce_payload (ev_eventId e) (ev_payload e) (s\<lparr>p_updatedAt := ev_occurredAt e\<rparr>) = Inr s1"
    "s' = s1\<lparr>p_sequence := ev_sequence e, p_appliedEventIds := p_appliedEventIds s1 @ [ev_eventId e]\<rparr>"
    "parse_payload h (ev_payload e) = Some (ev_payload e)"
  using assms by (auto simp: journal_step_iff next_state_Inr reduceRun_Inr parse_run_event_def parse_simps)

interpretation decisions_order: projection_order h "\<lambda>s s'. decisions_kept (p_decisions s) (p_decisions s')" for h
proof unfold_locales
  fix s e s' assume "journal_step h s e s'"
  then show "decisions_kept (p_decisions s) (p_decisions s')"
    by (elim journal_step_payload) (auto dest: payload_decisions_kept)
qed (auto intro: decisions_kept_trans)

section \<open>Attempts along a journal\<close>

definition attempt_forward :: "attempt_projection \<Rightarrow> attempt_projection \<Rightarrow> bool" where
  "attempt_forward a b \<longleftrightarrow> at_nodeId b = at_nodeId a \<and>
     at_inputFingerprint b = at_inputFingerprint a \<and> at_retryOfAttemptId b = at_retryOfAttemptId a \<and>
     at_kind b = at_kind a \<and> at_repairPasses a \<le> at_repairPasses b \<and>
     (at_status a \<noteq> At_running \<longrightarrow> at_status b \<noteq> At_running)"

definition attempts_forward :: "attempt_projection obj \<Rightarrow> attempt_projection obj \<Rightarrow> bool" where
  "attempts_forward as bs \<longleftrightarrow> (\<forall>k a. oget as k = Some a \<longrightarrow> (\<exists>b. oget bs k = Some b \<and> attempt_forward a b))"

lemma attempt_change_forward: "attempt_change a b \<Longrightarrow> attempt_forward a b"
  by (auto simp: attempt_change_def attempt_forward_def)

lemma attempt_forward_trans: "attempt_forward a b \<Longrightarrow> attempt_forward b c \<Longrightarrow> attempt_forward a c"
  by (auto simp: attempt_forward_def)

interpretation attempts_order: projection_order h "\<lambda>s s'. attempts_forward (p_attempts s) (p_attempts s')" for h
proof unfold_locales
  show "attempts_forward (p_attempts s) (p_attempts s)" for s :: run_projection
    by (simp add: attempts_forward_def attempt_forward_def)
  show "attempts_forward (p_attempts s) (p_attempts u)"
    if "attempts_forward (p_attempts s) (p_attempts t)" "attempts_forward (p_attempts t) (p_attempts u)"
    for s t u :: run_projection
    using that unfolding attempts_forward_def by (meson attempt_forward_trans)
  fix s e s' assume "reachable h s" and "journal_step h s e s'"
  then obtain s1 where s1: "reduce_payload (ev_eventId e) (ev_payload e) (s\<lparr>p_updatedAt := ev_occurredAt e\<rparr>) = Inr s1"
    "p_attempts s' = p_attempts s1" by (elim journal_step_payload) auto
  from attempts.reachable_holds[OF \<open>reachable h s\<close>] have "attempts_ok (s\<lparr>p_updatedAt := ev_occurredAt e\<rparr>)"
    by (simp add: attempts.updated)
  from payload_attempts_step[OF this s1(1)] s1(2) show "attempts_forward (p_attempts s) (p_attempts s')"
    unfolding attempts_forward_def by (auto dest!: attempts_step_get attempt_change_forward)
qed

section \<open>Waves\<close>

definition waves_ok :: "run_projection \<Rightarrow> bool" where
  "waves_ok s \<longleftrightarrow> distinct (map ws_waveId (p_selectedWaves s)) \<and>
     (\<forall>w \<in> set (p_selectedWaves s). int (length (ws_nodeIds w)) \<le> ws_maxParallel w)"

lemma graph_fact_waves:
  assumes "reduce_graph_fact eid f s = Inr s'"
  shows "p_selectedWaves s' = p_selectedWaves s \<or> (\<exists>w. f = Wave_selected w \<and>
    p_selectedWaves s' = p_selectedWaves s @ [w] \<and> p_lifecycle s = Running \<and>
    set (ws_nodeIds w) \<subseteq> set (ro_readyNodeIds (p_readiness s)) \<and>
    int (length (ws_nodeIds w)) \<le> ws_maxParallel w \<and> ws_waveId w \<notin> ws_waveId ` set (p_selectedWaves s))"
proof (cases f)
  case (Readiness_observed r)
  with assms on_readiness_observed_Inr[of r s s'] show ?thesis by simp
qed (use assms in \<open>auto simp: handler_defs Let_def list_ex_iff\<close>)

lemma payload_waves:
  assumes "reduce_payload eid p s = Inr s'"
  shows "p_selectedWaves s' = p_selectedWaves s \<or> (\<exists>w. p = Graph_ev (Wave_selected w) \<and>
    p_selectedWaves s' = p_selectedWaves s @ [w] \<and> p_lifecycle s = Running \<and>
    set (ws_nodeIds w) \<subseteq> set (ro_readyNodeIds (p_readiness s)) \<and>
    int (length (ws_nodeIds w)) \<le> ws_maxParallel w \<and> ws_waveId w \<notin> ws_waveId ` set (p_selectedWaves s))"
proof (cases "\<exists>f. p = Graph_ev f")
  case True
  with assms graph_fact_waves show ?thesis by fastforce
next
  case False
  with payload_regions(2)[OF assms] show ?thesis by (simp add: decision_region_def)
qed

interpretation waves: projection_invariant h waves_ok for h
proof unfold_locales
  show "waves_ok (created_projection r i t g d)" for r i t g d
    by (simp add: waves_ok_def created_projection_def)
  fix s p eid s' assume "waves_ok s" "reduce_payload eid p s = Inr s'"
  with payload_waves[of eid p s s'] show "waves_ok s'" by (auto simp: waves_ok_def)
qed (simp_all add: waves_ok_def)

end
