(* ===== verification/Delivery_Invariants.thy ===== *)
theory Delivery_Invariants
  imports Decision_Invariants
begin

text \<open>
  The lifecycle of a run as an abstract automaton that the reducer refines, and what every journal
  guarantees of evidence, adopted artifacts, protocol records and the delivery of the result.
\<close>

section \<open>The abstract lifecycle\<close>

text \<open>
  One rule per kind of event that can move the lifecycle; every other event is quiet. The side
  conditions are those the lifecycle alone can state.
\<close>

fun moves_lifecycle :: "event_payload \<Rightarrow> bool" where
  "moves_lifecycle (Run_ev (Run_created _ _)) = True"
| "moves_lifecycle (Run_ev (Run_renamed _)) = False"
| "moves_lifecycle (Run_ev (Run_archived _)) = False"
| "moves_lifecycle (Run_ev _) = True"
| "moves_lifecycle (Planning_ev (Planning_failed _ _)) = True"
| "moves_lifecycle (Graph_ev (Graph_revision_proposed _ _)) = True"
| "moves_lifecycle (Graph_ev (Graph_revision_approved _ _)) = True"
| "moves_lifecycle (Graph_ev (Readiness_observed _)) = True"
| "moves_lifecycle (Delivery_ev _) = True"
| "moves_lifecycle _ = False"

inductive life_step :: "lifecycle \<Rightarrow> event_payload \<Rightarrow> lifecycle \<Rightarrow> bool" where
  quiet [simp]: "\<not> moves_lifecycle p \<Longrightarrow> life_step l p l"
| legacy: "life_step Planning (Run_ev (Legacy_run_imported a b c d)) Interrupted"
| fail_planning: "transition_ok l Failed_run \<Longrightarrow> life_step l (Planning_ev (Planning_failed r f)) Failed_run"
| propose: "plannable l \<Longrightarrow> life_step l (Graph_ev (Graph_revision_proposed g v)) Needs_approval"
| approve: "transition_ok l Running \<Longrightarrow> life_step l (Graph_ev (Graph_revision_approved g v)) Running"
| observe: "executing l \<Longrightarrow> executing m \<Longrightarrow> life_step l (Graph_ev (Readiness_observed r)) m"
| observe_idle: "\<not> executing l \<Longrightarrow> life_step l (Graph_ev (Readiness_observed r)) l"
| pause: "executing l \<Longrightarrow> life_step l (Run_ev (Run_pause_requested r)) Paused"
| resume: "executing m \<Longrightarrow> life_step Paused (Run_ev (Run_resume_requested r)) m"
| restart: "l = Interrupted \<or> l = Failed_run \<Longrightarrow> life_step l (Run_ev (Run_restart_requested r)) Running"
| cancel: "transition_ok l Cancelling \<Longrightarrow> life_step l (Run_ev (Operation_cancel_requested i r)) Cancelling"
| interrupted: "l = Cancelling \<or> l = Interrupted \<Longrightarrow> life_step l (Run_ev (Operation_interrupted i)) Interrupted"
| fail: "transition_ok l Failed_run \<Longrightarrow> life_step l (Run_ev (Run_failed r a)) Failed_run"
| verified: "l = Running \<or> l = Delivering \<or> l = Result_ready \<Longrightarrow>
    life_step l (Delivery_ev (Final_candidate_verified v)) Result_ready"
| deliver: "l = Result_ready \<or> l = Delivering \<Longrightarrow> life_step l (Delivery_ev (Delivery_started d)) Delivering"
| published: "l = Delivering \<or> l = Completed \<Longrightarrow> life_step l (Delivery_ev (Delivery_published w)) Completed"
| undelivered: "l = Running \<or> l = Delivering \<or> l = Result_ready \<Longrightarrow>
    life_step l (Delivery_ev (Delivery_failed_fact m r t d)) Result_ready"

inductive_cases life_stepE: "life_step l p m"

text \<open>Which moves reach a given state.\<close>

lemma transition_ok_into:
  "transition_ok l Result_ready \<longleftrightarrow> l = Running \<or> l = Delivering \<or> l = Result_ready"
  "transition_ok l Delivering \<longleftrightarrow> l = Result_ready \<or> l = Delivering"
  "transition_ok l Completed \<longleftrightarrow> l = Delivering \<or> l = Completed"
  "transition_ok l Interrupted \<longleftrightarrow> l = Cancelling \<or> l = Interrupted"
  "transition_ok Completed l \<longleftrightarrow> l = Completed"
  by (cases l; simp add: transition_ok_def)+

lemma executing_transitions:
  "executing l \<Longrightarrow> executing m \<Longrightarrow> transition_ok l m"
  "executing l \<Longrightarrow> transition_ok l Paused"
  "executing m \<Longrightarrow> transition_ok Paused m"
  "plannable l \<Longrightarrow> transition_ok l Needs_approval"
  "l = Interrupted \<or> l = Failed_run \<Longrightarrow> transition_ok l Running"
  by (auto simp: transition_ok_def)

lemma observed_executing: "executing (observed_lifecycle r)"
  by (simp add: observed_lifecycle_def)

lemma life_step_transition:
  "life_step l p m \<Longrightarrow> transition_ok l m \<or> (\<exists>a b c d. p = Run_ev (Legacy_run_imported a b c d))"
  by (induction rule: life_step.induct)
    (auto simp: executing_transitions transition_ok_into intro: transition_ok_def[THEN iffD2])

lemma on_readiness_observed_life:
  assumes "on_readiness_observed r s = Inr s'"
  shows "life_step (p_lifecycle s) (Graph_ev (Readiness_observed r)) (p_lifecycle s')"
proof (cases "executing (p_lifecycle s)")
  case True
  with assms have "\<exists>q. p_lifecycle s' = observed_lifecycle q"
    by (auto simp: on_readiness_observed_def Let_def split: list.splits)
  with True observed_executing life_step.observe show ?thesis by metis
next
  case False
  with assms have "p_lifecycle s' = p_lifecycle s"
    by (auto simp: on_readiness_observed_def Let_def split: list.splits if_splits)
  with False show ?thesis by (simp add: life_step.observe_idle)
qed

lemma run_fact_life:
  assumes "reduce_run_fact f s = Inr s'"
  shows "life_step (p_lifecycle s) (Run_ev f) (p_lifecycle s')"
proof (cases f)
  case (Run_resume_requested r)
  with assms have "p_lifecycle s = Paused" "p_lifecycle s' = observed_lifecycle (p_readiness s)"
    by (auto simp: on_resume_requested_def)
  with Run_resume_requested observed_executing life_step.resume show ?thesis by metis
qed (use assms in \<open>auto simp: handler_defs transition_ok_into intro: life_step.intros\<close>)

lemma graph_fact_life:
  assumes "reduce_graph_fact eid f s = Inr s'"
  shows "life_step (p_lifecycle s) (Graph_ev f) (p_lifecycle s')"
proof (cases f)
  case (Readiness_observed r)
  with assms show ?thesis by (simp add: on_readiness_observed_life)
qed (use assms in \<open>auto simp: handler_defs Let_def intro: life_step.intros\<close>)

lemma delivery_fact_life:
  "reduce_delivery_fact f s = Inr s' \<Longrightarrow> life_step (p_lifecycle s) (Delivery_ev f) (p_lifecycle s')"
  by (cases f) (auto simp: handler_defs transition_ok_into intro: life_step.intros)

lemma planning_fact_life:
  "reduce_planning_fact f s = Inr s' \<Longrightarrow> life_step (p_lifecycle s) (Planning_ev f) (p_lifecycle s')"
  by (cases f) (auto simp: handler_defs intro: life_step.intros)

lemma payload_life:
  assumes "reduce_payload eid p s = Inr s'"
  shows "life_step (p_lifecycle s) p (p_lifecycle s')"
proof (cases p)
  case (Protocol_ev f)
  with assms have "p_lifecycle s' = p_lifecycle s" by (simp add: protocol_fact_frame)
  with Protocol_ev show ?thesis by (simp add: life_step.quiet)
next
  case (Attempt_ev f)
  with assms have "p_lifecycle s' = p_lifecycle s" by (simp add: attempt_fact_frame)
  with Attempt_ev show ?thesis by (simp add: life_step.quiet)
next
  case (Integration_ev f)
  with assms have "p_lifecycle s' = p_lifecycle s" by (simp add: integration_fact_frame)
  with Integration_ev show ?thesis by (simp add: life_step.quiet)
qed (use assms in \<open>simp_all add: run_fact_life graph_fact_life delivery_fact_life planning_fact_life\<close>)

lemma reduceRun_life:
  assumes "reduceRun s e = Inr s'"
  shows "life_step (p_lifecycle s) (ev_payload e) (p_lifecycle s')"
  using assms payload_life by (fastforce simp: reduceRun_Inr)

section \<open>Records that are never rewritten\<close>

definition extends :: "'v obj \<Rightarrow> 'v obj \<Rightarrow> bool" where
  "extends m n \<longleftrightarrow> (\<forall>k v. oget m k = Some v \<longrightarrow> oget n k = Some v)"

lemma extends_refl [simp]: "extends m m"
  by (simp add: extends_def)

lemma extends_trans: "extends l m \<Longrightarrow> extends m n \<Longrightarrow> extends l n"
  by (simp add: extends_def)

lemma extends_oput [simp]: "oget m k = None \<Longrightarrow> extends m (oput k v m)"
  by (simp add: extends_def)

definition records_kept :: "run_projection \<Rightarrow> run_projection \<Rightarrow> bool" where
  "records_kept s t \<longleftrightarrow> extends (p_commandReceipts s) (p_commandReceipts t) \<and>
     extends (p_effectIntents s) (p_effectIntents t) \<and>
     extends (p_physicalEffectReceipts s) (p_physicalEffectReceipts t) \<and>
     extends (p_effectTerminals s) (p_effectTerminals t) \<and>
     extends (p_adoptedArtifacts s) (p_adoptedArtifacts t) \<and>
     extends (p_releaseAuthorizations s) (p_releaseAuthorizations t)"

lemma protocol_records_kept:
  assumes "reduce_protocol_fact f s = Inr s'"
  shows "extends (p_commandReceipts s) (p_commandReceipts s') \<and>
     extends (p_effectIntents s) (p_effectIntents s') \<and>
     extends (p_physicalEffectReceipts s) (p_physicalEffectReceipts s') \<and>
     extends (p_effectTerminals s) (p_effectTerminals s')"
proof (cases f)
  case (Command_accepted r c)
  with assms have "on_command_accepted r c s = Inr s'" by simp
  note a = on_command_accepted_Inr[OF this]
  from Command_accepted assms have "p_effectIntents s' = p_effectIntents s" "p_effectTerminals s' = p_effectTerminals s"
    by (cases c; auto simp: on_command_accepted_def Let_def)+
  with a show ?thesis by simp
qed (use assms in \<open>auto simp: handler_defs receipt_taken_def Let_def split: option.splits\<close>)

lemma attempt_records_kept:
  assumes "reduce_attempt_fact eid f s = Inr s'"
  shows "extends (p_adoptedArtifacts s) (p_adoptedArtifacts s') \<and>
     extends (p_releaseAuthorizations s) (p_releaseAuthorizations s')"
proof (cases f)
  case (Artifact_adopted x)
  with assms show ?thesis by (auto simp: on_artifact_adopted_def Let_def split: option.splits)
next
  case (Artifact_release_authorized u)
  with assms show ?thesis by (auto simp: on_release_authorized_def)
qed (use assms in \<open>auto dest!: throwIf_D elim!: bindE_E requireE_E simp: handler_defs Let_def record_matrix_def
    simp del: throwIf_Inr bindE_Inr requireE_Inr split: option.splits\<close>)

lemma payload_records_kept:
  assumes "reduce_payload eid p s = Inr s'"
  shows "records_kept s s'"
proof -
  have "extends (p_commandReceipts s) (p_commandReceipts s') \<and>
     extends (p_effectIntents s) (p_effectIntents s') \<and>
     extends (p_physicalEffectReceipts s) (p_physicalEffectReceipts s') \<and>
     extends (p_effectTerminals s) (p_effectTerminals s')"
  proof (cases "\<exists>f. p = Protocol_ev f")
    case True
    with assms obtain f where "reduce_protocol_fact f s = Inr s'" by auto
    then show ?thesis by (rule protocol_records_kept)
  next
    case False
    with payload_regions(1)[OF assms] show ?thesis by (simp add: protocol_region_def)
  qed
  moreover have "extends (p_adoptedArtifacts s) (p_adoptedArtifacts s') \<and>
     extends (p_releaseAuthorizations s) (p_releaseAuthorizations s')"
  proof (cases "\<exists>f. p = Attempt_ev f")
    case True
    with assms obtain f where "reduce_attempt_fact eid f s = Inr s'" by auto
    then show ?thesis by (rule attempt_records_kept)
  next
    case False
    with payload_regions(3)[OF assms] show ?thesis by (simp add: artifact_region_def)
  qed
  ultimately show ?thesis by (simp add: records_kept_def)
qed

interpretation records: projection_order h records_kept for h
proof unfold_locales
  show "records_kept s s" for s by (simp add: records_kept_def)
  show "records_kept s u" if "records_kept s t" "records_kept t u" for s t u
    using that by (auto simp: records_kept_def intro: extends_trans)
  fix s e s' assume "journal_step h s e s'"
  then show "records_kept s s'"
    by (elim journal_step_payload) (auto simp: records_kept_def dest: payload_records_kept)
qed

section \<open>Artifacts\<close>

definition artifacts_ok :: "run_projection \<Rightarrow> bool" where
  "artifacts_ok s \<longleftrightarrow>
     (\<forall>k x. oget (p_adoptedArtifacts s) k = Some x \<longrightarrow> aa_artifactId x = k) \<and>
     (\<forall>k u. oget (p_releaseAuthorizations s) k = Some u \<longrightarrow> ra_artifactId u = k \<and>
        (\<exists>x m. oget (p_adoptedArtifacts s) k = Some x \<and> aa_kind x = Ak_manifest \<and> aa_manifest x = Some m \<and>
           mi_retainedByRef (am_identity m) = ra_retainedByRef u \<and>
           eb_commitOid (mi_sourceCandidate (am_identity m)) = ra_candidateCommit u))"

lemma attempt_artifact_region:
  assumes "reduce_attempt_fact eid f s = Inr s'"
    and "\<And>x. f \<noteq> Artifact_adopted x" "\<And>u. f \<noteq> Artifact_release_authorized u"
  shows "artifact_region s' = artifact_region s"
  using assms by (cases f) (auto dest!: throwIf_D elim!: bindE_E requireE_E simp: handler_defs Let_def
      record_matrix_def artifact_region_def simp del: throwIf_Inr bindE_Inr requireE_Inr split: option.splits)

lemma artifacts_ok_adopted:
  assumes ok: "artifacts_ok s" and red: "on_artifact_adopted x s = Inr s'"
  shows "artifacts_ok s'"
proof -
  from red have s': "p_adoptedArtifacts s' = oput (aa_artifactId x) x (p_adoptedArtifacts s)"
    "p_releaseAuthorizations s' = p_releaseAuthorizations s" and free: "oget (p_adoptedArtifacts s) (aa_artifactId x) = None"
    by (auto simp: on_artifact_adopted_def Let_def split: option.splits)
  from ok free have "oget (p_releaseAuthorizations s) (aa_artifactId x) = None"
    unfolding artifacts_ok_def by (metis not_Some_eq)
  with ok show ?thesis unfolding artifacts_ok_def s' by auto
qed

lemma artifacts_ok_released:
  assumes ok: "artifacts_ok s" and red: "on_release_authorized u s = Inr s'"
  shows "artifacts_ok s'"
proof -
  from red obtain x m where "oget (p_adoptedArtifacts s) (ra_artifactId u) = Some x"
    "aa_kind x = Ak_manifest" "aa_manifest x = Some m"
    "mi_retainedByRef (am_identity m) = ra_retainedByRef u"
    "eb_commitOid (mi_sourceCandidate (am_identity m)) = ra_candidateCommit u"
    and s': "s' = s\<lparr>p_releaseAuthorizations := oput (ra_artifactId u) u (p_releaseAuthorizations s)\<rparr>"
    by (auto simp: on_release_authorized_def)
  with ok show ?thesis unfolding artifacts_ok_def s' by auto
qed

lemma artifacts_ok_attempt:
  assumes ok: "artifacts_ok s" and red: "reduce_attempt_fact eid f s = Inr s'"
  shows "artifacts_ok s'"
proof (cases f)
  case (Artifact_adopted x)
  with red have "on_artifact_adopted x s = Inr s'" by simp
  then show ?thesis by (rule artifacts_ok_adopted[OF ok])
next
  case (Artifact_release_authorized u)
  with red have "on_release_authorized u s = Inr s'" by simp
  then show ?thesis by (rule artifacts_ok_released[OF ok])
qed (insert attempt_artifact_region[OF red] ok, auto simp: artifact_region_def artifacts_ok_def)

interpretation artifacts: projection_invariant h artifacts_ok for h
proof unfold_locales
  show "artifacts_ok (created_projection r i t g d)" for r i t g d
    by (simp add: artifacts_ok_def created_projection_def)
  fix s p eid s' assume ok: "artifacts_ok s" and red: "reduce_payload eid p s = Inr s'"
  show "artifacts_ok s'"
  proof (cases "\<exists>f. p = Attempt_ev f")
    case True
    with red obtain f where "reduce_attempt_fact eid f s = Inr s'" by auto
    then show ?thesis by (rule artifacts_ok_attempt[OF ok])
  next
    case False
    with payload_regions(3)[OF red] ok show ?thesis by (simp add: artifact_region_def artifacts_ok_def)
  qed
qed (simp_all add: artifacts_ok_def)

section \<open>Evidence\<close>

definition evidence_ok :: "run_projection \<Rightarrow> bool" where
  "evidence_ok s \<longleftrightarrow> distinct (p_evidenceMatrices s) \<and>
     (\<forall>i. i \<in> set (p_evidenceMatrices s) \<longleftrightarrow> oget (p_evidenceMatrixSummaries s) i \<noteq> None) \<and>
     (\<forall>n i. oget (p_nodeEvidenceMatrixIds s) n = Some i \<longrightarrow> i \<in> set (p_evidenceMatrices s))"

lemma evidence_ok_record: "evidence_ok s \<Longrightarrow> evidence_ok (record_matrix n m s)"
  by (auto simp: evidence_ok_def record_matrix_def)

lemma evidence_ok_region: "evidence_region s' = evidence_region s \<Longrightarrow> evidence_ok s' = evidence_ok s"
  unfolding evidence_ok_def by (simp add: evidence_region_def)

lemma evidence_ok_updates [simp]:
  "evidence_ok (s\<lparr>p_attempts := a\<rparr>) = evidence_ok s"
  "evidence_ok (s\<lparr>p_humanReviews := r\<rparr>) = evidence_ok s"
  "evidence_ok (s\<lparr>p_integrations := i\<rparr>) = evidence_ok s"
  by (simp_all add: evidence_ok_def)

lemma evidence_ok_matrix_recorded:
  assumes "evidence_ok s" "on_matrix_recorded m s = Inr s'"
  shows "evidence_ok s'"
  using assms by (auto simp: on_matrix_recorded_def evidence_ok_def split: if_splits)

lemma attempt_evidence_region:
  assumes "reduce_attempt_fact eid f s = Inr s'"
    and "\<And>i n m. f \<noteq> Validation_completed i n m" "\<And>m. f \<noteq> Evidence_matrix_recorded m"
  shows "evidence_region s' = evidence_region s"
  using assms by (cases f) (auto dest!: throwIf_D elim!: bindE_E requireE_E simp: handler_defs Let_def
      evidence_region_def simp del: throwIf_Inr bindE_Inr requireE_Inr split: option.splits)

lemma evidence_ok_attempt:
  assumes ok: "evidence_ok s" and red: "reduce_attempt_fact eid f s = Inr s'"
  shows "evidence_ok s'"
proof (cases f)
  case (Validation_completed i n m)
  with red ok show ?thesis by (auto simp: on_validation_completed_def intro!: evidence_ok_record)
next
  case (Evidence_matrix_recorded m)
  with red have "on_matrix_recorded m s = Inr s'" by simp
  then show ?thesis by (rule evidence_ok_matrix_recorded[OF ok])
qed (insert evidence_ok_region[OF attempt_evidence_region[OF red]] ok, auto)

lemma evidence_ok_integration:
  assumes ok: "evidence_ok s" and red: "reduce_integration_fact f s = Inr s'"
  shows "evidence_ok s'"
  using assms
  by (cases f) (auto simp: handler_defs Let_def intro!: evidence_ok_record split: option.splits)

interpretation evidence: projection_invariant h evidence_ok for h
proof unfold_locales
  show "evidence_ok (created_projection r i t g d)" for r i t g d
    by (simp add: evidence_ok_def created_projection_def)
  fix s p eid s' assume ok: "evidence_ok s" and red: "reduce_payload eid p s = Inr s'"
  show "evidence_ok s'"
  proof (cases p)
    case (Attempt_ev f)
    with red have "reduce_attempt_fact eid f s = Inr s'" by simp
    then show ?thesis by (rule evidence_ok_attempt[OF ok])
  next
    case (Integration_ev f)
    with red have "reduce_integration_fact f s = Inr s'" by simp
    then show ?thesis by (rule evidence_ok_integration[OF ok])
  qed (insert evidence_ok_region[OF payload_regions(4)[OF red]] ok, auto)
qed (simp_all add: evidence_ok_def)

section \<open>Delivery\<close>

definition approval_matches :: "final_candidate \<Rightarrow> delivery_approval \<Rightarrow> bool" where
  "approval_matches fc a \<longleftrightarrow> da_manifestId a = fc_manifestId fc \<and> da_finalSha a = fc_commit fc \<and>
     da_targetFingerprint a = fc_sourceTargetFingerprint fc \<and> da_targetBranch a = fc_targetBranch fc \<and>
     da_targetHead a = fc_targetHead fc"

definition receipt_matches :: "final_candidate \<Rightarrow> delivery_approval \<Rightarrow> delivery_receipt \<Rightarrow> bool" where
  "receipt_matches fc a r \<longleftrightarrow> dr_confirmed r \<and> dr_manifestId r = fc_manifestId fc \<and>
     agrees (dr_disposition r) (Some Delivered) \<and> agrees (dr_finalSha r) (Some (da_finalSha a)) \<and>
     agrees (dr_targetBranch r) (Some (da_targetBranch a)) \<and>
     agrees (dr_targetHeadBefore r) (Some (da_targetHead a)) \<and>
     agrees (dr_deliveredTreeSha r) (map_option fm_treeSha (fc_finalManifest fc))"

definition manifest_bound :: "final_candidate \<Rightarrow> bool" where
  "manifest_bound fc \<longleftrightarrow> (\<forall>fm. fc_finalManifest fc = Some fm \<longrightarrow> fm_commitSha fm = fc_commit fc \<and>
     fm_evidenceMatrixId fm = fc_evidenceMatrixId fc \<and> fm_deliveryTarget fm = fc_targetBranch fc)"

definition delivery_ok :: "run_projection \<Rightarrow> bool" where
  "delivery_ok s \<longleftrightarrow>
     (p_lifecycle s \<in> {Result_ready, Delivering, Completed} \<longrightarrow> p_finalCandidate s \<noteq> None) \<and>
     (p_deliveryApproval s \<noteq> None \<longrightarrow> p_finalCandidate s \<noteq> None) \<and>
     (\<forall>fc. p_finalCandidate s = Some fc \<longrightarrow> manifest_bound fc) \<and>
     (p_lifecycle s \<in> {Delivering, Completed} \<longrightarrow> (\<exists>fc a. p_finalCandidate s = Some fc \<and>
        p_deliveryApproval s = Some a \<and> approval_matches fc a)) \<and>
     (p_lifecycle s = Completed \<longrightarrow> oc_delivery (p_outcomes s) = De_published \<and>
        (\<exists>fc a r. p_finalCandidate s = Some fc \<and> p_deliveryApproval s = Some a \<and>
           p_deliveryReceipt s = Some r \<and> receipt_matches fc a r))"

lemma life_step_delivery_states:
  "life_step l p m \<Longrightarrow> m \<in> {Result_ready, Delivering, Completed} \<Longrightarrow> \<forall>f. p \<noteq> Delivery_ev f \<Longrightarrow> l = m"
  by (induction rule: life_step.induct) auto

lemma payload_completed_outcomes:
  assumes "reduce_payload eid p s = Inr s'" "p_lifecycle s' = Completed" "\<forall>f. p \<noteq> Delivery_ev f"
  shows "p_outcomes s' = p_outcomes s"
proof (cases p)
  case (Run_ev f)
  with assms show ?thesis
    by (cases f) (auto simp: handler_defs observed_lifecycle_def split: if_splits)
qed (use assms in \<open>auto simp: protocol_fact_frame planning_fact_frame attempt_fact_frame
    integration_fact_frame graph_fact_frame\<close>)

lemma delivery_ok_other:
  assumes ok: "delivery_ok s" and red: "reduce_payload eid p s = Inr s'" and other: "\<forall>f. p \<noteq> Delivery_ev f"
  shows "delivery_ok s'"
proof -
  from payload_regions(5)[OF red other] have reg: "p_finalCandidate s' = p_finalCandidate s"
    "p_deliveryReceipt s' = p_deliveryReceipt s" "p_deliveryApproval s' = p_deliveryApproval s"
    by (simp_all add: delivery_region_def)
  have life: "p_lifecycle s' \<in> {Result_ready, Delivering, Completed} \<Longrightarrow> p_lifecycle s = p_lifecycle s'"
    using life_step_delivery_states[OF payload_life[OF red] _ other] by blast
  have "p_lifecycle s' = Completed \<Longrightarrow> p_outcomes s' = p_outcomes s"
    using payload_completed_outcomes[OF red _ other] .
  with ok life show ?thesis unfolding delivery_ok_def reg by fastforce
qed

lemma delivery_ok_verified:
  assumes ok: "delivery_ok s" and red: "on_final_candidate_verified v s = Inr s'"
  shows "delivery_ok s'"
proof -
  from red obtain fc where s': "p_lifecycle s' = Result_ready" "p_finalCandidate s' = Some fc"
    "manifest_bound fc"
    by (cases "vf_finalManifest v")
      (auto simp: on_final_candidate_verified_def manifest_bound_def final_manifest_matches_def)
  then show ?thesis by (simp add: delivery_ok_def)
qed

lemma delivery_ok_started:
  assumes ok: "delivery_ok s" and red: "on_delivery_started a s = Inr s'"
  shows "delivery_ok s'"
proof -
  from red obtain fc where s': "p_lifecycle s' = Delivering" "p_finalCandidate s' = Some fc"
    "p_deliveryApproval s' = Some a" "approval_matches fc a" and fc: "p_finalCandidate s = Some fc"
    by (auto simp: on_delivery_started_def approval_matches_def)
  from ok fc have "manifest_bound fc" by (simp add: delivery_ok_def)
  with s' show ?thesis by (simp add: delivery_ok_def)
qed

lemma delivery_ok_published:
  assumes ok: "delivery_ok s" and red: "on_delivery_published r s = Inr s'"
  shows "delivery_ok s'"
proof -
  from red have life: "p_lifecycle s \<in> {Delivering, Completed}"
    by (auto simp: on_delivery_published_def transition_ok_into)
  with ok obtain fc a where fc: "p_finalCandidate s = Some fc" "p_deliveryApproval s = Some a"
    "approval_matches fc a" "manifest_bound fc"
    unfolding delivery_ok_def by blast
  with red have s': "p_lifecycle s' = Completed" "p_finalCandidate s' = Some fc"
    "p_deliveryApproval s' = Some a" "p_deliveryReceipt s' = Some r"
    "oc_delivery (p_outcomes s') = De_published" "receipt_matches fc a r"
    by (simp_all add: on_delivery_published_def receipt_matches_def)
  with fc show ?thesis by (simp add: delivery_ok_def)
qed

lemma delivery_ok_failed:
  assumes "delivery_ok s" "on_delivery_failed m r d s = Inr s'"
  shows "delivery_ok s'"
  using assms by (auto simp: on_delivery_failed_def delivery_ok_def)

interpretation delivery: projection_invariant h delivery_ok for h
proof unfold_locales
  show "delivery_ok (created_projection r i t g d)" for r i t g d
    by (simp add: delivery_ok_def created_projection_def)
  fix s p eid s' assume ok: "delivery_ok s" and red: "reduce_payload eid p s = Inr s'"
  show "delivery_ok s'"
  proof (cases "\<exists>f. p = Delivery_ev f")
    case True
    with red obtain f where "reduce_delivery_fact f s = Inr s'" by auto
    with ok show ?thesis
      by (cases f) (auto intro: delivery_ok_verified delivery_ok_started delivery_ok_published delivery_ok_failed)
  next
    case False
    then show ?thesis by (intro delivery_ok_other[OF ok red]) simp
  qed
qed (simp_all add: delivery_ok_def)

section \<open>Where a final candidate comes from\<close>

text \<open>What a state has to show when a final candidate is verified in it.\<close>

definition candidate_justified :: "run_projection \<Rightarrow> final_candidate \<Rightarrow> bool" where
  "candidate_justified s fc \<longleftrightarrow>
     (\<exists>m. oget (p_evidenceMatrixSummaries s) (fc_evidenceMatrixId fc) = Some m \<and>
        ms_outcome m = Verified \<and> ms_candidateCommit m = fc_commit fc \<and>
        (\<forall>fm. fc_finalManifest fc = Some fm \<longrightarrow> p_graphRevision s = Some (fm_graphRevision fm) \<and>
           ms_validationRecipeDigest m = Some (fm_validationRecipeDigest fm))) \<and>
     (\<forall>k d. oget (p_decisions s) k = Some d \<longrightarrow> dc_status d \<noteq> Pending)"

lemma payload_final_candidate:
  assumes red: "reduce_payload eid p s = Inr s'" and ok: "decisions_ok s" and fc: "p_finalCandidate s' = Some fc"
  shows "p_finalCandidate s = Some fc \<or> candidate_justified s fc"
proof (cases "\<exists>v. p = Delivery_ev (Final_candidate_verified v)")
  case True
  with red obtain v where v: "on_final_candidate_verified v s = Inr s'" by auto
  from ok have "distinct (map fst (p_decisions s))" by (simp add: decisions_ok_def)
  with v fc have "candidate_justified s fc"
    by (auto simp: on_final_candidate_verified_def candidate_justified_def final_manifest_matches_def
        list_ex_ovalues)
  then show ?thesis ..
next
  case False
  have "p_finalCandidate s' = p_finalCandidate s"
  proof (cases "\<exists>f. p = Delivery_ev f")
    case True
    with red obtain f where f: "p = Delivery_ev f" "reduce_delivery_fact f s = Inr s'" by auto
    with False show ?thesis by (cases f) (auto simp: handler_defs)
  next
    case False
    with payload_regions(5)[OF red] show ?thesis by (simp add: delivery_region_def)
  qed
  with fc show ?thesis by simp
qed

lemma candidate_provenance:
  assumes "foldRun h es = Inr s" "p_finalCandidate s = Some fc"
  shows "\<exists>fs gs t. es = fs @ gs \<and> gs \<noteq> [] \<and> foldRun h fs = Inr t \<and> candidate_justified t fc"
  using assms
proof (induction es arbitrary: s rule: rev_induct)
  case Nil
  then show ?case by (simp add: foldRun_def)
next
  case (snoc e es)
  show ?case
  proof (cases "es = []")
    case True
    with snoc.prems show ?thesis
      by (auto simp: foldRun_single first_state_Inr created_projection_def)
  next
    case False
    with snoc.prems(1) obtain t e' where t: "foldRun h es = Inr t" "journal_step h t e' s"
      by (auto simp: foldRun_append1 extend_state_Inr)
    from t(2) obtain s1 where s1: "reduce_payload (ev_eventId e') (ev_payload e')
        (t\<lparr>p_updatedAt := ev_occurredAt e'\<rparr>) = Inr s1" "p_finalCandidate s1 = Some fc"
      using snoc.prems(2) by (elim journal_step_payload) auto
    from decisions.holds[OF t(1)] have "decisions_ok (t\<lparr>p_updatedAt := ev_occurredAt e'\<rparr>)"
      by (simp add: decisions.updated)
    from payload_final_candidate[OF s1(1) this s1(2)]
    have "p_finalCandidate t = Some fc \<or> candidate_justified t fc"
      by (auto simp: candidate_justified_def)
    then show ?thesis
    proof
      assume "p_finalCandidate t = Some fc"
      from snoc.IH[OF t(1) this] show ?thesis by (metis append.assoc append_is_Nil_conv)
    next
      assume "candidate_justified t fc"
      with t(1) show ?thesis by (metis not_Cons_self2)
    qed
  qed
qed

end
