(* ===== verification/Sample_Run.thy ===== *)
theory Sample_Run
  imports Delivery_Invariants
begin

text \<open>
  A journal of one run from its creation to its delivery, used to show that the hypotheses of the
  properties about folded journals can hold.
\<close>

definition sample_host :: host where
  "sample_host = \<lparr>h_iso = (\<lambda>s. s \<noteq> []), h_le = (\<lambda>a b. a \<le> b), h_digest = (\<lambda>j. ''digest'')\<rparr>"

definition sample_event :: "int \<Rightarrow> string \<Rightarrow> event_payload \<Rightarrow> run_event" where
  "sample_event n i p = \<lparr>ev_eventId = i, ev_occurredAt = ''t'', ev_payload = p,
     ev_runId = ''run'', ev_sequence = n\<rparr>"

definition sample_profile :: rev_ref where
  "sample_profile = \<lparr>rr_id = ''p'', rr_revision = ''1''\<rparr>"

definition sample_candidate :: exact_candidate where
  "sample_candidate = \<lparr>ec_manifestDigest = ''m'', ec_commitOid = ''c'', ec_treeOid = ''t''\<rparr>"

definition sample_matrix :: evidence_matrix where
  "sample_matrix = \<lparr>em_matrixId = ''x'', em_candidateCommit = ''c'', em_validationContract = sample_profile,
     em_criteria = [\<lparr>ce_criterionId = ''k'', ce_obligationId = ''o'', ce_status = Cs_satisfied,
       ce_justification = ''j'', ce_evidenceRefs = []\<rparr>],
     em_outcome = Verified, em_validationRecipeDigest = None, em_observations = [],
     em_evidenceBindings = [], em_integrityFindings = None, em_negativeControls = None\<rparr>"

definition sample_decision :: decision_input where
  "sample_decision = \<lparr>dc_id = ''d'', dc_kind = Clarify_goal, dc_question = ''q'',
     dc_options = [\<lparr>do_id = ''yes'', do_label = ''y'', do_description = None\<rparr>,
                   \<lparr>do_id = ''stop'', do_label = ''s'', do_description = None\<rparr>],
     dc_affectedNodeIds = [''n2''], dc_repairTargetNodeId = None, dc_evidenceRefs = [],
     dc_blockers = None, dc_impact = Im_scope, dc_raisedAtGraphRevision = None\<rparr>"

definition sample_intent :: effect_intent where
  "sample_intent = \<lparr>ei_runId = ''run'', ei_attemptId = None, ei_kind = Git_mutation, ei_inputDigest = ''i'',
     ei_daemonEpoch = ''e'', ei_idempotency = Repeat_safe, ei_requestedAt = ''t'', ei_effectId = ''f''\<rparr>"

definition sample_receipt :: physical_receipt where
  "sample_receipt = \<lparr>pr_effectId = ''f'', pr_observation = Succeeded, pr_inputDigest = ''i'',
     pr_daemonEpoch = ''e'', pr_processIdentity = None, pr_resultDigest = None, pr_reason = None,
     pr_observedAt = ''t'', pr_receiptId = ''r''\<rparr>"

definition sample_review :: human_review_input where
  "sample_review = \<lparr>hr_reviewId = ''v'', hr_attemptId = ''a'', hr_nodeId = ''n'', hr_candidate = sample_candidate,
     hr_rubricDigest = ''u'', hr_reviewerId = ''w'', hr_decision = Approved, hr_reviewedAt = ''t''\<rparr>"

definition sample_readiness :: "string list \<Rightarrow> string list \<Rightarrow> readiness_observation" where
  "sample_readiness n d = \<lparr>ro_readyNodeIds = n, ro_pendingDecisionIds = d, ro_explanations = None,
     ro_effectiveConfig = None, ro_schedulerState = None, ro_budgetAvailable = None,
     ro_conflictEvidence = None, ro_evaluatedAt = None\<rparr>"

definition sample_wave :: wave_selection where
  "sample_wave = \<lparr>ws_waveId = ''w'', ws_nodeIds = [''n''], ws_maxParallel = 2, ws_blocked = None,
     ws_effectiveConfig = None, ws_conflictEvidence = None, ws_evaluatedAt = None\<rparr>"

definition sample_verification :: candidate_verification where
  "sample_verification = \<lparr>vf_manifestId = ''m'', vf_commit = ''c'', vf_evidenceMatrixId = ''x'',
     vf_evidenceEligible = True, vf_executionSucceeded = True, vf_sourceTargetFingerprint = ''fp'',
     vf_targetBranch = ''main'', vf_targetHead = ''h'', vf_finalManifest = None\<rparr>"

definition sample_approval :: delivery_approval where
  "sample_approval = \<lparr>da_manifestId = ''m'', da_finalSha = ''c'', da_targetBranch = ''main'',
     da_targetHead = ''h'', da_targetFingerprint = ''fp'', da_actor = ''op'', da_idempotencyKey = ''k'',
     da_cleanlinessPolicyId = None\<rparr>"

definition sample_delivery :: delivery_receipt where
  "sample_delivery = \<lparr>dr_receiptId = ''dr'', dr_requestFingerprint = None, dr_manifestId = ''m'',
     dr_finalSha = Some ''c'', dr_targetBranch = Some ''main'', dr_targetHeadBefore = Some ''h'',
     dr_targetHeadAfter = Some ''c'', dr_disposition = Some Delivered, dr_destination = None,
     dr_deliveredTreeSha = None, dr_cleanlinessPolicyId = None, dr_confirmed = True\<rparr>"

definition sample_start :: "run_event list" where
  "sample_start =
    [sample_event 1 ''e1'' (Run_ev (Run_created ''goal'' None)),
     sample_event 2 ''e2'' (Graph_ev (Graph_revision_proposed ''g'' 1)),
     sample_event 3 ''e3'' (Graph_ev (Graph_revision_approved ''g'' 1)),
     sample_event 4 ''e4'' (Graph_ev (Decision_raised sample_decision)),
     sample_event 5 ''e5'' (Graph_ev (Readiness_observed (sample_readiness [''n''] [''d'']))),
     sample_event 6 ''e6'' (Graph_ev (Wave_selected sample_wave)),
     sample_event 7 ''e7'' (Attempt_ev (Attempt_started \<lparr>as_attemptId = ''a'', as_nodeId = ''n'',
        as_inputFingerprint = ''i'', as_retryOfAttemptId = None, as_executorProfile = sample_profile\<rparr>)),
     sample_event 8 ''e8'' (Protocol_ev (Effect_requested sample_intent)),
     sample_event 9 ''e9'' (Protocol_ev (Effect_observed sample_receipt)),
     sample_event 10 ''e10'' (Protocol_ev (Effect_completed ''f'' ''r''))]"

definition sample_rest :: "run_event list" where
  "sample_rest =
    [sample_event 11 ''e11'' (Attempt_ev (Attempt_candidate_created \<lparr>ac_attemptId = ''a'', ac_nodeId = ''n'',
        ac_candidateCommit = ''c'', ac_candidate = Some sample_candidate, ac_outputDigest = ''d'',
        ac_changedFiles = [], ac_usage = None\<rparr>)),
     sample_event 12 ''e12'' (Attempt_ev (Human_review_recorded sample_review)),
     sample_event 13 ''e13'' (Attempt_ev (Validation_completed ''a'' ''n'' sample_matrix)),
     sample_event 14 ''e14'' (Graph_ev (Decision_resolved ''d'' (Some ''yes'') None None)),
     sample_event 15 ''e15'' (Delivery_ev (Final_candidate_verified sample_verification)),
     sample_event 16 ''e16'' (Delivery_ev (Delivery_started sample_approval)),
     sample_event 17 ''e17'' (Delivery_ev (Delivery_published sample_delivery))]"

lemma sample_start_check:
  "case foldRun sample_host sample_start of Inl _ \<Rightarrow> False
   | Inr s \<Rightarrow> p_lifecycle s = Running \<and> oget (p_effectTerminals s) ''f'' = Some (Term_completed ''r'')
       \<and> map_option at_nodeId (oget (p_attempts s) ''a'') = Some ''n''
       \<and> map_option dc_status (oget (p_decisions s) ''d'') = Some Pending"
  by code_simp

lemma sample_full_check:
  "case foldRun sample_host (sample_start @ sample_rest) of Inl _ \<Rightarrow> False
   | Inr s \<Rightarrow> p_lifecycle s = Completed
       \<and> map_option dc_status (oget (p_decisions s) ''d'') = Some Resolved
       \<and> map_option hr_status (oget (p_humanReviews s) ''v'') = Some Active"
  by code_simp

lemma sample_full:
  obtains s where "foldRun sample_host (sample_start @ sample_rest) = Inr s" "p_lifecycle s = Completed"
    "map_option dc_status (oget (p_decisions s) ''d'') = Some Resolved"
    "map_option hr_status (oget (p_humanReviews s) ''v'') = Some Active"
  using sample_full_check by (cases "foldRun sample_host (sample_start @ sample_rest)") auto

lemma sample_start:
  obtains s where "foldRun sample_host sample_start = Inr s" "p_lifecycle s = Running"
    "oget (p_effectTerminals s) ''f'' = Some (Term_completed ''r'')"
    "map_option dc_status (oget (p_decisions s) ''d'') = Some Pending"
  using sample_start_check by (cases "foldRun sample_host sample_start") auto

lemma sample_attempt:
  obtains s a where "foldRun sample_host sample_start = Inr s" "oget (p_attempts s) ''a'' = Some a"
    "at_nodeId a = ''n''"
  using sample_start_check by (cases "foldRun sample_host sample_start") auto

text \<open>A second run: it adopts a manifest, fails, is archived and releases the artifact.\<close>

definition sample_oid :: string where
  "sample_oid = replicate 40 CHR ''a''"

definition sample_artifact :: adopted_artifact where
  "sample_artifact = \<lparr>aa_artifactId = ''art'', aa_runId = ''run'', aa_nodeId = ''n'', aa_digest = ''d'',
     aa_producerAttemptId = ''a'', aa_contract = sample_profile, aa_kind = Ak_manifest, aa_location = ''md'',
     aa_manifest = Some (Candidate_tree \<lparr>mi_id = ''i'',
        mi_contract = \<lparr>cr_id = ''c'', cr_revision = 1, cr_digest = ''d''\<rparr>, mi_producerNodeId = ''n'',
        mi_producerAttemptId = ''a'', mi_inputFingerprint = ''f'', mi_repositoryObjectStoreId = ''s'',
        mi_objectFormat = Sha1,
        mi_sourceCandidate = \<lparr>eb_commitOid = sample_oid, eb_treeOid = sample_oid\<rparr>,
        mi_retainedByRef = ''ref''\<rparr> ''md'' sample_oid sample_oid sample_oid),
     aa_cherryPickMainline = False, aa_adoptedAt = ''t''\<rparr>"

definition sample_release :: release_authorization where
  "sample_release = \<lparr>ra_decisionId = ''d'', ra_artifactId = ''art'', ra_retainedByRef = ''ref'',
     ra_candidateCommit = sample_oid, ra_authorizedAt = ''t''\<rparr>"

definition sample_archive :: "run_event list" where
  "sample_archive =
    [sample_event 1 ''e1'' (Run_ev (Run_created ''goal'' None)),
     sample_event 2 ''e2'' (Graph_ev (Graph_revision_proposed ''g'' 1)),
     sample_event 3 ''e3'' (Graph_ev (Graph_revision_approved ''g'' 1)),
     sample_event 4 ''e4'' (Attempt_ev (Artifact_adopted sample_artifact)),
     sample_event 5 ''e5'' (Run_ev (Run_failed ''no'' Area_execution)),
     sample_event 6 ''e6'' (Run_ev (Run_archived ''t'')),
     sample_event 7 ''e7'' (Attempt_ev (Artifact_release_authorized sample_release))]"

lemma sample_archive_check:
  "case foldRun sample_host sample_archive of Inl _ \<Rightarrow> False
   | Inr s \<Rightarrow> map_option ra_retainedByRef (oget (p_releaseAuthorizations s) ''art'') = Some ''ref''"
  by code_simp

lemma sample_archive:
  obtains s u where "foldRun sample_host sample_archive = Inr s"
    "oget (p_releaseAuthorizations s) ''art'' = Some u" "ra_retainedByRef u = ''ref''"
  using sample_archive_check by (cases "foldRun sample_host sample_archive") auto

end
