(* ===== verification/Event_Inputs.thy ===== *)
theory Event_Inputs
  imports Delivery_Invariants
begin

text \<open>
  Batches of events on their way into a journal: an input is an event without its run and its place, a
  batch is placed behind the events already there, and events are found by their ids. The journal store and
  the coordinator both work with these.

  Sources: packages/run-store/src/jsonl-event-store.ts, packages/run-coordinator/src/coordinator.ts.
\<close>

text \<open>\<open>new Map(events.map(e => [e.eventId, e]))\<close>: the last event with an id wins.\<close>

definition eventsById :: "run_event list \<Rightarrow> string \<Rightarrow> run_event option" where
  "eventsById es = map_of (rev (map (\<lambda>e. (ev_eventId e, e)) es))"

definition input_of :: "run_event \<Rightarrow> run_event_input" where
  "input_of e = run_event_input.truncate e"

definition place_input :: "string \<Rightarrow> int \<Rightarrow> run_event_input \<Rightarrow> run_event" where
  "place_input runId sequence input = run_event_input.extend input (run_event.fields runId sequence)"

fun place_inputs :: "string \<Rightarrow> int \<Rightarrow> run_event_input list \<Rightarrow> run_event list" where
  "place_inputs runId sequence [] = []"
| "place_inputs runId sequence (i # is) = place_input runId sequence i # place_inputs runId (sequence + 1) is"

text \<open>
  What a journal establishes about its events: each is its own parse, the sequence numbers count
  from one, all belong to the run.
\<close>

fun well_placed :: "host \<Rightarrow> string \<Rightarrow> int \<Rightarrow> run_event list \<Rightarrow> bool" where
  "well_placed h runId k [] = True"
| "well_placed h runId k (e # es) =
     (parse_run_event h e = Some e \<and> ev_runId e = runId \<and> ev_sequence e = k \<and> well_placed h runId (k + 1) es)"

lemma well_placed_append:
  "well_placed h r k (es @ fs) \<longleftrightarrow> well_placed h r k es \<and> well_placed h r (k + int (length es)) fs"
  by (induction es arbitrary: k) (auto simp: algebra_simps)

lemma arr_of_fixed: "\<forall>x \<in> set xs. p x = Some x \<Longrightarrow> arr_of p xs = Some xs"
  by (induction xs) auto

lemma arr_of_single: "arr_of p [x] = Some ys \<longleftrightarrow> (\<exists>y. p x = Some y \<and> ys = [y])"
  by (cases "p x") auto

lemma well_placed_arr_of: "well_placed h r k es \<Longrightarrow> arr_of (parse_run_event h) es = Some es"
  by (induction es rule: rev_induct) (auto simp: well_placed_append arr_of_append)

lemma well_placed_sequence: "well_placed h r k es \<Longrightarrow> i < length es \<Longrightarrow> ev_sequence (es ! i) = k + int i"
  by (induction es arbitrary: k i) (auto simp: nth_Cons split: nat.splits)

lemma well_placed_member: "well_placed h r k es \<Longrightarrow> e \<in> set es \<Longrightarrow> parse_run_event h e = Some e \<and> ev_runId e = r"
  by (induction es arbitrary: k) auto

lemma well_placed_at:
  assumes "well_placed h r k es" and "e \<in> set es"
  shows "\<exists>i < length es. e = es ! i \<and> ev_sequence e = k + int i"
  using assms by (metis in_set_conv_nth well_placed_sequence)

lemma eventsById_Some: "eventsById es i = Some e \<Longrightarrow> e \<in> set es \<and> ev_eventId e = i"
  unfolding eventsById_def by (drule map_of_SomeD) auto

lemma eventsById_None: "eventsById es i = None \<longleftrightarrow> i \<notin> ev_eventId ` set es"
  by (simp add: eventsById_def map_of_eq_None_iff image_image)

lemma eventsById_appended:
  assumes "distinct (map ev_eventId fs)" and "e \<in> set fs"
  shows "eventsById (es @ fs) (ev_eventId e) = Some e"
proof -
  have "map_of (rev (map (\<lambda>e. (ev_eventId e, e)) fs)) (ev_eventId e) = Some e"
    using assms by (subst map_of_eq_Some_iff) (auto simp: comp_def rev_map[symmetric])
  then show ?thesis by (simp add: eventsById_def map_of_append map_add_Some_iff)
qed

lemma input_of_id [simp]: "ev_eventId (input_of e) = ev_eventId e"
  by (simp add: input_of_def run_event_input.defs)

lemma input_of_payload [simp]: "ev_payload (input_of e) = ev_payload e"
  by (simp add: input_of_def run_event_input.defs)

lemma place_input_of [simp]: "place_input (ev_runId e) (ev_sequence e) (input_of e) = e"
  by (cases e) (simp add: place_input_def input_of_def run_event_input.defs run_event.defs)

lemma place_input_simps [simp]:
  "ev_eventId (place_input r k i) = ev_eventId i" "ev_payload (place_input r k i) = ev_payload i"
  "ev_runId (place_input r k i) = r" "ev_sequence (place_input r k i) = k"
  by (simp_all add: place_input_def run_event_input.defs run_event.defs)

lemma parse_placed:
  assumes "entityId r = Some r" and "0 < k" and "parse_run_event h (place_input r k i) = Some e"
  shows "parse_run_event h e = Some e \<and> ev_runId e = r \<and> ev_sequence e = k"
  using assms run_event.idem[OF assms(3)]
  by (auto simp: parse_run_event_def parse_simps positive_def refine_def split: if_splits)

lemma parse_run_event_payload: "parse_run_event h x = Some e \<Longrightarrow> parse_payload h (ev_payload x) = Some (ev_payload e)"
  by (auto simp: parse_run_event_def parse_simps)

lemma place_inputs_placed:
  assumes "entityId r = Some r"
  shows "0 < k \<Longrightarrow> arr_of (parse_run_event h) (place_inputs r k is) = Some es \<Longrightarrow>
    well_placed h r k es \<and> length es = length is"
proof (induction "is" arbitrary: k es)
  case (Cons i "is")
  then show ?case using parse_placed[OF assms Cons.prems(1)] by (auto simp: parse_simps)
qed simp

lemma place_inputs_payloads:
  "arr_of (parse_run_event h) (place_inputs r k is) = Some es \<Longrightarrow>
   arr_of (parse_payload h) (map ev_payload is) = Some (map ev_payload es)"
  by (induction "is" arbitrary: k es) (auto simp: parse_simps dest!: parse_run_event_payload)

text \<open>Each input of a placed batch has its event, which is the input's own normal form.\<close>

lemma place_inputs_events:
  assumes "entityId r = Some r"
  shows "0 < k \<Longrightarrow> arr_of (parse_run_event h) (place_inputs r k is) = Some es \<Longrightarrow> i \<in> set is \<Longrightarrow>
    \<exists>e \<in> set es. parse_run_event h (place_input (ev_runId e) (ev_sequence e) i) = Some e"
proof (induction "is" arbitrary: k es)
  case (Cons j "is")
  then obtain e es' where es: "es = e # es'" "parse_run_event h (place_input r k j) = Some e"
    "arr_of (parse_run_event h) (place_inputs r (k + 1) is) = Some es'"
    by (auto simp: parse_simps)
  show ?case
  proof (cases "i = j")
    case True
    with es parse_placed[OF assms Cons.prems(1) es(2)] show ?thesis by auto
  next
    case False
    with Cons.IH[OF _ es(3)] Cons.prems es(1) show ?thesis by auto
  qed
qed simp

lemma place_inputs_nonempty: "arr_of p (place_inputs r k inputs) = Some es \<Longrightarrow> inputs \<noteq> [] \<Longrightarrow> es \<noteq> []"
  by (cases inputs) (auto split: bind_splits)

end
