(* ===== verification/Store_Fold.thy ===== *)
theory Store_Fold
  imports Event_Inputs
begin

text \<open>
  The store's own fold of a journal. It reduces with the list of applied event ids emptied and restores the
  list once, and it leaves out the checks of \<open>foldRun\<close> (schema, run, sequence, repeated ids), which the
  log has made before. Writing the applied ids is shown to commute with every event handler, and from that
  the store's fold agrees with \<open>foldRun\<close> on a journal that passes those checks.

  Source: packages/run-store/src/projection-fold.ts.
\<close>

section \<open>The fold of the store\<close>

definition reduceRunEvents :: "run_projection \<Rightarrow> run_event list \<Rightarrow> reduce_error + run_projection" where
  "reduceRunEvents s es =
     (if es = [] then Inr s
      else bindE (foldE (\<lambda>t e. bindE (reduceRun t e) (\<lambda>u. Inr (u\<lparr>p_appliedEventIds := []\<rparr>)))
             (s\<lparr>p_appliedEventIds := []\<rparr>) es)
           (\<lambda>t. Inr (t\<lparr>p_appliedEventIds := p_appliedEventIds s @ map ev_eventId es\<rparr>)))"

definition foldRunEvents :: "host \<Rightarrow> run_event list \<Rightarrow> reduce_error + run_projection" where
  "foldRunEvents h es = (case es of
     [] \<Rightarrow> Inl (Journal_err Empty_journal)
   | e # rest \<Rightarrow> bindE (foldRun h [e]) (\<lambda>s. reduceRunEvents s rest))"

text \<open>The reducer appends to the list of applied ids and never reads it.\<close>

definition mapR :: "('s \<Rightarrow> 't) \<Rightarrow> 'e + 's \<Rightarrow> 'e + 't" where
  "mapR f r = bindE r (\<lambda>s. Inr (f s))"

lemma mapR_simps [simp]:
  "mapR f (Inl e) = Inl e" "mapR f (Inr s) = Inr (f s)"
  "mapR f (throwIf c e k) = throwIf c e (mapR f k)"
  "mapR f (bindE m g) = bindE m (\<lambda>x. mapR f (g x))"
  "mapR f (requireE v e g) = requireE v e (\<lambda>x. mapR f (g x))"
  "mapR f (if b then k else l) = (if b then mapR f k else mapR f l)"
  "mapR f (case v of None \<Rightarrow> k | Some x \<Rightarrow> g x) = (case v of None \<Rightarrow> mapR f k | Some x \<Rightarrow> mapR f (g x))"
  "mapR f (case xs of [] \<Rightarrow> k | x # rest \<Rightarrow> g' x rest) = (case xs of [] \<Rightarrow> mapR f k | x # rest \<Rightarrow> mapR f (g' x rest))"
  by (simp_all add: mapR_def throwIf_def bindE_def requireE_def split: option.splits list.splits sum.splits)

abbreviation with_ids :: "string list \<Rightarrow> run_projection \<Rightarrow> run_projection" where
  "with_ids ids s \<equiv> s\<lparr>p_appliedEventIds := ids\<rparr>"

text \<open>Writing the applied ids commutes with every other write.\<close>

lemma ids_commute [simp]:
  "with_ids ids (s\<lparr>p_title := v0\<rparr>) = (with_ids ids s)\<lparr>p_title := v0\<rparr>"
  "with_ids ids (s\<lparr>p_archivedAt := v1\<rparr>) = (with_ids ids s)\<lparr>p_archivedAt := v1\<rparr>"
  "with_ids ids (s\<lparr>p_lifecycle := v2\<rparr>) = (with_ids ids s)\<lparr>p_lifecycle := v2\<rparr>"
  "with_ids ids (s\<lparr>p_graphId := v3\<rparr>) = (with_ids ids s)\<lparr>p_graphId := v3\<rparr>"
  "with_ids ids (s\<lparr>p_graphRevision := v4\<rparr>) = (with_ids ids s)\<lparr>p_graphRevision := v4\<rparr>"
  "with_ids ids (s\<lparr>p_approvedGraphRevision := v5\<rparr>) = (with_ids ids s)\<lparr>p_approvedGraphRevision := v5\<rparr>"
  "with_ids ids (s\<lparr>p_granularityStrategy := v6\<rparr>) = (with_ids ids s)\<lparr>p_granularityStrategy := v6\<rparr>"
  "with_ids ids (s\<lparr>p_planningEnvelope := v7\<rparr>) = (with_ids ids s)\<lparr>p_planningEnvelope := v7\<rparr>"
  "with_ids ids (s\<lparr>p_planningCandidates := v8\<rparr>) = (with_ids ids s)\<lparr>p_planningCandidates := v8\<rparr>"
  "with_ids ids (s\<lparr>p_commandReceipts := v9\<rparr>) = (with_ids ids s)\<lparr>p_commandReceipts := v9\<rparr>"
  "with_ids ids (s\<lparr>p_commandEnvelopes := v10\<rparr>) = (with_ids ids s)\<lparr>p_commandEnvelopes := v10\<rparr>"
  "with_ids ids (s\<lparr>p_effectIntents := v11\<rparr>) = (with_ids ids s)\<lparr>p_effectIntents := v11\<rparr>"
  "with_ids ids (s\<lparr>p_physicalEffectReceipts := v12\<rparr>) = (with_ids ids s)\<lparr>p_physicalEffectReceipts := v12\<rparr>"
  "with_ids ids (s\<lparr>p_effectTerminals := v13\<rparr>) = (with_ids ids s)\<lparr>p_effectTerminals := v13\<rparr>"
  "with_ids ids (s\<lparr>p_decisions := v14\<rparr>) = (with_ids ids s)\<lparr>p_decisions := v14\<rparr>"
  "with_ids ids (s\<lparr>p_stoppedNodeIds := v15\<rparr>) = (with_ids ids s)\<lparr>p_stoppedNodeIds := v15\<rparr>"
  "with_ids ids (s\<lparr>p_readiness := v16\<rparr>) = (with_ids ids s)\<lparr>p_readiness := v16\<rparr>"
  "with_ids ids (s\<lparr>p_selectedWaves := v17\<rparr>) = (with_ids ids s)\<lparr>p_selectedWaves := v17\<rparr>"
  "with_ids ids (s\<lparr>p_attempts := v18\<rparr>) = (with_ids ids s)\<lparr>p_attempts := v18\<rparr>"
  "with_ids ids (s\<lparr>p_humanReviews := v19\<rparr>) = (with_ids ids s)\<lparr>p_humanReviews := v19\<rparr>"
  "with_ids ids (s\<lparr>p_adoptedArtifacts := v20\<rparr>) = (with_ids ids s)\<lparr>p_adoptedArtifacts := v20\<rparr>"
  "with_ids ids (s\<lparr>p_releaseAuthorizations := v21\<rparr>) = (with_ids ids s)\<lparr>p_releaseAuthorizations := v21\<rparr>"
  "with_ids ids (s\<lparr>p_nodeEvidenceMatrixIds := v22\<rparr>) = (with_ids ids s)\<lparr>p_nodeEvidenceMatrixIds := v22\<rparr>"
  "with_ids ids (s\<lparr>p_integrations := v23\<rparr>) = (with_ids ids s)\<lparr>p_integrations := v23\<rparr>"
  "with_ids ids (s\<lparr>p_recoveryHistory := v24\<rparr>) = (with_ids ids s)\<lparr>p_recoveryHistory := v24\<rparr>"
  "with_ids ids (s\<lparr>p_evidenceMatrices := v25\<rparr>) = (with_ids ids s)\<lparr>p_evidenceMatrices := v25\<rparr>"
  "with_ids ids (s\<lparr>p_evidenceMatrixSummaries := v26\<rparr>) = (with_ids ids s)\<lparr>p_evidenceMatrixSummaries := v26\<rparr>"
  "with_ids ids (s\<lparr>p_outcomes := v27\<rparr>) = (with_ids ids s)\<lparr>p_outcomes := v27\<rparr>"
  "with_ids ids (s\<lparr>p_finalCandidate := v28\<rparr>) = (with_ids ids s)\<lparr>p_finalCandidate := v28\<rparr>"
  "with_ids ids (s\<lparr>p_deliveryReceipt := v29\<rparr>) = (with_ids ids s)\<lparr>p_deliveryReceipt := v29\<rparr>"
  "with_ids ids (s\<lparr>p_deliveryApproval := v30\<rparr>) = (with_ids ids s)\<lparr>p_deliveryApproval := v30\<rparr>"
  "with_ids ids (s\<lparr>p_lifecycleBeforePause := v31\<rparr>) = (with_ids ids s)\<lparr>p_lifecycleBeforePause := v31\<rparr>"
  "with_ids ids (s\<lparr>p_failureReason := v32\<rparr>) = (with_ids ids s)\<lparr>p_failureReason := v32\<rparr>"
  "with_ids ids (s\<lparr>p_planningFindings := v33\<rparr>) = (with_ids ids s)\<lparr>p_planningFindings := v33\<rparr>"
  "with_ids ids (s\<lparr>p_recoveryDiagnostic := v34\<rparr>) = (with_ids ids s)\<lparr>p_recoveryDiagnostic := v34\<rparr>"
  "with_ids ids (s\<lparr>p_updatedAt := v35\<rparr>) = (with_ids ids s)\<lparr>p_updatedAt := v35\<rparr>"
  "with_ids ids (s\<lparr>p_sequence := v36\<rparr>) = (with_ids ids s)\<lparr>p_sequence := v36\<rparr>"
  by simp_all

lemma transition_ids: "transition l (with_ids ids s) = mapR (with_ids ids) (transition l s)"
  by (simp add: transition_def)

lemma lookup_ids [simp]:
  "requireAttempt (with_ids ids s) i n = requireAttempt s i n"
  "requireIntegration (with_ids ids s) i n = requireIntegration s i n"
  "assertEffectIntentPending (with_ids ids s) e = assertEffectIntentPending s e"
  "assertEffectReceiptLink (with_ids ids s) e r = assertEffectReceiptLink s e r"
  "assertEffectTerminalLink (with_ids ids s) e r = assertEffectTerminalLink s e r"
  "latestCandidateAttempt (with_ids ids s) n = latestCandidateAttempt s n"
  "receipt_taken (with_ids ids s) r = receipt_taken s r"
  "decision_pending (with_ids ids s) d = decision_pending s d"
  by (simp_all add: requireAttempt_def requireIntegration_def assertEffectIntentPending_def
      assertEffectReceiptLink_def assertEffectTerminalLink_def latestCandidateAttempt_def
      receipt_taken_def decision_pending_def)

lemma bindE_throwIf: "bindE (throwIf c e k) g = throwIf c e (bindE k g)"
  by (simp add: throwIf_def)

lemmas ids_simps = handler_defs transition_def record_matrix_def final_manifest_matches_def bindE_throwIf Let_def

lemma run_fact_ids: "reduce_run_fact f (with_ids ids s) = mapR (with_ids ids) (reduce_run_fact f s)"
  by (cases f) (simp_all add: ids_simps cong: if_cong option.case_cong)

lemma protocol_fact_ids: "reduce_protocol_fact f (with_ids ids s) = mapR (with_ids ids) (reduce_protocol_fact f s)"
  by (cases f) (simp_all add: ids_simps cong: if_cong option.case_cong)

lemma planning_fact_ids: "reduce_planning_fact f (with_ids ids s) = mapR (with_ids ids) (reduce_planning_fact f s)"
  by (cases f) (simp_all add: ids_simps cong: if_cong option.case_cong)

lemma attempt_fact_ids: "reduce_attempt_fact eid f (with_ids ids s) = mapR (with_ids ids) (reduce_attempt_fact eid f s)"
  by (cases f) (simp_all add: ids_simps cong: if_cong option.case_cong)

lemma integration_failed_ids:
  "on_integration_failed a i m c x r d (with_ids ids s) = mapR (with_ids ids) (on_integration_failed a i m c x r d s)"
  by (cases x; cases d) (simp_all add: ids_simps cong: if_cong option.case_cong)

lemma integration_fact_ids: "reduce_integration_fact f (with_ids ids s) = mapR (with_ids ids) (reduce_integration_fact f s)"
proof (cases f)
  case (Integration_failed a i m c x r d)
  then show ?thesis by (simp add: integration_failed_ids del: mapR_simps)
qed (simp_all add: ids_simps cong: if_cong option.case_cong)

lemma graph_fact_ids: "reduce_graph_fact eid f (with_ids ids s) = mapR (with_ids ids) (reduce_graph_fact eid f s)"
  by (cases f) (simp_all add: ids_simps cong: if_cong option.case_cong list.case_cong)

lemma delivery_fact_ids: "reduce_delivery_fact f (with_ids ids s) = mapR (with_ids ids) (reduce_delivery_fact f s)"
  by (cases f) (simp_all add: ids_simps cong: if_cong option.case_cong)

lemma payload_ids: "reduce_payload eid p (with_ids ids s) = mapR (with_ids ids) (reduce_payload eid p s)"
  by (cases p) (simp_all add: run_fact_ids protocol_fact_ids planning_fact_ids attempt_fact_ids
      integration_fact_ids graph_fact_ids delivery_fact_ids)

section \<open>Agreement with the reducer\<close>

lemma bindE_return [simp]: "bindE m Inr = m"
  by (cases m) simp_all

lemma reduceRun_ids:
  "bindE (reduceRun (with_ids ids s) e) (\<lambda>u. Inr (with_ids ids' u)) = mapR (with_ids ids') (reduceRun s e)"
proof -
  have "reduce_payload i p (with_ids ids s\<lparr>p_updatedAt := t\<rparr>) =
      mapR (with_ids ids) (reduce_payload i p (s\<lparr>p_updatedAt := t\<rparr>))" for i p t
    using payload_ids[of i p ids "s\<lparr>p_updatedAt := t\<rparr>"] by simp
  then show ?thesis
    by (simp add: reduceRun_def bindE_assoc mapR_def)
qed

lemma with_ids_twice [simp]: "with_ids ids (with_ids ids' s) = with_ids ids s"
  by simp

lemma with_own_ids: "p_appliedEventIds s = ids \<Longrightarrow> with_ids ids s = s"
  by auto

lemma foldE_without_ids:
  "foldE (\<lambda>t e. bindE (reduceRun t e) (\<lambda>u. Inr (with_ids [] u))) (with_ids [] s) es
     = mapR (with_ids []) (foldE reduceRun s es)"
proof (induction es arbitrary: s)
  case (Cons e es)
  show ?case
    by (cases "reduceRun s e") (simp_all add: reduceRun_ids Cons.IH)
qed simp

lemma foldE_reduceRun_ids:
  "foldE reduceRun s es = Inr t \<Longrightarrow> p_appliedEventIds t = p_appliedEventIds s @ map ev_eventId es"
proof (induction es arbitrary: s)
  case (Cons e es)
  then show ?case by (auto simp: reduceRun_position)
qed simp

text \<open>Emptying and restoring the list is the plain fold of the reducer.\<close>

lemma reduceRunEvents_foldE: "reduceRunEvents s es = foldE reduceRun s es"
proof (cases "es = []")
  case False
  then have "reduceRunEvents s es = bindE (mapR (with_ids []) (foldE reduceRun s es))
      (\<lambda>t. Inr (with_ids (p_appliedEventIds s @ map ev_eventId es) t))"
    unfolding reduceRunEvents_def foldE_without_ids by simp
  also have "\<dots> = foldE reduceRun s es"
    using foldE_reduceRun_ids[of s es]
    by (cases "foldE reduceRun s es") (auto simp: with_own_ids)
  finally show ?thesis .
qed (simp add: reduceRunEvents_def)

lemma reduceRunEvents_append:
  "reduceRunEvents s (es @ fs) = bindE (reduceRunEvents s es) (\<lambda>t. reduceRunEvents t fs)"
  by (simp add: reduceRunEvents_foldE foldE_append)

lemma reduceRunEvents_without_ids:
  "bindE (reduceRunEvents (with_ids [] s) es) (\<lambda>t. Inr (with_ids ids t)) = bindE (reduceRunEvents s es) (\<lambda>t. Inr (with_ids ids t))"
  if "es \<noteq> []"
  using that by (simp add: reduceRunEvents_def bindE_assoc mapR_def foldE_without_ids)

lemma foldRunEvents_append:
  "es \<noteq> [] \<Longrightarrow> foldRunEvents h (es @ fs) = bindE (foldRunEvents h es) (\<lambda>s. reduceRunEvents s fs)"
  by (cases es) (simp_all add: foldRunEvents_def reduceRunEvents_append bindE_assoc)

lemma foldRunEvents_positions:
  assumes "well_placed h r 1 es" and "foldRunEvents h es = Inr s"
  shows "p_runId s = r \<and> p_sequence s = int (length es) \<and> p_appliedEventIds s = map ev_eventId es"
  using assms
proof (induction es arbitrary: s rule: rev_induct)
  case (snoc e es)
  show ?case
  proof (cases "es = []")
    case True
    with snoc.prems show ?thesis
      by (auto simp: foldRunEvents_def foldRun_single first_state_Inr created_projection_def reduceRunEvents_foldE)
  next
    case False
    with snoc.prems obtain t where "foldRunEvents h es = Inr t" "reduceRun t e = Inr s"
      by (auto simp: foldRunEvents_append reduceRunEvents_foldE)
    with snoc reduceRun_position[OF this(2)] show ?thesis by (auto simp: well_placed_append)
  qed
qed (simp add: foldRunEvents_def)

lemma foldRunEvents_foldRun:
  assumes "well_placed h r 1 es" and "distinct (map ev_eventId es)"
  shows "foldRunEvents h es = foldRun h es"
  using assms
proof (induction es rule: rev_induct)
  case Nil
  show ?case by (simp add: foldRunEvents_def foldRun_def)
next
  case (snoc e es)
  show ?case
  proof (cases "es = []")
    case True
    then show ?thesis
      by (cases "foldRun h [e]") (simp_all add: foldRunEvents_def reduceRunEvents_foldE)
  next
    case False
    from snoc have IH: "foldRunEvents h es = foldRun h es" and e: "parse_run_event h e = Some e"
      "ev_runId e = r" "ev_sequence e = 1 + int (length es)" "ev_eventId e \<notin> set (map ev_eventId es)"
      by (auto simp: well_placed_append)
    have "reduceRun s e = extend_state h s e" if "foldRunEvents h es = Inr s" for s
      using foldRunEvents_positions[OF _ that] snoc.prems e
      by (auto simp: extend_state_def next_state_def well_placed_append)
    with False IH show ?thesis
      by (cases "foldRun h es") (simp_all add: foldRunEvents_append foldRun_append1 reduceRunEvents_foldE)
  qed
qed

text \<open>When an id is repeated, the reducer refuses the history at the first repetition.\<close>

lemma repeated_ids_refused:
  assumes "well_placed h r 1 es" and "foldRunEvents h es = Inr s" and "\<not> distinct (map ev_eventId es)"
  shows "\<exists>before e after. es = before @ e # after \<and> distinct (map ev_eventId before) \<and>
    ev_eventId e \<in> ev_eventId ` set before \<and> foldRun h es = Inl (Journal_err (Duplicate_event (ev_eventId e)))"
  using assms
proof (induction es arbitrary: s rule: rev_induct)
  case (snoc e es)
  then have ne: "es \<noteq> []" by auto
  from snoc.prems ne obtain t where t: "foldRunEvents h es = Inr t" by (auto simp: foldRunEvents_append)
  from snoc.prems(1) have placed: "well_placed h r 1 es" "parse_run_event h e = Some e" by (simp_all add: well_placed_append)
  show ?case
  proof (cases "distinct (map ev_eventId es)")
    case True
    with foldRunEvents_foldRun[OF placed(1)] t have "foldRun h es = Inr t" by simp
    moreover from True snoc.prems(3) have again: "ev_eventId e \<in> ev_eventId ` set es" by auto
    moreover have "p_appliedEventIds t = map ev_eventId es" using foldRunEvents_positions[OF placed(1) t] by simp
    ultimately have "foldRun h (es @ [e]) = Inl (Journal_err (Duplicate_event (ev_eventId e)))"
      using ne placed(2) by (simp add: foldRun_append1 extend_state_def)
    with True again show ?thesis by blast
  next
    case False
    from snoc.IH[OF placed(1) t False] obtain before e' after where
      "es = before @ e' # after" "distinct (map ev_eventId before)" "ev_eventId e' \<in> ev_eventId ` set before"
      "foldRun h es = Inl (Journal_err (Duplicate_event (ev_eventId e')))" by blast
    moreover from this(4) foldRun_append1[OF ne, of h e]
    have "foldRun h (es @ [e]) = Inl (Journal_err (Duplicate_event (ev_eventId e')))" by simp
    moreover from calculation(1) have "es @ [e] = before @ e' # (after @ [e])" by simp
    ultimately show ?thesis by blast
  qed
qed simp

end
