(* ===== verification/Event_Log.thy ===== *)
theory Event_Log
  imports Store_Fold Event_Inputs
begin

text \<open>
  The durable JSONL journal of one run: its lines and batches, the checks made when it is read back, the
  fence that decides which operation may write, and the fenced append. The state is what is on disk: the
  log file, the compacted generation (read by code that is not modelled here, so its result is part of the
  state) and the fence file. The in-memory cache, keyed by size and time of the files, is taken to agree with
  the disk; the lock that serializes writers makes every operation here one step. The SHA-256 of the
  serialized events is a parameter.

  Sources under packages/run-store/src: event-store.ts, event-upcaster.ts, jsonl-event-store.ts.
\<close>

section \<open>Lines, versions and checksums\<close>

text \<open>
  A line of the file after \<open>JSON.parse\<close>: text that is no JSON or whose events have no event's shape,
  a blank line, an envelope without version or checksum or with both or neither kind of contents, the
  record of one event of the first format, and a batch.
\<close>

datatype log_line =
    Unreadable
  | Blank_line
  | Bad_envelope
  | Event_record int run_event string
  | Batch_record int "run_event list" string

datatype checksum_subject = One_event run_event | Event_batch "run_event list"

type_synonym sha = "checksum_subject \<Rightarrow> string"

definition CURRENT_EVENT_SCHEMA_VERSION :: int where
  "CURRENT_EVENT_SCHEMA_VERSION = 4"

fun upcasters :: "int \<Rightarrow> (run_event \<Rightarrow> run_event) option" where
  "upcasters v = (if v = 2 then Some (\<lambda>e. e) else if v = 3 then Some (\<lambda>e. e) else None)"

function upcast_loop :: "int \<Rightarrow> run_event \<Rightarrow> run_event option" where
  "upcast_loop version current =
     (if version < CURRENT_EVENT_SCHEMA_VERSION
      then (case upcasters version of None \<Rightarrow> None | Some up \<Rightarrow> upcast_loop (version + 1) (up current))
      else Some current)"
  by pat_completeness auto
termination by (relation "measure (\<lambda>(v, _). nat (CURRENT_EVENT_SCHEMA_VERSION - v))")
    (auto simp: CURRENT_EVENT_SCHEMA_VERSION_def)

declare upcast_loop.simps [simp del]

definition upcastEventToCurrent :: "int \<Rightarrow> run_event \<Rightarrow> run_event option" where
  "upcastEventToCurrent schemaVersion e =
     (if schemaVersion < 1 \<or> schemaVersion > CURRENT_EVENT_SCHEMA_VERSION then None
      else upcast_loop schemaVersion e)"

section \<open>Reading a log\<close>

datatype inspect_status = Log_ok | Log_degraded | Log_corrupt

datatype inspect_reason =
    Incomplete_trailing_record
  | Blank_record nat
  | Invalid_envelope nat
  | Empty_batch nat
  | Checksum_mismatch nat
  | Record_of_other_run nat string
  | Wrong_sequence int int
  | Invalid_record nat
  | Invalid_history reduce_error
  | Invalid_generation string

record inspection =
  is_events :: "run_event list"
  is_status :: inspect_status
  is_reason :: "inspect_reason option"

definition corrupt :: "run_event list \<Rightarrow> inspect_reason \<Rightarrow> inspection" where
  "corrupt es r = \<lparr>is_events = es, is_status = Log_corrupt, is_reason = Some r\<rparr>"

fun line_events :: "log_line \<Rightarrow> run_event list" where
  "line_events (Event_record _ e _) = [e]"
| "line_events (Batch_record _ es _) = es"
| "line_events _ = []"

text \<open>The inner loop: every event of a record names the run and has the next sequence.\<close>

fun check_positions :: "string \<Rightarrow> nat \<Rightarrow> int \<Rightarrow> run_event list \<Rightarrow> inspect_reason + int" where
  "check_positions runId line expected [] = Inr expected"
| "check_positions runId line expected (e # es) =
     throwIf (ev_runId e \<noteq> runId) (Record_of_other_run line (ev_runId e))
     (throwIf (ev_sequence e \<noteq> expected) (Wrong_sequence expected (ev_sequence e))
     (check_positions runId line (expected + 1) es))"

definition read_record :: "host \<Rightarrow> sha \<Rightarrow> string \<Rightarrow> nat \<Rightarrow> int \<Rightarrow> int \<Rightarrow> run_event list \<Rightarrow> string \<Rightarrow>
    (run_event list \<Rightarrow> checksum_subject) \<Rightarrow> inspect_reason + run_event list \<times> int" where
  "read_record h sha runId line expected version raws checksum subject =
     requireE (arr_of (\<lambda>e. Option.bind (upcastEventToCurrent version e) (parse_run_event h)) raws)
       (Invalid_record line) (\<lambda>es.
     throwIf (checksum \<noteq> sha (subject es)) (Checksum_mismatch line)
     (bindE (check_positions runId line expected es) (\<lambda>next. Inr (es, next))))"

fun read_line :: "host \<Rightarrow> sha \<Rightarrow> string \<Rightarrow> nat \<Rightarrow> int \<Rightarrow> log_line \<Rightarrow> inspect_reason + run_event list \<times> int" where
  "read_line h sha runId line expected Unreadable = Inl (Invalid_record line)"
| "read_line h sha runId line expected Blank_line = Inl (Blank_record line)"
| "read_line h sha runId line expected Bad_envelope = Inl (Invalid_envelope line)"
| "read_line h sha runId line expected (Event_record version e checksum) =
     read_record h sha runId line expected version [e] checksum (\<lambda>es. One_event (hd es))"
| "read_line h sha runId line expected (Batch_record version es checksum) =
     throwIf (es = []) (Empty_batch line)
     (read_record h sha runId line expected version es checksum Event_batch)"

text \<open>
  The outer loop. It returns the events read so far with the reason when it stops, and the sequence
  expected next when it reaches the end of the complete lines.
\<close>

fun read_lines :: "host \<Rightarrow> sha \<Rightarrow> string \<Rightarrow> nat \<Rightarrow> int \<Rightarrow> run_event list \<Rightarrow> log_line list \<Rightarrow>
    (run_event list \<times> inspect_reason) + run_event list" where
  "read_lines h sha runId line expected acc [] = Inr acc"
| "read_lines h sha runId line expected acc (l # ls) = (case read_line h sha runId line expected l of
     Inl r \<Rightarrow> Inl (acc, r)
   | Inr (es, next) \<Rightarrow> read_lines h sha runId (line + 1) next (acc @ es) ls)"

text \<open>
  The file: the lines that end in a newline, and what follows the last newline, if anything does.
  The file is empty when both are.
\<close>

record log_file =
  lf_lines :: "log_line list"
  lf_partial :: "log_line option"

definition log_empty :: "log_file \<Rightarrow> bool" where
  "log_empty f = (lf_lines f = [] \<and> lf_partial f = None)"

definition inspectRawLog :: "host \<Rightarrow> sha \<Rightarrow> string \<Rightarrow> log_file \<Rightarrow> int \<Rightarrow> inspection" where
  "inspectRawLog h sha runId f start =
     (case read_lines h sha runId 1 start [] (lf_lines f) of
        Inl (es, r) \<Rightarrow> corrupt es r
      | Inr es \<Rightarrow>
          if lf_partial f \<noteq> None
          then \<lparr>is_events = es, is_status = Log_degraded, is_reason = Some Incomplete_trailing_record\<rparr>
          else (case (if es \<noteq> [] \<and> start = 1 then map_sum id (\<lambda>_. ()) (foldRunEvents h es) else Inr ()) of
                  Inl e \<Rightarrow> corrupt es (Invalid_history e)
                | Inr _ \<Rightarrow> \<lparr>is_events = es, is_status = Log_ok, is_reason = None\<rparr>))"

definition readFirstSequence :: "log_file \<Rightarrow> int option" where
  "readFirstSequence f =
     (case (lf_lines f, lf_partial f) of
        (l # _, _) \<Rightarrow> map_option ev_sequence (case line_events l of [] \<Rightarrow> None | e # _ \<Rightarrow> Some e)
      | ([], Some l) \<Rightarrow> map_option ev_sequence (case line_events l of [] \<Rightarrow> None | e # _ \<Rightarrow> Some e)
      | ([], None) \<Rightarrow> None)"

section \<open>The fence and the store\<close>

record authority =
  au_operationId :: string
  au_fencingToken :: int

datatype fence_file = No_fence | Fence authority | Invalid_fence

record run_storage =
  st_log :: "log_file option"
  st_generation :: "string + run_event list option"
  st_fence :: fence_file

datatype store_error =
    Corrupt_event_log string "inspect_reason option"
  | Sequence_conflict int int
  | Stale_fencing_token string authority
  | Expected_sequence_negative
  | Mixed_retry
  | Content_differs string
  | Input_rejected
  | History_rejected reduce_error
  | Authority_malformed
  | Fence_unreadable
  | Operation_required
  | Minimum_token_negative

text \<open>The two halves of \<open>inspect\<close>: where the active log starts, and joining it to the generation.\<close>

definition active_start :: "run_event list option \<Rightarrow> log_file \<Rightarrow> int" where
  "active_start compacted f =
     (if compacted \<noteq> None \<and> readFirstSequence f = Some 1 then 1
      else int (length (case compacted of None \<Rightarrow> [] | Some es \<Rightarrow> es)) + 1)"

definition join_active :: "host \<Rightarrow> run_event list \<Rightarrow> inspection \<Rightarrow> inspection" where
  "join_active h base active =
     (if is_status active = Log_corrupt then active\<lparr>is_events := base\<rparr>
      else
        let es = base @ filter (\<lambda>e. int (length base) < ev_sequence e) (is_events active)
        in (case (if es \<noteq> [] then map_sum id (\<lambda>_. ()) (foldRunEvents h es) else Inr ()) of
              Inl e \<Rightarrow> corrupt es (Invalid_history e)
            | Inr _ \<Rightarrow> active\<lparr>is_events := es\<rparr>))"

definition inspect :: "host \<Rightarrow> sha \<Rightarrow> string \<Rightarrow> run_storage \<Rightarrow> inspection" where
  "inspect h sha runId st = (case st_generation st of
     Inl message \<Rightarrow> corrupt [] (Invalid_generation message)
   | Inr compacted \<Rightarrow>
       let base = (case compacted of None \<Rightarrow> [] | Some es \<Rightarrow> es) in
       (case st_log st of
          None \<Rightarrow> \<lparr>is_events = base, is_status = Log_ok, is_reason = None\<rparr>
        | Some f \<Rightarrow>
            if log_empty f then \<lparr>is_events = base, is_status = Log_ok, is_reason = None\<rparr>
            else join_active h base (inspectRawLog h sha runId f (active_start compacted f))))"

definition load_events :: "host \<Rightarrow> sha \<Rightarrow> string \<Rightarrow> run_storage \<Rightarrow> store_error + run_event list" where
  "load_events h sha runId st =
     (let i = inspect h sha runId st in
      throwIf (is_status i = Log_corrupt) (Corrupt_event_log runId (is_reason i)) (Inr (is_events i)))"

definition readFence :: "run_storage \<Rightarrow> store_error + authority option" where
  "readFence st = (case st_fence st of
     No_fence \<Rightarrow> Inr None
   | Fence a \<Rightarrow> Inr (Some a)
   | Invalid_fence \<Rightarrow> Inl Fence_unreadable)"

text \<open>\<open>trimmedEmpty\<close> is \<open>trim().length === 0\<close>.\<close>

definition validateAuthority :: "authority \<Rightarrow> bool" where
  "validateAuthority a = (nonEmptyString (au_operationId a) \<noteq> None \<and> 0 < au_fencingToken a)"

definition claimAuthority :: "string \<Rightarrow> int \<Rightarrow> run_storage \<Rightarrow> store_error + authority \<times> run_storage" where
  "claimAuthority operationId minimumToken st =
     throwIf (nonEmptyString operationId = None) Operation_required
     (throwIf (minimumToken < 0) Minimum_token_negative
     (bindE (readFence st) (\<lambda>current.
        let token = max (case current of None \<Rightarrow> 0 | Some c \<Rightarrow> au_fencingToken c) minimumToken + 1;
            a = \<lparr>au_operationId = operationId, au_fencingToken = token\<rparr>
        in Inr (a, st\<lparr>st_fence := Fence a\<rparr>))))"

definition advanceFence :: "string \<Rightarrow> authority \<Rightarrow> run_storage \<Rightarrow> store_error + run_storage" where
  "advanceFence runId a st =
     throwIf (\<not> validateAuthority a) Authority_malformed
     (bindE (readFence st) (\<lambda>current. case current of
        None \<Rightarrow> Inr (st\<lparr>st_fence := Fence a\<rparr>)
      | Some c \<Rightarrow>
          if c = a then Inr st
          else throwIf (au_fencingToken a \<le> au_fencingToken c) (Stale_fencing_token runId a)
            (Inr (st\<lparr>st_fence := Fence a\<rparr>))))"

definition assertAuthority :: "string \<Rightarrow> authority \<Rightarrow> run_storage \<Rightarrow> store_error + unit" where
  "assertAuthority runId a st =
     throwIf (\<not> validateAuthority a) Authority_malformed
     (bindE (readFence st) (\<lambda>current.
        throwIf (current \<noteq> Some a) (Stale_fencing_token runId a) (Inr ())))"

section \<open>The fenced append\<close>

text \<open>The store compares what it stored with the input as it came.\<close>

fun stored_retry :: "(run_event \<times> run_event_input) list \<Rightarrow> store_error + run_event list" where
  "stored_retry [] = Inr []"
| "stored_retry ((e, i) # rest) =
     throwIf (input_of e \<noteq> i) (Content_differs (ev_eventId i)) (bindE (stored_retry rest) (\<lambda>es. Inr (e # es)))"

text \<open>
  \<open>inspectCached\<close> folds what it read, whatever the status, and the new events are reduced onto the result.
\<close>

definition fold_all :: "host \<Rightarrow> run_event list \<Rightarrow> store_error + run_projection option" where
  "fold_all h es = (if es = [] then Inr None
     else (case foldRunEvents h es of Inl e \<Rightarrow> Inl (History_rejected e)
           | Inr s \<Rightarrow> Inr (Some (s\<lparr>p_appliedEventIds := []\<rparr>))))"

definition reduce_onto :: "host \<Rightarrow> run_projection option \<Rightarrow> run_event list \<Rightarrow> store_error + run_projection" where
  "reduce_onto h cached es =
     (case (case cached of None \<Rightarrow> foldRunEvents h es | Some s \<Rightarrow> reduceRunEvents s es) of
        Inl e \<Rightarrow> Inl (History_rejected e) | Inr s \<Rightarrow> Inr s)"

definition truncateIncompleteTrailingLine :: "log_file option \<Rightarrow> log_file option" where
  "truncateIncompleteTrailingLine = map_option (\<lambda>f. f\<lparr>lf_partial := None\<rparr>)"

definition batch_line :: "sha \<Rightarrow> run_event list \<Rightarrow> log_line" where
  "batch_line sha es = Batch_record CURRENT_EVENT_SCHEMA_VERSION es (sha (Event_batch es))"

definition appendDurableEvents :: "sha \<Rightarrow> run_event list \<Rightarrow> bool \<Rightarrow> log_file option \<Rightarrow> log_file option" where
  "appendDurableEvents sha es publishAtomically f =
     Some (if publishAtomically then \<lparr>lf_lines = [batch_line sha es], lf_partial = None\<rparr>
           else (case f of
              None \<Rightarrow> \<lparr>lf_lines = [batch_line sha es], lf_partial = None\<rparr>
            | Some g \<Rightarrow> g\<lparr>lf_lines := lf_lines g @ [batch_line sha es]\<rparr>))"

definition append_locked :: "host \<Rightarrow> sha \<Rightarrow> string \<Rightarrow> int \<Rightarrow> run_event_input list \<Rightarrow> run_storage \<Rightarrow>
    store_error + run_event list \<times> run_storage" where
  "append_locked h sha runId expectedSequence inputs st =
     (let i = inspect h sha runId st in
      bindE (fold_all h (is_events i)) (\<lambda>cached.
      throwIf (is_status i = Log_corrupt) (Corrupt_event_log runId (is_reason i))
      (let duplicates = map (\<lambda>x. eventsById (is_events i) (ev_eventId x)) inputs in
       if list_all (\<lambda>d. d \<noteq> None) duplicates
       then bindE (stored_retry (zip (map the duplicates) inputs)) (\<lambda>es. Inr (es, st))
       else throwIf (list_ex (\<lambda>d. d \<noteq> None) duplicates) Mixed_retry
         (throwIf (int (length (is_events i)) \<noteq> expectedSequence)
            (Sequence_conflict expectedSequence (int (length (is_events i))))
         (requireE (arr_of (parse_run_event h) (place_inputs runId (expectedSequence + 1) inputs)) Input_rejected
            (\<lambda>appended.
         bindE (reduce_onto h cached appended) (\<lambda>_.
         let log = (if is_status i = Log_degraded then truncateIncompleteTrailingLine (st_log st) else st_log st)
         in Inr (appended, st\<lparr>st_log := appendDurableEvents sha appended (is_events i = []) log\<rparr>))))))))"

definition withFencedWrite :: "string \<Rightarrow> authority \<Rightarrow> (run_storage \<Rightarrow> store_error + 'a \<times> run_storage) \<Rightarrow>
    run_storage \<Rightarrow> store_error + 'a \<times> run_storage" where
  "withFencedWrite runId a operation st =
     bindE (assertAuthority runId a st) (\<lambda>_.
     bindE (operation st) (\<lambda>(x, st1).
     bindE (assertAuthority runId a st1) (\<lambda>_. Inr (x, st1))))"

definition appendFenced :: "host \<Rightarrow> sha \<Rightarrow> string \<Rightarrow> int \<Rightarrow> authority \<Rightarrow> run_event_input list \<Rightarrow> run_storage \<Rightarrow>
    store_error + run_event list \<times> run_storage" where
  "appendFenced h sha runId expectedSequence a inputs st =
     throwIf (expectedSequence < 0) Expected_sequence_negative
     (if inputs = [] then Inr ([], st)
      else withFencedWrite runId a (append_locked h sha runId expectedSequence inputs) st)"

end
