(* ===== verification/Event_Log_Laws.thy ===== *)
theory Event_Log_Laws
  imports Event_Log
begin

text \<open>
  Laws of the durable journal: what reading a log establishes, that a batch written by the fenced append
  reads back as the events appended, that a write cut short by a crash loses nothing but itself, and that
  the fence only moves forward. The operations of the store are gathered into one step relation, so the
  laws are stated for every interleaving of writers and crashes.

  Sources under packages/run-store/src: event-upcaster.ts, jsonl-event-store.ts.
\<close>

section \<open>Reading records\<close>

lemma upcast_supported:
  "upcastEventToCurrent v e = (if 2 \<le> v \<and> v \<le> 4 then Some e else None)"
proof -
  consider "v < 1" | "v = 1" | "v = 2" | "v = 3" | "v = 4" | "4 < v" by linarith
  then show ?thesis
    by cases (simp_all add: upcastEventToCurrent_def CURRENT_EVENT_SCHEMA_VERSION_def upcast_loop.simps)
qed

lemma upcast_current [simp]: "upcastEventToCurrent CURRENT_EVENT_SCHEMA_VERSION e = Some e"
  by (simp add: upcast_supported CURRENT_EVENT_SCHEMA_VERSION_def)

lemma check_positions_Inr: "check_positions r n k es = Inr k' \<Longrightarrow> k' = k + int (length es)"
  by (induction es arbitrary: k) fastforce+

lemma well_placed_iff:
  "well_placed h r k es \<longleftrightarrow> (\<forall>e \<in> set es. parse_run_event h e = Some e) \<and>
     check_positions r n k es = Inr (k + int (length es))"
proof (induction es arbitrary: k)
  case (Cons e es)
  have "k + int (length (e # es)) = (k + 1) + int (length es)" by simp
  with Cons.IH[of "k + 1"] show ?case
    unfolding well_placed.simps check_positions.simps throwIf_Inr by (metis list.set_intros(1) set_ConsD list.set_intros(2))
qed simp

lemma arr_of_upcast:
  "arr_of (\<lambda>e. Option.bind (upcastEventToCurrent v e) (parse_run_event h)) raws = Some es \<Longrightarrow>
    \<forall>e \<in> set es. parse_run_event h e = Some e"
  by (induction raws arbitrary: es)
    (auto simp: parse_simps upcast_supported dest: run_event.idem split: if_splits)

lemma read_record_Inr:
  assumes "read_record h sha r n k v raws c subject = Inr (es, k')"
  shows "well_placed h r k es \<and> k' = k + int (length es) \<and> length es = length raws"
proof -
  from assms have parsed: "arr_of (\<lambda>e. Option.bind (upcastEventToCurrent v e) (parse_run_event h)) raws = Some es"
    and k': "check_positions r n k es = Inr k'"
    by (auto simp: read_record_def)
  from k' have "k' = k + int (length es)" by (simp add: check_positions_Inr)
  with k' arr_of_upcast[OF parsed] arr_of_length[OF parsed] show ?thesis
    by (simp add: well_placed_iff[where n = n])
qed

lemma read_line_Inr:
  assumes "read_line h sha r n k l = Inr (es, k')"
  shows "well_placed h r k es \<and> k' = k + int (length es) \<and> es \<noteq> []"
proof (cases l)
  case (Event_record v e c)
  with assms show ?thesis using read_record_Inr[of h sha r n k v "[e]" c _ es k'] by force
next
  case (Batch_record v raws c)
  with assms show ?thesis using read_record_Inr[of h sha r n k v raws c _ es k'] by force
qed (use assms in auto)

lemma read_lines_append1:
  "read_lines h sha r n k acc ls = Inr es \<Longrightarrow>
   read_lines h sha r n k acc (ls @ [l]) =
     (case read_line h sha r (n + length ls) (k + int (length es) - int (length acc)) l of
        Inl q \<Rightarrow> Inl (es, q) | Inr (fs, _) \<Rightarrow> Inr (es @ fs))"
proof (induction ls arbitrary: n k acc)
  case Nil
  then show ?case by (auto split: sum.splits)
next
  case (Cons l' ls)
  then obtain fs k' where l': "read_line h sha r n k l' = Inr (fs, k')"
    and rest: "read_lines h sha r (n + 1) k' (acc @ fs) ls = Inr es"
    by (auto split: sum.splits)
  from Cons.IH[OF rest] read_line_Inr[OF l'] l' show ?case
    by (simp add: algebra_simps)
qed

lemma read_lines_placed:
  "read_lines h sha r n k acc ls = Inr es \<Longrightarrow>
   \<exists>fs. es = acc @ fs \<and> well_placed h r k fs \<and> (fs = [] \<longleftrightarrow> ls = [])"
proof (induction ls arbitrary: n k acc)
  case (Cons l ls)
  then obtain es1 k' where l: "read_line h sha r n k l = Inr (es1, k')"
    and rest: "read_lines h sha r (n + 1) k' (acc @ es1) ls = Inr es"
    by (auto split: sum.splits)
  from Cons.IH[OF rest] read_line_Inr[OF l] show ?case
    by (auto simp: well_placed_append)
qed simp

lemma read_batch_line:
  assumes "well_placed h r k es" and "es \<noteq> []"
  shows "read_line h sha r n k (batch_line sha es) = Inr (es, k + int (length es))"
proof -
  have "arr_of (\<lambda>e. Option.bind (upcastEventToCurrent CURRENT_EVENT_SCHEMA_VERSION e) (parse_run_event h)) es = Some es"
    using well_placed_arr_of[OF assms(1)] by simp
  with assms show ?thesis
    by (simp add: batch_line_def read_record_def well_placed_iff[where n = n])
qed

section \<open>What an inspection returns\<close>

text \<open>
  The active log follows the compacted generation: once a generation covers the start of the history, the
  log that stays behind does not begin with event one again.
\<close>

definition base_of :: "run_storage \<Rightarrow> run_event list" where
  "base_of st = (case st_generation st of Inr (Some es) \<Rightarrow> es | _ \<Rightarrow> [])"

definition lines_of :: "run_storage \<Rightarrow> log_line list" where
  "lines_of st = (case st_log st of None \<Rightarrow> [] | Some f \<Rightarrow> lf_lines f)"

fun begins_with_first :: "log_line list \<Rightarrow> bool" where
  "begins_with_first [] = False"
| "begins_with_first (l # _) = (case line_events l of [] \<Rightarrow> False | e # _ \<Rightarrow> ev_sequence e = 1)"

definition log_follows :: "run_storage \<Rightarrow> bool" where
  "log_follows st = (base_of st \<noteq> [] \<longrightarrow> \<not> begins_with_first (lines_of st))"

lemma well_placed_all_above:
  "well_placed h r k es \<Longrightarrow> m < k \<Longrightarrow> filter (\<lambda>e. m < ev_sequence e) es = es"
  by (induction es arbitrary: k) auto

lemma inspect_joined:
  assumes "st_generation st = Inr c" and "st_log st = Some f" and "\<not> log_empty f"
  shows "inspect h sha r st = join_active h (base_of st) (inspectRawLog h sha r f (active_start c f))"
  using assms by (auto simp: inspect_def base_of_def Let_def split: option.splits)

lemma active_start_follows:
  assumes "st_generation st = Inr c" and "st_log st = Some f" and "log_follows st" and "lf_lines f \<noteq> []"
  shows "active_start c f = int (length (base_of st)) + 1"
proof (cases "base_of st = []")
  case True
  with assms(1) show ?thesis by (auto simp: active_start_def base_of_def split: option.splits)
next
  case False
  with assms have "readFirstSequence f \<noteq> Some 1"
    by (cases "lf_lines f") (auto simp: log_follows_def lines_of_def readFirstSequence_def split: list.splits)
  with assms(1) show ?thesis by (auto simp: active_start_def base_of_def split: option.splits)
qed

lemma read_active:
  assumes "st_generation st = Inr c" and "st_log st = Some f" and "log_follows st"
  shows "read_lines h sha r 1 (active_start c f) [] (lf_lines f) =
    read_lines h sha r 1 (int (length (base_of st)) + 1) [] (lf_lines f)"
  using active_start_follows[OF assms] by (cases "lf_lines f") auto

lemma read_lines_above:
  "read_lines h sha r n (int m + 1) [] ls = Inr es \<Longrightarrow> filter (\<lambda>e. int m < ev_sequence e) es = es"
  using read_lines_placed[of h sha r n "int m + 1" "[]" ls es] well_placed_all_above[of h r "int m + 1" es "int m"]
  by auto

lemma inspect_sound:
  assumes "is_status (inspect h sha r st) \<noteq> Log_corrupt" and "log_follows st"
  shows "\<exists>active. read_lines h sha r 1 (int (length (base_of st)) + 1) [] (lines_of st) = Inr active \<and>
    is_events (inspect h sha r st) = base_of st @ active \<and> (\<exists>c. st_generation st = Inr c)"
proof -
  from assms(1) obtain c where c: "st_generation st = Inr c"
    by (cases "st_generation st") (auto simp: inspect_def corrupt_def)
  show ?thesis
  proof (cases "\<exists>f. st_log st = Some f \<and> \<not> log_empty f")
    case False
    with c show ?thesis
      by (auto simp: inspect_def base_of_def lines_of_def log_empty_def split: option.splits)
  next
    case True
    then obtain f where f: "st_log st = Some f" "\<not> log_empty f" by blast
    note i = inspect_joined[OF c f, of h sha r]
    with assms(1) have ok: "is_status (inspectRawLog h sha r f (active_start c f)) \<noteq> Log_corrupt"
      by (auto simp: join_active_def)
    then obtain es where es: "read_lines h sha r 1 (active_start c f) [] (lf_lines f) = Inr es"
        "is_events (inspectRawLog h sha r f (active_start c f)) = es"
      by (auto simp: inspectRawLog_def corrupt_def split: sum.splits if_splits)
    with read_active[OF c f(1) assms(2)]
    have read: "read_lines h sha r 1 (int (length (base_of st)) + 1) [] (lf_lines f) = Inr es" by simp
    from i es ok assms(1) read_lines_above[OF read] have "is_events (inspect h sha r st) = base_of st @ es"
      by (auto simp: join_active_def Let_def corrupt_def split: sum.splits if_splits)
    with read f c show ?thesis by (auto simp: lines_of_def)
  qed
qed

text \<open>The other direction: complete lines that read and fold are returned, with the status of the tail.\<close>

lemma inspect_complete:
  assumes c: "st_generation st = Inr c" and follows: "log_follows st"
    and log: "st_log st = Some f" "\<not> log_empty f"
    and read: "read_lines h sha r 1 (int (length (base_of st)) + 1) [] (lf_lines f) = Inr active"
    and fold: "base_of st @ active \<noteq> [] \<Longrightarrow> \<exists>s. foldRunEvents h (base_of st @ active) = Inr s"
  shows "inspect h sha r st = \<lparr>is_events = base_of st @ active,
     is_status = (if lf_partial f = None then Log_ok else Log_degraded),
     is_reason = (if lf_partial f = None then None else Some Incomplete_trailing_record)\<rparr>"
proof -
  have "base_of st = []" if "active \<noteq> []" "active_start c f = 1"
  proof -
    from that(1) read have "lf_lines f \<noteq> []" by auto
    from active_start_follows[OF c log(1) follows this] that(2) show ?thesis by simp
  qed
  with fold read read_active[OF c log(1) follows] have raw: "inspectRawLog h sha r f (active_start c f) =
    \<lparr>is_events = active, is_status = (if lf_partial f = None then Log_ok else Log_degraded),
     is_reason = (if lf_partial f = None then None else Some Incomplete_trailing_record)\<rparr>"
    by (auto simp: inspectRawLog_def split: sum.splits)
  show ?thesis
    unfolding inspect_joined[OF c log] raw using read_lines_above[OF read] fold
    by (auto simp: join_active_def Let_def split: sum.splits)
qed

section \<open>The fenced append\<close>

lemma stored_retry_Inr: "stored_retry ps = Inr es \<Longrightarrow> es = map fst ps \<and> map input_of es = map snd ps"
  by (induction ps arbitrary: es rule: stored_retry.induct) auto

lemma fold_all_Inr: "fold_all h es = Inr c \<Longrightarrow> es = [] \<and> c = None \<or>
    es \<noteq> [] \<and> (\<exists>s. foldRunEvents h es = Inr s \<and> c = Some (with_ids [] s))"
  by (auto simp: fold_all_def split: if_splits sum.splits)

lemma reduce_onto_fold:
  assumes "fold_all h es = Inr c" and "reduce_onto h c fs = Inr s"
  shows "\<exists>t. foldRunEvents h (es @ fs) = Inr t"
proof (cases "es = []")
  case True
  with assms show ?thesis by (auto simp: fold_all_def reduce_onto_def split: sum.splits)
next
  case False
  with fold_all_Inr[OF assms(1)] obtain t where t: "foldRunEvents h es = Inr t" "c = Some (with_ids [] t)" by auto
  with assms(2) have "reduceRunEvents (with_ids [] t) fs = Inr s" by (auto simp: reduce_onto_def split: sum.splits)
  with False t reduceRunEvents_without_ids[of fs t] show ?thesis
    by (cases "fs = []"; cases "reduceRunEvents t fs") (auto simp: foldRunEvents_append)
qed

text \<open>The log after a new batch: one more line, and no partial tail.\<close>

definition appended_log :: "sha \<Rightarrow> run_event list \<Rightarrow> run_storage \<Rightarrow> run_storage" where
  "appended_log sha es st = st\<lparr>st_log := Some \<lparr>lf_lines = lines_of st @ [batch_line sha es], lf_partial = None\<rparr>\<rparr>"

lemma inspect_appended:
  assumes st: "is_status (inspect h sha r st) \<noteq> Log_corrupt" "log_follows st"
    and es: "well_placed h r (int (length (is_events (inspect h sha r st))) + 1) es" "es \<noteq> []"
    and fold: "\<exists>s. foldRunEvents h (is_events (inspect h sha r st) @ es) = Inr s"
  shows "inspect h sha r (appended_log sha es st) =
      \<lparr>is_events = is_events (inspect h sha r st) @ es, is_status = Log_ok, is_reason = None\<rparr> \<and>
    log_follows (appended_log sha es st)"
proof -
  from inspect_sound[OF st] obtain active c where
    read: "read_lines h sha r 1 (int (length (base_of st)) + 1) [] (lines_of st) = Inr active"
    and ev: "is_events (inspect h sha r st) = base_of st @ active" and c: "st_generation st = Inr c" by blast
  have read': "read_lines h sha r 1 (int (length (base_of st)) + 1) [] (lines_of st @ [batch_line sha es])
      = Inr (active @ es)"
    using read_lines_append1[OF read, of "batch_line sha es"] es ev
    by (simp add: read_batch_line algebra_simps)
  have base: "base_of (appended_log sha es st) = base_of st" by (simp add: base_of_def appended_log_def)
  have "ev_sequence (hd es) = int (length (is_events (inspect h sha r st))) + 1"
    using es by (cases es) auto
  with ev es(2) have "ev_sequence (hd es) \<noteq> 1" if "base_of st \<noteq> []"
    using that by (cases "base_of st") auto
  with es(2) st(2) have follows: "log_follows (appended_log sha es st)"
    unfolding log_follows_def base
    by (cases "lines_of st"; cases es) (auto simp: lines_of_def appended_log_def batch_line_def)
  from inspect_complete[of "appended_log sha es st" c, OF _ follows, of _ h sha r "active @ es"] read' fold ev c base
  show ?thesis using follows by (simp add: appended_log_def log_empty_def)
qed

lemma append_locked_cases:
  assumes r: "entityId r = Some r" and follows: "log_follows st" and "inputs \<noteq> []" "0 \<le> n"
    and app: "append_locked h sha r n inputs st = Inr (es, st')"
  obtains (retry) "st' = st" "map input_of es = inputs" "set es \<subseteq> set (is_events (inspect h sha r st))"
  | (new) "n = int (length (is_events (inspect h sha r st)))"
      "is_status (inspect h sha r st) \<noteq> Log_corrupt"
      "st' = appended_log sha es st" "well_placed h r (n + 1) es"
      "arr_of (parse_run_event h) (place_inputs r (n + 1) inputs) = Some es"
      "\<forall>i \<in> set inputs. ev_eventId i \<notin> ev_eventId ` set (is_events (inspect h sha r st))"
      "\<exists>s. foldRunEvents h (is_events (inspect h sha r st) @ es) = Inr s"
proof -
  let ?i = "inspect h sha r st"
  let ?dup = "map (\<lambda>x. eventsById (is_events ?i) (ev_eventId x)) inputs"
  from app obtain cached where cached: "fold_all h (is_events ?i) = Inr cached" and ok: "is_status ?i \<noteq> Log_corrupt"
    by (auto simp: append_locked_def Let_def)
  show thesis
  proof (cases "list_all (\<lambda>d. d \<noteq> None) ?dup")
    case True
    with app have "stored_retry (zip (map the ?dup) inputs) = Inr es" "st' = st"
      by (auto simp: append_locked_def Let_def cached ok)
    moreover from stored_retry_Inr[OF this(1), THEN conjunct1] have es: "es = map the ?dup"
      by (simp del: map_map)
    moreover from stored_retry_Inr[OF \<open>stored_retry _ = _\<close>, THEN conjunct2] have "map input_of es = inputs"
      by (simp del: map_map)
    moreover from es True have "set es \<subseteq> set (is_events ?i)"
      by (fastforce simp: list_all_iff dest: eventsById_Some)
    ultimately show thesis by (intro retry)
  next
    case False
    with app have fresh: "\<not> list_ex (\<lambda>d. d \<noteq> None) ?dup" and n: "n = int (length (is_events ?i))"
      and parsed: "arr_of (parse_run_event h) (place_inputs r (n + 1) inputs) = Some es"
      and red: "\<exists>s. reduce_onto h cached es = Inr s"
      and st': "st' = st\<lparr>st_log := appendDurableEvents sha es (is_events ?i = [])
         (if is_status ?i = Log_degraded then truncateIncompleteTrailingLine (st_log st) else st_log st)\<rparr>"
      by (auto simp: append_locked_def Let_def cached ok)
    from inspect_sound[OF ok follows] obtain active where
      read: "read_lines h sha r 1 (int (length (base_of st)) + 1) [] (lines_of st) = Inr active"
      and ev: "is_events ?i = base_of st @ active" by blast
    have "lines_of st = []" if "is_events ?i = []"
      using that ev read_lines_placed[OF read] by auto
    moreover have "lf_partial f = None" if "is_status ?i \<noteq> Log_degraded" "st_log st = Some f" for f
      using that ok
      by (auto simp: inspect_def join_active_def inspectRawLog_def log_empty_def corrupt_def Let_def
          split: option.splits sum.splits if_splits)
    ultimately have "st' = appended_log sha es st"
      unfolding st' appended_log_def
      by (cases "st_log st") (auto simp: appendDurableEvents_def truncateIncompleteTrailingLine_def lines_of_def)
    moreover have "\<forall>i \<in> set inputs. ev_eventId i \<notin> ev_eventId ` set (is_events ?i)"
      using fresh by (auto simp: list_ex_iff eventsById_None[symmetric] simp del: not_None_eq)
    moreover have "well_placed h r (n + 1) es"
      using place_inputs_placed[OF r, of "n + 1" h inputs es] parsed \<open>0 \<le> n\<close> by simp
    ultimately show thesis using new n ok parsed reduce_onto_fold[OF cached] red by blast
  qed
qed

end
