(* ===== verification/Store_Steps.thy ===== *)
theory Store_Steps
  imports Event_Log_Laws
begin

text \<open>
  The store as a state machine: the operations of every writer, and crashes in the middle of a write, as
  one step relation. A storage is readable when its log is not corrupt and its history folds. Readable
  storages stay readable, their histories only grow, and the fence only moves to larger tokens.

  Source: packages/run-store/src/jsonl-event-store.ts.
\<close>

section \<open>Steps\<close>

text \<open>
  A crash while a batch is written leaves some text after the last newline; a crash after the repair of an
  earlier tail leaves the complete lines.
\<close>

definition tear :: "log_line \<Rightarrow> run_storage \<Rightarrow> run_storage" where
  "tear l st = st\<lparr>st_log := Some \<lparr>lf_lines = lines_of st, lf_partial = Some l\<rparr>\<rparr>"

definition trim_tail :: "run_storage \<Rightarrow> run_storage" where
  "trim_tail st = st\<lparr>st_log := truncateIncompleteTrailingLine (st_log st)\<rparr>"

inductive store_step :: "host \<Rightarrow> sha \<Rightarrow> string \<Rightarrow> run_storage \<Rightarrow> run_storage \<Rightarrow> bool"
  for h :: host and sha :: sha and r :: string where
  claimed: "claimAuthority operation m st = Inr (a, st') \<Longrightarrow> store_step h sha r st st'"
| advanced: "advanceFence r a st = Inr st' \<Longrightarrow> store_step h sha r st st'"
| written: "appendFenced h sha r n a inputs st = Inr (es, st') \<Longrightarrow> store_step h sha r st st'"
| torn: "store_step h sha r st (tear l st)"
| trimmed: "store_step h sha r st (trim_tail st)"

definition readable :: "host \<Rightarrow> sha \<Rightarrow> string \<Rightarrow> run_storage \<Rightarrow> bool" where
  "readable h sha r st =
     (is_status (inspect h sha r st) \<noteq> Log_corrupt \<and> log_follows st \<and>
      (is_events (inspect h sha r st) \<noteq> [] \<longrightarrow> (\<exists>s. foldRunEvents h (is_events (inspect h sha r st)) = Inr s)))"

text \<open>Reading depends on the generation and the complete lines alone.\<close>

lemma inspect_same_lines:
  assumes "readable h sha r st" and "st_generation st' = st_generation st" and "lines_of st' = lines_of st"
  shows "readable h sha r st' \<and> is_events (inspect h sha r st') = is_events (inspect h sha r st)"
proof -
  from assms(1) have st: "is_status (inspect h sha r st) \<noteq> Log_corrupt" "log_follows st"
    by (simp_all add: readable_def)
  from inspect_sound[OF st] obtain active c where
    read: "read_lines h sha r 1 (int (length (base_of st)) + 1) [] (lines_of st) = Inr active"
    and ev: "is_events (inspect h sha r st) = base_of st @ active" and c: "st_generation st = Inr c" by blast
  from assms(2) have base: "base_of st' = base_of st" by (simp add: base_of_def)
  with assms(3) st(2) have follows: "log_follows st'" by (simp add: log_follows_def)
  show ?thesis
  proof (cases "\<exists>f. st_log st' = Some f \<and> \<not> log_empty f")
    case True
    then obtain f where f: "st_log st' = Some f" "\<not> log_empty f" by blast
    then have "lf_lines f = lines_of st" using assms(3) by (simp add: lines_of_def)
    with inspect_complete[of st' c f h sha r active] follows f read ev base assms c
    have "inspect h sha r st' = \<lparr>is_events = base_of st @ active,
        is_status = (if lf_partial f = None then Log_ok else Log_degraded),
        is_reason = (if lf_partial f = None then None else Some Incomplete_trailing_record)\<rparr>"
      by (simp add: readable_def)
    with follows ev assms(1) show ?thesis by (simp add: readable_def)
  next
    case False
    with assms(3) have "lines_of st = []" by (auto simp: lines_of_def log_empty_def split: option.splits)
    with read have "active = []" by simp
    moreover from False c assms(2) base have "inspect h sha r st' = \<lparr>is_events = base_of st, is_status = Log_ok, is_reason = None\<rparr>"
      by (auto simp: inspect_def base_of_def split: option.splits)
    ultimately show ?thesis using follows ev assms(1) by (simp add: readable_def)
  qed
qed

lemma readable_appended:
  assumes "readable h sha r st" and "well_placed h r (int (length (is_events (inspect h sha r st))) + 1) es" "es \<noteq> []"
    and "\<exists>s. foldRunEvents h (is_events (inspect h sha r st) @ es) = Inr s"
  shows "readable h sha r (appended_log sha es st) \<and>
    is_events (inspect h sha r (appended_log sha es st)) = is_events (inspect h sha r st) @ es"
  using assms inspect_appended[of h sha r st es] by (auto simp: readable_def)

lemma withFencedWrite_Inr:
  "withFencedWrite r a operation st = Inr (x, st') \<longleftrightarrow>
     assertAuthority r a st = Inr () \<and> operation st = Inr (x, st') \<and> assertAuthority r a st' = Inr ()"
  by (auto simp: withFencedWrite_def)

lemma appendFenced_Inr:
  "appendFenced h sha r n a inputs st = Inr (es, st') \<Longrightarrow>
   0 \<le> n \<and> (inputs = [] \<and> es = [] \<and> st' = st \<or>
     inputs \<noteq> [] \<and> assertAuthority r a st = Inr () \<and> append_locked h sha r n inputs st = Inr (es, st'))"
  by (auto simp: appendFenced_def withFencedWrite_Inr split: if_splits)

lemma claimAuthority_Inr:
  "claimAuthority operation m st = Inr (a, st') \<Longrightarrow>
   st' = st\<lparr>st_fence := Fence a\<rparr> \<and> st_fence st \<noteq> Invalid_fence \<and> 0 \<le> m \<and> m < au_fencingToken a \<and>
   au_operationId a = operation \<and> validateAuthority a \<and>
   (\<forall>c. st_fence st = Fence c \<longrightarrow> au_fencingToken c < au_fencingToken a)"
  by (auto simp: claimAuthority_def readFence_def Let_def validateAuthority_def split: fence_file.splits)

lemma advanceFence_Inr:
  "advanceFence r a st = Inr st' \<Longrightarrow>
   validateAuthority a \<and> st_fence st' = Fence a \<and> st_fence st \<noteq> Invalid_fence \<and>
   st' = st\<lparr>st_fence := Fence a\<rparr> \<and>
   (\<forall>c. st_fence st = Fence c \<longrightarrow> c = a \<or> au_fencingToken c < au_fencingToken a)"
  by (auto simp: advanceFence_def readFence_def split: fence_file.splits if_splits)

lemma store_step_grows:
  assumes "store_step h sha r st st'" and "readable h sha r st" and "entityId r = Some r"
  shows "readable h sha r st' \<and> (\<exists>more. is_events (inspect h sha r st') = is_events (inspect h sha r st) @ more)"
  using assms(1)
proof cases
  case (claimed operation m a)
  with inspect_same_lines[OF assms(2), of st'] show ?thesis
    by (auto dest!: claimAuthority_Inr simp: lines_of_def)
next
  case (advanced a)
  then have "st' = st\<lparr>st_fence := Fence a\<rparr>" by (auto dest!: advanceFence_Inr)
  with inspect_same_lines[OF assms(2), of st'] show ?thesis by (auto simp: lines_of_def)
next
  case (written n a inputs es)
  from appendFenced_Inr[OF this] consider "st' = st" | "inputs \<noteq> []" "0 \<le> n" "append_locked h sha r n inputs st = Inr (es, st')"
    by blast
  then show ?thesis
  proof cases
    case 2
    from assms(2) have "log_follows st" by (simp add: readable_def)
    have grown: "\<exists>more. readable h sha r (appended_log sha es st) \<and>
        is_events (inspect h sha r (appended_log sha es st)) = is_events (inspect h sha r st) @ more"
      if "n = int (length (is_events (inspect h sha r st)))" "well_placed h r (n + 1) es" "es \<noteq> []"
        "\<exists>s. foldRunEvents h (is_events (inspect h sha r st) @ es) = Inr s"
      using readable_appended[OF assms(2)] that by auto
    have some: "es \<noteq> []" if "arr_of (parse_run_event h) (place_inputs r (n + 1) inputs) = Some es"
      using place_inputs_nonempty that 2(1) .
    show ?thesis
      by (rule append_locked_cases[OF assms(3) \<open>log_follows st\<close> 2]) (use grown some assms(2) in auto)
  qed (use assms(2) in auto)
next
  case (torn l)
  with inspect_same_lines[OF assms(2), of st'] show ?thesis by (auto simp: tear_def lines_of_def)
next
  case trimmed
  with inspect_same_lines[OF assms(2), of st'] show ?thesis
    by (auto simp: trim_tail_def truncateIncompleteTrailingLine_def lines_of_def split: option.splits)
qed

lemma store_steps_grow:
  assumes "(store_step h sha r)\<^sup>*\<^sup>* st st'" and "readable h sha r st" and "entityId r = Some r"
  shows "readable h sha r st' \<and> (\<exists>more. is_events (inspect h sha r st') = is_events (inspect h sha r st) @ more)"
  using assms(1)
proof induction
  case (step st1 st2)
  with store_step_grows[of h sha r st1 st2] assms(3) show ?case by fastforce
qed (use assms(2) in simp)

section \<open>The fence\<close>

definition fence_le :: "fence_file \<Rightarrow> fence_file \<Rightarrow> bool" where
  "fence_le f g = (f = g \<or> (f = No_fence \<and> (\<exists>b. g = Fence b)) \<or>
     (\<exists>a b. f = Fence a \<and> g = Fence b \<and> au_fencingToken a < au_fencingToken b))"

lemma fence_le_refl [simp]: "fence_le f f"
  by (simp add: fence_le_def)

lemma fence_le_trans: "fence_le f g \<Longrightarrow> fence_le g k \<Longrightarrow> fence_le f k"
  by (auto simp: fence_le_def)

lemma appended_fence [simp]: "st_fence (appended_log sha es st) = st_fence st"
  by (simp add: appended_log_def)

lemma append_locked_fence: "append_locked h sha r n inputs st = Inr (es, st') \<Longrightarrow> st_fence st' = st_fence st"
  by (auto simp: append_locked_def Let_def split: if_splits)

lemma store_step_fence:
  assumes "store_step h sha r st st'"
  shows "fence_le (st_fence st) (st_fence st')"
  using assms
proof cases
  case (claimed operation m a)
  then show ?thesis by (cases "st_fence st") (auto dest!: claimAuthority_Inr simp: fence_le_def)
next
  case (advanced a)
  then show ?thesis by (cases "st_fence st") (auto dest!: advanceFence_Inr simp: fence_le_def)
next
  case (written n a inputs es)
  from appendFenced_Inr[OF this] show ?thesis by (auto dest: append_locked_fence)
qed (simp_all add: tear_def trim_tail_def)

lemma store_steps_fence: "(store_step h sha r)\<^sup>*\<^sup>* st st' \<Longrightarrow> fence_le (st_fence st) (st_fence st')"
  by (induction rule: rtranclp_induct) (auto intro: fence_le_trans store_step_fence)

lemma stale_append:
  assumes "st_fence st = Fence b" "b \<noteq> a" "validateAuthority a" "0 \<le> n" "inputs \<noteq> []"
  shows "appendFenced h sha r n a inputs st = Inl (Stale_fencing_token r a)"
  using assms by (simp add: appendFenced_def withFencedWrite_def assertAuthority_def readFence_def)

section \<open>Appends at the same history\<close>

lemma fold_reduce_onto:
  assumes "foldRunEvents h (es @ fs) = Inr t"
  shows "\<exists>c s. fold_all h es = Inr c \<and> reduce_onto h c fs = Inr s"
proof (cases "es = []")
  case True
  with assms show ?thesis by (simp add: fold_all_def reduce_onto_def)
next
  case False
  with assms obtain u where u: "foldRunEvents h es = Inr u" "reduceRunEvents u fs = Inr t"
    by (auto simp: foldRunEvents_append)
  with False reduceRunEvents_without_ids[of fs u] show ?thesis
    by (cases "fs = []"; cases "reduceRunEvents (with_ids [] u) fs")
      (auto simp: fold_all_def reduce_onto_def reduceRunEvents_def)
qed

text \<open>When the checks pass, the append writes one batch after the complete lines.\<close>

lemma append_locked_new:
  assumes "readable h sha r st" and "inputs \<noteq> []" and n: "n = int (length (is_events (inspect h sha r st)))"
    and fresh: "\<forall>i \<in> set inputs. ev_eventId i \<notin> ev_eventId ` set (is_events (inspect h sha r st))"
    and parsed: "arr_of (parse_run_event h) (place_inputs r (n + 1) inputs) = Some es"
    and fold: "foldRunEvents h (is_events (inspect h sha r st) @ es) = Inr s"
    and r: "entityId r = Some r"
  shows "append_locked h sha r n inputs st = Inr (es, appended_log sha es st)"
proof -
  let ?i = "inspect h sha r st"
  from fold_reduce_onto[OF fold] obtain c t where c: "fold_all h (is_events ?i) = Inr c" "reduce_onto h c es = Inr t" by blast
  from assms(1) have ok: "is_status ?i \<noteq> Log_corrupt" "log_follows st" by (simp_all add: readable_def)
  from fresh have "\<not> list_ex (\<lambda>d. d \<noteq> None) (map (\<lambda>x. eventsById (is_events ?i) (ev_eventId x)) inputs)"
    by (auto simp: list_ex_iff eventsById_None[symmetric] simp del: not_None_eq)
  moreover from this assms(2) have "\<not> list_all (\<lambda>d. d \<noteq> None) (map (\<lambda>x. eventsById (is_events ?i) (ev_eventId x)) inputs)"
    by (cases inputs) auto
  ultimately have "\<exists>log. append_locked h sha r n inputs st = Inr (es, log)"
    using c ok(1) parsed n by (simp add: append_locked_def Let_def throwIf_def del: not_None_eq)
  then obtain log where log: "append_locked h sha r n inputs st = Inr (es, log)" by blast
  have "log = appended_log sha es st"
    by (rule append_locked_cases[OF r ok(2) assms(2) _ log])
      (use n fresh assms(2) parsed in \<open>auto 4 3 simp: neq_Nil_conv input_of_def run_event_input.defs\<close>)
  with log show ?thesis by simp
qed

end
