(* ===== verification/Store_Properties.thy ===== *)
theory Store_Properties
  imports Store_Steps Sample_Run
begin

text \<open>
  What the durable journal promises to its callers, with a small concrete store on which every hypothesis
  is seen to hold.

  Source: packages/run-store/src/jsonl-event-store.ts.
\<close>

section \<open>A concrete store\<close>

definition sample_sha :: sha where
  "sample_sha s = ''sum''"

definition sample_writer :: authority where
  "sample_writer = \<lparr>au_operationId = ''op'', au_fencingToken = 1\<rparr>"

definition next_writer :: authority where
  "next_writer = \<lparr>au_operationId = ''next'', au_fencingToken = 2\<rparr>"

definition fresh_store :: run_storage where
  "fresh_store = \<lparr>st_log = None, st_generation = Inr None, st_fence = No_fence\<rparr>"

definition sample_inputs :: "run_event_input list" where
  "sample_inputs = map input_of (take 3 sample_start)"

definition claimed_store :: run_storage where
  "claimed_store = fresh_store\<lparr>st_fence := Fence sample_writer\<rparr>"

definition written_store :: run_storage where
  "written_store = appended_log sample_sha (take 3 sample_start) claimed_store"

lemma sample_claim: "claimAuthority ''op'' 0 fresh_store = Inr (sample_writer, claimed_store)"
  by code_simp

lemma sample_append:
  "appendFenced sample_host sample_sha ''run'' 0 sample_writer sample_inputs claimed_store =
     Inr (take 3 sample_start, written_store)"
  by code_simp

lemma sample_supersede:
  "claimAuthority ''next'' 0 written_store = Inr (next_writer, written_store\<lparr>st_fence := Fence next_writer\<rparr>)"
  by code_simp

lemma sample_run_id: "entityId ''run'' = Some ''run''"
  by code_simp

lemma sample_readable: "readable sample_host sample_sha ''run'' claimed_store"
  by (simp add: readable_def inspect_def claimed_store_def fresh_store_def log_follows_def base_of_def)

lemma sample_step: "store_step sample_host sample_sha ''run'' claimed_store written_store"
  by (rule store_step.written[OF sample_append])

section \<open>Properties\<close>

lemma torn_status:
  assumes "readable h sha r st"
  shows "is_status (inspect h sha r (tear l st)) = Log_degraded"
proof -
  from assms have st: "is_status (inspect h sha r st) \<noteq> Log_corrupt" "log_follows st" by (simp_all add: readable_def)
  from inspect_sound[OF st] obtain active c where
    read: "read_lines h sha r 1 (int (length (base_of st)) + 1) [] (lines_of st) = Inr active"
    and ev: "is_events (inspect h sha r st) = base_of st @ active" and c: "st_generation st = Inr c" by blast
  let ?f = "\<lparr>lf_lines = lines_of st, lf_partial = Some l\<rparr>"
  have torn: "st_generation (tear l st) = Inr c" "log_follows (tear l st)" "st_log (tear l st) = Some ?f"
      "base_of (tear l st) = base_of st" "\<not> log_empty ?f"
    using c st(2) by (simp_all add: tear_def base_of_def log_follows_def lines_of_def log_empty_def)
  with inspect_complete[OF torn(1,2,3,5), of h sha r active] read ev assms show ?thesis
    by (simp add: readable_def)
qed

text \<open>
  C14. Committed events are durable. Whatever operations any writers perform on a readable store, and
  wherever a crash cuts a write short, the store stays readable and every event it held stays where it was:
  a later inspection returns the earlier history, possibly with more events behind it.
\<close>

theorem committed_events_are_durable:
  assumes "readable h sha r st" and "entityId r = Some r" and "(store_step h sha r)\<^sup>*\<^sup>* st st'"
  shows "readable h sha r st' \<and>
    (\<exists>more. is_events (inspect h sha r st') = is_events (inspect h sha r st) @ more)"
  using store_steps_grow[OF assms(3,1,2)] .

theorem committed_events_are_durable_witness:
  "readable sample_host sample_sha ''run'' (tear Unreadable written_store)"
proof -
  have "(store_step sample_host sample_sha ''run'')\<^sup>*\<^sup>* claimed_store (tear Unreadable written_store)"
    using sample_step store_step.torn by (meson converse_rtranclp_into_rtranclp r_into_rtranclp)
  from committed_events_are_durable[OF sample_readable sample_run_id this] show ?thesis by blast
qed

text \<open>
  C15. A superseded writer stays out. Once the fence has moved on from an authority, no sequence of
  operations brings it back: the fence then holds a larger token, and every append under the old authority
  is refused as stale.
\<close>

theorem superseded_writers_stay_out:
  assumes "st_fence st = Fence a" and "(store_step h sha r)\<^sup>*\<^sup>* st st1" and "st_fence st1 \<noteq> Fence a"
    and "(store_step h sha r)\<^sup>*\<^sup>* st1 st2" and "validateAuthority a" and "0 \<le> n" and "inputs \<noteq> []"
  shows "(\<exists>b. st_fence st2 = Fence b \<and> au_fencingToken a < au_fencingToken b) \<and>
    appendFenced h sha r n a inputs st2 = Inl (Stale_fencing_token r a)"
proof -
  from store_steps_fence[OF assms(2)] assms(1,3) obtain c where c: "st_fence st1 = Fence c" "au_fencingToken a < au_fencingToken c"
    by (auto simp: fence_le_def)
  with store_steps_fence[OF assms(4)] obtain b where b: "st_fence st2 = Fence b" "au_fencingToken a < au_fencingToken b"
    unfolding fence_le_def by (metis fence_file.distinct(1) fence_file.inject order_less_trans)
  then have "b \<noteq> a" by auto
  with stale_append[OF b(1) this assms(5,6,7)] b show ?thesis by blast
qed

theorem superseded_writers_stay_out_witness:
  "appendFenced sample_host sample_sha ''run'' 3 sample_writer [input_of (sample_start ! 3)]
     (written_store\<lparr>st_fence := Fence next_writer\<rparr>) = Inl (Stale_fencing_token ''run'' sample_writer)"
proof -
  let ?st1 = "written_store\<lparr>st_fence := Fence next_writer\<rparr>"
  have "store_step sample_host sample_sha ''run'' written_store ?st1"
    by (rule store_step.claimed[OF sample_supersede])
  then have steps: "(store_step sample_host sample_sha ''run'')\<^sup>*\<^sup>* written_store ?st1" by blast
  have fence: "st_fence written_store = Fence sample_writer" "st_fence ?st1 \<noteq> Fence sample_writer"
    "validateAuthority sample_writer" by code_simp+
  show ?thesis
    using superseded_writers_stay_out[OF fence(1) steps fence(2) rtranclp.rtrancl_refl fence(3)] by simp
qed

text \<open>
  C16. One append wins each position. After an append that committed new events at a position, whatever
  happens next, no append that expects the same position commits anything: it fails, or finds its own events
  already stored and changes nothing.
\<close>

theorem one_append_wins_a_position:
  assumes "readable h sha r st" and "entityId r = Some r"
    and "appendFenced h sha r n a inputs st = Inr (es, st1)" and "st1 \<noteq> st"
    and "(store_step h sha r)\<^sup>*\<^sup>* st1 st2"
    and "appendFenced h sha r n b inputs2 st2 = Inr (fs, st3)"
  shows "st3 = st2"
proof (rule ccontr)
  assume moved: "st3 \<noteq> st2"
  have new: "n = int (length (is_events (inspect h sha r s))) \<and> es' \<noteq> [] \<and> s' = appended_log sha es' s \<and>
      well_placed h r (n + 1) es' \<and> (\<exists>t. foldRunEvents h (is_events (inspect h sha r s) @ es') = Inr t)"
    if "appendFenced h sha r n c is s = Inr (es', s')" "s' \<noteq> s" "readable h sha r s" for c "is" s es' s'
  proof -
    from appendFenced_Inr[OF that(1)] that(2) have app: "is \<noteq> []" "0 \<le> n" "append_locked h sha r n is s = Inr (es', s')"
      by auto
    from that(3) have "log_follows s" by (simp add: readable_def)
    show ?thesis
      by (rule append_locked_cases[OF assms(2) \<open>log_follows s\<close> app])
        (use that(2) place_inputs_nonempty[OF _ app(1)] in auto)
  qed
  from new[OF assms(3,4,1)] readable_appended[OF assms(1)]
  have st1: "readable h sha r st1" "n < int (length (is_events (inspect h sha r st1)))" by auto
  from store_steps_grow[OF assms(5) st1(1) assms(2)] st1(2)
  have "readable h sha r st2" "n < int (length (is_events (inspect h sha r st2)))" by auto
  with new[OF assms(6) moved] show False by simp
qed

theorem one_append_wins_a_position_witness:
  "\<nexists>fs st3. appendFenced sample_host sample_sha ''run'' 0 sample_writer [input_of (sample_start ! 4)] written_store
     = Inr (fs, st3) \<and> st3 \<noteq> written_store"
proof -
  have "written_store \<noteq> claimed_store" by (simp add: written_store_def claimed_store_def appended_log_def fresh_store_def)
  from one_append_wins_a_position[OF sample_readable sample_run_id sample_append this rtranclp.rtrancl_refl]
  show ?thesis by blast
qed

text \<open>
  C17. A crash during a write loses only that write. When the append would commit new events, it commits
  exactly the same ones, and leaves exactly the same log, on a store whose last write was cut short: the
  incomplete tail is dropped, and nothing else is.
\<close>

theorem torn_write_is_repaired:
  assumes "readable h sha r st" and "entityId r = Some r"
    and "appendFenced h sha r n a inputs st = Inr (es, st1)" and "st1 \<noteq> st"
  shows "is_status (inspect h sha r (tear l st)) = Log_degraded \<and>
    is_events (inspect h sha r (tear l st)) = is_events (inspect h sha r st) \<and>
    appendFenced h sha r n a inputs (tear l st) = Inr (es, st1)"
proof -
  from appendFenced_Inr[OF assms(3)] assms(4) have app: "inputs \<noteq> []" "0 \<le> n" "append_locked h sha r n inputs st = Inr (es, st1)"
    and auth: "assertAuthority r a st = Inr ()" by auto
  from assms(1) have follows: "log_follows st" by (simp add: readable_def)
  from inspect_same_lines[OF assms(1), of "tear l st"]
  have torn: "readable h sha r (tear l st)" "is_events (inspect h sha r (tear l st)) = is_events (inspect h sha r st)"
    by (auto simp: tear_def lines_of_def)
  have "is_status (inspect h sha r (tear l st)) = Log_degraded" by (rule torn_status[OF assms(1)])
  moreover have "append_locked h sha r n inputs (tear l st) = Inr (es, st1)"
  proof (rule append_locked_cases[OF assms(2) follows app], goal_cases)
    case 2
    then obtain s where "foldRunEvents h (is_events (inspect h sha r st) @ es) = Inr s" by blast
    with 2 torn append_locked_new[OF torn(1) app(1), of n es s] assms(2)
    have "append_locked h sha r n inputs (tear l st) = Inr (es, appended_log sha es (tear l st))" by simp
    with 2 show ?case by (simp add: appended_log_def tear_def lines_of_def)
  qed (use assms(4) in simp)
  moreover have "assertAuthority r a (tear l st) = Inr ()" "assertAuthority r a st1 = Inr ()"
    using auth append_locked_fence[OF app(3)] by (simp_all add: assertAuthority_def readFence_def tear_def)
  ultimately show ?thesis
    using torn(2) app by (simp add: appendFenced_def withFencedWrite_Inr throwIf_def)
qed

theorem torn_write_is_repaired_witness:
  "appendFenced sample_host sample_sha ''run'' 0 sample_writer sample_inputs (tear Unreadable claimed_store) =
     Inr (take 3 sample_start, written_store)"
proof -
  have "written_store \<noteq> claimed_store" by (simp add: written_store_def claimed_store_def appended_log_def fresh_store_def)
  from torn_write_is_repaired[OF sample_readable sample_run_id sample_append this] show ?thesis by blast
qed

lemma stored_retry_find: "length es = length inputs \<Longrightarrow> stored_retry (zip es inputs) =
    (case find (\<lambda>(e, i). input_of e \<noteq> i) (zip es inputs) of
       None \<Rightarrow> Inr es | Some (_, i) \<Rightarrow> Inl (Content_differs (ev_eventId i)))"
  by (induction es inputs rule: list_induct2) (auto split: option.splits)



text \<open>
  The form matters: an input the schema changes, here by trimming its time, is stored in its normal form and
  compared with the raw input when it comes again, so the identical retry is refused.
\<close>

definition untrimmed_inputs :: "run_event_input list" where
  "untrimmed_inputs = [\<lparr>ev_eventId = ''x'', ev_occurredAt = '' t'', ev_payload = Run_ev (Run_renamed ''one'')\<rparr>]"

lemma untrimmed_retry_is_refused:
  "case appendFenced sample_host sample_sha ''run'' 3 sample_writer untrimmed_inputs written_store of
     Inl _ \<Rightarrow> False
   | Inr (_, st) \<Rightarrow> appendFenced sample_host sample_sha ''run'' 3 sample_writer untrimmed_inputs st = Inl (Content_differs ''x'')"
  by code_simp

text \<open>
  C19. The store's fold and the reducer's fold agree but for repeated ids. A readable store, whose generation (if
  it was compacted) holds events of the run in schema form numbered from one, returns a history on which the
  store's fold, which skips the checks and empties the list of applied ids, succeeds. If no id occurs
  twice, \<open>foldRun\<close> gives exactly the same projection; otherwise it refuses the history as a duplicate at the
  first event that repeats an id.
\<close>

theorem store_fold_is_the_reducer_fold:
  assumes "readable h sha r st" and "well_placed h r 1 (base_of st)" and "is_events (inspect h sha r st) \<noteq> []"
  shows "\<exists>s. foldRunEvents h (is_events (inspect h sha r st)) = Inr s \<and>
    (if distinct (map ev_eventId (is_events (inspect h sha r st)))
     then foldRun h (is_events (inspect h sha r st)) = Inr s
     else \<exists>before e after. is_events (inspect h sha r st) = before @ e # after \<and> distinct (map ev_eventId before) \<and>
       ev_eventId e \<in> ev_eventId ` set before \<and>
       foldRun h (is_events (inspect h sha r st)) = Inl (Journal_err (Duplicate_event (ev_eventId e))))"
proof -
  from assms(1,3) have st: "is_status (inspect h sha r st) \<noteq> Log_corrupt" "log_follows st"
    and "\<exists>s. foldRunEvents h (is_events (inspect h sha r st)) = Inr s" by (simp_all add: readable_def)
  then obtain s where s: "foldRunEvents h (is_events (inspect h sha r st)) = Inr s" by blast
  from inspect_sound[OF st] obtain active where
    "read_lines h sha r 1 (int (length (base_of st)) + 1) [] (lines_of st) = Inr active"
    and ev: "is_events (inspect h sha r st) = base_of st @ active" by blast
  then have "well_placed h r (int (length (base_of st)) + 1) active" using read_lines_placed by fastforce
  with assms(2) ev have placed: "well_placed h r 1 (is_events (inspect h sha r st))"
    by (simp add: well_placed_append add.commute)
  with s foldRunEvents_foldRun[OF placed] repeated_ids_refused[OF placed s] show ?thesis by auto
qed

theorem store_fold_is_the_reducer_fold_witness:
  "\<exists>s. foldRunEvents sample_host (take 3 sample_start) = Inr s \<and> foldRun sample_host (take 3 sample_start) = Inr s"
proof -
  have ev: "is_events (inspect sample_host sample_sha ''run'' written_store) = take 3 sample_start" by code_simp
  have "readable sample_host sample_sha ''run'' written_store"
    using store_step_grows[OF sample_step sample_readable sample_run_id] by blast
  moreover have "base_of written_store = []" "take 3 sample_start \<noteq> []" "distinct (map ev_eventId (take 3 sample_start))"
    by code_simp+
  ultimately show ?thesis
    using store_fold_is_the_reducer_fold[of sample_host sample_sha "''run''" written_store] ev by simp
qed

text \<open>The second case happens: one batch may repeat an id, and then the reducer refuses what the store accepts.\<close>

definition repeated_inputs :: "run_event_input list" where
  "repeated_inputs = [\<lparr>ev_eventId = ''x'', ev_occurredAt = ''t'', ev_payload = Run_ev (Run_renamed ''one'')\<rparr>,
     \<lparr>ev_eventId = ''x'', ev_occurredAt = ''t'', ev_payload = Run_ev (Run_renamed ''two'')\<rparr>]"

lemma repeated_ids_split_the_folds:
  "case appendFenced sample_host sample_sha ''run'' 3 sample_writer repeated_inputs written_store of
     Inl _ \<Rightarrow> False
   | Inr (es, st) \<Rightarrow> is_status (inspect sample_host sample_sha ''run'' st) = Log_ok \<and>
       foldRun sample_host (is_events (inspect sample_host sample_sha ''run'' st)) =
         Inl (Journal_err (Duplicate_event ''x''))"
  by code_simp

fun line_version :: "log_line \<Rightarrow> int option" where
  "line_version (Event_record v _ _) = Some v"
| "line_version (Batch_record v _ _) = Some v"
| "line_version _ = None"

lemma read_line_unknown:
  "line_version l = Some v \<Longrightarrow> v < 2 \<or> 4 < v \<Longrightarrow> \<exists>q. read_line h sha r n k l = Inl q"
proof (cases l)
  case (Batch_record w raws c)
  then show "line_version l = Some v \<Longrightarrow> v < 2 \<or> 4 < v \<Longrightarrow> \<exists>q. read_line h sha r n k l = Inl q"
    by (cases raws) (auto simp: read_record_def upcast_supported)
qed (auto simp: read_record_def upcast_supported)

lemma read_lines_unknown:
  "l \<in> set ls \<Longrightarrow> line_version l = Some v \<Longrightarrow> v < 2 \<or> 4 < v \<Longrightarrow> \<exists>q. read_lines h sha r n k acc ls = Inl q"
proof (induction ls arbitrary: n k acc)
  case (Cons l' ls)
  show ?case
  proof (cases "read_line h sha r n k l'")
    case (Inr p)
    then obtain es k' where "read_line h sha r n k l' = Inr (es, k')" by (cases p) auto
    with Cons read_line_unknown[of l v h sha r n k] show ?thesis by auto
  qed (use Cons in auto)
qed simp

text \<open>
  C20. Records of a version this build does not know fail closed. If any complete line of the log holds a
  record of a version other than 2, 3 or 4, the log is corrupt: loading it throws, and no append writes to it.
\<close>

theorem unknown_versions_fail_closed:
  assumes "st_log st = Some f" and "l \<in> set (lf_lines f)" and "line_version l = Some v" and "v < 2 \<or> 4 < v"
  shows "is_status (inspect h sha r st) = Log_corrupt \<and> (\<exists>e. load_events h sha r st = Inl e) \<and>
    (inputs \<noteq> [] \<longrightarrow> (\<exists>e. appendFenced h sha r n a inputs st = Inl e))"
proof -
  have corrupt: "is_status (inspect h sha r st) = Log_corrupt"
  proof (cases "st_generation st")
    case (Inr c)
    from read_lines_unknown[OF assms(2-4)] obtain es q
      where "read_lines h sha r 1 (active_start c f) [] (lf_lines f) = Inl (es, q)" by fastforce
    moreover have "\<not> log_empty f" using assms(2) by (auto simp: log_empty_def)
    ultimately show ?thesis
      using inspect_joined[OF Inr assms(1)] by (simp add: join_active_def inspectRawLog_def corrupt_def)
  qed (simp add: inspect_def corrupt_def)
  have "append_locked h sha r n inputs st \<noteq> Inr x" for x
    using corrupt by (simp add: append_locked_def Let_def)
  then have "appendFenced h sha r n a inputs st \<noteq> Inr x" if "inputs \<noteq> []" for x
    using that appendFenced_Inr[of h sha r n a inputs st "fst x" "snd x"] by auto
  with corrupt show ?thesis
    by (cases "appendFenced h sha r n a inputs st") (auto simp: load_events_def Let_def)
qed

theorem unknown_versions_fail_closed_witness:
  "is_status (inspect sample_host sample_sha ''run'' (fresh_store\<lparr>st_log :=
     Some \<lparr>lf_lines = [Batch_record 5 (take 3 sample_start) ''sum''], lf_partial = None\<rparr>\<rparr>)) = Log_corrupt"
proof -
  let ?l = "Batch_record 5 (take 3 sample_start) ''sum''"
  let ?f = "\<lparr>lf_lines = [?l], lf_partial = None\<rparr>"
  show ?thesis
    by (rule unknown_versions_fail_closed[of _ ?f ?l 5, THEN conjunct1]) simp_all
qed

end
