(* ===== verification/Recovery.thy ===== *)
theory Recovery
  imports Delivery_Invariants
begin

text \<open>
  The policies of the coordinator that decide what happens after a failure and what a run may answer for
  its operator: the classification of failures and the recovery of each class, the delegation of
  decisions, the routing of repairs, the fingerprint of an attempt's input and the adoption gates.

  Sources under packages/run-coordinator/src: domain/failures.ts, recovery-policy.ts, domain/autonomy.ts,
  domain/repair-routing.ts, domain/fingerprint.ts, domain/attempts.ts, integration.ts, amendments.ts.
\<close>

section \<open>Failures and their recovery\<close>

definition environment_codes :: "string list" where
  "environment_codes = [''auth'', ''quota'', ''binary_missing'', ''executor_unavailable'',
     ''model_not_found'', ''sandbox_unavailable'']"

definition contract_codes :: "string list" where
  "contract_codes = [''invalid_contract'', ''invalid_decomposition'', ''contract_mismatch'']"

definition shared_codes :: "string list" where
  "shared_codes = [''shared_config_broken'', ''repository_unavailable'', ''package_manager_broken'',
     ''worktree_pool_unavailable'']"

definition workspace_codes :: "string list" where
  "workspace_codes = [''workspace_ref_rejected'']"

definition code_in :: "string option \<Rightarrow> string list \<Rightarrow> bool" where
  "code_in c cs = (case c of None \<Rightarrow> False | Some x \<Rightarrow> x \<in> set cs)"

text \<open>\<open>None\<close> is the error of the schema.\<close>

definition classifyFailure :: "failure_observation \<Rightarrow> failure_class option" where
  "classifyFailure raw = do {
     f \<leftarrow> parse_failure_observation raw;
     Some (
       if fo_source f = Fs_scope \<or> code_in (fo_code f) [''scope_violation'', ''unexpected_commit'']
       then Scope_unexpected_commit
       else if fo_source f = Fs_artifact \<and> fo_code f = Some ''undeclared_artifact'' then Undeclared_artifact
       else if fo_source f = Fs_artifact \<and> fo_code f = Some ''artifact_empty'' then Upstream_artifact_unusable
       else if fo_source f = Fs_integration then Integration
       else if code_in (fo_code f) shared_codes then Shared_infrastructure
       else if code_in (fo_code f) workspace_codes then Environment_workspace
       else if fo_source f = Fs_planning \<or> code_in (fo_code f) contract_codes then Contract_decomposition
       else if fo_source f = Fs_executor \<and> (fo_timedOut f = Some True \<or> fo_code f = Some ''timeout'')
       then Executor_timeout
       else if fo_source f = Fs_executor \<and> (fo_code f = Some ''transient'' \<or> fo_code f = Some ''network'')
       then Transient
       else if code_in (fo_code f) environment_codes then Environment_auth_executor
       else if fo_source f = Fs_validation then Code_test
       else if fo_code f = None \<and> fo_source f = Fs_executor then Code_test
       else Unclassified) }"

datatype recovery_action = Retry_attempt | Request_environment_fix | Switch_executor | Repair_code
  | Propose_graph_amendment | Propose_artifact_requirement | Discard_candidate | Repair_integration
  | Raise_local_decision

record recovery_policy =
  rp_failureClass :: failure_class
  rp_actions :: "recovery_action list"
  rp_automaticRetryBudget :: nat
  rp_discardCandidate :: bool

fun policies :: "failure_class \<Rightarrow> recovery_action list \<times> nat" where
  "policies Transient = ([Retry_attempt], 2)"
| "policies Executor_timeout = ([Switch_executor, Propose_graph_amendment, Raise_local_decision], 0)"
| "policies Environment_auth_executor = ([Request_environment_fix, Switch_executor], 0)"
| "policies Code_test = ([Repair_code, Propose_graph_amendment], 1)"
| "policies Contract_decomposition = ([Propose_graph_amendment], 0)"
| "policies Undeclared_artifact = ([Propose_artifact_requirement], 0)"
| "policies Upstream_artifact_unusable = ([Raise_local_decision], 0)"
| "policies Scope_unexpected_commit = ([Discard_candidate, Raise_local_decision], 0)"
| "policies Integration = ([Repair_integration, Propose_graph_amendment], 1)"
| "policies Shared_infrastructure = ([Raise_local_decision], 0)"
| "policies Environment_workspace = ([Raise_local_decision], 0)"
| "policies Unclassified = ([Retry_attempt, Raise_local_decision], 1)"

definition recoveryPolicyFor :: "failure_class \<Rightarrow> recovery_policy" where
  "recoveryPolicyFor c = \<lparr>rp_failureClass = c, rp_actions = fst (policies c),
     rp_automaticRetryBudget = snd (policies c), rp_discardCandidate = True\<rparr>"

text \<open>
  Which class blames the code. Only a validation that ran, or an executor that died without naming a
  cause, is read as a fault of the code.
\<close>

lemma classifyFailure_code_test:
  assumes "classifyFailure f = Some Code_test"
  shows "fo_source f = Fs_validation \<or> fo_source f = Fs_executor \<and> fo_code f = None \<and> fo_timedOut f \<noteq> Some True"
  using assms unfolding classifyFailure_def parse_failure_observation_def
  by (auto simp: parse_simps opt_of_def split: if_splits option.splits)

lemma policies_repair: "Repair_code \<in> set (fst (policies c)) \<longleftrightarrow> c = Code_test"
  by (cases c) auto

lemma policies_retry: "0 < snd (policies c) \<longleftrightarrow> c \<in> {Transient, Code_test, Integration, Unclassified}"
  by (cases c) auto

lemma policies_budget: "snd (policies c) \<le> 2"
  by (cases c) auto

section \<open>Delegation\<close>

definition default_autonomy :: autonomy_level where
  "default_autonomy = Supervised"

definition runAutonomy :: "run_definition option \<Rightarrow> autonomy_level" where
  "runAutonomy d = (case d of None \<Rightarrow> default_autonomy
     | Some r \<Rightarrow> (case rdef_autonomy r of None \<Rightarrow> default_autonomy | Some l \<Rightarrow> l))"

fun delegated_option :: "decision_kind \<Rightarrow> string option" where
  "delegated_option Approve_plan = Some ''approve''"
| "delegated_option Approve_amendment = Some ''approve''"
| "delegated_option Resolve_conflict = Some ''retry''"
| "delegated_option Approve_delivery = Some ''approve''"
| "delegated_option Clarify_goal = None"

fun delegated_kinds :: "autonomy_level \<Rightarrow> decision_kind list" where
  "delegated_kinds Supervised = []"
| "delegated_kinds Semi = [Approve_plan, Approve_amendment, Resolve_conflict]"
| "delegated_kinds Autonomous = [Approve_plan, Approve_amendment, Resolve_conflict, Approve_delivery]"

definition delegated_retry_limit :: nat where
  "delegated_retry_limit = 2"

definition autonomyResolution ::
  "autonomy_level \<Rightarrow> ('a) decision_input_scheme \<Rightarrow> nat option \<Rightarrow> string option" where
  "autonomyResolution level d failedAttempts =
     (if dc_kind d \<notin> set (delegated_kinds level) then None
      else case delegated_option (dc_kind d) of
        None \<Rightarrow> None
      | Some v \<Rightarrow>
          if dc_kind d = Resolve_conflict \<and>
             (case failedAttempts of None \<Rightarrow> False | Some n \<Rightarrow> delegated_retry_limit \<le> n) then None
          else if list_ex (\<lambda>p. do_id p = v) (dc_options d) then Some v else None)"

definition autonomyPublishesDelivery :: "autonomy_level \<Rightarrow> bool" where
  "autonomyPublishesDelivery l = (l = Autonomous)"

section \<open>Routing a repair\<close>

fun contains_text :: "string \<Rightarrow> string \<Rightarrow> bool" where
  "contains_text [] m = (m = [])"
| "contains_text (c # cs) m = (take (length m) (c # cs) = m \<or> contains_text cs m)"

datatype repair_route = Retry_node string | Amend_plan string | Effect_policy string

record seam_binding =
  sb_id :: string
  sb_producerNodeId :: string
  sb_consumerNodeId :: string

record artifact_origin =
  ao_artifactId :: string
  ao_producerNodeId :: string

definition environment_markers :: "string list" where
  "environment_markers = [''SANDBOX_UNAVAILABLE'', ''environment_auth_executor'', ''binary_missing'',
     ''executor_unavailable'', ''quota'', ''model_not_found'', ''auth'']"

definition topology_markers :: "string list" where
  "topology_markers = [''topology_error'', ''unowned_acceptance'', ''amend_plan'']"

fun join_with :: "string \<Rightarrow> string list \<Rightarrow> string" where
  "join_with sep [] = []"
| "join_with sep [x] = x"
| "join_with sep (x # xs) = x @ sep @ join_with sep xs"

definition indicted_nodes ::
  "string \<Rightarrow> string \<Rightarrow> seam_binding list \<Rightarrow> artifact_origin list \<Rightarrow> string list" where
  "indicted_nodes failedNodeId reason seams consumed =
     uniq_sort
       (map ao_producerNodeId (filter (\<lambda>a. contains_text reason (ao_artifactId a)) consumed) @
        filter (\<lambda>n. n \<in> ao_producerNodeId ` set consumed)
          (map sb_producerNodeId
             (filter (\<lambda>b. contains_text reason (sb_id b) \<and> sb_consumerNodeId b = failedNodeId) seams)))"

definition routeRepair ::
  "string \<Rightarrow> string \<Rightarrow> seam_binding list \<Rightarrow> artifact_origin list \<Rightarrow> repair_route" where
  "routeRepair failedNodeId reason seams consumed =
     (if list_ex (contains_text reason) environment_markers then Effect_policy reason
      else if contains_text reason ''ownership_violation'' \<or> list_ex (contains_text reason) topology_markers
      then Amend_plan reason
      else case indicted_nodes failedNodeId reason seams consumed of
        [] \<Rightarrow> Retry_node failedNodeId
      | [n] \<Rightarrow> Retry_node n
      | ns \<Rightarrow> Amend_plan (reason @ '' (indicts '' @ join_with '', '' ns @ ''; no single lowest authority)''))"

lemma indicted_nodes_produce:
  "n \<in> set (indicted_nodes f r seams consumed) \<Longrightarrow> n \<in> ao_producerNodeId ` set consumed"
  by (auto simp: indicted_nodes_def)

section \<open>The fingerprint of an attempt's input\<close>

record artifact_ref =
  ar_id :: string
  ar_digest :: string

definition parse_artifact_ref :: "artifact_ref \<Rightarrow> artifact_ref option" where
  "parse_artifact_ref a = do {
     i \<leftarrow> entityId (ar_id a); d \<leftarrow> nonEmptyString (ar_digest a); Some \<lparr>ar_id = i, ar_digest = d\<rparr> }"

interpretation artifact_ref: schema parse_artifact_ref
  by unfold_locales (auto simp: parse_artifact_ref_def parse_simps schema_idem)

record fingerprint_source =
  fs_graphId :: string
  fs_nodeId :: string
  fs_contractRevisions :: "rev_ref list"
  fs_baseCommit :: string
  fs_consumedArtifacts :: "artifact_ref list"
  fs_repositoryContextDigest :: string
  fs_executorProfile :: rev_ref
  fs_validationContract :: rev_ref
  fs_recoveryContextDigest :: "string option"

definition parse_fingerprint_source :: "fingerprint_source \<Rightarrow> fingerprint_source option" where
  "parse_fingerprint_source s = do {
     g \<leftarrow> entityId (fs_graphId s); n \<leftarrow> entityId (fs_nodeId s);
     cs \<leftarrow> arr_min 1 parse_rev_ref (fs_contractRevisions s);
     b \<leftarrow> nonEmptyString (fs_baseCommit s); as \<leftarrow> arr_of parse_artifact_ref (fs_consumedArtifacts s);
     d \<leftarrow> nonEmptyString (fs_repositoryContextDigest s); e \<leftarrow> parse_rev_ref (fs_executorProfile s);
     v \<leftarrow> parse_rev_ref (fs_validationContract s);
     r \<leftarrow> opt_of nonEmptyString (fs_recoveryContextDigest s);
     refine (\<lambda>x. distinct (map rr_id (fs_contractRevisions x)) \<and> distinct (map ar_id (fs_consumedArtifacts x)))
       \<lparr>fs_graphId = g, fs_nodeId = n, fs_contractRevisions = cs, fs_baseCommit = b,
        fs_consumedArtifacts = as, fs_repositoryContextDigest = d, fs_executorProfile = e,
        fs_validationContract = v, fs_recoveryContextDigest = r\<rparr> }"

definition rev_ref_json :: "rev_ref \<Rightarrow> json" where
  "rev_ref_json r = JObj [(''id'', JStr (rr_id r)), (''revision'', JStr (rr_revision r))]"

definition artifact_ref_json :: "artifact_ref \<Rightarrow> json" where
  "artifact_ref_json a = JObj [(''id'', JStr (ar_id a)), (''digest'', JStr (ar_digest a))]"

definition fingerprint_json :: "host \<Rightarrow> fingerprint_source \<Rightarrow> json" where
  "fingerprint_json h s = JObj ([(''graphId'', JStr (fs_graphId s)), (''nodeId'', JStr (fs_nodeId s)),
     (''contractRevisions'', JArr (map rev_ref_json
        (sort_le (\<lambda>a b. h_le h (rr_id a) (rr_id b)) (fs_contractRevisions s)))),
     (''baseCommit'', JStr (fs_baseCommit s)),
     (''consumedArtifacts'', JArr (map artifact_ref_json
        (sort_le (\<lambda>a b. h_le h (ar_id a) (ar_id b)) (fs_consumedArtifacts s)))),
     (''repositoryContextDigest'', JStr (fs_repositoryContextDigest s)),
     (''executorProfile'', rev_ref_json (fs_executorProfile s)),
     (''validationContract'', rev_ref_json (fs_validationContract s))] @
     opt_prop ''recoveryContextDigest'' JStr (fs_recoveryContextDigest s))"

text \<open>\<open>h_digest\<close> stands for SHA-256 in hexadecimal composed with \<open>JSON.stringify\<close>.\<close>

definition computeInputFingerprint :: "host \<Rightarrow> fingerprint_source \<Rightarrow> string option" where
  "computeInputFingerprint h raw = do {
     s \<leftarrow> parse_fingerprint_source raw; Some (''sha256:'' @ h_digest h (fingerprint_json h s)) }"

text \<open>A sort by a total order that is antisymmetric on the list depends on the multiset only.\<close>

lemma sorted_wrt_unique:
  assumes "sorted_wrt le xs" "sorted_wrt le ys" "mset xs = mset ys"
    and "\<And>a b. a \<in> set xs \<Longrightarrow> b \<in> set xs \<Longrightarrow> le a b \<Longrightarrow> le b a \<Longrightarrow> a = b"
  shows "xs = ys"
  using assms
proof (induction xs arbitrary: ys)
  case (Cons x xs)
  then obtain y zs where ys: "ys = y # zs" by (cases ys) auto
  have sets: "set (x # xs) = set (y # zs)" using Cons.prems(3) ys by (metis mset_eq_setD)
  have "x = y"
  proof (rule ccontr)
    assume "x \<noteq> y"
    with sets have "y \<in> set xs" "x \<in> set zs" by auto
    with Cons.prems(1,2) ys have "le x y" "le y x" by auto
    with Cons.prems(4) sets \<open>x \<noteq> y\<close> show False by auto
  qed
  with Cons.IH[of zs] Cons.prems ys show ?case by auto
qed simp

lemma sort_le_perm:
  assumes total: "\<And>a b. le a b \<or> le b a" and trans: "\<And>a b c. le a b \<Longrightarrow> le b c \<Longrightarrow> le a c"
    and anti: "\<And>a b. le a b \<Longrightarrow> le b a \<Longrightarrow> f a = f b"
    and perm: "mset xs = mset ys" and uniq: "distinct (map f xs)"
  shows "sort_le (\<lambda>a b. le a b) xs = sort_le (\<lambda>a b. le a b) ys"
proof (rule sorted_wrt_unique)
  show "sorted_wrt le (sort_le le xs)" "sorted_wrt le (sort_le le ys)"
    by (rule sorted_wrt_sort_le[OF total trans]; assumption)+
  show "mset (sort_le le xs) = mset (sort_le le ys)" using perm by simp
  fix a b assume "a \<in> set (sort_le le xs)" "b \<in> set (sort_le le xs)" "le a b" "le b a"
  with anti uniq show "a = b" by (auto simp: distinct_map dest: inj_onD)
qed

section \<open>Adoption gates\<close>

datatype attempt_record_status = Rec_created | Rec_running | Rec_finished | Rec_stale | Rec_adopted | Rec_failed

record attempt_record =
  ah_attemptId :: string
  ah_runId :: string
  ah_nodeId :: string
  ah_inputFingerprint :: string
  ah_retryOfAttemptId :: "string option"
  ah_createdAt :: string
  ah_status :: attempt_record_status
  ah_outputDigest :: "string option"

definition parse_attempt_record :: "attempt_record \<Rightarrow> attempt_record option" where
  "parse_attempt_record a = do {
     i \<leftarrow> entityId (ah_attemptId a); r \<leftarrow> entityId (ah_runId a); n \<leftarrow> entityId (ah_nodeId a);
     f \<leftarrow> nonEmptyString (ah_inputFingerprint a); p \<leftarrow> opt_of entityId (ah_retryOfAttemptId a);
     t \<leftarrow> nonEmptyString (ah_createdAt a); d \<leftarrow> opt_of nonEmptyString (ah_outputDigest a);
     Some \<lparr>ah_attemptId = i, ah_runId = r, ah_nodeId = n, ah_inputFingerprint = f,
       ah_retryOfAttemptId = p, ah_createdAt = t, ah_status = ah_status a, ah_outputDigest = d\<rparr> }"

text \<open>What the caller says of the artifact, and the clock's answer when it gives no time.\<close>

record adoption_artifact =
  na_artifactId :: string
  na_contract :: rev_ref
  na_kind :: artifact_kind
  na_location :: string
  na_cherryPickMainline :: bool

datatype adoption_decision =
    Ineligible string event_payload
  | Eligible adopted_artifact event_payload

datatype adoption_error = Record_rejected | No_finished_result string

definition stale_reason :: "string \<Rightarrow> string \<Rightarrow> string" where
  "stale_reason old new = ''Attempt fingerprint '' @ old @ '' is stale; current input is '' @ new @ ''.''"

definition decideAttemptAdoption :: "attempt_record \<Rightarrow> string \<Rightarrow> adoption_artifact \<Rightarrow> string \<Rightarrow>
    adoption_error + adoption_decision" where
  "decideAttemptAdoption raw currentFingerprint x adoptedAt =
     requireE (parse_attempt_record raw) Record_rejected (\<lambda>a.
     throwIf (ah_status a \<noteq> Rec_finished) (No_finished_result (ah_attemptId a))
     (requireE (ah_outputDigest a) (No_finished_result (ah_attemptId a)) (\<lambda>d.
      if ah_inputFingerprint a \<noteq> currentFingerprint then
        (let reason = stale_reason (ah_inputFingerprint a) currentFingerprint in
         Inr (Ineligible reason (Attempt_ev (Attempt_stale (ah_attemptId a) (ah_nodeId a)
           (ah_inputFingerprint a) currentFingerprint reason))))
      else
        (let y = \<lparr>aa_artifactId = na_artifactId x, aa_runId = ah_runId a, aa_nodeId = ah_nodeId a,
               aa_digest = d, aa_producerAttemptId = ah_attemptId a, aa_contract = na_contract x,
               aa_kind = na_kind x, aa_location = na_location x, aa_manifest = None,
               aa_cherryPickMainline = na_cherryPickMainline x, aa_adoptedAt = adoptedAt\<rparr> in
         Inr (Eligible y (Attempt_ev (Artifact_adopted y)))))))"

datatype integration_disposition = Disp_success | Disp_failed | Disp_decision_required

record integration_manifest =
  im_requiredArtifactIds :: "string list"
  im_missingRequiredArtifactIds :: "string list"
  im_childArtifactIds :: "string list"
  im_disposition :: integration_disposition
  im_parentOutcome :: "matrix_outcome option"
  im_errors :: "(string \<times> string) list"

datatype adoption_refusal = Disposition_is integration_disposition | Omissions_or_errors
  | Parent_not_verified | Children_do_not_match | Retired

text \<open>Every branch refuses: the gate is retired and kept for its diagnosis.\<close>

definition decideIntegrationAdoption :: "integration_manifest \<Rightarrow> adoption_refusal" where
  "decideIntegrationAdoption m =
     (if im_disposition m \<noteq> Disp_success then Disposition_is (im_disposition m)
      else if im_errors m \<noteq> [] \<or> im_missingRequiredArtifactIds m \<noteq> [] then Omissions_or_errors
      else if im_parentOutcome m \<noteq> Some Verified then Parent_not_verified
      else if uniq_sort (im_childArtifactIds m) \<noteq> uniq_sort (im_requiredArtifactIds m) then Children_do_not_match
      else Retired)"

text \<open>Which attempts a change of their nodes' inputs makes stale.\<close>

record attempt_input =
  ati_attemptId :: string
  ati_nodeId :: string
  ati_inputFingerprint :: string

record invalidation =
  iv_staleAttemptIds :: "string list"
  iv_staleNodeIds :: "string list"
  iv_freshAttemptIds :: "string list"

definition computeAttemptFingerprintInvalidation ::
  "attempt_input list \<Rightarrow> string obj \<Rightarrow> invalidation" where
  "computeAttemptFingerprintInvalidation attempts current =
     (let stale = filter (\<lambda>a. oget current (ati_nodeId a) \<noteq> Some (ati_inputFingerprint a)) attempts;
          fresh = filter (\<lambda>a. oget current (ati_nodeId a) = Some (ati_inputFingerprint a)) attempts
      in \<lparr>iv_staleAttemptIds = sort (map ati_attemptId stale), iv_staleNodeIds = uniq_sort (map ati_nodeId stale),
          iv_freshAttemptIds = sort (map ati_attemptId fresh)\<rparr>)"

end
