(* ===== verification/Recovery_Properties.thy ===== *)
theory Recovery_Properties
  imports Recovery Sample_Run
begin

text \<open>
  What the recovery policies promise: repairs go to the node that can make them, delegation stays within
  what the operator granted, and the fingerprint of an attempt's input does not depend on the order in
  which its parts are listed.

  Sources under packages/run-coordinator/src: domain/failures.ts, recovery-policy.ts, domain/autonomy.ts,
  domain/repair-routing.ts, domain/fingerprint.ts, domain/attempts.ts.
\<close>

section \<open>Repairs\<close>

lemma contains_text_sub: "contains_text r m \<longleftrightarrow> (\<exists>a b. r = a @ m @ b)"
proof (induction r m rule: contains_text.induct)
  case (2 c cs m)
  have "take (length m) (c # cs) = m \<longleftrightarrow> (\<exists>b. c # cs = m @ b)"
    by (metis append_eq_conv_conj append_take_drop_id)
  moreover have "(\<exists>a b. c # cs = a @ m @ b) \<longleftrightarrow> (\<exists>b. c # cs = m @ b) \<or> (\<exists>a b. cs = a @ m @ b)"
    by (metis append_Cons append_Nil list.exhaust list.sel(3))
  ultimately show ?case using 2 by simp
qed auto

text \<open>A node is indicted when the reason names an artifact of it that was consumed, or a seam through which it feeds the failed node.\<close>

definition indicts :: "string \<Rightarrow> string \<Rightarrow> seam_binding list \<Rightarrow> artifact_origin list \<Rightarrow> string \<Rightarrow> bool" where
  "indicts failed reason seams consumed n \<longleftrightarrow>
     (\<exists>a \<in> set consumed. ao_producerNodeId a = n \<and>
        (contains_text reason (ao_artifactId a) \<or>
         (\<exists>b \<in> set seams. sb_producerNodeId b = n \<and> sb_consumerNodeId b = failed \<and> contains_text reason (sb_id b))))"

lemma set_indicted: "set (indicted_nodes f r seams consumed) = {n. indicts f r seams consumed n}"
  by (auto simp: indicted_nodes_def indicts_def image_iff)

lemma distinct_indicted: "distinct (indicted_nodes f r seams consumed)"
  by (simp add: indicted_nodes_def)

text \<open>
  C21. A repair is retried only where it can be made. A failure that names a cause of the environment never
  becomes an attempt and one that names the plan is sent to the plan; otherwise the retry goes to the failed
  node when nothing it consumed is indicted, to the producer when exactly one producer of what it consumed is
  indicted, and to the plan when several are.
\<close>

theorem repairs_reach_one_authority:
  "case routeRepair failed reason seams consumed of
     Effect_policy m \<Rightarrow> m = reason \<and> (\<exists>k \<in> set environment_markers. contains_text reason k)
   | Retry_node n \<Rightarrow>
       (\<forall>k \<in> set (environment_markers @ topology_markers @ [''ownership_violation'']). \<not> contains_text reason k) \<and>
       (n = failed \<and> (\<forall>p. \<not> indicts failed reason seams consumed p) \<or> (\<forall>p. indicts failed reason seams consumed p \<longleftrightarrow> p = n))
   | Amend_plan m \<Rightarrow>
       (\<forall>k \<in> set environment_markers. \<not> contains_text reason k) \<and>
       (m = reason \<and> (\<exists>k \<in> set (''ownership_violation'' # topology_markers). contains_text reason k) \<or>
        (\<exists>p q. p \<noteq> q \<and> indicts failed reason seams consumed p \<and> indicts failed reason seams consumed q))"
proof -
  let ?ns = "indicted_nodes failed reason seams consumed"
  have none: "\<forall>p. \<not> indicts failed reason seams consumed p" if "?ns = []"
    using set_indicted[of failed reason seams consumed] that by auto
  have one: "\<forall>p. indicts failed reason seams consumed p \<longleftrightarrow> p = n" if "?ns = [n]" for n
    using set_indicted[of failed reason seams consumed] that by auto
  have many: "\<exists>p q. p \<noteq> q \<and> indicts failed reason seams consumed p \<and> indicts failed reason seams consumed q"
    if "?ns = x # y # zs" for x y zs
  proof -
    from distinct_indicted[of failed reason seams consumed] that have "x \<noteq> y" by auto
    moreover have "x \<in> set ?ns" "y \<in> set ?ns" using that by auto
    ultimately show ?thesis unfolding set_indicted by blast
  qed
  show ?thesis
    by (cases ?ns rule: remdups_adj.cases) (auto simp: routeRepair_def list_ex_iff none one dest: many)
qed

theorem repairs_reach_one_authority_witness:
  "routeRepair ''app'' ''api_client does not compile'' [] [\<lparr>ao_artifactId = ''api_client'', ao_producerNodeId = ''api''\<rparr>] = Retry_node ''api'' \<and>
   \<not> contains_text ''api_client does not compile'' ''ownership_violation'' \<and>
   indicts ''app'' ''api_client does not compile'' [] [\<lparr>ao_artifactId = ''api_client'', ao_producerNodeId = ''api''\<rparr>] ''api''"
proof -
  let ?c = "[\<lparr>ao_artifactId = ''api_client'', ao_producerNodeId = ''api''\<rparr>]"
  have route: "routeRepair ''app'' ''api_client does not compile'' [] ?c = Retry_node ''api''"
    by code_simp
  show ?thesis
    using repairs_reach_one_authority[where failed = "''app''" and reason = "''api_client does not compile''"
        and seams = "[]" and consumed = ?c] route
    by simp
qed

section \<open>Delegation\<close>

text \<open>
  C22. Delegation is bounded. When the policy answers a decision for the operator, the run is not
  supervised, the answer is an option the decision offered, it does not clarify a goal, it publishes only in
  an autonomous run, and it retries a conflict only below the limit; a run with more autonomy gives the
  same answer; and the reducer accepts the answer to the pending decision and records the level that gave it.
\<close>

theorem delegation_is_bounded:
  assumes "autonomyResolution level d failed = Some v"
  shows "level \<noteq> Supervised \<and> v \<in> do_id ` set (dc_options d) \<and> dc_kind d \<noteq> Clarify_goal \<and>
    (dc_kind d = Approve_delivery \<longrightarrow> autonomyPublishesDelivery level) \<and>
    (dc_kind d = Resolve_conflict \<longrightarrow> (\<forall>n. failed = Some n \<longrightarrow> n < delegated_retry_limit)) \<and>
    autonomyResolution Autonomous d failed = Some v \<and>
    (oget (p_decisions s) i = Some d \<and> dc_status d = Pending \<longrightarrow>
      (\<exists>s'. on_decision_resolved i (Some v) None (Some level) s = Inr s' \<and>
        map_option dc_authorizedBy (oget (p_decisions s') i) = Some (Some level)))"
proof -
  from assms have kind: "dc_kind d \<in> set (delegated_kinds level)" and opt: "delegated_option (dc_kind d) = Some v"
    and lim: "\<not> (dc_kind d = Resolve_conflict \<and> (case failed of None \<Rightarrow> False | Some n \<Rightarrow> delegated_retry_limit \<le> n))"
    and offered: "list_ex (\<lambda>p. do_id p = v) (dc_options d)"
    by (auto simp: autonomyResolution_def split: if_splits option.splits)
  from kind have more: "dc_kind d \<in> set (delegated_kinds Autonomous)" by (cases level) auto
  have accepted: "\<exists>s'. on_decision_resolved i (Some v) None (Some level) s = Inr s' \<and>
        map_option dc_authorizedBy (oget (p_decisions s') i) = Some (Some level)"
    if "oget (p_decisions s) i = Some d" "dc_status d = Pending"
    using that offered by (simp add: on_decision_resolved_def Let_def assign_if_def)
  from kind have "level \<noteq> Supervised" "dc_kind d \<noteq> Clarify_goal"
    "dc_kind d = Approve_delivery \<longrightarrow> autonomyPublishesDelivery level"
    by (cases level; auto simp: autonomyPublishesDelivery_def)+
  moreover have "autonomyResolution Autonomous d failed = Some v"
    using more opt lim offered by (simp add: autonomyResolution_def)
  moreover have "v \<in> do_id ` set (dc_options d)" using offered by (auto simp: list_ex_iff)
  moreover have "dc_kind d = Resolve_conflict \<longrightarrow> (\<forall>n. failed = Some n \<longrightarrow> n < delegated_retry_limit)"
    using lim by auto
  ultimately show ?thesis using accepted by blast
qed

definition sample_conflict :: decision where
  "sample_conflict = pending_decision (sample_decision\<lparr>dc_kind := Resolve_conflict,
     dc_options := [\<lparr>do_id = ''retry'', do_label = ''r'', do_description = None\<rparr>]\<rparr>)"

theorem delegation_is_bounded_witness:
  "autonomyResolution Autonomous sample_conflict (Some 1) = Some ''retry''"
proof -
  have "autonomyResolution Semi sample_conflict (Some 1) = Some ''retry''" by code_simp
  from delegation_is_bounded[OF this] show ?thesis by blast
qed

section \<open>The fingerprint\<close>

lemma arr_of_perm:
  assumes "mset xs = mset ys" and "arr_of p xs = Some us"
  shows "\<exists>vs. arr_of p ys = Some vs \<and> mset vs = mset us"
proof -
  have some: "arr_of p zs = (if \<forall>z \<in> set zs. p z \<noteq> None then Some (map (the \<circ> p) zs) else None)" for zs
    by (induction zs) (auto split: bind_splits)
  have "set xs = set ys" using assms(1) by (rule mset_eq_setD)
  with assms some[of xs] some[of ys] show ?thesis
    by (auto split: if_splits)
qed

lemma perm_distinct: "mset xs = mset ys \<Longrightarrow> distinct (map f xs) = distinct (map f ys)"
  by (metis mset_map mset_eq_imp_distinct_iff)

text \<open>
  The fingerprint of an attempt's input depends on what it consumes, not on the order in which the
  contract revisions and the artifacts are listed. \<open>h_le\<close> is the locale comparison of the host, of which
  only that it is a total order is used.
\<close>

theorem fingerprint_ignores_order:
  assumes total: "\<And>a b. h_le h a b \<or> h_le h b a"
    and trans: "\<And>a b c. h_le h a b \<Longrightarrow> h_le h b c \<Longrightarrow> h_le h a c"
    and anti: "\<And>a b. h_le h a b \<Longrightarrow> h_le h b a \<Longrightarrow> a = b"
    and perm: "mset cs = mset (fs_contractRevisions s)" "mset arts = mset (fs_consumedArtifacts s)"
  shows "computeInputFingerprint h (s\<lparr>fs_contractRevisions := cs, fs_consumedArtifacts := arts\<rparr>) =
    computeInputFingerprint h s"
proof -
  have dir: "computeInputFingerprint h (s\<lparr>fs_contractRevisions := cs, fs_consumedArtifacts := arts\<rparr>) = Some d"
    if "computeInputFingerprint h s = Some d" "mset cs = mset (fs_contractRevisions s)"
      "mset arts = mset (fs_consumedArtifacts s)" for s cs arts d
  proof -
    from that(1) obtain t where t: "parse_fingerprint_source s = Some t" "d = ''sha256:'' @ h_digest h (fingerprint_json h t)"
      by (auto simp: computeInputFingerprint_def parse_simps)
    from t(1) have arr: "arr_of parse_rev_ref (fs_contractRevisions s) = Some (fs_contractRevisions t)"
        "arr_of parse_artifact_ref (fs_consumedArtifacts s) = Some (fs_consumedArtifacts t)"
        "1 \<le> length (fs_contractRevisions s)"
      and uniq: "distinct (map rr_id (fs_contractRevisions t))" "distinct (map ar_id (fs_consumedArtifacts t))"
      by (auto simp: parse_fingerprint_source_def parse_simps refine_def arr_min_def split: if_splits)
    from arr_of_perm[OF that(2)[symmetric] arr(1)] arr_of_perm[OF that(3)[symmetric] arr(2)] obtain us vs where
      us: "arr_of parse_rev_ref cs = Some us" "mset us = mset (fs_contractRevisions t)"
      and vs: "arr_of parse_artifact_ref arts = Some vs" "mset vs = mset (fs_consumedArtifacts t)" by blast
    have len: "length cs = length (fs_contractRevisions s)" using that(2) by (metis size_mset)
    have du: "distinct (map rr_id us)" "distinct (map ar_id vs)" using uniq perm_distinct us(2) vs(2) by blast+
    have "parse_fingerprint_source (s\<lparr>fs_contractRevisions := cs, fs_consumedArtifacts := arts\<rparr>) =
        Some (t\<lparr>fs_contractRevisions := us, fs_consumedArtifacts := vs\<rparr>)"
      using t(1) us(1) vs(1) len du by (auto simp: parse_fingerprint_source_def parse_simps refine_def arr_min_def split: if_splits)
    moreover have "sort_le (\<lambda>a b. h_le h (rr_id a) (rr_id b)) us = sort_le (\<lambda>a b. h_le h (rr_id a) (rr_id b)) (fs_contractRevisions t)"
      by (rule sort_le_perm[where f = rr_id]) (use total trans anti us(2) du in auto)
    moreover have "sort_le (\<lambda>a b. h_le h (ar_id a) (ar_id b)) vs = sort_le (\<lambda>a b. h_le h (ar_id a) (ar_id b)) (fs_consumedArtifacts t)"
      by (rule sort_le_perm[where f = ar_id]) (use total trans anti vs(2) du in auto)
    ultimately show ?thesis using t(2) by (simp add: computeInputFingerprint_def fingerprint_json_def)
  qed
  let ?u = "s\<lparr>fs_contractRevisions := cs, fs_consumedArtifacts := arts\<rparr>"
  have restored: "?u\<lparr>fs_contractRevisions := fs_contractRevisions s, fs_consumedArtifacts := fs_consumedArtifacts s\<rparr> = s" by simp
  show ?thesis
    using dir[of s _ cs arts] dir[of ?u _ "fs_contractRevisions s" "fs_consumedArtifacts s", unfolded restored] perm
    by (cases "computeInputFingerprint h s"; cases "computeInputFingerprint h ?u") auto
qed

definition sample_source :: fingerprint_source where
  "sample_source = \<lparr>fs_graphId = ''g'', fs_nodeId = ''n'', fs_contractRevisions =
     [\<lparr>rr_id = ''a'', rr_revision = ''1''\<rparr>, \<lparr>rr_id = ''b'', rr_revision = ''1''\<rparr>], fs_baseCommit = ''c'',
     fs_consumedArtifacts = [], fs_repositoryContextDigest = ''d'', fs_executorProfile = sample_profile,
     fs_validationContract = sample_profile, fs_recoveryContextDigest = None\<rparr>"

theorem fingerprint_ignores_order_witness:
  "computeInputFingerprint sample_host (sample_source\<lparr>fs_contractRevisions :=
     [\<lparr>rr_id = ''b'', rr_revision = ''1''\<rparr>, \<lparr>rr_id = ''a'', rr_revision = ''1''\<rparr>], fs_consumedArtifacts := []\<rparr>) =
   computeInputFingerprint sample_host sample_source"
  by (rule fingerprint_ignores_order) (auto simp: sample_host_def sample_source_def)

section \<open>Failures\<close>

text \<open>The executor that dies without a code is read as a fault of the code.\<close>

lemma silent_executor_blames_code:
  "classifyFailure \<lparr>fo_source = Fs_executor, fo_code = None, fo_artifactId = None, fo_producerNodeId = None,
     fo_exitCode = None, fo_timedOut = None, fo_message = None\<rparr> = Some Code_test"
  by code_simp

text \<open>The marker of authentication failures occurs in other words.\<close>

lemma author_is_read_as_authentication:
  "routeRepair ''n'' ''the author test fails'' [] [] = Effect_policy ''the author test fails''"
  by code_simp

end
