(* ===== verification/Coordinator.thy ===== *)
theory Coordinator
  imports Recovery Event_Inputs
begin

text \<open>
  The coordinator of a run: commands become events, events are checked against the folded journal and then
  appended, and lost races are retried. Its ports (the journal, the publisher of deliveries, the
  cancellation, the clock) are a record of operations on the state of the world outside, which they may
  change in any way; so another writer can act between any two calls. A step of the coordinator takes the
  world and returns an error or a value, and the world.

  Sources under packages/run-coordinator/src: commands.ts, ports.ts, coordinator.ts, execution.ts.
\<close>

section \<open>Commands\<close>

datatype run_command =
    Propose_graph string int
  | Approve_graph string int
  | Raise_decision decision_input
  | Resolve_decision string "string option" "string option"
  | Observe_readiness readiness_observation
  | Select_wave wave_selection
  | Record_failure string "string option" failure_observation
  | Propose_amendment amendment_proposal
  | Record_evidence_matrix evidence_matrix
  | Pause_run string
  | Resume_command string
  | Restart_run string
  | Verify_final_candidate candidate_verification
  | Publish_delivery delivery_approval
  | Cancel_run string
  | Fail_run string failure_area

fun action_name :: "recovery_action \<Rightarrow> string" where
  "action_name Retry_attempt = ''retry_attempt''"
| "action_name Request_environment_fix = ''request_environment_fix''"
| "action_name Switch_executor = ''switch_executor''"
| "action_name Repair_code = ''repair_code''"
| "action_name Propose_graph_amendment = ''propose_graph_amendment''"
| "action_name Propose_artifact_requirement = ''propose_artifact_requirement''"
| "action_name Discard_candidate = ''discard_candidate''"
| "action_name Repair_integration = ''repair_integration''"
| "action_name Raise_local_decision = ''raise_local_decision''"

definition expiry_reason :: string where
  "expiry_reason = ''A newer approved graph revision superseded the decision'' @ [CHR 0x27] @ ''s premise.''"

text \<open>\<open>None\<close> is the schema error of the failure's observation. The last two commands are not translated here.\<close>

fun eventsForCommand :: "run_projection \<Rightarrow> run_command \<Rightarrow> event_payload list option" where
  "eventsForCommand s (Propose_graph g r) = Some [Graph_ev (Graph_revision_proposed g r)]"
| "eventsForCommand s (Approve_graph g r) = Some (Graph_ev (Graph_revision_approved g r) #
     map (\<lambda>d. Graph_ev (Decision_expired d r expiry_reason)) (supersededDecisionIds (p_decisions s) r))"
| "eventsForCommand s (Raise_decision d) = Some [Graph_ev (Decision_raised d)]"
| "eventsForCommand s (Resolve_decision d v a) = Some [Graph_ev (Decision_resolved d v a None)]"
| "eventsForCommand s (Observe_readiness r) = Some [Graph_ev (Readiness_observed r)]"
| "eventsForCommand s (Select_wave w) = Some [Graph_ev (Wave_selected w)]"
| "eventsForCommand s (Record_failure n a obs) = do {
     c \<leftarrow> classifyFailure obs;
     let policy = recoveryPolicyFor c;
     Some [Attempt_ev (Failure_classified \<lparr>fl_attemptId = a, fl_nodeId = n, fl_failureClass = c,
       fl_observation = obs, fl_allowedActions = map action_name (rp_actions policy),
       fl_automaticRetryBudget = int (rp_automaticRetryBudget policy),
       fl_discardCandidate = rp_discardCandidate policy\<rparr>)] }"
| "eventsForCommand s (Propose_amendment p) = Some [Graph_ev (Graph_amendment_proposed p)]"
| "eventsForCommand s (Record_evidence_matrix m) = Some [Attempt_ev (Evidence_matrix_recorded m)]"
| "eventsForCommand s (Pause_run r) = Some [Run_ev (Run_pause_requested r)]"
| "eventsForCommand s (Resume_command r) = Some [Run_ev (Run_resume_requested r)]"
| "eventsForCommand s (Restart_run r) = Some [Run_ev (Run_restart_requested r)]"
| "eventsForCommand s (Verify_final_candidate v) = Some [Delivery_ev (Final_candidate_verified v)]"
| "eventsForCommand s (Publish_delivery a) = None"
| "eventsForCommand s (Cancel_run r) = None"
| "eventsForCommand s (Fail_run r area) = Some [Run_ev (Run_failed r area)]"

section \<open>Ports and steps\<close>

datatype 'e coordinator_error =
    Domain_error reduce_error
  | Port_error 'e
  | Draft_rejected
  | Journal_contended
  | Batch_mixed
  | Batch_partially_persisted
  | Persisted_differently string
  | Delivery_not_ready
  | Other_delivery_in_progress
  | No_cancellation_port
  | Parallelism_not_positive
  | Wave_empty
  | Wave_too_large
  | Wave_not_ready

record ('w, 'e) ports =
  pt_load :: "'w \<Rightarrow> ('e + run_event list) \<times> 'w"
  pt_append :: "int \<Rightarrow> run_event_input list \<Rightarrow> 'w \<Rightarrow> ('e + run_event list) \<times> 'w"
  pt_clock :: "'w \<Rightarrow> string \<times> 'w"
  pt_eventId :: "event_payload \<Rightarrow> int \<Rightarrow> string"
  pt_publish :: "delivery_approval \<Rightarrow> 'w \<Rightarrow> ('e + delivery_receipt) \<times> 'w"
  pt_invalidate :: "(string \<Rightarrow> 'w \<Rightarrow> ('e + string) \<times> 'w) option"
  pt_stop :: "'w \<Rightarrow> ('e + (string \<times> bool)) \<times> 'w"
  pt_message :: "'e \<Rightarrow> string"

type_synonym ('w, 'e, 'a) act = "'w \<Rightarrow> ('e coordinator_error + 'a) \<times> 'w"

definition returnA :: "'a \<Rightarrow> ('w, 'e, 'a) act" where
  "returnA x w = (Inr x, w)"

definition throwA :: "'e coordinator_error \<Rightarrow> ('w, 'e, 'a) act" where
  "throwA e w = (Inl e, w)"

definition bindA :: "('w, 'e, 'a) act \<Rightarrow> ('a \<Rightarrow> ('w, 'e, 'b) act) \<Rightarrow> ('w, 'e, 'b) act" where
  "bindA m f w = (case m w of (Inl e, w1) \<Rightarrow> (Inl e, w1) | (Inr x, w1) \<Rightarrow> f x w1)"

definition callA :: "('w \<Rightarrow> ('e + 'a) \<times> 'w) \<Rightarrow> ('w, 'e, 'a) act" where
  "callA f w = (case f w of (Inl e, w1) \<Rightarrow> (Inl (Port_error e), w1) | (Inr x, w1) \<Rightarrow> (Inr x, w1))"

definition liftA :: "'e coordinator_error + 'a \<Rightarrow> ('w, 'e, 'a) act" where
  "liftA r w = (r, w)"

definition foldA :: "host \<Rightarrow> run_event list \<Rightarrow> ('w, 'e, run_projection) act" where
  "foldA h es = liftA (map_sum Domain_error id (foldRun h es))"

section \<open>Appending with retries\<close>

text \<open>The inputs of a batch: one id and one reading of the clock for each draft.\<close>

fun stamp_drafts :: "('w, 'e) ports \<Rightarrow> int \<Rightarrow> event_payload list \<Rightarrow> 'w \<Rightarrow> run_event_input list \<times> 'w" where
  "stamp_drafts pt n [] w = ([], w)"
| "stamp_drafts pt n (d # ds) w =
     (let (t, w1) = pt_clock pt w; (is, w2) = stamp_drafts pt (n + 1) ds w1
      in (\<lparr>ev_eventId = pt_eventId pt d n, ev_occurredAt = t, ev_payload = d\<rparr> # is, w2))"

text \<open>
  The loop of \<open>append\<close>, with the attempts left. The batch is checked by folding it behind the events read
  before it is sent; a failed append is retried on what the journal holds now, unless nothing was added.
\<close>

fun append_loop :: "host \<Rightarrow> ('w, 'e) ports \<Rightarrow> string \<Rightarrow> nat \<Rightarrow> run_event list \<Rightarrow> event_payload list \<Rightarrow>
    ('w, 'e, run_event list) act" where
  "append_loop h pt runId 0 current drafts w = (Inl Journal_contended, w)"
| "append_loop h pt runId (Suc k) current drafts w =
     (let expected = int (length current);
          (inputs, w1) = stamp_drafts pt (expected + 1) drafts w
      in case arr_of (parse_run_event h) (place_inputs runId (expected + 1) inputs) of
           None \<Rightarrow> (Inl Draft_rejected, w1)
         | Some provisional \<Rightarrow>
             (case foldRun h (current @ provisional) of
                Inl e \<Rightarrow> (Inl (Domain_error e), w1)
              | Inr _ \<Rightarrow>
                  (case pt_append pt expected inputs w1 of
                     (Inr appended, w2) \<Rightarrow> (Inr (current @ appended), w2)
                   | (Inl e, w2) \<Rightarrow>
                       (case pt_load pt w2 of
                          (Inl e1, w3) \<Rightarrow> (Inl (Port_error e1), w3)
                        | (Inr latest, w3) \<Rightarrow>
                            if int (length latest) = expected then (Inl (Port_error e), w3)
                            else append_loop h pt runId k latest drafts w3))))"

definition append_events :: "host \<Rightarrow> ('w, 'e) ports \<Rightarrow> string \<Rightarrow> run_event list \<Rightarrow> event_payload list \<Rightarrow>
    ('w, 'e, run_event list) act" where
  "append_events h pt runId existing drafts = append_loop h pt runId 8 existing drafts"

section \<open>Executing commands\<close>

definition load_run :: "host \<Rightarrow> ('w, 'e) ports \<Rightarrow> ('w, 'e, run_projection) act" where
  "load_run h pt = bindA (callA (pt_load pt)) (foldA h)"

text \<open>
  Publishing: approve and announce unless a delivery with this approval is in progress, publish, and
  record the receipt; a publisher that throws is recorded as a retryable failure and its error is passed on.
\<close>

definition publish_delivery :: "host \<Rightarrow> ('w, 'e) ports \<Rightarrow> string \<Rightarrow> run_event list \<Rightarrow> run_projection \<Rightarrow>
    delivery_approval \<Rightarrow> ('w, 'e, run_projection) act" where
  "publish_delivery h pt runId persisted s approval =
     (if p_lifecycle s \<notin> {Result_ready, Delivering} \<or> p_finalCandidate s = None then throwA Delivery_not_ready
      else bindA
        (if p_lifecycle s = Result_ready
         then append_events h pt runId persisted [Delivery_ev (Delivery_started approval)]
         else if p_deliveryApproval s \<noteq> Some approval then throwA Other_delivery_in_progress
         else returnA persisted)
        (\<lambda>persisted w. case pt_publish pt approval w of
           (Inl e, w1) \<Rightarrow>
             bindA (append_events h pt runId persisted
                 [Delivery_ev (Delivery_failed_fact (da_manifestId approval) (pt_message pt e) True None)])
               (\<lambda>_. throwA (Port_error e)) w1
         | (Inr receipt, w1) \<Rightarrow>
             bindA (append_events h pt runId persisted [Delivery_ev (Delivery_published receipt)]) (foldA h) w1))"

definition cancel_run :: "host \<Rightarrow> ('w, 'e) ports \<Rightarrow> string \<Rightarrow> run_event list \<Rightarrow> run_projection \<Rightarrow> string \<Rightarrow>
    ('w, 'e, run_projection) act" where
  "cancel_run h pt runId persisted s reason = (case pt_invalidate pt of
     None \<Rightarrow> throwA No_cancellation_port
   | Some invalidate \<Rightarrow>
       if \<not> transition_ok (p_lifecycle s) Cancelling
       then throwA (Domain_error (Illegal_transition (p_lifecycle s) Cancelling))
       else bindA (callA (invalidate reason)) (\<lambda>receipt.
         bindA (append_events h pt runId persisted [Run_ev (Operation_cancel_requested receipt reason)]) (\<lambda>persisted.
         bindA (callA (pt_stop pt)) (\<lambda>(processReceipt, allDead).
         bindA (if allDead then append_events h pt runId persisted [Run_ev (Operation_interrupted processReceipt)]
                else returnA persisted) (foldA h)))))"

definition execute :: "host \<Rightarrow> ('w, 'e) ports \<Rightarrow> string \<Rightarrow> run_command \<Rightarrow> ('w, 'e, run_projection) act" where
  "execute h pt runId command =
     bindA (callA (pt_load pt)) (\<lambda>persisted.
     bindA (foldA h persisted) (\<lambda>s.
     case command of
       Publish_delivery approval \<Rightarrow> publish_delivery h pt runId persisted s approval
     | Cancel_run reason \<Rightarrow> cancel_run h pt runId persisted s reason
     | _ \<Rightarrow> (case eventsForCommand s command of
          None \<Rightarrow> throwA Draft_rejected
        | Some drafts \<Rightarrow> bindA (append_events h pt runId persisted drafts) (foldA h))))"

section \<open>Recording facts\<close>

text \<open>The comparison normalizes the input through the schema, at the place of the stored event.\<close>

definition same_fact :: "host \<Rightarrow> run_event \<Rightarrow> run_event_input \<Rightarrow> 'e coordinator_error + unit" where
  "same_fact h e i =
     requireE (parse_run_event h (place_input (ev_runId e) (ev_sequence e) i)) Draft_rejected (\<lambda>n.
     throwIf (input_of e \<noteq> input_of n) (Persisted_differently (ev_eventId i)) (Inr ()))"

fun same_facts :: "host \<Rightarrow> (run_event \<times> run_event_input) list \<Rightarrow> 'e coordinator_error + unit" where
  "same_facts h [] = Inr ()"
| "same_facts h ((e, i) # rest) = bindE (same_fact h e i) (\<lambda>_. same_facts h rest)"

text \<open>
  What the journal says of a batch: all of it is there, and then it has to be the same facts; some of it
  is there; none of it is.
\<close>

definition settle_batch :: "host \<Rightarrow> run_event list \<Rightarrow> run_event_input list \<Rightarrow> 'e coordinator_error \<Rightarrow>
    ('w, 'e, run_projection) act \<Rightarrow> ('w, 'e, run_projection) act" where
  "settle_batch h es inputs partial none =
     (let found = map (\<lambda>i. eventsById es (ev_eventId i)) inputs in
      if list_all (\<lambda>d. d \<noteq> None) found
      then bindA (liftA (same_facts h (zip (map the found) inputs))) (\<lambda>_. foldA h es)
      else if list_ex (\<lambda>d. d \<noteq> None) found then throwA partial else none)"

text \<open>
  A failed append is settled against what the journal holds now; \<open>again\<close> is the next attempt. Reading the
  journal back after a successful append is inside the same \<open>try\<close>.
\<close>

definition recover_batch :: "host \<Rightarrow> ('w, 'e) ports \<Rightarrow> int \<Rightarrow> run_event_input list \<Rightarrow> 'e coordinator_error \<Rightarrow>
    ('w, 'e, run_projection) act \<Rightarrow> ('w, 'e, run_projection) act" where
  "recover_batch h pt expected inputs error again =
     bindA (callA (pt_load pt)) (\<lambda>latest.
     settle_batch h latest inputs Batch_partially_persisted
       (if int (length latest) = expected then throwA error else again))"

definition attempt_batch :: "host \<Rightarrow> ('w, 'e) ports \<Rightarrow> int \<Rightarrow> run_event_input list \<Rightarrow>
    ('w, 'e, run_projection) act \<Rightarrow> ('w, 'e, run_projection) act" where
  "attempt_batch h pt expected inputs again w =
     (case bindA (callA (pt_append pt expected inputs)) (\<lambda>_. load_run h pt) w of
        (Inr s, w1) \<Rightarrow> (Inr s, w1)
      | (Inl e, w1) \<Rightarrow> recover_batch h pt expected inputs e again w1)"

fun record_loop :: "host \<Rightarrow> ('w, 'e) ports \<Rightarrow> nat \<Rightarrow> run_event_input list \<Rightarrow> ('w, 'e, run_projection) act" where
  "record_loop h pt 0 inputs = throwA Journal_contended"
| "record_loop h pt (Suc k) inputs =
     bindA (callA (pt_load pt)) (\<lambda>current.
     settle_batch h current inputs Batch_mixed
       (attempt_batch h pt (int (length current)) inputs (record_loop h pt k inputs)))"

definition record_facts :: "host \<Rightarrow> ('w, 'e) ports \<Rightarrow> run_event_input list \<Rightarrow> ('w, 'e, run_projection) act" where
  "record_facts h pt inputs = (if inputs = [] then load_run h pt else record_loop h pt 8 inputs)"

fun derive_loop :: "host \<Rightarrow> ('w, 'e) ports \<Rightarrow> nat \<Rightarrow> (run_projection \<Rightarrow> ('w, 'e, run_event_input list) act) \<Rightarrow>
    ('w, 'e, run_projection) act" where
  "derive_loop h pt 0 derive = throwA Journal_contended"
| "derive_loop h pt (Suc k) derive =
     bindA (callA (pt_load pt)) (\<lambda>current.
     bindA (foldA h current) (\<lambda>s.
     bindA (derive s) (\<lambda>inputs.
     if inputs = [] then returnA s
     else settle_batch h current inputs Batch_mixed
       (attempt_batch h pt (int (length current)) inputs (derive_loop h pt k derive)))))"

definition recordDerived :: "host \<Rightarrow> ('w, 'e) ports \<Rightarrow> (run_projection \<Rightarrow> ('w, 'e, run_event_input list) act) \<Rightarrow>
    ('w, 'e, run_projection) act" where
  "recordDerived h pt derive = derive_loop h pt 8 derive"

section \<open>The execution cursor\<close>

text \<open>What the driver of a run provides: the observation, the selector, the wave's id and the dispatch.\<close>

record ('w, 'e) driver =
  dv_observe :: "run_projection \<Rightarrow> 'w \<Rightarrow> ('e + (string list \<times> string list)) \<times> 'w"
  dv_select :: "string list \<Rightarrow> int \<Rightarrow> run_projection \<Rightarrow> string list"
  dv_waveId :: "run_projection \<Rightarrow> string"
  dv_dispatch :: "string \<Rightarrow> string \<Rightarrow> 'w \<Rightarrow> ('e + unit) \<times> 'w"

definition plain_readiness :: "string list \<Rightarrow> string list \<Rightarrow> readiness_observation" where
  "plain_readiness ready pending = \<lparr>ro_readyNodeIds = ready, ro_pendingDecisionIds = pending,
     ro_explanations = None, ro_effectiveConfig = None, ro_schedulerState = None, ro_budgetAvailable = None,
     ro_conflictEvidence = None, ro_evaluatedAt = None\<rparr>"

definition plain_wave :: "string \<Rightarrow> string list \<Rightarrow> int \<Rightarrow> wave_selection" where
  "plain_wave waveId nodeIds maxParallel = \<lparr>ws_waveId = waveId, ws_nodeIds = nodeIds, ws_maxParallel = maxParallel,
     ws_blocked = None, ws_effectiveConfig = None, ws_conflictEvidence = None, ws_evaluatedAt = None\<rparr>"

text \<open>\<open>Promise.all\<close> starts every dispatch before it waits for any, and fails with the first that failed.\<close>

fun dispatch_all :: "('w, 'e) driver \<Rightarrow> string \<Rightarrow> string list \<Rightarrow> ('w, 'e, unit) act" where
  "dispatch_all dv waveId [] w = (Inr (), w)"
| "dispatch_all dv waveId (n # ns) w = (case dv_dispatch dv waveId n w of
     (Inl e, w1) \<Rightarrow> (Inl (Port_error e), snd (dispatch_all dv waveId ns w1))
   | (Inr _, w1) \<Rightarrow> dispatch_all dv waveId ns w1)"

definition advance :: "host \<Rightarrow> ('w, 'e) ports \<Rightarrow> ('w, 'e) driver \<Rightarrow> string \<Rightarrow> int \<Rightarrow> ('w, 'e, run_projection) act" where
  "advance h pt dv runId maxParallel =
     (if maxParallel < 1 then throwA Parallelism_not_positive
      else bindA (load_run h pt) (\<lambda>s0.
        bindA (callA (dv_observe dv s0)) (\<lambda>(ready, pending).
        bindA (execute h pt runId (Observe_readiness (plain_readiness (uniq_sort ready) (uniq_sort pending)))) (\<lambda>s1.
        if p_lifecycle s1 \<noteq> Running \<or> ro_readyNodeIds (p_readiness s1) = [] then returnA s1
        else
          let readyNow = ro_readyNodeIds (p_readiness s1);
              selected = uniq_sort (dv_select dv readyNow maxParallel s1)
          in if selected = [] then throwA Wave_empty
             else if maxParallel < int (length selected) then throwA Wave_too_large
             else if list_ex (\<lambda>n. n \<notin> set readyNow) selected then throwA Wave_not_ready
             else bindA (execute h pt runId (Select_wave (plain_wave (dv_waveId dv s1) selected maxParallel))) (\<lambda>s2.
               bindA (dispatch_all dv (dv_waveId dv s1) selected) (\<lambda>_. returnA s2))))))"

definition resolveDecisionAndAdvance :: "host \<Rightarrow> ('w, 'e) ports \<Rightarrow> ('w, 'e) driver \<Rightarrow> string \<Rightarrow> string \<Rightarrow>
    string option \<Rightarrow> string option \<Rightarrow> int \<Rightarrow> ('w, 'e, run_projection) act" where
  "resolveDecisionAndAdvance h pt dv runId decisionId optionId answer maxParallel =
     bindA (execute h pt runId (Resolve_decision decisionId optionId answer))
       (\<lambda>_. advance h pt dv runId maxParallel)"

end
