(* ===== verification/Journal_Port.thy ===== *)
theory Journal_Port
  imports Coordinator "HOL-Library.Sublist"
begin

text \<open>
  The interface between the coordinator and its ports, and what the coordinator guarantees over any ports
  that keep it. The world holds a journal that only grows, whoever writes; reading returns it; a successful
  append either placed the parsed inputs at the position it expected, or found exactly these inputs there
  already. Nothing is asked of an append that fails: it may have written or not.

  Source: packages/run-coordinator/src/coordinator.ts and execution.ts.
\<close>

definition grows :: "('w \<Rightarrow> run_event list) \<Rightarrow> 'w \<Rightarrow> 'w \<Rightarrow> bool" where
  "grows journal w w' = prefix (journal w) (journal w')"

text \<open>An approval is announced by its \<open>delivery.started\<close>, a node's dispatch by the wave that selected it.\<close>

definition announced :: "host \<Rightarrow> run_event list \<Rightarrow> delivery_approval \<Rightarrow> bool" where
  "announced h es a = (\<exists>e \<in> set es. parse_payload h (Delivery_ev (Delivery_started a)) = Some (ev_payload e))"

definition wave_committed :: "host \<Rightarrow> run_event list \<Rightarrow> string \<Rightarrow> string \<Rightarrow> bool" where
  "wave_committed h es waveId n = (\<exists>e \<in> set es. \<exists>w. n \<in> set (ws_nodeIds w) \<and> ws_waveId w = waveId \<and>
     parse_payload h (Graph_ev (Wave_selected w)) = Some (ev_payload e))"

lemma announced_prefix: "prefix es es' \<Longrightarrow> announced h es a \<Longrightarrow> announced h es' a"
  by (auto simp: announced_def prefix_def)

lemma wave_committed_prefix: "prefix es es' \<Longrightarrow> wave_committed h es v n \<Longrightarrow> wave_committed h es' v n"
  unfolding wave_committed_def using set_mono_prefix by blast

lemma payload_approval:
  assumes "reduce_payload eid p s = Inr s'" and "p_deliveryApproval s' = Some a"
  shows "p_deliveryApproval s = Some a \<or> p = Delivery_ev (Delivery_started a)"
proof (cases "\<exists>f. p = Delivery_ev f")
  case True
  with assms obtain f where "p = Delivery_ev f" "reduce_delivery_fact f s = Inr s'" by auto
  with assms(2) show ?thesis by (cases f) (auto simp: handler_defs transition_def)
next
  case False
  with payload_regions(5)[OF assms(1)] assms(2) show ?thesis by (simp add: delivery_region_def)
qed

lemma approval_announced:
  assumes "foldRun h es = Inr s" "p_deliveryApproval s = Some a" "\<forall>e \<in> set es. parse_run_event h e = Some e"
  shows "announced h es a"
  using assms
proof (induction es arbitrary: s rule: rev_induct)
  case (snoc e es)
  show ?case
  proof (cases "es = []")
    case True
    with snoc.prems show ?thesis by (auto simp: foldRun_single first_state_Inr created_projection_def)
  next
    case False
    with snoc.prems(1) obtain t e' where t: "foldRun h es = Inr t" "journal_step h t e' s" "parse_run_event h e = Some e'"
      by (auto simp: foldRun_append1 extend_state_Inr)
    with snoc.prems(3) have "e' = e" by simp
    from t(2) obtain s1 where "reduce_payload (ev_eventId e') (ev_payload e')
        (t\<lparr>p_updatedAt := ev_occurredAt e'\<rparr>) = Inr s1" "p_deliveryApproval s1 = Some a"
      using snoc.prems(2) by (elim journal_step_payload) auto
    from payload_approval[OF this] consider "p_deliveryApproval t = Some a" | "ev_payload e' = Delivery_ev (Delivery_started a)"
      by auto
    then show ?thesis
    proof cases
      case 1
      with snoc t(1) have "announced h es a" by simp
      then show ?thesis by (rule announced_prefix[rotated]) simp
    next
      case 2
      with parse_run_event_payload[OF t(3)] \<open>e' = e\<close> show ?thesis by (auto simp: announced_def)
    qed
  qed
qed (simp add: foldRun_def)

text \<open>What a successful append may have done.\<close>

definition append_done :: "host \<Rightarrow> string \<Rightarrow> int \<Rightarrow> run_event_input list \<Rightarrow> run_event list \<Rightarrow>
    run_event list \<Rightarrow> run_event list \<Rightarrow> bool" where
  "append_done h runId n inputs es old new =
     ((\<exists>before. prefix old before \<and> n = int (length before) \<and> prefix (before @ es) new \<and>
        arr_of (parse_run_event h) (place_inputs runId (n + 1) inputs) = Some es) \<or>
      (map input_of es = inputs \<and> set es \<subseteq> set new))"

locale journal_port =
  fixes h :: host and runId :: string and pt :: "('w, 'e) ports" and journal :: "'w \<Rightarrow> run_event list"
    and ok :: "'w \<Rightarrow> bool"
  assumes run_id: "entityId runId = Some runId"
    and placed: "ok w \<Longrightarrow> well_placed h runId 1 (journal w)"
    and load: "ok w \<Longrightarrow> pt_load pt w = (r, w') \<Longrightarrow>
      ok w' \<and> grows journal w w' \<and> (\<forall>es. r = Inr es \<longrightarrow> es = journal w')"
    and append: "ok w \<Longrightarrow> pt_append pt n inputs w = (r, w') \<Longrightarrow> inputs \<noteq> [] \<Longrightarrow>
      ok w' \<and> grows journal w w' \<and> (\<forall>es. r = Inr es \<longrightarrow> append_done h runId n inputs es (journal w) (journal w'))"
    and append_none: "ok w \<Longrightarrow> pt_append pt n [] w = (r, w') \<Longrightarrow>
      ok w' \<and> grows journal w w' \<and> (\<forall>es. r = Inr es \<longrightarrow> es = [])"
    and clock: "ok w \<Longrightarrow> pt_clock pt w = (t, w') \<Longrightarrow> ok w' \<and> grows journal w w'"
    and publish: "ok w \<Longrightarrow> announced h (journal w) a \<Longrightarrow> pt_publish pt a w = (r2, w') \<Longrightarrow> ok w' \<and> grows journal w w'"
    and invalidate: "ok w \<Longrightarrow> pt_invalidate pt = Some f \<Longrightarrow> f reason w = (r3, w') \<Longrightarrow> ok w' \<and> grows journal w w'"
    and stop: "ok w \<Longrightarrow> pt_stop pt w = (r4, w') \<Longrightarrow> ok w' \<and> grows journal w w'"
begin

lemma grows_refl [simp]: "grows journal w w"
  by (simp add: grows_def)

lemma grows_trans: "grows journal w w1 \<Longrightarrow> grows journal w1 w2 \<Longrightarrow> grows journal w w2"
  unfolding grows_def by (rule prefix_order.trans)

lemma load_D: "ok w \<Longrightarrow> pt_load pt w = (r, w') \<Longrightarrow> ok w'"
  "ok w \<Longrightarrow> pt_load pt w = (r, w') \<Longrightarrow> grows journal w w'"
  "ok w \<Longrightarrow> pt_load pt w = (Inr es, w') \<Longrightarrow> es = journal w'"
  using load by blast+

lemma append_D: "ok w \<Longrightarrow> pt_append pt n inputs w = (r, w') \<Longrightarrow> ok w' \<and> grows journal w w'"
  using append append_none by (cases "inputs = []") blast+

lemma stamp_drafts_ok:
  "ok w \<Longrightarrow> stamp_drafts pt n ds w = (is, w') \<Longrightarrow> ok w' \<and> grows journal w w' \<and> map ev_payload is = ds"
proof (induction ds arbitrary: n w "is" w')
  case (Cons d ds)
  obtain t w1 where t: "pt_clock pt w = (t, w1)" by (cases "pt_clock pt w") auto
  obtain is1 w2 where i: "stamp_drafts pt (n + 1) ds w1 = (is1, w2)" by (cases "stamp_drafts pt (n + 1) ds w1") auto
  from clock[OF Cons.prems(1) t] Cons.IH[OF _ i] Cons.prems(2) t i show ?case
    by (auto intro: grows_trans)
qed simp

text \<open>A list of the journal's events that folds is a prefix of the journal.\<close>

lemma folded_prefix:
  assumes w: "ok w" and sub: "set es \<subseteq> set (journal w)" and fold: "foldRun h es = Inr s"
  shows "prefix es (journal w)"
proof -
  have "arr_of (parse_run_event h) es = Some es"
    using sub well_placed_member[OF placed[OF w]] by (intro arr_of_fixed) blast
  from foldRun_positions[OF fold this] have seq: "map ev_sequence es = map int [1..<Suc (length es)]" by blast
  have at: "i < length (journal w) \<and> es ! i = journal w ! i" if i: "i < length es" for i
  proof -
    from i sub have "es ! i \<in> set (journal w)" by (meson nth_mem subsetD)
    from well_placed_at[OF placed[OF w] this] obtain j where
      j: "j < length (journal w)" "es ! i = journal w ! j" "ev_sequence (es ! i) = 1 + int j" by auto
    from arg_cong[OF seq, of "\<lambda>xs. xs ! i"] i have "ev_sequence (es ! i) = int (Suc i)"
      by (simp del: upt_Suc)
    with j show ?thesis by simp
  qed
  have "length es \<le> length (journal w)"
    using at[of "length es - 1"] by (cases "es = []") auto
  with at have "es = take (length es) (journal w)" by (intro nth_equalityI) auto
  then show ?thesis by (metis take_is_prefix)
qed

lemma grows_subset: "grows journal w w' \<Longrightarrow> set es \<subseteq> set (journal w) \<Longrightarrow> set es \<subseteq> set (journal w')"
  by (auto simp: grows_def dest: set_mono_prefix)

text \<open>
  A batch of drafts is committed behind a history when the journal continues the history with the parsed
  drafts.
\<close>

lemma append_loop_ok:
  assumes "ok w" and "set current \<subseteq> set (journal w)" and "append_loop h pt runId k current drafts w = (r, w')"
    and "drafts \<noteq> []"
  shows "ok w' \<and> grows journal w w' \<and>
    (\<forall>es. r = Inr es \<longrightarrow> (\<exists>before mine. es = before @ mine \<and> prefix before (journal w') \<and>
       set mine \<subseteq> set (journal w') \<and> arr_of (parse_payload h) drafts = Some (map ev_payload mine) \<and>
       (prefix current (journal w) \<longrightarrow> prefix current before)))"
  using assms(1-3)
proof (induction k arbitrary: current w)
  case (Suc k)
  let ?n = "int (length current)"
  obtain inputs w1 where stamp: "stamp_drafts pt (?n + 1) drafts w = (inputs, w1)" by (cases "stamp_drafts pt (?n + 1) drafts w") auto
  from stamp_drafts_ok[OF Suc.prems(1) stamp] have w1: "ok w1" "grows journal w w1" and pay: "map ev_payload inputs = drafts" by auto
  with assms(4) have inputs: "inputs \<noteq> []" by auto
  obtain q w2 where app: "pt_append pt ?n inputs w1 = (q, w2)" by (cases "pt_append pt ?n inputs w1") auto
  from append_D[OF w1(1) app] w1(2) have w2: "ok w2" "grows journal w w2" by (auto intro: grows_trans)
  obtain r3 w3 where ld: "pt_load pt w2 = (r3, w3)" by (cases "pt_load pt w2") auto
  have w3: "ok w3" "grows journal w w3" using load_D(1,2)[OF w2(1) ld] w2(2) by (auto intro: grows_trans)
  note step = Suc.prems(3)[unfolded append_loop.simps Let_def stamp prod.case app ld]
  consider (early) "w' = w1" "\<forall>es. r \<noteq> Inr es"
    | (sent) es prov s where "foldRun h (current @ prov) = Inr s" "q = Inr es" "w' = w2" "r = Inr (current @ es)"
    | (stop) "w' = w3" "\<forall>es. r \<noteq> Inr es"
    | (again) latest where "r3 = Inr latest" "append_loop h pt runId k latest drafts w3 = (r, w')"
    using step by (auto split: option.splits sum.splits if_splits)
  then show ?case
  proof cases
    case sent
    have current: "prefix current (journal w1)"
    proof (cases "current = []")
      case False
      with foldRun_prefix[OF sent(1)] obtain t where "foldRun h current = Inr t" by blast
      with folded_prefix[OF w1(1)] grows_subset[OF w1(2) Suc.prems(2)] show ?thesis by blast
    qed simp
    from append[OF w1(1) app inputs] sent(2) have "append_done h runId ?n inputs es (journal w1) (journal w2)" by blast
    then consider (new) before where "prefix (journal w1) before" "?n = int (length before)" "prefix (before @ es) (journal w2)"
        "arr_of (parse_run_event h) (place_inputs runId (?n + 1) inputs) = Some es"
      | (retry) "map input_of es = inputs" "set es \<subseteq> set (journal w2)"
      by (auto simp: append_done_def)
    then show ?thesis
    proof cases
      case new
      from prefix_order.trans[OF current new(1)] new(2) have "current = before" by (auto simp: prefix_def)
      moreover have "prefix before (journal w2)" "set es \<subseteq> set (journal w2)"
        using new(3) by (auto simp: prefix_def)
      ultimately show ?thesis
        using pay place_inputs_payloads[OF new(4)] sent w2
        by (intro conjI allI impI exI[of _ before] exI[of _ es]) auto
    next
      case retry
      have "prefix current (journal w2)"
        using current append_D[OF w1(1) app] by (auto simp: grows_def intro: prefix_order.trans)
      moreover have "arr_of (parse_payload h) drafts = Some (map ev_payload es)"
      proof -
        have "drafts = map ev_payload es" using retry(1) pay by (auto simp: comp_def)
        moreover have "parse_payload h (ev_payload e) = Some (ev_payload e)" if "e \<in> set es" for e
          using that retry(2) well_placed_member[OF placed[OF w2(1)]] parse_run_event_payload by blast
        ultimately show ?thesis by (auto intro!: arr_of_fixed)
      qed
      ultimately show ?thesis using sent w2 retry(2)
        by (intro conjI allI impI exI[of _ current] exI[of _ es]) auto
    qed
  next
    case again
    have latest: "latest = journal w3" using load_D(3)[OF w2(1)] ld again(1) by simp
    with w3(2) have later: "prefix current latest" if "prefix current (journal w)"
      using that unfolding grows_def by (blast intro: prefix_order.trans)
    from Suc.IH[OF w3(1) _ again(2)] latest have IH: "ok w' \<and> grows journal w3 w' \<and>
      (\<forall>es. r = Inr es \<longrightarrow> (\<exists>before mine. es = before @ mine \<and> prefix before (journal w') \<and>
         set mine \<subseteq> set (journal w') \<and> arr_of (parse_payload h) drafts = Some (map ev_payload mine) \<and> prefix latest before))"
      by simp
    from IH grows_trans[OF w3(2)] have "ok w'" "grows journal w w'" by blast+
    moreover have "\<exists>before mine. es = before @ mine \<and> prefix before (journal w') \<and>
         set mine \<subseteq> set (journal w') \<and> arr_of (parse_payload h) drafts = Some (map ev_payload mine) \<and>
         (prefix current (journal w) \<longrightarrow> prefix current before)" if r: "r = Inr es" for es
    proof -
      from IH r obtain before mine where b: "es = before @ mine" "prefix before (journal w')"
        "set mine \<subseteq> set (journal w')" "arr_of (parse_payload h) drafts = Some (map ev_payload mine)" "prefix latest before" by blast
      from later b(5) have "prefix current (journal w) \<longrightarrow> prefix current before" by (blast intro: prefix_order.trans)
      with b show ?thesis by blast
    qed
    ultimately show ?thesis by blast
  qed (use w1 w3 in auto)
qed (use assms in auto)

lemma append_events_Inr:
  assumes "ok w" "set current \<subseteq> set (journal w)" "drafts \<noteq> []" "append_events h pt runId current drafts w = (Inr es, w')"
  shows "ok w' \<and> grows journal w w' \<and> set es \<subseteq> set (journal w') \<and>
    (\<exists>before mine. es = before @ mine \<and> set mine \<subseteq> set (journal w') \<and>
    arr_of (parse_payload h) drafts = Some (map ev_payload mine) \<and> (prefix current (journal w) \<longrightarrow> prefix current before))"
proof -
  from append_loop_ok[OF assms(1,2) assms(4)[unfolded append_events_def] assms(3)] obtain before mine where
    ok: "ok w'" "grows journal w w'" and es: "es = before @ mine" "prefix before (journal w')" "set mine \<subseteq> set (journal w')"
      "arr_of (parse_payload h) drafts = Some (map ev_payload mine)" "prefix current (journal w) \<longrightarrow> prefix current before" by blast
  from es(2) have "set before \<subseteq> set (journal w')" by (rule set_mono_prefix)
  with ok es show ?thesis by auto
qed

lemma append_events_ok:
  assumes "ok w" and "set current \<subseteq> set (journal w)" and "append_events h pt runId current drafts w = (r, w')" and "drafts \<noteq> []"
  shows "ok w' \<and> grows journal w w'"
  using append_loop_ok[OF assms(1,2) assms(3)[unfolded append_events_def] assms(4)] by blast

text \<open>Appending and folding: the result is the fold of a prefix of the journal that ends with the drafts.\<close>

lemma append_then_fold:
  assumes "ok w" and "prefix current (journal w)" and "drafts \<noteq> []"
    and run: "bindA (append_events h pt runId current drafts) (foldA h) w = (Inr s, w')"
  shows "\<exists>before mine. prefix current before \<and> prefix (before @ mine) (journal w') \<and>
       arr_of (parse_payload h) drafts = Some (map ev_payload mine) \<and> foldRun h (before @ mine) = Inr s"
proof -
  from run obtain es where app: "append_events h pt runId current drafts w = (Inr es, w')" and es: "foldRun h es = Inr s"
    by (cases "append_events h pt runId current drafts w"; cases "fst (append_events h pt runId current drafts w)";
        cases "foldRun h (projr (fst (append_events h pt runId current drafts w)))") (auto simp: bindA_def foldA_def liftA_def)
  from append_events_Inr[OF assms(1) set_mono_prefix[OF assms(2)] assms(3) app] assms(2) es folded_prefix[of w' es s] show ?thesis
    by auto
qed

text \<open>Actions that keep the world in order.\<close>

definition keeps :: "('w \<Rightarrow> 'r \<times> 'w) \<Rightarrow> 'w \<Rightarrow> bool" where
  "keeps m w \<longleftrightarrow> (ok w \<longrightarrow> (\<forall>r w'. m w = (r, w') \<longrightarrow> ok w' \<and> grows journal w w'))"

lemma keepsI: "(\<And>r w'. ok w \<Longrightarrow> m w = (r, w') \<Longrightarrow> ok w' \<and> grows journal w w') \<Longrightarrow> keeps m w"
  by (auto simp: keeps_def)

lemma keeps_D: "keeps m w \<Longrightarrow> ok w \<Longrightarrow> m w = (r, w') \<Longrightarrow> ok w' \<and> grows journal w w'"
  by (auto simp: keeps_def)

lemma keeps_simple [simp]: "keeps (throwA e) w" "keeps (returnA x) w" "keeps (liftA r) w" "keeps (foldA h es) w"
  by (auto simp: keeps_def throwA_def returnA_def liftA_def foldA_def)

lemma keeps_call: "keeps f w \<Longrightarrow> keeps (callA f) w"
  by (auto simp: keeps_def callA_def split: prod.splits sum.splits)

lemma keeps_bind:
  assumes "keeps m w" and "\<And>x w1. ok w \<Longrightarrow> m w = (Inr x, w1) \<Longrightarrow> ok w1 \<Longrightarrow> grows journal w w1 \<Longrightarrow> keeps (f x) w1"
  shows "keeps (bindA m f) w"
proof (rule keepsI)
  fix r w' assume w: "ok w" "bindA m f w = (r, w')"
  obtain q w1 where m: "m w = (q, w1)" by (cases "m w") auto
  from keeps_D[OF assms(1) w(1) m] have w1: "ok w1" "grows journal w w1" by auto
  show "ok w' \<and> grows journal w w'"
  proof (cases q)
    case (Inr x)
    with w m have "f x w1 = (r, w')" by (simp add: bindA_def)
    from keeps_D[OF assms(2)[OF w(1) m[unfolded Inr] w1] w1(1) this] w1(2) show ?thesis by (auto intro: grows_trans)
  qed (use w m w1 in \<open>auto simp: bindA_def\<close>)
qed

lemma keeps_load: "keeps (pt_load pt) w"
  by (rule keepsI) (blast dest: load_D)

lemma keeps_append: "set current \<subseteq> set (journal w) \<Longrightarrow> drafts \<noteq> [] \<Longrightarrow> keeps (append_events h pt runId current drafts) w"
  by (rule keepsI) (blast dest: append_events_ok)

lemma load_prefix: "ok w \<Longrightarrow> callA (pt_load pt) w = (Inr es, w1) \<Longrightarrow> ok w1 \<and> grows journal w w1 \<and> es = journal w1"
  by (auto simp: callA_def split: prod.splits sum.splits dest: load_D)

lemma prefix_grows: "prefix es (journal w) \<Longrightarrow> grows journal w w' \<Longrightarrow> prefix es (journal w')"
  unfolding grows_def by (rule prefix_order.trans)

lemma journal_fixed: "ok w \<Longrightarrow> prefix es (journal w) \<Longrightarrow> \<forall>e \<in> set es. parse_run_event h e = Some e"
  by (meson placed well_placed_member set_mono_prefix subsetD)

lemma keeps_append_bind:
  "set es \<subseteq> set (journal w) \<Longrightarrow> ds \<noteq> [] \<Longrightarrow> (\<And>x w. keeps (f x) w) \<Longrightarrow> keeps (bindA (append_events h pt runId es ds) f) w"
  by (rule keeps_bind[OF keeps_append])

text \<open>The two halves of a delivery: announcing it, and publishing what is announced.\<close>

lemma keeps_send:
  assumes "announced h (journal w) a" and "set es \<subseteq> set (journal w)"
  shows "keeps (\<lambda>w. case pt_publish pt a w of
           (Inl e, w1) \<Rightarrow>
             bindA (append_events h pt runId es
                 [Delivery_ev (Delivery_failed_fact (da_manifestId a) (pt_message pt e) True None)])
               (\<lambda>_. throwA (Port_error e)) w1
         | (Inr receipt, w1) \<Rightarrow>
             bindA (append_events h pt runId es [Delivery_ev (Delivery_published receipt)]) (foldA h) w1) w"
proof -
  obtain q w1 where q: "pt_publish pt a w = (q, w1)" by (cases "pt_publish pt a w") auto
  have *: "ok w \<Longrightarrow> keeps (bindA (append_events h pt runId es ds) f) w1" if "ds \<noteq> []" "\<And>x w. keeps (f x) w" for ds f
    using publish[OF _ assms(1) q] grows_subset[OF _ assms(2)] that by (auto intro!: keeps_append_bind)
  show ?thesis
  proof (cases q)
    case (Inl e)
    have "ok w \<Longrightarrow> keeps (bindA (append_events h pt runId es
        [Delivery_ev (Delivery_failed_fact (da_manifestId a) (pt_message pt e) True None)]) (\<lambda>_. throwA (Port_error e))) w1"
      by (rule *) simp_all
    with publish[OF _ assms(1) q] q Inl show ?thesis by (auto simp: keeps_def intro: grows_trans)
  next
    case (Inr receipt)
    have "ok w \<Longrightarrow> keeps (bindA (append_events h pt runId es [Delivery_ev (Delivery_published receipt)]) (foldA h)) w1"
      by (rule *) simp_all
    with publish[OF _ assms(1) q] q Inr show ?thesis by (auto simp: keeps_def intro: grows_trans)
  qed
qed

lemma keeps_publish_delivery:
  assumes persisted: "prefix persisted (journal w)" and s: "foldRun h persisted = Inr s"
  shows "keeps (publish_delivery h pt runId persisted s a) w"
proof (cases "p_lifecycle s \<notin> {Result_ready, Delivering} \<or> p_finalCandidate s = None")
  case False
  let ?first = "if p_lifecycle s = Result_ready then append_events h pt runId persisted [Delivery_ev (Delivery_started a)]
      else if p_deliveryApproval s \<noteq> Some a then throwA Other_delivery_in_progress else returnA persisted"
  have sub: "set persisted \<subseteq> set (journal w)" by (rule set_mono_prefix[OF persisted])
  have first: "keeps ?first w"
    using keeps_append[OF sub, of "[Delivery_ev (Delivery_started a)]"] by simp
  have begun: "announced h (journal w1) a \<and> set es \<subseteq> set (journal w1)" if "ok w" "?first w = (Inr es, w1)" for es w1
  proof (cases "p_lifecycle s = Result_ready")
    case True
    with that(2) have "append_events h pt runId persisted [Delivery_ev (Delivery_started a)] w = (Inr es, w1)" by simp
    from append_events_Inr[OF that(1) sub _ this] show ?thesis by (auto simp: announced_def parse_simps)
  next
    case False
    with that(2) have "p_deliveryApproval s = Some a" "w1 = w" "es = persisted"
      by (auto simp: throwA_def returnA_def split: if_splits)
    with approval_announced[OF s _ journal_fixed[OF that(1) persisted]] announced_prefix[OF persisted] sub
    show ?thesis by auto
  qed
  have "keeps (publish_delivery h pt runId persisted s a) w \<longleftrightarrow> keeps (bindA ?first (\<lambda>persisted w. case pt_publish pt a w of
           (Inl e, w1) \<Rightarrow>
             bindA (append_events h pt runId persisted
                 [Delivery_ev (Delivery_failed_fact (da_manifestId a) (pt_message pt e) True None)])
               (\<lambda>_. throwA (Port_error e)) w1
         | (Inr receipt, w1) \<Rightarrow>
             bindA (append_events h pt runId persisted [Delivery_ev (Delivery_published receipt)]) (foldA h) w1)) w"
    using False by (simp only: publish_delivery_def if_False)
  moreover have "\<dots>"
    by (rule keeps_bind[OF first]) (use begun in \<open>blast intro: keeps_send\<close>)
  ultimately show ?thesis by blast
qed (simp add: publish_delivery_def)

end

end
