(* ===== verification/Coordinator_Laws.thy ===== *)
theory Coordinator_Laws
  imports Journal_Port
begin

text \<open>
  The coordinator over any ports that keep the interface: every command, recorded batch and step of the
  execution cursor keeps the world in order; what a successful command or batch has left in the journal.

  Source: packages/run-coordinator/src/coordinator.ts and execution.ts.
\<close>

lemma eventsForCommand_ne: "eventsForCommand s c = Some ds \<Longrightarrow> ds \<noteq> []"
  by (cases c) (auto split: bind_splits simp: Let_def)

text \<open>
  What a command that succeeded has put behind \<open>before\<close>. A delivery was announced before, its publisher
  returned the receipt that is recorded. A cancellation was requested with the receipt of the invalidation;
  if the processes are all dead, the piece reaches to the interruption. Any other command put there its
  events as computed from \<open>s0\<close>.
\<close>

definition command_committed ::
  "host \<Rightarrow> ('w, 'e) ports \<Rightarrow> run_projection \<Rightarrow> run_command \<Rightarrow> run_event list \<Rightarrow> run_event list \<Rightarrow> bool" where
  "command_committed h pt s0 c before mine \<longleftrightarrow> (case c of
     Publish_delivery x \<Rightarrow> p_lifecycle s0 \<in> {Result_ready, Delivering} \<and> announced h before x \<and>
       (\<exists>receipt v v'. pt_publish pt x v = (Inr receipt, v') \<and>
          arr_of (parse_payload h) [Delivery_ev (Delivery_published receipt)] = Some (map ev_payload mine))
   | Cancel_run reason \<Rightarrow> transition_ok (p_lifecycle s0) Cancelling \<and>
       (\<exists>invalidate receipt v v1 process dead v2 v3 request rest. pt_invalidate pt = Some invalidate \<and>
          invalidate reason v = (Inr receipt, v1) \<and> pt_stop pt v2 = (Inr (process, dead), v3) \<and> mine = request @ rest \<and>
          arr_of (parse_payload h) [Run_ev (Operation_cancel_requested receipt reason)] = Some (map ev_payload request) \<and>
          (if dead then \<exists>others own. rest = others @ own \<and>
             arr_of (parse_payload h) [Run_ev (Operation_interrupted process)] = Some (map ev_payload own)
           else rest = []))
   | _ \<Rightarrow> (\<exists>drafts. eventsForCommand s0 c = Some drafts \<and> arr_of (parse_payload h) drafts = Some (map ev_payload mine)))"

context journal_port
begin

lemma keeps_cancel:
  assumes "prefix persisted (journal w)"
  shows "keeps (cancel_run h pt runId persisted s reason) w"
proof (cases "pt_invalidate pt")
  case (Some f)
  have sub: "set persisted \<subseteq> set (journal w)" using assms by (rule set_mono_prefix)
  have inv: "keeps (callA (f reason)) v" for v
    by (rule keeps_call, rule keepsI) (rule invalidate[OF _ Some])
  have st: "keeps (callA (pt_stop pt)) v" for v
    by (rule keeps_call, rule keepsI) (rule stop)
  have "keeps (bindA (callA (f reason)) (\<lambda>receipt.
         bindA (append_events h pt runId persisted [Run_ev (Operation_cancel_requested receipt reason)]) (\<lambda>persisted.
         bindA (callA (pt_stop pt)) (\<lambda>(processReceipt, allDead).
         bindA (if allDead then append_events h pt runId persisted [Run_ev (Operation_interrupted processReceipt)]
                else returnA persisted) (foldA h))))) w"
  proof (rule keeps_bind[OF inv], goal_cases)
    case (1 receipt w1)
    with sub have sub1: "set persisted \<subseteq> set (journal w1)" by (blast dest: grows_subset)
    show ?case
    proof (rule keeps_bind[OF keeps_append[OF sub1]], simp, goal_cases)
      case (1 es w2)
      then have sub2: "set es \<subseteq> set (journal w2)" using append_events_Inr[OF _ sub1 _ 1(2)] by simp
      show ?case
      proof (rule keeps_bind[OF st], goal_cases)
        case (1 x w3)
        then have "set es \<subseteq> set (journal w3)" using sub2 by (blast dest: grows_subset)
        then show ?case
          by (cases x) (auto intro!: keeps_bind keeps_append)
      qed
    qed
  qed
  with Some show ?thesis by (simp add: cancel_run_def)
qed (simp add: cancel_run_def)

lemma folded: "foldA h es w = (Inr s, w') \<Longrightarrow> foldRun h es = Inr s \<and> w' = w"
  by (cases "foldRun h es") (auto simp: foldA_def liftA_def)

lemma bind_lift: "bindA (liftA r) f w = (Inr s, w') \<Longrightarrow> \<exists>x. r = Inr x \<and> f x w = (Inr s, w')"
  by (cases r) (auto simp: bindA_def liftA_def)

text \<open>Every command keeps the world in order.\<close>

lemma keeps_execute: "keeps (execute h pt runId c) w"
  unfolding execute_def
proof (rule keeps_bind[OF keeps_call[OF keeps_load]], goal_cases)
  case (1 es w1)
  from load_prefix[OF 1(1,2)] have es: "es = journal w1" by blast
  then have sub: "set es \<subseteq> set (journal w1)" "prefix es (journal w1)" by simp_all
  show ?case
  proof (rule keeps_bind, simp, goal_cases)
    case (1 s w2)
    from folded[OF 1(2)] have s: "foldRun h es = Inr s" "w2 = w1" by auto
    have plain: "keeps (case eventsForCommand s c of None \<Rightarrow> throwA Draft_rejected
        | Some drafts \<Rightarrow> bindA (append_events h pt runId es drafts) (foldA h)) w1"
      by (cases "eventsForCommand s c") (simp_all add: keeps_append_bind[OF sub(1)] eventsForCommand_ne)
    show ?case
      using plain keeps_publish_delivery[OF sub(2) s(1)] keeps_cancel[OF sub(2)] s(2) by (cases c) auto
  qed
qed

lemma append_loop_folded:
  "append_loop h pt runId k current drafts w = (Inr es, w') \<Longrightarrow> current \<noteq> [] \<Longrightarrow> \<exists>t. foldRun h current = Inr t"
  by (cases k) (auto simp: Let_def dest: foldRun_prefix split: prod.splits option.splits sum.splits if_splits)

text \<open>What a batch of drafts has become when its append returns: a piece of the journal behind what was known of it.\<close>

definition committed_behind :: "run_event list \<Rightarrow> event_payload list \<Rightarrow> run_event list \<Rightarrow> 'w \<Rightarrow> bool" where
  "committed_behind current drafts es w \<longleftrightarrow> set es \<subseteq> set (journal w) \<and>
     (\<exists>before mine. es = before @ mine \<and> prefix current before \<and> arr_of (parse_payload h) drafts = Some (map ev_payload mine))"

lemma append_committed:
  assumes "ok w" "set current \<subseteq> set (journal w)" "drafts \<noteq> []" "append_events h pt runId current drafts w = (Inr es, w')"
  shows "ok w' \<and> grows journal w w' \<and> committed_behind current drafts es w'"
proof -
  have "prefix current (journal w)"
  proof (cases "current = []")
    case False
    from append_loop_folded[OF assms(4)[unfolded append_events_def] this] folded_prefix[OF assms(1,2)] show ?thesis by blast
  qed simp
  with append_events_Inr[OF assms] show ?thesis unfolding committed_behind_def by blast
qed

lemma fold_committed:
  assumes "ok w" and "committed_behind current drafts es w" and "foldRun h es = Inr s"
  shows "\<exists>before mine. es = before @ mine \<and> prefix current before \<and> prefix (before @ mine) (journal w) \<and>
    arr_of (parse_payload h) drafts = Some (map ev_payload mine) \<and> foldRun h (before @ mine) = Inr s"
  using assms folded_prefix[OF assms(1) _ assms(3)] unfolding committed_behind_def by blast

lemma bindA_Inr: "bindA m f w = (Inr y, w') \<longleftrightarrow> (\<exists>x w1. m w = (Inr x, w1) \<and> f x w1 = (Inr y, w'))"
  by (auto simp: bindA_def split: prod.splits sum.splits)

lemma callA_Inr: "callA f w = (Inr x, w') \<longleftrightarrow> f w = (Inr x, w')"
  by (auto simp: callA_def split: prod.splits sum.splits)

text \<open>A delivery that succeeds: announced, published, and its receipt committed behind the announcement.\<close>

lemma publish_commits:
  assumes "ok w" and "prefix es (journal w)" and "foldRun h es = Inr s0"
    and run: "publish_delivery h pt runId es s0 a w = (Inr s, w')"
  shows "\<exists>before mine. prefix es before \<and> prefix (before @ mine) (journal w') \<and> foldRun h (before @ mine) = Inr s \<and>
    command_committed h pt s0 (Publish_delivery a) before mine"
proof -
  have sub: "set es \<subseteq> set (journal w)" using assms(2) by (rule set_mono_prefix)
  let ?first = "if p_lifecycle s0 = Result_ready then append_events h pt runId es [Delivery_ev (Delivery_started a)]
    else if p_deliveryApproval s0 \<noteq> Some a then throwA Other_delivery_in_progress else returnA es"
  let ?rest = "\<lambda>es1 w1. case pt_publish pt a w1 of
        (Inl e, w2) \<Rightarrow> bindA (append_events h pt runId es1 [Delivery_ev (Delivery_failed_fact (da_manifestId a) (pt_message pt e) True None)])
          (\<lambda>_. throwA (Port_error e)) w2
      | (Inr receipt, w2) \<Rightarrow>
          bindA (append_events h pt runId es1 [Delivery_ev (Delivery_published receipt)]) (foldA h) w2"
  have ready: "p_lifecycle s0 \<in> {Result_ready, Delivering} \<and> p_finalCandidate s0 \<noteq> None"
  proof (rule ccontr)
    assume "\<not> ?thesis"
    then have "p_lifecycle s0 \<notin> {Result_ready, Delivering} \<or> p_finalCandidate s0 = None" by blast
    with run show False unfolding publish_delivery_def by (simp only: if_True) (simp add: throwA_def)
  qed
  then have life: "p_lifecycle s0 \<in> {Result_ready, Delivering}" ..
  have "bindA ?first ?rest w = (Inr s, w')"
    using run ready unfolding publish_delivery_def by (simp only: ready not_not simp_thms if_False)
  then obtain es1 w1 where first: "?first w = (Inr es1, w1)" and rest: "?rest es1 w1 = (Inr s, w')"
    unfolding bindA_Inr by blast
  obtain q w2 where q: "pt_publish pt a w1 = (q, w2)" by (cases "pt_publish pt a w1")
  obtain receipt where pub: "pt_publish pt a w1 = (Inr receipt, w2)"
    using rest unfolding q by (cases q) (auto simp: bindA_Inr throwA_def)
  from rest obtain es2 where last: "append_events h pt runId es1 [Delivery_ev (Delivery_published receipt)] w2 = (Inr es2, w')"
    and s: "foldRun h es2 = Inr s"
    unfolding pub by (auto simp: bindA_Inr dest!: folded)
  have one: "ok w1 \<and> set es1 \<subseteq> set (journal w1) \<and> prefix es es1 \<and> announced h es1 a"
  proof (cases "p_lifecycle s0 = Result_ready")
    case True
    with first have "append_events h pt runId es [Delivery_ev (Delivery_started a)] w = (Inr es1, w1)" by simp
    from append_committed[OF assms(1) sub _ this]
    have w1: "ok w1" "committed_behind es [Delivery_ev (Delivery_started a)] es1 w1" by simp_all
    then obtain before mine where es1: "es1 = before @ mine" "prefix es before" "set es1 \<subseteq> set (journal w1)"
      "arr_of (parse_payload h) [Delivery_ev (Delivery_started a)] = Some (map ev_payload mine)"
      unfolding committed_behind_def by blast
    from es1(4) obtain e where "parse_payload h (Delivery_ev (Delivery_started a)) = Some (ev_payload e)" "e \<in> set mine"
      unfolding arr_of_single by (cases mine) auto
    with es1(1) have "announced h es1 a" unfolding announced_def by (intro bexI[of _ e]) auto
    with w1(1) es1 show ?thesis by (simp add: prefix_prefix)
  next
    case False
    with first have "p_deliveryApproval s0 = Some a" "es1 = es" "w1 = w" by (auto simp: throwA_def returnA_def split: if_splits)
    with assms(1) sub show ?thesis using approval_announced[OF assms(3) _ journal_fixed[OF assms(1,2)]] by simp
  qed
  then have w1: "ok w1" "announced h (journal w1) a" "set es1 \<subseteq> set (journal w1)"
    by (auto simp: announced_def)
  from publish[OF w1(1,2) pub] have w2: "ok w2" "grows journal w1 w2" by blast+
  from append_committed[OF w2(1) grows_subset[OF w2(2) w1(3)] _ last]
  have "ok w'" "committed_behind es1 [Delivery_ev (Delivery_published receipt)] es2 w'" by simp_all
  from fold_committed[OF this s] obtain before mine where
    "prefix es1 before" "prefix (before @ mine) (journal w')" "foldRun h (before @ mine) = Inr s"
    "arr_of (parse_payload h) [Delivery_ev (Delivery_published receipt)] = Some (map ev_payload mine)" by blast
  moreover from this(1) one have "prefix es before" "announced h before a"
    by (auto intro: prefix_order.trans announced_prefix)
  ultimately show ?thesis using life pub
    unfolding command_committed_def run_command.case by blast
qed

text \<open>A cancellation that succeeds: its request is committed, and the interruption when everything is dead.\<close>

lemma cancel_commits:
  assumes "ok w" and "prefix es (journal w)" and run: "cancel_run h pt runId es s0 reason w = (Inr s, w')"
  shows "\<exists>before mine. prefix es before \<and> prefix (before @ mine) (journal w') \<and> foldRun h (before @ mine) = Inr s \<and>
    command_committed h pt s0 (Cancel_run reason) before mine"
proof -
  have sub: "set es \<subseteq> set (journal w)" using assms(2) by (rule set_mono_prefix)
  from run obtain f where f: "pt_invalidate pt = Some f"
    by (cases "pt_invalidate pt") (simp_all add: cancel_run_def throwA_def)
  from run f have legal: "transition_ok (p_lifecycle s0) Cancelling"
    by (cases "transition_ok (p_lifecycle s0) Cancelling") (simp_all add: cancel_run_def throwA_def)
  let ?request = "\<lambda>receipt. [Run_ev (Operation_cancel_requested receipt reason)]"
  let ?finish = "\<lambda>es1 (process, dead). bindA (if dead then append_events h pt runId es1 [Run_ev (Operation_interrupted process)]
    else returnA es1) (foldA h)"
  from run have "bindA (callA (f reason)) (\<lambda>receipt. bindA (append_events h pt runId es (?request receipt)) (\<lambda>es1.
      bindA (callA (pt_stop pt)) (?finish es1))) w = (Inr s, w')"
    by (simp add: cancel_run_def f legal)
  then obtain receipt w1 where call: "f reason w = (Inr receipt, w1)" and run1:
    "bindA (append_events h pt runId es (?request receipt)) (\<lambda>es1. bindA (callA (pt_stop pt)) (?finish es1)) w1 = (Inr s, w')"
    unfolding bindA_Inr[of "callA (f reason)"] callA_Inr by blast
  from run1 obtain es1 w2 where first: "append_events h pt runId es (?request receipt) w1 = (Inr es1, w2)"
    and run2: "bindA (callA (pt_stop pt)) (?finish es1) w2 = (Inr s, w')"
    unfolding bindA_Inr[of "append_events h pt runId es (?request receipt)"] by blast
  from run2 obtain x w3 where x: "pt_stop pt w2 = (Inr x, w3)" and run3: "?finish es1 x w3 = (Inr s, w')"
    unfolding bindA_Inr[of "callA (pt_stop pt)"] callA_Inr by blast
  obtain process dead where pair: "x = (process, dead)" by (cases x)
  note st = x[unfolded pair]
  from run3 obtain es2 w4 where
    second: "(if dead then append_events h pt runId es1 [Run_ev (Operation_interrupted process)] else returnA es1) w3 = (Inr es2, w4)"
    and fold: "foldA h es2 w4 = (Inr s :: 'e coordinator_error + _, w')"
    unfolding pair prod.case bindA_Inr by blast
  from folded[OF fold] have s: "foldRun h es2 = Inr s" "w' = w4" by simp_all
  note second = second[folded s(2)]
  from invalidate[OF assms(1) f call] have w1: "ok w1" "grows journal w w1" by blast+
  from append_committed[OF w1(1) grows_subset[OF w1(2) sub] _ first]
  have w2: "ok w2" "committed_behind es [Run_ev (Operation_cancel_requested receipt reason)] es1 w2" by simp_all
  then obtain before mine where mine: "es1 = before @ mine" "prefix es before"
    "arr_of (parse_payload h) [Run_ev (Operation_cancel_requested receipt reason)] = Some (map ev_payload mine)"
    and sub1: "set es1 \<subseteq> set (journal w2)"
    unfolding committed_behind_def by blast
  from stop[OF w2(1) st] have w3: "ok w3" "grows journal w2 w3" by blast+
  note sub3 = grows_subset[OF w3(2) sub1]
  obtain rest where rest: "prefix (before @ mine @ rest) (journal w')" "foldRun h (before @ mine @ rest) = Inr s"
    and tail: "if dead then \<exists>others own. rest = others @ own \<and>
        arr_of (parse_payload h) [Run_ev (Operation_interrupted process)] = Some (map ev_payload own) else rest = []"
  proof (cases dead)
    case True
    with second have "append_events h pt runId es1 [Run_ev (Operation_interrupted process)] w3 = (Inr es2, w')" by simp
    from append_committed[OF w3(1) sub3 _ this]
    have "ok w'" "committed_behind es1 [Run_ev (Operation_interrupted process)] es2 w'" by simp_all
    from fold_committed[OF this s(1)] obtain before2 own where own: "prefix es1 before2" "prefix (before2 @ own) (journal w')"
      "arr_of (parse_payload h) [Run_ev (Operation_interrupted process)] = Some (map ev_payload own)"
      "foldRun h (before2 @ own) = Inr s" by blast
    from own(1) mine(1) obtain others where "before2 = before @ mine @ others" by (auto elim: prefixE)
    with own(2,4) have "prefix (before @ mine @ others @ own) (journal w')" "foldRun h (before @ mine @ others @ own) = Inr s"
      by simp_all
    moreover from own(3) have "\<exists>others' own'. others @ own = others' @ own' \<and>
        arr_of (parse_payload h) [Run_ev (Operation_interrupted process)] = Some (map ev_payload own')" by blast
    ultimately show thesis using that[of "others @ own"] by (simp only: True if_True)
  next
    case False
    with second have "es2 = es1" "w' = w3" by (simp_all add: returnA_def)
    with folded_prefix[OF w3(1) sub3] s mine(1) have "prefix (before @ mine @ []) (journal w')" "foldRun h (before @ mine @ []) = Inr s"
      by simp_all
    with that[of "[]"] show thesis by (simp only: False if_False)
  qed
  show ?thesis
  proof (intro exI conjI)
    show "prefix es before" "prefix (before @ mine @ rest) (journal w')" "foldRun h (before @ mine @ rest) = Inr s"
      by (fact mine(2), fact rest(1), fact rest(2))
    show "command_committed h pt s0 (Cancel_run reason) before (mine @ rest)"
      unfolding command_committed_def run_command.case using legal f call st mine(3) tail by blast
  qed
qed

text \<open>A command that succeeds is in the journal, and the state returned is the fold up to it.\<close>

lemma execute_commits:
  assumes "ok w" and run: "execute h pt runId c w = (Inr s, w')"
  shows "\<exists>loaded s0 before mine. prefix (journal w) loaded \<and> foldRun h loaded = Inr s0 \<and> prefix loaded before \<and>
    prefix (before @ mine) (journal w') \<and> foldRun h (before @ mine) = Inr s \<and> command_committed h pt s0 c before mine"
proof -
  from run obtain es w1 where ld: "callA (pt_load pt) w = (Inr es, w1)" and run1: "bindA (foldA h es) (\<lambda>s0.
      case c of Publish_delivery a \<Rightarrow> publish_delivery h pt runId es s0 a | Cancel_run reason \<Rightarrow> cancel_run h pt runId es s0 reason
      | _ \<Rightarrow> (case eventsForCommand s0 c of None \<Rightarrow> throwA Draft_rejected
          | Some drafts \<Rightarrow> bindA (append_events h pt runId es drafts) (foldA h))) w1 = (Inr s, w')"
    unfolding execute_def bindA_Inr[of "callA (pt_load pt)"] by blast
  from load_prefix[OF assms(1) ld] have w1: "ok w1" "prefix (journal w) es" "prefix es (journal w1)" by (auto simp: grows_def)
  from run1 obtain s0 where s0: "foldRun h es = Inr s0" and run2:
    "(case c of Publish_delivery a \<Rightarrow> publish_delivery h pt runId es s0 a | Cancel_run reason \<Rightarrow> cancel_run h pt runId es s0 reason
      | _ \<Rightarrow> (case eventsForCommand s0 c of None \<Rightarrow> throwA Draft_rejected
          | Some drafts \<Rightarrow> bindA (append_events h pt runId es drafts) (foldA h))) w1 = (Inr s, w')"
    by (cases "foldRun h es") (simp_all add: bindA_def foldA_def liftA_def)
  have "\<exists>before mine. prefix es before \<and> prefix (before @ mine) (journal w') \<and> foldRun h (before @ mine) = Inr s \<and>
    command_committed h pt s0 c before mine"
  proof -
    consider (publish) a where "c = Publish_delivery a" | (cancel) reason where "c = Cancel_run reason"
      | (plain) "\<And>a. c \<noteq> Publish_delivery a" "\<And>reason. c \<noteq> Cancel_run reason" by blast
    then show ?thesis
    proof cases
      case publish
      with run2 publish_commits[OF w1(1,3) s0] show ?thesis by simp
    next
      case cancel
      with run2 cancel_commits[OF w1(1,3)] show ?thesis by simp
    next
      case plain
      with run2 have "(case eventsForCommand s0 c of None \<Rightarrow> throwA Draft_rejected
          | Some drafts \<Rightarrow> bindA (append_events h pt runId es drafts) (foldA h)) w1 = (Inr s, w')" by (cases c) (simp_all, (use plain in blast)+)
      then obtain drafts where d: "eventsForCommand s0 c = Some drafts" "bindA (append_events h pt runId es drafts) (foldA h) w1 = (Inr s, w')"
        by (cases "eventsForCommand s0 c") (simp_all add: throwA_def)
      from append_then_fold[OF w1(1,3) eventsForCommand_ne[OF d(1)] d(2)] d(1) plain show ?thesis
        unfolding command_committed_def by (cases c) (simp_all, (use plain in blast)+)
    qed
  qed
  with w1(2) s0 show ?thesis by blast
qed

section \<open>Recorded facts\<close>

text \<open>A fact is in a list of events as its own normal form.\<close>

definition fact_in :: "run_event_input \<Rightarrow> run_event list \<Rightarrow> bool" where
  "fact_in i es = (\<exists>e \<in> set es. parse_run_event h (place_input (ev_runId e) (ev_sequence e) i) = Some e)"

lemma fact_in_subset: "set es \<subseteq> set es' \<Longrightarrow> fact_in i es \<Longrightarrow> fact_in i es'"
  by (auto simp: fact_in_def)

lemma parsed_place:
  "parse_run_event h e = Some e \<Longrightarrow> entityId (ev_runId e) = Some (ev_runId e) \<and> 0 < ev_sequence e"
  by (cases e) (auto simp: parse_run_event_def parse_simps positive_def refine_def split: if_splits)

lemma same_facts_in:
  assumes "(same_facts h (zip es is) :: 'x coordinator_error + unit) = Inr ()" and "length es = length is" and "\<forall>e \<in> set es. parse_run_event h e = Some e"
  shows "\<forall>i \<in> set is. fact_in i es"
  using assms
proof (induction es arbitrary: "is")
  case (Cons e es)
  then obtain i is1 where i: "is = i # is1" by (cases "is") auto
  with Cons.prems obtain n where n: "parse_run_event h (place_input (ev_runId e) (ev_sequence e) i) = Some n"
      "input_of e = input_of n" "(same_facts h (zip es is1) :: 'x coordinator_error + unit) = Inr ()"
    by (auto simp: same_fact_def)
  from Cons.prems(3) have "parse_run_event h e = Some e" by simp
  from parsed_place[OF this] parse_placed[OF _ _ n(1)] have "ev_runId n = ev_runId e" "ev_sequence n = ev_sequence e"
    by auto
  with n(2) have "n = e" by (metis place_input_of)
  with n i Cons.IH[OF n(3)] Cons.prems show ?case by (auto simp: fact_in_def)
qed simp

lemma append_done_facts:
  assumes "append_done h runId n inputs es old new" and "well_placed h runId 1 new"
  shows "\<forall>i \<in> set inputs. fact_in i new"
proof
  fix i assume i: "i \<in> set inputs"
  from assms(1) consider before where "n = int (length before)" "prefix (before @ es) new"
      "arr_of (parse_run_event h) (place_inputs runId (n + 1) inputs) = Some es"
    | "map input_of es = inputs" "set es \<subseteq> set new"
    by (auto simp: append_done_def)
  then show "fact_in i new"
  proof cases
    case 1
    from place_inputs_events[OF run_id _ 1(3) i] 1(1) have "fact_in i es" by (auto simp: fact_in_def)
    moreover have "set es \<subseteq> set new" using 1(2) by (auto simp: prefix_def)
    ultimately show ?thesis by (rule fact_in_subset[rotated])
  next
    case 2
    with i obtain e where "e \<in> set es" "i = input_of e" by auto
    with 2(2) well_placed_member[OF assms(2)] show ?thesis unfolding fact_in_def by (metis place_input_of subsetD)
  qed
qed

text \<open>What a successful attempt to record a batch has established.\<close>

definition batch_recorded :: "run_event_input list \<Rightarrow> run_projection \<Rightarrow> 'w \<Rightarrow> bool" where
  "batch_recorded inputs s w = (\<exists>es. prefix es (journal w) \<and> foldRun h es = Inr s \<and> (\<forall>i \<in> set inputs. fact_in i es))"

text \<open>An action that keeps the world in order and, when it returns, has established \<open>P\<close>.\<close>

definition ensures :: "(run_projection \<Rightarrow> 'w \<Rightarrow> bool) \<Rightarrow> ('w, 'e, run_projection) act \<Rightarrow> 'w \<Rightarrow> bool" where
  "ensures P m w \<longleftrightarrow> keeps m w \<and> (\<forall>s w'. ok w \<longrightarrow> m w = (Inr s, w') \<longrightarrow> P s w')"

lemma ensures_keeps: "ensures P m w \<Longrightarrow> keeps m w"
  by (simp add: ensures_def)

lemma ensures_throw [simp]: "ensures P (throwA e) w"
  by (simp add: ensures_def) (simp add: throwA_def)

lemma ensures_bind:
  assumes "keeps m w" and "\<And>x w1. ok w \<Longrightarrow> m w = (Inr x, w1) \<Longrightarrow> ok w1 \<Longrightarrow> grows journal w w1 \<Longrightarrow> ensures P (f x) w1"
  shows "ensures P (bindA m f) w"
proof -
  have "keeps (bindA m f) w" using keeps_bind[OF assms(1)] assms(2) ensures_keeps by blast
  moreover have "P s w'" if run: "ok w" "bindA m f w = (Inr s, w')" for s w'
  proof -
    obtain q w1 where m: "m w = (q, w1)" by (cases "m w") auto
    with run(2) obtain x where "q = Inr x" "f x w1 = (Inr s, w')" by (cases q) (auto simp: bindA_def)
    with assms(2)[OF run(1)] m keeps_D[OF assms(1) run(1) m] show ?thesis by (auto simp: ensures_def)
  qed
  ultimately show ?thesis by (simp add: ensures_def)
qed

lemma ensures_settle:
  assumes es: "ok w" "prefix es (journal w)" and none: "ensures P none w"
    and P: "\<And>s. batch_recorded inputs s w \<Longrightarrow> P s w"
  shows "ensures P (settle_batch h es inputs e none) w"
proof -
  let ?found = "map (\<lambda>i. eventsById es (ev_eventId i)) inputs"
  consider (all) "list_all (\<lambda>d. d \<noteq> None) ?found" | (some) "\<not> list_all (\<lambda>d. d \<noteq> None) ?found" "list_ex (\<lambda>d. d \<noteq> None) ?found"
    | (none) "\<not> list_all (\<lambda>d. d \<noteq> None) ?found" "\<not> list_ex (\<lambda>d. d \<noteq> None) ?found" by blast
  then show ?thesis
  proof cases
    case all
    have act: "settle_batch h es inputs e none =
        bindA (liftA (same_facts h (zip (map the ?found) inputs))) (\<lambda>_. foldA h es)"
      using all by (simp only: settle_batch_def Let_def if_True)
    have "P s w'" if "settle_batch h es inputs e none w = (Inr s, w')" for s w'
    proof -
      from that[unfolded act] have same: "(same_facts h (zip (map the ?found) inputs) :: 'e coordinator_error + unit) = Inr ()"
        and s: "foldRun h es = Inr s" "w' = w" by (auto dest!: bind_lift folded)
      have sub: "set (map the ?found) \<subseteq> set es"
        using all by (fastforce simp: list_all_iff dest: eventsById_Some)
      with journal_fixed[OF es] have "\<forall>e \<in> set (map the ?found). parse_run_event h e = Some e" by blast
      from same_facts_in[OF same _ this] have "\<forall>i \<in> set inputs. fact_in i (map the ?found)" by simp
      with fact_in_subset[OF sub] have "\<forall>i \<in> set inputs. fact_in i es" by blast
      with es(2) s P show ?thesis by (auto simp: batch_recorded_def)
    qed
    moreover have "keeps (settle_batch h es inputs e none) w"
      unfolding act by (rule keeps_bind) simp_all
    ultimately show ?thesis by (simp add: ensures_def)
  next
    case some
    have act: "settle_batch h es inputs e none = throwA e"
      using some by (simp only: settle_batch_def Let_def if_True if_False)
    show ?thesis unfolding act by simp
  next
    case none
    have act: "settle_batch h es inputs e none = none" for none
      using none by (simp only: settle_batch_def Let_def if_False)
    show ?thesis unfolding act by (rule assms(3))
  qed
qed

lemma ensures_recover:
  assumes "\<And>v. ensures P again v" and "\<And>s v. batch_recorded inputs s v \<Longrightarrow> P s v"
  shows "ensures P (recover_batch h pt n inputs e again) w"
  unfolding recover_batch_def
proof (rule ensures_bind[OF keeps_call[OF keeps_load]], goal_cases)
  case (1 es w1)
  from load_prefix[OF 1(1,2)] have es: "ok w1" "prefix es (journal w1)" by auto
  show ?case by (rule ensures_settle[OF es]) (use assms in simp_all)
qed

lemma keeps_load_run: "keeps (load_run h pt) w"
  unfolding load_run_def by (rule keeps_bind[OF keeps_call[OF keeps_load]]) simp

lemma load_run_Inr:
  assumes "ok w" and "load_run h pt w = (Inr s, w')"
  shows "foldRun h (journal w') = Inr s \<and> grows journal w w' \<and> ok w'"
proof -
  obtain q w1 where ld: "callA (pt_load pt) w = (q, w1)" by (cases "callA (pt_load pt) w") auto
  with assms(2) obtain es where q: "q = Inr es" "foldRun h es = Inr s" "w' = w1"
    by (cases q) (auto simp: load_run_def bindA_def dest!: folded)
  from load_prefix[OF assms(1) ld[unfolded q(1)]] q show ?thesis by simp
qed

lemma ensures_attempt:
  assumes again: "\<And>v. ensures P again v" and "inputs \<noteq> []" and P: "\<And>s v. batch_recorded inputs s v \<Longrightarrow> P s v"
  shows "ensures P (attempt_batch h pt n inputs again) w"
proof -
  let ?first = "bindA (callA (pt_append pt n inputs)) (\<lambda>_. load_run h pt)"
  have app: "keeps (callA (pt_append pt n inputs)) w"
    by (rule keeps_call, rule keepsI) (rule append_D)
  then have first: "keeps ?first w" by (rule keeps_bind) (rule keeps_load_run)
  have sent: "batch_recorded inputs s w1" if run: "ok w" "?first w = (Inr s, w1)" for s w1
  proof -
    obtain q v where a: "pt_append pt n inputs w = (q, v)" by (cases "pt_append pt n inputs w") auto
    with run(2) obtain es where q: "q = Inr es" "load_run h pt v = (Inr s, w1)"
      by (cases q) (auto simp: bindA_def callA_def)
    from append[OF run(1) a assms(2)] q(1) have v: "ok v" "append_done h runId n inputs es (journal w) (journal v)" by auto
    from append_done_facts[OF v(2) placed[OF v(1)]] have facts: "\<forall>i \<in> set inputs. fact_in i (journal v)" .
    from load_run_Inr[OF v(1) q(2)] have w1: "foldRun h (journal w1) = Inr s" "set (journal v) \<subseteq> set (journal w1)"
      by (auto simp: grows_def dest: set_mono_prefix)
    have "\<forall>i \<in> set inputs. fact_in i (journal w1)" using facts fact_in_subset[OF w1(2)] by blast
    with w1(1) show ?thesis unfolding batch_recorded_def by blast
  qed
  obtain q w1 where q: "?first w = (q, w1)" by (cases "?first w") auto
  show ?thesis
  proof (cases q)
    case (Inl e)
    have "attempt_batch h pt n inputs again w = recover_batch h pt n inputs e again w1"
      using q Inl by (simp add: attempt_batch_def)
    moreover have "ensures P (recover_batch h pt n inputs e again) w1" by (rule ensures_recover[OF again P])
    ultimately show ?thesis
      using keeps_D[OF first _ q] unfolding ensures_def keeps_def by (metis grows_trans)
  next
    case (Inr s)
    have "attempt_batch h pt n inputs again w = (Inr s, w1)"
      using q Inr by (simp add: attempt_batch_def)
    with keeps_D[OF first _ q] sent q Inr P show ?thesis by (auto simp: ensures_def keeps_def)
  qed
qed

lemma record_loop_records: "inputs \<noteq> [] \<Longrightarrow> ensures (batch_recorded inputs) (record_loop h pt k inputs) w"
proof (induction k arbitrary: w)
  case (Suc k)
  show ?case
    unfolding record_loop.simps
  proof (rule ensures_bind[OF keeps_call[OF keeps_load]], goal_cases)
    case (1 es w1)
    from load_prefix[OF 1(1,2)] have es: "ok w1" "prefix es (journal w1)" by auto
    show ?case by (rule ensures_settle[OF es ensures_attempt]) (use Suc in auto)
  qed
qed simp

lemma record_facts_records: "inputs \<noteq> [] \<Longrightarrow> ensures (batch_recorded inputs) (record_facts h pt inputs) w"
  by (simp add: record_facts_def record_loop_records)

lemma record_facts_committed:
  assumes "ok w" and "inputs \<noteq> []" and "record_facts h pt inputs w = (Inr s, w')"
  shows "prefix (journal w) (journal w') \<and> (\<exists>es. prefix es (journal w') \<and> foldRun h es = Inr s \<and>
    (\<forall>i \<in> set inputs. \<exists>e \<in> set es. parse_run_event h (place_input (ev_runId e) (ev_sequence e) i) = Some e))"
  using record_facts_records[OF assms(2), of w] assms(1,3)
  unfolding ensures_def keeps_def batch_recorded_def fact_in_def grows_def by blast

text \<open>A derived batch comes from the fold of a history the journal really had.\<close>

definition derived_recorded :: "(run_projection \<Rightarrow> ('w, 'e, run_event_input list) act) \<Rightarrow> run_projection \<Rightarrow> 'w \<Rightarrow> bool" where
  "derived_recorded derive s w = (\<exists>es s0 v v' inputs. prefix es (journal w) \<and> foldRun h es = Inr s0 \<and>
     derive s0 v = (Inr inputs, v') \<and> (if inputs = [] then s = s0 else batch_recorded inputs s w))"

lemma batch_recorded_grows: "batch_recorded inputs s v \<Longrightarrow> grows journal v w \<Longrightarrow> batch_recorded inputs s w"
  unfolding batch_recorded_def using prefix_grows by blast

lemma ensures_mono: "ensures Q m w \<Longrightarrow> (\<And>s v. Q s v \<Longrightarrow> P s v) \<Longrightarrow> ensures P m w"
  by (auto simp: ensures_def)

lemma ensures_grown:
  assumes "ok w" and "ensures (\<lambda>s v. grows journal w v \<longrightarrow> P s v) m w"
  shows "ensures P m w"
  using assms keeps_D unfolding ensures_def by metis

lemma derive_loop_records:
  assumes "\<And>s v. keeps (derive s) v"
  shows "ensures (derived_recorded derive) (derive_loop h pt k derive) w"
proof (induction k arbitrary: w)
  case (Suc k)
  show ?case
    unfolding derive_loop.simps
  proof (rule ensures_bind[OF keeps_call[OF keeps_load]], goal_cases)
    case (1 es w1)
    from load_prefix[OF 1(1,2)] have es: "ok w1" "es = journal w1" by auto
    show ?case
    proof (rule ensures_bind, simp, rule ensures_bind[OF assms], goal_cases)
      case (1 s w2 inputs w3)
      from folded[OF 1(2)] es have s: "foldRun h es = Inr s" "es = journal w2" "w2 = w1" by auto
      note w3 = 1(7,8)
      have D: "derived_recorded derive t v"
        if "grows journal w3 v" "if inputs = [] then t = s else batch_recorded inputs t v" for t v
      proof -
        have "prefix es (journal v)"
          using s(2) w3(2) that(1) by (auto simp: grows_def intro: prefix_order.trans)
        with s(1) 1(6) that(2) show ?thesis unfolding derived_recorded_def by blast
      qed
      show ?case
      proof (cases "inputs = []")
        case True
        with D[of w3 s] show ?thesis by (simp add: ensures_def) (simp add: returnA_def)
      next
        case False
        let ?P = "\<lambda>t v. grows journal w3 v \<longrightarrow> derived_recorded derive t v"
        have again: "ensures ?P (derive_loop h pt k derive) v" for v
          using Suc by (rule ensures_mono) simp
        have rec: "batch_recorded inputs t v \<Longrightarrow> ?P t v" for t v using D False by auto
        have "ensures ?P (settle_batch h es inputs Batch_mixed
            (attempt_batch h pt (int (length es)) inputs (derive_loop h pt k derive))) w3"
        proof (rule ensures_settle[OF w3(1)])
          show "prefix es (journal w3)" using s(2) w3(2) by (simp add: grows_def)
        qed (use again rec False in \<open>auto intro!: ensures_attempt\<close>)
        with False ensures_grown[OF w3(1)] show ?thesis by auto
      qed
    qed
  qed
qed simp

end

context journal_port
begin

lemma recordDerived_committed:
  assumes "ok w" and "\<And>s v. keeps (derive s) v" and "recordDerived h pt derive w = (Inr s, w')"
  shows "\<exists>es s0 v v' inputs. prefix es (journal w') \<and> foldRun h es = Inr s0 \<and> derive s0 v = (Inr inputs, v') \<and>
    (if inputs = [] then s = s0 else \<exists>fs. prefix fs (journal w') \<and> foldRun h fs = Inr s \<and>
      (\<forall>i \<in> set inputs. \<exists>e \<in> set fs. parse_run_event h (place_input (ev_runId e) (ev_sequence e) i) = Some e))"
  using derive_loop_records[of derive 8 w, OF assms(2)] assms(1,3)
  unfolding recordDerived_def ensures_def derived_recorded_def batch_recorded_def fact_in_def by blast

lemma record_facts_ok:
  assumes "ok w" and "record_facts h pt inputs w = (q, w')"
  shows "ok w'"
proof (cases "inputs = []")
  case True
  with assms keeps_D[OF keeps_load_run] show ?thesis by (simp add: record_facts_def)
next
  case False
  from ensures_keeps[OF record_facts_records[OF this]] assms show ?thesis by (blast dest: keeps_D)
qed

lemma execute_ok: "ok w \<Longrightarrow> execute h pt runId c w = (q, w') \<Longrightarrow> ok w' \<and> prefix (journal w) (journal w')"
  using keeps_D[OF keeps_execute] unfolding grows_def .

end

section \<open>The execution cursor\<close>

text \<open>The driver may dispatch a node only for a wave the journal holds.\<close>

locale journal_driver = journal_port h runId pt journal ok
  for h :: host and runId :: string and pt :: "('w, 'e) ports" and journal :: "'w \<Rightarrow> run_event list" and ok :: "'w \<Rightarrow> bool" +
  fixes dv :: "('w, 'e) driver"
  assumes observe: "ok w \<Longrightarrow> dv_observe dv s w = (r, w') \<Longrightarrow> ok w' \<and> grows journal w w'"
    and dispatch: "ok w \<Longrightarrow> wave_committed h (journal w) waveId n \<Longrightarrow> dv_dispatch dv waveId n w = (r2, w') \<Longrightarrow>
      ok w' \<and> grows journal w w'"
begin

lemma keeps_dispatch_all:
  "(\<And>n. n \<in> set ns \<Longrightarrow> wave_committed h (journal w) waveId n) \<Longrightarrow> keeps (dispatch_all dv waveId ns) w"
proof (induction ns arbitrary: w)
  case (Cons n ns)
  obtain q w1 where q: "dv_dispatch dv waveId n w = (q, w1)" by (cases "dv_dispatch dv waveId n w") auto
  show ?case
  proof (rule keepsI)
    fix r w' assume w: "ok w" and run: "dispatch_all dv waveId (n # ns) w = (r, w')"
    from dispatch[OF w _ q] Cons.prems have w1: "ok w1" "grows journal w w1" by auto
    have "wave_committed h (journal w1) waveId m" if "m \<in> set ns" for m
      using Cons.prems[of m] that w1(2) by (auto simp: grows_def intro: wave_committed_prefix)
    then have "keeps (dispatch_all dv waveId ns) w1" by (rule Cons.IH)
    moreover obtain q2 w2 where "dispatch_all dv waveId ns w1 = (q2, w2)" by (cases "dispatch_all dv waveId ns w1") auto
    ultimately show "ok w' \<and> grows journal w w'"
      using run q w1 by (cases q) (auto dest: keeps_D intro: grows_trans)
  qed
qed (auto intro!: keepsI)

lemma keeps_advance: "keeps (advance h pt dv runId m) w"
proof (cases "m < 1")
  case False
  have obs: "keeps (callA (dv_observe dv s)) v" for s v
    by (rule keeps_call, rule keepsI) (rule observe)
  have select: "keeps (bindA (execute h pt runId (Select_wave (plain_wave i ns m))) (\<lambda>s2.
               bindA (dispatch_all dv i ns) (\<lambda>_. returnA s2))) v" for i ns v
  proof (rule keeps_bind[OF keeps_execute], goal_cases)
    case (1 s w1)
    from execute_commits[OF 1(1) 1(2)] obtain before mine where
      mine: "prefix (before @ mine) (journal w1)"
        "arr_of (parse_payload h) [Graph_ev (Wave_selected (plain_wave i ns m))] = Some (map ev_payload mine)"
      by (auto simp: command_committed_def)
    from mine(2) obtain e where "mine = [e]" "parse_payload h (Graph_ev (Wave_selected (plain_wave i ns m))) = Some (ev_payload e)"
      by (cases mine; cases "tl mine") (auto simp: Option.bind_eq_Some_conv)
    with mine(1) have "wave_committed h (journal w1) i n" if "n \<in> set ns" for n
      using that unfolding wave_committed_def
      by (intro bexI[of _ e] exI[of _ "plain_wave i ns m"]) (auto simp: plain_wave_def prefix_def)
    then show ?case by (intro keeps_bind keeps_dispatch_all) simp_all
  qed
  show ?thesis
    unfolding advance_def using False
    by (auto simp: Let_def intro!: keeps_bind[OF keeps_load_run] keeps_bind[OF obs] keeps_bind[OF keeps_execute] select)
qed (simp add: advance_def)

lemma advance_ok: "ok w \<Longrightarrow> advance h pt dv runId m w = (q, w') \<Longrightarrow> ok w' \<and> prefix (journal w) (journal w')"
  using keeps_D[OF keeps_advance] unfolding grows_def .

lemma keeps_resolve_and_advance: "keeps (resolveDecisionAndAdvance h pt dv runId d v a m) w"
  unfolding resolveDecisionAndAdvance_def by (rule keeps_bind[OF keeps_execute keeps_advance])

end

end
