(* ===== verification/Coordinator_Store.thy ===== *)
theory Coordinator_Store
  imports Coordinator_Laws Store_Properties
begin

text \<open>
  The coordinator on the durable store: its journal port is the store bound to an authority. The world
  holds the store of the run, the operations other processes will perform between the coordinator's calls,
  which of its own appends will commit and then fail to report success, the clock, and what has been
  dispatched and published. The interface of the coordinator is discharged for this world, and the
  properties of commands follow.

  Sources: packages/run-store/src/jsonl-event-store.ts (\<open>bind\<close>), packages/run-coordinator/src/coordinator.ts.
\<close>

section \<open>The world\<close>

datatype store_op =
    Op_claim string int
  | Op_advance authority
  | Op_append int authority "run_event_input list"
  | Op_tear log_line
  | Op_trim

fun run_op :: "host \<Rightarrow> sha \<Rightarrow> string \<Rightarrow> store_op \<Rightarrow> run_storage \<Rightarrow> run_storage" where
  "run_op h sha r (Op_claim operation m) st = (case claimAuthority operation m st of Inl _ \<Rightarrow> st | Inr (_, st') \<Rightarrow> st')"
| "run_op h sha r (Op_advance a) st = (case advanceFence r a st of Inl _ \<Rightarrow> st | Inr st' \<Rightarrow> st')"
| "run_op h sha r (Op_append n a is) st = (case appendFenced h sha r n a is st of Inl _ \<Rightarrow> st | Inr (_, st') \<Rightarrow> st')"
| "run_op h sha r (Op_tear l) st = tear l st"
| "run_op h sha r Op_trim st = trim_tail st"

datatype world_error = Store_failed store_error | Lease_lost | Adapter_failed string

record store_world =
  sw_storage :: run_storage
  sw_others :: "store_op list list"
  sw_lost :: "bool list"
  sw_time :: nat
  sw_dispatched :: "(string \<times> string) list"
  sw_published :: "delivery_approval list"

text \<open>What the adapters of the outside answer; they cannot touch the store.\<close>

record adapters =
  ad_clock :: "nat \<Rightarrow> string"
  ad_eventId :: "event_payload \<Rightarrow> int \<Rightarrow> string"
  ad_publish :: "delivery_approval \<Rightarrow> store_world \<Rightarrow> string + delivery_receipt"
  ad_invalidate :: "(string \<Rightarrow> store_world \<Rightarrow> string + string) option"
  ad_stop :: "store_world \<Rightarrow> string + (string \<times> bool)"
  ad_message :: "world_error \<Rightarrow> string"
  ad_observe :: "run_projection \<Rightarrow> store_world \<Rightarrow> string + (string list \<times> string list)"
  ad_select :: "string list \<Rightarrow> int \<Rightarrow> run_projection \<Rightarrow> string list"
  ad_waveId :: "run_projection \<Rightarrow> string"
  ad_dispatch :: "string \<Rightarrow> string \<Rightarrow> store_world \<Rightarrow> string + unit"

definition others_act :: "host \<Rightarrow> sha \<Rightarrow> string \<Rightarrow> store_world \<Rightarrow> store_world" where
  "others_act h sha r w = (case sw_others w of [] \<Rightarrow> w
     | ops # rest \<Rightarrow> w\<lparr>sw_storage := fold (run_op h sha r) ops (sw_storage w), sw_others := rest\<rparr>)"

definition adapter :: "string + 'a \<Rightarrow> world_error + 'a" where
  "adapter = map_sum Adapter_failed id"

definition store_load :: "host \<Rightarrow> sha \<Rightarrow> string \<Rightarrow> store_world \<Rightarrow> (world_error + run_event list) \<times> store_world" where
  "store_load h sha r w = (let w1 = others_act h sha r w in
     (map_sum Store_failed id (load_events h sha r (sw_storage w1)), w1))"

definition store_append :: "host \<Rightarrow> sha \<Rightarrow> string \<Rightarrow> authority \<Rightarrow> int \<Rightarrow> run_event_input list \<Rightarrow> store_world \<Rightarrow>
    (world_error + run_event list) \<times> store_world" where
  "store_append h sha r a n inputs w = (let w1 = others_act h sha r w in
     case appendFenced h sha r n a inputs (sw_storage w1) of
       Inl e \<Rightarrow> (Inl (Store_failed e), w1)
     | Inr (es, st) \<Rightarrow>
         (case sw_lost w1 of
            True # lost \<Rightarrow> (Inl Lease_lost, w1\<lparr>sw_storage := st, sw_lost := lost\<rparr>)
          | False # lost \<Rightarrow> (Inr es, w1\<lparr>sw_storage := st, sw_lost := lost\<rparr>)
          | [] \<Rightarrow> (Inr es, w1\<lparr>sw_storage := st\<rparr>)))"

definition store_ports :: "host \<Rightarrow> sha \<Rightarrow> string \<Rightarrow> authority \<Rightarrow> adapters \<Rightarrow> (store_world, world_error) ports" where
  "store_ports h sha r a ad = \<lparr>
     pt_load = store_load h sha r,
     pt_append = store_append h sha r a,
     pt_clock = (\<lambda>w. (ad_clock ad (sw_time w), w\<lparr>sw_time := sw_time w + 1\<rparr>)),
     pt_eventId = ad_eventId ad,
     pt_publish = (\<lambda>x w. (adapter (ad_publish ad x w), w\<lparr>sw_published := x # sw_published w\<rparr>)),
     pt_invalidate = map_option (\<lambda>f reason w. (adapter (f reason w), w)) (ad_invalidate ad),
     pt_stop = (\<lambda>w. (adapter (ad_stop ad w), w)),
     pt_message = ad_message ad\<rparr>"

definition store_driver :: "adapters \<Rightarrow> (store_world, world_error) driver" where
  "store_driver ad = \<lparr>
     dv_observe = (\<lambda>s w. (adapter (ad_observe ad s w), w)),
     dv_select = ad_select ad,
     dv_waveId = ad_waveId ad,
     dv_dispatch = (\<lambda>i n w. (adapter (ad_dispatch ad i n w), w\<lparr>sw_dispatched := (i, n) # sw_dispatched w\<rparr>))\<rparr>"

section \<open>The interface holds\<close>

definition store_journal :: "host \<Rightarrow> sha \<Rightarrow> string \<Rightarrow> store_world \<Rightarrow> run_event list" where
  "store_journal h sha r w = is_events (inspect h sha r (sw_storage w))"

text \<open>
  A world in order: the store is readable and the run was never compacted; every dispatch has its wave in
  the journal and every publication its announcement.
\<close>

definition store_ok :: "host \<Rightarrow> sha \<Rightarrow> string \<Rightarrow> store_world \<Rightarrow> bool" where
  "store_ok h sha r w =
     (readable h sha r (sw_storage w) \<and> st_generation (sw_storage w) = Inr None \<and>
      (\<forall>(i, n) \<in> set (sw_dispatched w). wave_committed h (store_journal h sha r w) i n) \<and>
      (\<forall>x \<in> set (sw_published w). announced h (store_journal h sha r w) x))"

lemma run_op_step: "run_op h sha r op st = st \<or> store_step h sha r st (run_op h sha r op st)"
  by (cases op) (auto split: sum.splits prod.splits intro: store_step.intros)

lemma run_ops_steps: "(store_step h sha r)\<^sup>*\<^sup>* st (fold (run_op h sha r) ops st)"
proof (induction ops arbitrary: st)
  case (Cons op ops)
  with run_op_step[of h sha r op st] show ?case
    by simp (metis converse_rtranclp_into_rtranclp)
qed simp

lemma store_step_generation: "store_step h sha r st st' \<Longrightarrow> st_generation st' = st_generation st"
proof (induction rule: store_step.induct)
  case (written n a inputs st es st')
  from appendFenced_Inr[OF this] show ?case by (auto simp: append_locked_def Let_def split: if_splits)
qed (auto dest!: claimAuthority_Inr advanceFence_Inr simp: tear_def trim_tail_def)

lemma store_steps_generation: "(store_step h sha r)\<^sup>*\<^sup>* st st' \<Longrightarrow> st_generation st' = st_generation st"
  by (induction rule: rtranclp_induct) (auto dest: store_step_generation)

text \<open>Whatever the store does, a world in order stays in order and its journal grows.\<close>

lemma store_moves:
  assumes "store_ok h sha r w" and "entityId r = Some r" and "(store_step h sha r)\<^sup>*\<^sup>* (sw_storage w) (sw_storage w')"
    and "sw_dispatched w' = sw_dispatched w" "sw_published w' = sw_published w"
  shows "store_ok h sha r w' \<and> grows (store_journal h sha r) w w'"
proof -
  from assms(1) have rd: "readable h sha r (sw_storage w)" by (simp add: store_ok_def)
  from store_steps_grow[OF assms(3) rd assms(2)]
  have st: "readable h sha r (sw_storage w')" and pre: "prefix (store_journal h sha r w) (store_journal h sha r w')"
    by (auto simp: store_journal_def prefix_def)
  with assms store_steps_generation[OF assms(3)] show ?thesis
    using wave_committed_prefix[OF pre] announced_prefix[OF pre] by (fastforce simp: store_ok_def grows_def)
qed

lemma store_ok_same:
  "store_ok h sha r w \<Longrightarrow> sw_storage w' = sw_storage w \<Longrightarrow> sw_dispatched w' = sw_dispatched w \<Longrightarrow>
   sw_published w' = sw_published w \<Longrightarrow> store_ok h sha r w' \<and> grows (store_journal h sha r) w w'"
  by (simp add: store_ok_def store_journal_def grows_def)

lemma others_act_ok:
  assumes "store_ok h sha r w" and "entityId r = Some r"
  shows "store_ok h sha r (others_act h sha r w) \<and> grows (store_journal h sha r) w (others_act h sha r w)"
proof (cases "sw_others w")
  case Nil
  with assms show ?thesis by (simp add: others_act_def grows_def)
next
  case (Cons ops rest)
  show ?thesis
    by (rule store_moves[OF assms]) (simp_all add: others_act_def Cons run_ops_steps)
qed

lemma store_placed:
  assumes "store_ok h sha r w"
  shows "well_placed h r 1 (store_journal h sha r w)"
proof -
  from assms have ok: "is_status (inspect h sha r (sw_storage w)) \<noteq> Log_corrupt" "log_follows (sw_storage w)"
    and base: "base_of (sw_storage w) = []" by (auto simp: store_ok_def readable_def base_of_def)
  from inspect_sound[OF ok] base read_lines_placed show ?thesis by (fastforce simp: store_journal_def)
qed

lemma store_append_done:
  assumes "store_ok h sha r w" and "entityId r = Some r" and "inputs \<noteq> []"
    and "appendFenced h sha r n a inputs (sw_storage w) = Inr (es, st)"
  shows "append_done h r n inputs es (store_journal h sha r w) (store_journal h sha r (w\<lparr>sw_storage := st\<rparr>))"
proof -
  from assms(1) have rd: "readable h sha r (sw_storage w)" by (simp add: store_ok_def)
  then have "log_follows (sw_storage w)" by (simp add: readable_def)
  from appendFenced_Inr[OF assms(4)] assms(3) have app: "0 \<le> n" "append_locked h sha r n inputs (sw_storage w) = Inr (es, st)"
    by auto
  show ?thesis
  proof (rule append_locked_cases[OF assms(2) \<open>log_follows (sw_storage w)\<close> assms(3) app], goal_cases)
    case 1
    then show ?case by (simp add: append_done_def store_journal_def)
  next
    case 2
    with place_inputs_nonempty assms(3) have "es \<noteq> []" by blast
    with readable_appended[OF rd] 2 show ?case
      unfolding append_done_def store_journal_def
      by (intro disjI1 exI[of _ "is_events (inspect h sha r (sw_storage w))"]) auto
  qed
qed

text \<open>Run ids the schema leaves as they are.\<close>

definition run_id :: "string \<Rightarrow> string" where
  "run_id raw = (case entityId raw of None \<Rightarrow> ''run'' | Some r \<Rightarrow> r)"

lemma run_id_valid: "entityId (run_id raw) = Some (run_id raw)"
  by (auto simp: run_id_def sample_run_id entityId.idem split: option.splits)

lemma run_id_same: "entityId r = Some r \<Longrightarrow> run_id r = r"
  by (simp add: run_id_def)

interpretation store_port: journal_port h "run_id raw" "store_ports h sha (run_id raw) a ad"
    "store_journal h sha (run_id raw)" "store_ok h sha (run_id raw)" for h raw sha a ad
proof unfold_locales
  let ?r = "run_id raw"
  note id = run_id_valid[of raw]
  show "entityId ?r = Some ?r" by (rule id)
  show "well_placed h ?r 1 (store_journal h sha ?r w)" if "store_ok h sha ?r w" for w
    using that by (rule store_placed)
  show "store_ok h sha ?r w' \<and> grows (store_journal h sha ?r) w w' \<and> (\<forall>es. r = Inr es \<longrightarrow> es = store_journal h sha ?r w')"
    if "store_ok h sha ?r w" "pt_load (store_ports h sha ?r a ad) w = (r, w')" for w r w'
    using that others_act_ok[OF that(1) id]
    by (auto simp: store_ports_def store_load_def Let_def load_events_def store_journal_def throwIf_def split: if_splits)
  have app: "store_ok h sha ?r w' \<and> grows (store_journal h sha ?r) w w' \<and>
      (\<forall>es. q = Inr es \<longrightarrow> (if inputs = [] then es = [] else append_done h ?r n inputs es (store_journal h sha ?r w) (store_journal h sha ?r w')))"
    if w: "store_ok h sha ?r w" "store_append h sha ?r a n inputs w = (q, w')" for w n inputs q w'
  proof -
    let ?w1 = "others_act h sha ?r w"
    from others_act_ok[OF w(1) id] have w1: "store_ok h sha ?r ?w1" "grows (store_journal h sha ?r) w ?w1" by auto
    show ?thesis
    proof (cases "appendFenced h sha ?r n a inputs (sw_storage ?w1)")
      case (Inl e)
      with w(2) w1 show ?thesis by (auto simp: store_append_def Let_def)
    next
      case (Inr p)
      then obtain es st where es: "appendFenced h sha ?r n a inputs (sw_storage ?w1) = Inr (es, st)" by (cases p) auto
      have shape: "sw_storage w' = st" "sw_dispatched w' = sw_dispatched ?w1" "sw_published w' = sw_published ?w1"
          "\<forall>fs. q = Inr fs \<longrightarrow> fs = es"
        using w(2) es by (auto simp: store_append_def Let_def split: list.splits bool.splits)
      have "(store_step h sha ?r)\<^sup>*\<^sup>* (sw_storage ?w1) (sw_storage w')"
        unfolding shape(1) using store_step.written[OF es] by (rule r_into_rtranclp)
      from store_moves[OF w1(1) id this shape(2,3)]
      have moved: "store_ok h sha ?r w'" "grows (store_journal h sha ?r) ?w1 w'" "sw_storage w' = st" "q = Inr fs \<Longrightarrow> fs = es" for fs
        using shape by auto
      have "append_done h ?r n inputs es (store_journal h sha ?r ?w1) (store_journal h sha ?r w')" if "inputs \<noteq> []"
        using store_append_done[OF w1(1) id that es] moved(3) by (simp add: store_journal_def)
      then have "append_done h ?r n inputs es (store_journal h sha ?r w) (store_journal h sha ?r w')" if "inputs \<noteq> []"
        using that w1(2) unfolding append_done_def grows_def by (meson prefix_order.trans)
      moreover have "es = []" if "inputs = []" using appendFenced_Inr[OF es] that by auto
      ultimately show ?thesis
        using moved w1(2) by (auto simp: grows_def intro: prefix_order.trans)
    qed
  qed
  show "store_ok h sha ?r w' \<and> grows (store_journal h sha ?r) w w' \<and>
      (\<forall>es. q = Inr es \<longrightarrow> append_done h ?r n inputs es (store_journal h sha ?r w) (store_journal h sha ?r w'))"
    if "store_ok h sha ?r w" "pt_append (store_ports h sha ?r a ad) n inputs w = (q, w')" "inputs \<noteq> []" for w n inputs q w'
    using app[OF that(1), of n inputs q w'] that by (simp add: store_ports_def)
  show "store_ok h sha ?r w' \<and> grows (store_journal h sha ?r) w w' \<and> (\<forall>es. q = Inr es \<longrightarrow> es = [])"
    if "store_ok h sha ?r w" "pt_append (store_ports h sha ?r a ad) n [] w = (q, w')" for w n q w'
    using app[OF that(1), of n "[]" q w'] that by (simp add: store_ports_def)
  show "store_ok h sha ?r w' \<and> grows (store_journal h sha ?r) w w'"
    if "store_ok h sha ?r w" "pt_clock (store_ports h sha ?r a ad) w = (t, w')" for w t w'
    using store_ok_same[OF that(1), of w'] that(2) by (auto simp: store_ports_def)
  show "store_ok h sha ?r w' \<and> grows (store_journal h sha ?r) w w'"
    if "store_ok h sha ?r w" "announced h (store_journal h sha ?r w) x" "pt_publish (store_ports h sha ?r a ad) x w = (q, w')"
    for w x q w'
    using that by (auto simp: store_ports_def store_ok_def store_journal_def grows_def)
  show "store_ok h sha ?r w' \<and> grows (store_journal h sha ?r) w w'"
    if "store_ok h sha ?r w" "pt_invalidate (store_ports h sha ?r a ad) = Some f" "f reason w = (q, w')" for w f reason q w'
    using that by (auto simp: store_ports_def grows_def)
  show "store_ok h sha ?r w' \<and> grows (store_journal h sha ?r) w w'"
    if "store_ok h sha ?r w" "pt_stop (store_ports h sha ?r a ad) w = (q, w')" for w q w'
    using that by (auto simp: store_ports_def grows_def)
qed

interpretation store_cursor: journal_driver h "run_id raw" "store_ports h sha (run_id raw) a ad"
    "store_journal h sha (run_id raw)" "store_ok h sha (run_id raw)" "store_driver ad" for h raw sha a ad
proof unfold_locales
  show "store_ok h sha (run_id raw) w' \<and> grows (store_journal h sha (run_id raw)) w w'"
    if "store_ok h sha (run_id raw) w" "dv_observe (store_driver ad) s w = (q, w')" for w s q w'
    using that by (auto simp: store_driver_def grows_def)
  show "store_ok h sha (run_id raw) w' \<and> grows (store_journal h sha (run_id raw)) w w'"
    if "store_ok h sha (run_id raw) w" "wave_committed h (store_journal h sha (run_id raw) w) i n"
      "dv_dispatch (store_driver ad) i n w = (q, w')" for w i n q w'
    using that by (auto simp: store_driver_def store_ok_def store_journal_def grows_def)
qed

end
