(* ===== verification/Coordinator_Properties.thy ===== *)
theory Coordinator_Properties
  imports Coordinator_Store
begin

text \<open>
  What the coordinator guarantees on the durable store, whatever other processes do to the store between
  its calls and whichever of its appends fail to report their success.

  Source: packages/run-coordinator/src/coordinator.ts and execution.ts.
\<close>

section \<open>A concrete world\<close>

definition sample_adapters :: adapters where
  "sample_adapters = \<lparr>ad_clock = (\<lambda>_. ''t''), ad_eventId = (\<lambda>_ n. ''c'' @ [char_of (48 + nat n)]),
     ad_publish = (\<lambda>_ _. Inr sample_delivery), ad_invalidate = None, ad_stop = (\<lambda>_. Inr (''p'', True)),
     ad_message = (\<lambda>_. ''m''), ad_observe = (\<lambda>_ _. Inr ([''n''], [])), ad_select = (\<lambda>ns _ _. ns),
     ad_waveId = (\<lambda>_. ''w''), ad_dispatch = (\<lambda>_ _ _. Inr ())\<rparr>"

abbreviation sample_world :: store_world where
  "sample_world \<equiv> \<lparr>sw_storage = written_store, sw_others = [[], [Op_tear Unreadable]], sw_lost = [], sw_time = 0,
     sw_dispatched = [], sw_published = []\<rparr>"

abbreviation sample_ports :: "(store_world, world_error) ports" where
  "sample_ports \<equiv> store_ports sample_host sample_sha ''run'' sample_writer sample_adapters"

lemma sample_written_readable: "readable sample_host sample_sha ''run'' written_store"
  using store_step_grows[OF sample_step sample_readable sample_run_id] by blast

lemma sample_world_ok: "store_ok sample_host sample_sha ''run'' sample_world"
  using sample_written_readable
  by (simp add: store_ok_def written_store_def claimed_store_def fresh_store_def appended_log_def)

definition repeat_free_inputs :: "run_event_input list" where
  "repeat_free_inputs = [\<lparr>ev_eventId = ''x'', ev_occurredAt = ''t'', ev_payload = Run_ev (Run_renamed ''one'')\<rparr>,
     \<lparr>ev_eventId = ''y'', ev_occurredAt = ''t'', ev_payload = Run_ev (Run_renamed ''two'')\<rparr>]"

section \<open>Properties\<close>

text \<open>
  C23. A command that succeeds is committed. The journal then holds, behind everything it held before and behind
  a history that was loaded and folds, a piece that is the command's; the state returned is the fold of the
  journal up to and including that piece, and whatever others wrote stands before or behind it. For every
  command but two the piece is exactly the command's events, as computed from the loaded state. The two that
  call adapters commit in several appends: for a delivery the piece is the receipt that the publisher
  returned, and the delivery was announced before; for a cancellation it begins with the request, which
  carries the receipt of the invalidation, and reaches to the interruption exactly if the processes were
  reported dead, with what others wrote in between.
\<close>

theorem executed_command_is_committed:
  assumes "store_ok h sha r w" and "entityId r = Some r"
    and "execute h (store_ports h sha r a ad) r c w = (Inr s, w')"
  shows "\<exists>loaded s0 before mine after. store_journal h sha r w' = before @ mine @ after \<and>
    prefix (store_journal h sha r w) loaded \<and> prefix loaded before \<and> foldRun h loaded = Inr s0 \<and>
    command_committed h (store_ports h sha r a ad) s0 c before mine \<and> foldRun h (before @ mine) = Inr s"
proof -
  note r = run_id_same[OF assms(2)]
  from store_port.execute_commits[of h sha r w a ad c s w', unfolded r, OF assms(1,3)]
  obtain loaded s0 before mine where
    "prefix (store_journal h sha r w) loaded" "foldRun h loaded = Inr s0" "prefix loaded before"
    "prefix (before @ mine) (store_journal h sha r w')" "foldRun h (before @ mine) = Inr s"
    "command_committed h (store_ports h sha r a ad) s0 c before mine" by blast
  moreover from this obtain after where "store_journal h sha r w' = (before @ mine) @ after" by (auto elim: prefixE)
  ultimately show ?thesis by (metis append.assoc)
qed

definition sample_command :: run_command where
  "sample_command = Observe_readiness (plain_readiness [''n''] [])"

text \<open>The concrete cursor, call by call: a torn write of another process is repaired by the first append.\<close>

definition observed_event :: run_event where
  "observed_event = \<lparr>ev_eventId = ''c4'', ev_occurredAt = ''t'',
     ev_payload = Graph_ev (Readiness_observed (plain_readiness [''n''] [])), ev_runId = ''run'', ev_sequence = 4\<rparr>"

abbreviation observed_world :: store_world where
  "observed_world \<equiv> \<lparr>sw_storage = appended_log sample_sha [observed_event] written_store, sw_others = [], sw_lost = [],
     sw_time = 1, sw_dispatched = [], sw_published = []\<rparr>"

lemma sample_observe:
  "case execute sample_host sample_ports ''run'' sample_command sample_world of
     (Inr s, w) \<Rightarrow> p_lifecycle s = Running \<and> ro_readyNodeIds (p_readiness s) = [''n''] \<and> w = observed_world
   | (Inl _, w) \<Rightarrow> False"
  by code_simp

theorem executed_command_is_committed_witness:
  "\<exists>s w before mine after. execute sample_host sample_ports ''run'' sample_command sample_world = (Inr s, w) \<and>
     store_journal sample_host sample_sha ''run'' w = before @ mine @ after \<and> foldRun sample_host (before @ mine) = Inr s"
proof -
  obtain s w where run: "execute sample_host sample_ports ''run'' sample_command sample_world = (Inr s, w)"
    using sample_observe by (auto split: prod.splits sum.splits)
  from executed_command_is_committed[OF sample_world_ok sample_run_id run] run show ?thesis by blast
qed

text \<open>
  C24. A recorded batch of facts is in the journal: when recording returns, the journal has a prefix that
  folds to the state returned and holds, for every fact, the event that is its normal form. That is so after
  any number of lost races, and after appends that committed without being able to say so.
\<close>

theorem recorded_facts_are_persisted:
  assumes "store_ok h sha r w" and "entityId r = Some r" and "inputs \<noteq> []"
    and "record_facts h (store_ports h sha r a ad) inputs w = (Inr s, w')"
  shows "prefix (store_journal h sha r w) (store_journal h sha r w') \<and>
    (\<exists>es. prefix es (store_journal h sha r w') \<and> foldRun h es = Inr s \<and>
      (\<forall>i \<in> set inputs. \<exists>e \<in> set es. parse_run_event h (place_input (ev_runId e) (ev_sequence e) i) = Some e))"
proof -
  note r = run_id_same[OF assms(2)]
  show ?thesis
    by (rule store_port.record_facts_committed[of h sha r w inputs a ad s w', unfolded r, OF assms(1,3,4)])
qed

lemma sample_record:
  "case record_facts sample_host sample_ports repeat_free_inputs sample_world of (Inr s, w) \<Rightarrow> True | (Inl _, w) \<Rightarrow> False"
  by code_simp

theorem recorded_facts_are_persisted_witness:
  "\<exists>s w es. record_facts sample_host sample_ports repeat_free_inputs sample_world = (Inr s, w) \<and>
     prefix es (store_journal sample_host sample_sha ''run'' w) \<and> foldRun sample_host es = Inr s"
proof -
  obtain s w where run: "record_facts sample_host sample_ports repeat_free_inputs sample_world = (Inr s, w)"
    using sample_record by (auto split: prod.splits sum.splits)
  have "repeat_free_inputs \<noteq> []" by (simp add: repeat_free_inputs_def)
  from recorded_facts_are_persisted[OF sample_world_ok sample_run_id this run] run show ?thesis by blast
qed

text \<open>The calls a process makes on its coordinator.\<close>

datatype coordinator_call = Call_execute run_command | Call_advance int | Call_record "run_event_input list"

fun coordinator_calls :: "host \<Rightarrow> sha \<Rightarrow> string \<Rightarrow> authority \<Rightarrow> adapters \<Rightarrow> coordinator_call list \<Rightarrow>
    store_world \<Rightarrow> store_world" where
  "coordinator_calls h sha r a ad [] w = w"
| "coordinator_calls h sha r a ad (Call_execute c # calls) w =
     coordinator_calls h sha r a ad calls (snd (execute h (store_ports h sha r a ad) r c w))"
| "coordinator_calls h sha r a ad (Call_advance m # calls) w =
     coordinator_calls h sha r a ad calls (snd (advance h (store_ports h sha r a ad) (store_driver ad) r m w))"
| "coordinator_calls h sha r a ad (Call_record is # calls) w =
     coordinator_calls h sha r a ad calls (snd (record_facts h (store_ports h sha r a ad) is w))"

lemma record_facts_keep_order:
  assumes "store_ok h sha r w" and "entityId r = Some r" and "record_facts h (store_ports h sha r a ad) inputs w = (q, w')"
  shows "store_ok h sha r w'"
  using store_port.record_facts_ok[of h sha r w a ad inputs q w', unfolded run_id_same[OF assms(2)]] assms(1,3) by blast

lemma coordinator_calls_ok:
  assumes "entityId r = Some r"
  shows "store_ok h sha r w \<Longrightarrow> store_ok h sha r (coordinator_calls h sha r a ad calls w)"
proof (induction calls arbitrary: w)
  case (Cons call calls)
  note r = run_id_same[OF assms]
  show ?case
  proof (cases call)
    case (Call_execute c)
    with Cons store_port.execute_ok[of h sha r w a ad c, unfolded r] show ?thesis
      by (cases "execute h (store_ports h sha r a ad) r c w") auto
  next
    case (Call_advance m)
    with Cons store_cursor.advance_ok[of h sha r w a ad m, unfolded r] show ?thesis
      by (cases "advance h (store_ports h sha r a ad) (store_driver ad) r m w") auto
  next
    case (Call_record "is")
    with Cons record_facts_keep_order[OF _ assms] show ?thesis
      by (cases "record_facts h (store_ports h sha r a ad) is w") auto
  qed
qed simp

text \<open>
  C25. Work starts only after its record is durable. However a process calls its coordinator, and whatever
  others do to the store meanwhile, every node that was dispatched had its wave in the journal, and every
  approval that was published had its announcement there; both are still in the journal at the end.
\<close>

theorem work_follows_its_record:
  assumes "store_ok h sha r w" and "entityId r = Some r" and "w' = coordinator_calls h sha r a ad calls w"
  shows "(\<forall>(i, n) \<in> set (sw_dispatched w'). \<exists>e \<in> set (store_journal h sha r w'). \<exists>v. n \<in> set (ws_nodeIds v) \<and>
      ws_waveId v = i \<and> parse_payload h (Graph_ev (Wave_selected v)) = Some (ev_payload e)) \<and>
    (\<forall>x \<in> set (sw_published w'). \<exists>e \<in> set (store_journal h sha r w').
      parse_payload h (Delivery_ev (Delivery_started x)) = Some (ev_payload e))"
  using coordinator_calls_ok[OF assms(2,1), of a ad calls] assms(3)
  by (auto simp: store_ok_def wave_committed_def announced_def)

lemma sample_select:
  "case execute sample_host sample_ports ''run'' (Select_wave (plain_wave ''w'' [''n''] 2)) observed_world of
     (Inr s, w) \<Rightarrow> sw_dispatched w = [] | (Inl _, w) \<Rightarrow> False"
  by code_simp

lemma sample_load: "case load_run sample_host sample_ports (sample_world\<lparr>sw_others := [] # sw_others sample_world\<rparr>) of
     (Inr s, w) \<Rightarrow> w = sample_world | (Inl _, w) \<Rightarrow> False"
  by code_simp

lemma sample_driver:
  "dv_observe (store_driver sample_adapters) s w = (Inr ([''n''], []), w)"
  "dv_select (store_driver sample_adapters) ns m s = ns" "dv_waveId (store_driver sample_adapters) s = ''w''"
  "dv_dispatch (store_driver sample_adapters) i n w = (Inr (), w\<lparr>sw_dispatched := (i, n) # sw_dispatched w\<rparr>)"
  by (simp_all add: store_driver_def sample_adapters_def adapter_def)

lemma sample_dispatched:
  "sw_dispatched (coordinator_calls sample_host sample_sha ''run'' sample_writer sample_adapters [Call_advance 2]
     (sample_world\<lparr>sw_others := [] # sw_others sample_world\<rparr>)) = [(''w'', ''n'')]"
proof -
  let ?w = "sample_world\<lparr>sw_others := [] # sw_others sample_world\<rparr>"
  obtain s0 where s0: "load_run sample_host sample_ports ?w = (Inr s0, sample_world)"
    using sample_load by (auto split: prod.splits sum.splits)
  obtain s1 where s1: "execute sample_host sample_ports ''run'' sample_command sample_world = (Inr s1, observed_world)"
      "p_lifecycle s1 = Running" "ro_readyNodeIds (p_readiness s1) = [''n'']"
    using sample_observe by (auto split: prod.splits sum.splits)
  obtain s2 w2 where s2: "execute sample_host sample_ports ''run'' (Select_wave (plain_wave ''w'' [''n''] 2)) observed_world = (Inr s2, w2)"
      "sw_dispatched w2 = []"
    using sample_select by (auto split: prod.splits sum.splits)
  have uniq: "uniq_sort [''n''] = [''n'']" "uniq_sort [] = []" by code_simp+
  from s0 s1(1)[unfolded sample_command_def] s1(2,3) s2 show ?thesis
    by (simp add: advance_def bindA_def callA_def returnA_def Let_def sample_driver uniq)
qed

lemma cursor_world_ok: "store_ok sample_host sample_sha ''run'' (sample_world\<lparr>sw_others := [] # sw_others sample_world\<rparr>)"
  using sample_world_ok by (simp add: store_ok_def store_journal_def)

theorem work_follows_its_record_witness:
  "\<exists>w'. sw_dispatched w' = [(''w'', ''n'')] \<and> (\<exists>e \<in> set (store_journal sample_host sample_sha ''run'' w').
     \<exists>v. ws_waveId v = ''w'' \<and> parse_payload sample_host (Graph_ev (Wave_selected v)) = Some (ev_payload e))"
proof -
  define w' where w': "w' = coordinator_calls sample_host sample_sha ''run'' sample_writer sample_adapters [Call_advance 2]
     (sample_world\<lparr>sw_others := [] # sw_others sample_world\<rparr>)"
  from sample_dispatched have d: "sw_dispatched w' = [(''w'', ''n'')]" by (simp only: w')
  have "(''w'', ''n'') \<in> set (sw_dispatched w')" using d by simp
  from bspec[OF conjunct1[OF work_follows_its_record[OF cursor_world_ok sample_run_id w']] this]
  obtain e v where "e \<in> set (store_journal sample_host sample_sha ''run'' w')" "ws_waveId v = ''w''"
    "parse_payload sample_host (Graph_ev (Wave_selected v)) = Some (ev_payload e)"
    unfolding prod.case by blast
  with d show ?thesis by blast
qed

lemma uncontended_append:
  assumes ok: "store_ok h sha r w" and r: "entityId r = Some r" and quiet: "sw_others w = []" "sw_lost w = []"
    and auth: "assertAuthority r a (sw_storage w) = Inr ()" and inputs: "inputs \<noteq> []"
    and fresh: "\<forall>i \<in> set inputs. ev_eventId i \<notin> ev_eventId ` set (store_journal h sha r w)"
    and parsed: "arr_of (parse_run_event h) (place_inputs r (int (length (store_journal h sha r w)) + 1) inputs) = Some es"
    and fold: "foldRun h (store_journal h sha r w @ es) = Inr s"
  shows "store_append h sha r a (int (length (store_journal h sha r w))) inputs w =
      (Inr es, w\<lparr>sw_storage := appended_log sha es (sw_storage w)\<rparr>) \<and>
    store_journal h sha r (w\<lparr>sw_storage := appended_log sha es (sw_storage w)\<rparr>) = store_journal h sha r w @ es"
proof -
  let ?j = "store_journal h sha r w"
  have rd: "readable h sha r (sw_storage w)" using ok by (simp add: store_ok_def)
  have es: "well_placed h r (int (length ?j) + 1) es" "es \<noteq> []"
    using place_inputs_placed[OF r _ parsed] place_inputs_nonempty[OF parsed inputs] by auto
  with store_placed[OF ok] have all: "well_placed h r 1 (?j @ es)" by (simp add: well_placed_append add.commute)
  from foldRun_positions[OF fold well_placed_arr_of[OF all]] have "distinct (map ev_eventId (?j @ es))" by metis
  with foldRunEvents_foldRun[OF all] fold have f: "foldRunEvents h (?j @ es) = Inr s" by simp
  have app: "append_locked h sha r (int (length ?j)) inputs (sw_storage w) = Inr (es, appended_log sha es (sw_storage w))"
    using append_locked_new[OF rd inputs _ _ _ _ r, of "int (length ?j)" es s] fresh parsed f
    by (simp add: store_journal_def)
  have "assertAuthority r a (appended_log sha es (sw_storage w)) = Inr ()"
    using auth by (simp add: assertAuthority_def readFence_def)
  with app auth inputs have "appendFenced h sha r (int (length ?j)) a inputs (sw_storage w) =
      Inr (es, appended_log sha es (sw_storage w))"
    by (simp add: appendFenced_def withFencedWrite_Inr)
  moreover have "others_act h sha r w = w" using quiet by (simp add: others_act_def)
  moreover have "store_journal h sha r (w\<lparr>sw_storage := appended_log sha es (sw_storage w)\<rparr>) = ?j @ es"
    using readable_appended[OF rd _ es(2)] es(1) f by (auto simp: store_journal_def)
  ultimately show ?thesis using quiet by (simp add: store_append_def)
qed

text \<open>
  C26. Without competition a command succeeds exactly when the domain accepts it. On a readable store whose
  fence the coordinator holds, with nobody else writing and no lost acknowledgement, a command whose stamped
  events pass the schema, carry new ids and fold behind the journal is committed at the first attempt: the
  journal is extended by exactly these events and the folded state is returned; and if they do not fold, the
  command fails with the domain's error and the journal is unchanged.
\<close>

theorem uncontended_command_is_decided_by_the_domain:
  assumes "store_ok h sha r w" and "entityId r = Some r" and "sw_others w = []" and "sw_lost w = []"
    and "assertAuthority r a (sw_storage w) = Inr ()" and "foldRun h (store_journal h sha r w) = Inr s0"
    and "\<And>x. c \<noteq> Publish_delivery x" and "\<And>x. c \<noteq> Cancel_run x" and "eventsForCommand s0 c = Some drafts"
    and "stamp_drafts (store_ports h sha r a ad) (int (length (store_journal h sha r w)) + 1) drafts w = (inputs, w1)"
    and "arr_of (parse_run_event h) (place_inputs r (int (length (store_journal h sha r w)) + 1) inputs) = Some es"
    and "\<forall>i \<in> set inputs. ev_eventId i \<notin> ev_eventId ` set (store_journal h sha r w)"
  shows "case foldRun h (store_journal h sha r w @ es) of
      Inr s \<Rightarrow> \<exists>w'. execute h (store_ports h sha r a ad) r c w = (Inr s, w') \<and>
        store_journal h sha r w' = store_journal h sha r w @ es
    | Inl e \<Rightarrow> \<exists>w'. execute h (store_ports h sha r a ad) r c w = (Inl (Domain_error e), w') \<and>
        store_journal h sha r w' = store_journal h sha r w"
proof -
  let ?j = "store_journal h sha r w" and ?pt = "store_ports h sha r a ad"
  have stamped: "sw_storage v = sw_storage u \<and> sw_others v = sw_others u \<and> sw_lost v = sw_lost u \<and>
      sw_dispatched v = sw_dispatched u \<and> sw_published v = sw_published u \<and> map ev_payload is = ds"
    if "stamp_drafts ?pt n ds u = (is, v)" for n ds u "is" v
    using that by (induction ds arbitrary: n u "is" v) (fastforce simp: store_ports_def Let_def split: prod.splits)+
  note w1 = stamped[OF assms(10)]
  then have j1: "store_journal h sha r w1 = ?j" and ok1: "store_ok h sha r w1"
    using store_ok_same[OF assms(1), of w1] by (auto simp: store_journal_def)
  have inputs: "inputs \<noteq> []" using eventsForCommand_ne[OF assms(9)] w1 by auto
  have status: "is_status (inspect h sha r (sw_storage w)) \<noteq> Log_corrupt"
    using assms(1) by (simp add: store_ok_def readable_def)
  have ld: "callA (pt_load ?pt) w = (Inr ?j, w)"
    using assms(3) status by (simp add: callA_def store_ports_def store_load_def others_act_def load_events_def
        store_journal_def Let_def throwIf_def)
  have "execute h ?pt r c w = (case eventsForCommand s0 c of None \<Rightarrow> throwA Draft_rejected
      | Some drafts \<Rightarrow> bindA (append_events h ?pt r ?j drafts) (foldA h)) w"
  proof (cases c)
    case (Publish_delivery x)
    with assms(7)[of x] show ?thesis by simp
  next
    case (Cancel_run x)
    with assms(8)[of x] show ?thesis by simp
  qed (use ld assms(6) in \<open>simp_all add: execute_def bindA_def foldA_def liftA_def\<close>)
  then have "execute h ?pt r c w = bindA (append_loop h ?pt r 8 ?j drafts) (foldA h) w"
    using assms(9) by (simp add: append_events_def)
  also have "\<dots> = bindA (append_loop h ?pt r (Suc 7) ?j drafts) (foldA h) w" by simp
  finally have ex: "execute h ?pt r c w = bindA (append_loop h ?pt r (Suc 7) ?j drafts) (foldA h) w" .
  show ?thesis
  proof (cases "foldRun h (?j @ es)")
    case (Inl e)
    show ?thesis
      unfolding ex bindA_def append_loop.simps(2) Let_def using assms(10,11) j1 Inl by simp
  next
    case (Inr s)
    from uncontended_append[OF ok1 assms(2) _ _ _ inputs, of a es s] w1 assms(3-5,11,12) Inr j1
    have sent: "store_append h sha r a (int (length ?j)) inputs w1 = (Inr es, w1\<lparr>sw_storage := appended_log sha es (sw_storage w1)\<rparr>)"
      and j2: "store_journal h sha r (w1\<lparr>sw_storage := appended_log sha es (sw_storage w1)\<rparr>) = ?j @ es" by auto
    from sent have "pt_append ?pt (int (length ?j)) inputs w1 = (Inr es, w1\<lparr>sw_storage := appended_log sha es (sw_storage w1)\<rparr>)"
      by (simp add: store_ports_def)
    then show ?thesis
      unfolding ex bindA_def append_loop.simps(2) Let_def using assms(10,11) Inr j2 by (simp add: foldA_def liftA_def)
  qed
qed

abbreviation quiet_world :: store_world where
  "quiet_world \<equiv> sample_world\<lparr>sw_others := []\<rparr>"

lemma quiet_facts:
  "store_journal sample_host sample_sha ''run'' quiet_world = take 3 sample_start"
  "assertAuthority ''run'' sample_writer (sw_storage quiet_world) = Inr ()"
  "stamp_drafts sample_ports 4 [Graph_ev (Readiness_observed (plain_readiness [''n''] []))] quiet_world =
     ([input_of observed_event], quiet_world\<lparr>sw_time := 1\<rparr>)"
  "arr_of (parse_run_event sample_host) (place_inputs ''run'' 4 [input_of observed_event]) = Some [observed_event]"
  "\<forall>i \<in> set [input_of observed_event]. ev_eventId i \<notin> ev_eventId ` set (take 3 sample_start)"
  by code_simp+

lemma quiet_fold:
  "case foldRun sample_host (take 3 sample_start @ [observed_event]) of Inr _ \<Rightarrow> True | Inl _ \<Rightarrow> False"
  "case foldRun sample_host (take 3 sample_start) of Inr _ \<Rightarrow> True | Inl _ \<Rightarrow> False"
  by code_simp+

theorem uncontended_command_is_decided_by_the_domain_witness:
  "\<exists>s w'. execute sample_host sample_ports ''run'' sample_command quiet_world = (Inr s, w') \<and>
     store_journal sample_host sample_sha ''run'' w' = take 3 sample_start @ [observed_event]"
proof -
  let ?j = "store_journal sample_host sample_sha ''run'' quiet_world"
  have n: "int (length ?j) + 1 = 4" unfolding quiet_facts(1) by (simp add: sample_start_def)
  obtain s0 where s0: "foldRun sample_host ?j = Inr s0"
    using quiet_fold(2) unfolding quiet_facts(1) by (auto split: sum.splits)
  obtain s where s: "foldRun sample_host (?j @ [observed_event]) = Inr s"
    using quiet_fold(1) unfolding quiet_facts(1) by (auto split: sum.splits)
  have ok: "store_ok sample_host sample_sha ''run'' quiet_world"
    using sample_world_ok by (simp add: store_ok_def store_journal_def)
  have c: "\<And>x. sample_command \<noteq> Publish_delivery x" "\<And>x. sample_command \<noteq> Cancel_run x"
      "eventsForCommand s0 sample_command = Some [Graph_ev (Readiness_observed (plain_readiness [''n''] []))]"
    by (simp_all add: sample_command_def)
  have quiet: "sw_others quiet_world = []" "sw_lost quiet_world = []" by simp_all
  from uncontended_command_is_decided_by_the_domain[OF ok sample_run_id quiet quiet_facts(2) s0 c, unfolded n,
      OF quiet_facts(3,4)] quiet_facts(5) s
  show ?thesis unfolding quiet_facts(1) by auto
qed

end
