(* ===== verification/Graph_Relations.thy ===== *)
theory Graph_Relations
  imports Contracts
begin

text \<open>
  The relations of a canonical task graph: which artifact flows between which nodes, which seam it crosses,
  which resource a node observes or modifies and in which version, which runtime lease it holds. Each type
  has the parser of its schema.

  Sources: packages/contracts/src/canonical-graph-relations.ts; the epistemic assessment and the
  resource reference are in packages/shared/src/index.ts.
\<close>

section \<open>Shared values\<close>

datatype assessment_state = Known | Partial | Conflicting

datatype assessment_confidence = High | Medium | Low

datatype epistemic_assessment =
    Unknown_because string
  | Assessed assessment_state assessment_confidence "string list"

fun parse_epistemic :: "epistemic_assessment \<Rightarrow> epistemic_assessment option" where
  "parse_epistemic (Unknown_because r) = map_option Unknown_because (nonEmptyString r)"
| "parse_epistemic (Assessed s c es) = do {
     es' \<leftarrow> arr_of nonEmptyString es; refine (\<lambda>_. es' \<noteq> []) (Assessed s c es') }"

interpretation epistemic: schema parse_epistemic
proof unfold_locales
  fix x y assume "parse_epistemic x = Some y"
  then show "parse_epistemic y = Some y"
    by (cases x) (auto simp: parse_simps schema_idem nonEmptyString_Some)
qed

definition resourceReference :: "string \<Rightarrow> string option" where
  "resourceReference s = do { t \<leftarrow> nonEmptyString s;
     refine (\<lambda>t. list_all (\<lambda>c. is_alnum c \<or> c \<in> set ''._:/-'') t \<and> ''..'' \<notin> set (split_on CHR ''/'' t)) t }"

interpretation resourceReference: schema resourceReference
  by unfold_locales (auto simp: resourceReference_def nonEmptyString_Some parse_simps)

lemmas [schema_idem] = epistemic.idem resourceReference.idem

section \<open>Artifact requirements and seams\<close>

datatype manifest_kind = Change_set_kind | Candidate_tree_kind

record artifact_requirement =
  rq_id :: string
  rq_producerNodeId :: string
  rq_consumerNodeId :: string
  rq_artifactContract :: contract_ref
  rq_consumerInputName :: string
  rq_acceptedManifestKinds :: "manifest_kind list"

definition parse_artifact_requirement :: "artifact_requirement \<Rightarrow> artifact_requirement option" where
  "parse_artifact_requirement r = do {
     i \<leftarrow> entityId (rq_id r); p \<leftarrow> entityId (rq_producerNodeId r); c \<leftarrow> entityId (rq_consumerNodeId r);
     a \<leftarrow> parse_contract_ref (rq_artifactContract r); n \<leftarrow> nonEmptyString (rq_consumerInputName r);
     ks \<leftarrow> min_len 1 (rq_acceptedManifestKinds r);
     Some \<lparr>rq_id = i, rq_producerNodeId = p, rq_consumerNodeId = c, rq_artifactContract = a,
       rq_consumerInputName = n, rq_acceptedManifestKinds = ks\<rparr> }"

interpretation artifact_requirement: schema parse_artifact_requirement
  by unfold_locales (auto simp: parse_artifact_requirement_def parse_simps schema_idem)

record graph_seam =
  gs_id :: string
  gs_producerNodeId :: string
  gs_consumerNodeId :: string
  gs_seamContract :: contract_ref
  gs_artifactRequirementId :: string
  gs_validationObligationIds :: "string list"

definition parse_graph_seam :: "graph_seam \<Rightarrow> graph_seam option" where
  "parse_graph_seam s = do {
     i \<leftarrow> entityId (gs_id s); p \<leftarrow> entityId (gs_producerNodeId s); c \<leftarrow> entityId (gs_consumerNodeId s);
     k \<leftarrow> parse_contract_ref (gs_seamContract s); r \<leftarrow> entityId (gs_artifactRequirementId s);
     os \<leftarrow> arr_of entityId (gs_validationObligationIds s); vs \<leftarrow> min_len 1 os;
     Some \<lparr>gs_id = i, gs_producerNodeId = p, gs_consumerNodeId = c, gs_seamContract = k,
       gs_artifactRequirementId = r, gs_validationObligationIds = vs\<rparr> }"

interpretation graph_seam: schema parse_graph_seam
  by unfold_locales (auto simp: parse_graph_seam_def parse_simps schema_idem)

section \<open>Resource claims and runtime leases\<close>

datatype version_ref = View_version string | Artifact_version contract_ref

fun parse_version_ref :: "version_ref \<Rightarrow> version_ref option" where
  "parse_version_ref (View_version d) = map_option View_version (nonEmptyString d)"
| "parse_version_ref (Artifact_version r) = map_option Artifact_version (parse_contract_ref r)"

interpretation version_ref: schema parse_version_ref
proof unfold_locales
  fix x y assume "parse_version_ref x = Some y"
  then show "parse_version_ref y = Some y"
    by (cases x) (auto simp: schema_idem)
qed

datatype claim_source = By_planner | By_compiler | By_repository_policy

datatype owner_phase = Owned_in_implementation | Owned_in_integration

text \<open>The two members of the discriminated union on \<open>access\<close>, with the fields only \<open>modify\<close> has.\<close>

datatype claim_access = Observes | Modifies owner_phase contract_ref

fun parse_claim_access :: "claim_access \<Rightarrow> claim_access option" where
  "parse_claim_access Observes = Some Observes"
| "parse_claim_access (Modifies p r) = map_option (Modifies p) (parse_contract_ref r)"

interpretation claim_access: schema parse_claim_access
proof unfold_locales
  fix x y assume "parse_claim_access x = Some y"
  then show "parse_claim_access y = Some y"
    by (cases x) (auto simp: schema_idem)
qed

lemmas [schema_idem] = version_ref.idem claim_access.idem

record resource_claim =
  cl_id :: string
  cl_nodeId :: string
  cl_resourceId :: string
  cl_source :: claim_source
  cl_evidenceRefs :: "string list"
  cl_epistemic :: epistemic_assessment
  cl_access :: claim_access
  cl_inputVersion :: version_ref

definition parse_resource_claim :: "resource_claim \<Rightarrow> resource_claim option" where
  "parse_resource_claim c = do {
     i \<leftarrow> resourceReference (cl_id c); n \<leftarrow> entityId (cl_nodeId c); r \<leftarrow> resourceReference (cl_resourceId c);
     es \<leftarrow> arr_of nonEmptyString (cl_evidenceRefs c); e \<leftarrow> parse_epistemic (cl_epistemic c);
     a \<leftarrow> parse_claim_access (cl_access c); v \<leftarrow> parse_version_ref (cl_inputVersion c);
     Some \<lparr>cl_id = i, cl_nodeId = n, cl_resourceId = r, cl_source = cl_source c, cl_evidenceRefs = es,
       cl_epistemic = e, cl_access = a, cl_inputVersion = v\<rparr> }"

interpretation resource_claim: schema parse_resource_claim
  by unfold_locales (auto simp: parse_resource_claim_def parse_simps schema_idem)

definition modifies :: "resource_claim \<Rightarrow> bool" where
  "modifies c = (case cl_access c of Observes \<Rightarrow> False | Modifies _ _ \<Rightarrow> True)"

text \<open>\<open>claim.outputArtifact\<close>, which only a modifying claim has.\<close>

definition outputArtifact :: "resource_claim \<Rightarrow> contract_ref option" where
  "outputArtifact c = (case cl_access c of Observes \<Rightarrow> None | Modifies _ r \<Rightarrow> Some r)"

lemma outputArtifact_modifies [simp]: "outputArtifact c = None \<longleftrightarrow> \<not> modifies c"
  by (simp add: outputArtifact_def modifies_def split: claim_access.split)

datatype lease_mode = Shared | Exclusive

datatype lease_phase = In_implementation | In_validation | In_integration | In_delivery

record lease_claim =
  lc_id :: string
  lc_nodeId :: string
  lc_provider :: string
  lc_resourceKey :: string
  lc_mode :: lease_mode
  lc_phase :: lease_phase

definition parse_lease_claim :: "lease_claim \<Rightarrow> lease_claim option" where
  "parse_lease_claim c = do {
     i \<leftarrow> entityId (lc_id c); n \<leftarrow> entityId (lc_nodeId c); p \<leftarrow> nonEmptyString (lc_provider c);
     k \<leftarrow> nonEmptyString (lc_resourceKey c);
     Some \<lparr>lc_id = i, lc_nodeId = n, lc_provider = p, lc_resourceKey = k, lc_mode = lc_mode c,
       lc_phase = lc_phase c\<rparr> }"

interpretation lease_claim: schema parse_lease_claim
  by unfold_locales (auto simp: parse_lease_claim_def parse_simps schema_idem)

lemmas [schema_idem] =
  artifact_requirement.idem artifact_requirement.arr_idem graph_seam.idem graph_seam.arr_idem
  resource_claim.idem resource_claim.arr_idem lease_claim.idem lease_claim.arr_idem

end
