(* ===== verification/Decimal.thy ===== *)
theory Decimal
  imports MH_Prelude
begin

text \<open>
  Numbers in template strings: the digits of an integer, that they are read back as the number, and that
  they are digits.
\<close>

text \<open>\<open>`${n}`\<close> of a safe integer.\<close>

fun decimal :: "nat \<Rightarrow> string" where
  "decimal n = (if n < 10 then [char_of (48 + n)] else decimal (n div 10) @ [char_of (48 + n mod 10)])"

declare decimal.simps [simp del]

definition number_text :: "int \<Rightarrow> string" where
  "number_text i = (if i < 0 then CHR ''-'' # decimal (nat (- i)) else decimal (nat i))"

lemma decimal_value: "digits_value a (decimal n) = a * 10 ^ length (decimal n) + n"
proof (induction n arbitrary: a rule: decimal.induct)
  case (1 n)
  have snoc: "digits_value b (xs @ [c]) = 10 * digits_value b xs + (of_char c - 48)" for b xs c
    by (induction xs arbitrary: b) simp_all
  show ?case
  proof (cases "n < 10")
    case True
    then show ?thesis by (simp add: decimal.simps[of n])
  next
    case False
    then have "digits_value a (decimal n) = 10 * (a * 10 ^ length (decimal (n div 10)) + n div 10) + n mod 10"
      using "1.IH"[of a] by (simp add: decimal.simps[of n] snoc)
    also have "\<dots> = a * 10 ^ length (decimal n) + n" using False by (simp add: decimal.simps[of n] algebra_simps)
    finally show ?thesis .
  qed
qed

lemma decimal_inj: "decimal m = decimal n \<Longrightarrow> m = n"
  by (drule arg_cong[where f = "digits_value 0"]) (simp only: decimal_value mult_0 add_0)

lemma decimal_digits: "list_all is_digit (decimal n)"
proof (induction n rule: decimal.induct)
  case (1 n)
  have "is_digit (char_of (48 + k))" if "k < 10" for k :: nat
    using that by (simp add: is_digit_def less_eq_char_def)
  with 1 show ?case by (cases "n < 10") (simp_all add: decimal.simps[of n])
qed

lemma decimal_not_empty [simp]: "decimal n \<noteq> []"
  by (simp add: decimal.simps[of n])

lemma number_text_value: "0 \<le> i \<Longrightarrow> int (digits_value 0 (number_text i)) = i"
  by (simp add: number_text_def decimal_value)

end
