(* ===== verification/Graph_Revision.thy ===== *)
theory Graph_Revision
  imports Graph_Relations Decimal
begin

text \<open>
  The canonical task graph: its data and schema, the normal form \<open>buildGraphRevision\<close> brings it to and the
  digest that identifies it, and the validation that decides whether a revision may run.

  Source: packages/task-graph/src/canonical-graph.ts.
\<close>

section \<open>Data and schema\<close>

datatype node_kind = Root_node | Composite_node | Leaf_node | Integrator_node

record task_node =
  tn_id :: string
  tn_parentId :: "string option"
  tn_kind :: node_kind
  tn_title :: string
  tn_goal :: string
  tn_contractRef :: contract_ref

definition parse_task_node :: "task_node \<Rightarrow> task_node option" where
  "parse_task_node n = do {
     i \<leftarrow> entityId (tn_id n); p \<leftarrow> opt_of entityId (tn_parentId n); t \<leftarrow> nonEmptyString (tn_title n);
     g \<leftarrow> nonEmptyString (tn_goal n); c \<leftarrow> parse_contract_ref (tn_contractRef n);
     Some \<lparr>tn_id = i, tn_parentId = p, tn_kind = tn_kind n, tn_title = t, tn_goal = g, tn_contractRef = c\<rparr> }"

interpretation task_node: schema parse_task_node
  by unfold_locales (auto simp: parse_task_node_def parse_simps schema_idem)

text \<open>The reference to the semantic plan has the shape and the schema of a contract reference.\<close>

record graph_material =
  gr_graphId :: string
  gr_revision :: int
  gr_semanticPlan :: contract_ref
  gr_repositoryView :: repository_view_ref
  gr_rootId :: string
  gr_nodes :: "task_node obj"
  gr_artifactRequirements :: "artifact_requirement list"
  gr_seamBindings :: "graph_seam list"
  gr_resourceClaims :: "resource_claim list"
  gr_runtimeLeaseClaims :: "lease_claim list"
  gr_contractRefs :: "contract_ref list"

record graph_revision = graph_material +
  gr_digest :: string

text \<open>\<open>z.record\<close>: every value through the schema, the keys as they are.\<close>

definition parse_entry :: "string \<times> task_node \<Rightarrow> (string \<times> task_node) option" where
  "parse_entry e = map_option (Pair (fst e)) (parse_task_node (snd e))"

interpretation node_entry: schema parse_entry
  by unfold_locales (auto simp: parse_entry_def task_node.idem)

lemmas [schema_idem] = node_entry.arr_idem contract_ref.arr_idem

definition parse_graph_material :: "graph_material \<Rightarrow> graph_material option" where
  "parse_graph_material g = do {
     i \<leftarrow> entityId (gr_graphId g); v \<leftarrow> positive (gr_revision g); p \<leftarrow> parse_contract_ref (gr_semanticPlan g);
     w \<leftarrow> parse_repository_view_ref (gr_repositoryView g); r \<leftarrow> entityId (gr_rootId g);
     ns \<leftarrow> arr_of parse_entry (gr_nodes g);
     rs \<leftarrow> arr_of parse_artifact_requirement (gr_artifactRequirements g);
     ss \<leftarrow> arr_of parse_graph_seam (gr_seamBindings g);
     cs \<leftarrow> arr_of parse_resource_claim (gr_resourceClaims g);
     ls \<leftarrow> arr_of parse_lease_claim (gr_runtimeLeaseClaims g);
     fs \<leftarrow> arr_of parse_contract_ref (gr_contractRefs g);
     Some \<lparr>gr_graphId = i, gr_revision = v, gr_semanticPlan = p, gr_repositoryView = w, gr_rootId = r,
       gr_nodes = ns, gr_artifactRequirements = rs, gr_seamBindings = ss, gr_resourceClaims = cs,
       gr_runtimeLeaseClaims = ls, gr_contractRefs = fs\<rparr> }"

interpretation graph_material: schema parse_graph_material
  by unfold_locales (auto simp: parse_graph_material_def parse_simps schema_idem)

definition parse_graph_revision :: "graph_revision \<Rightarrow> graph_revision option" where
  "parse_graph_revision g = do {
     m \<leftarrow> parse_graph_material (graph_material.truncate g); d \<leftarrow> nonEmptyString (gr_digest g);
     Some (graph_material.extend m (graph_revision.fields d)) }"

lemma graph_truncate_extend [simp]:
  "graph_material.truncate (graph_material.extend m (graph_revision.fields d)) = m"
  "gr_digest (graph_material.extend m (graph_revision.fields d)) = d"
  by (simp_all add: graph_material.defs graph_revision.defs)

interpretation graph_revision: schema parse_graph_revision
  by unfold_locales (auto simp: parse_graph_revision_def parse_simps schema_idem graph_material.idem)

section \<open>The canonical JSON of a graph\<close>

definition ref_json :: "contract_ref \<Rightarrow> json" where
  "ref_json r = JObj [(''id'', JStr (cr_id r)), (''revision'', JNum (of_int (cr_revision r))),
     (''digest'', JStr (cr_digest r))]"

definition node_kind_name :: "node_kind \<Rightarrow> string" where
  "node_kind_name k = (case k of Root_node \<Rightarrow> ''root'' | Composite_node \<Rightarrow> ''composite''
     | Leaf_node \<Rightarrow> ''leaf'' | Integrator_node \<Rightarrow> ''integrator'')"

definition node_json :: "task_node \<Rightarrow> json" where
  "node_json n = JObj [(''id'', JStr (tn_id n)),
     (''parentId'', case tn_parentId n of None \<Rightarrow> JNull | Some p \<Rightarrow> JStr p),
     (''kind'', JStr (node_kind_name (tn_kind n))), (''title'', JStr (tn_title n)),
     (''goal'', JStr (tn_goal n)), (''contractRef'', ref_json (tn_contractRef n))]"

definition manifest_kind_name :: "manifest_kind \<Rightarrow> string" where
  "manifest_kind_name k = (case k of Change_set_kind \<Rightarrow> ''change_set'' | Candidate_tree_kind \<Rightarrow> ''candidate_tree'')"

definition requirement_json :: "artifact_requirement \<Rightarrow> json" where
  "requirement_json r = JObj [(''id'', JStr (rq_id r)), (''producerNodeId'', JStr (rq_producerNodeId r)),
     (''consumerNodeId'', JStr (rq_consumerNodeId r)), (''artifactContract'', ref_json (rq_artifactContract r)),
     (''consumerInputName'', JStr (rq_consumerInputName r)),
     (''acceptedManifestKinds'', JArr (map (JStr \<circ> manifest_kind_name) (rq_acceptedManifestKinds r)))]"

definition seam_json :: "graph_seam \<Rightarrow> json" where
  "seam_json s = JObj [(''id'', JStr (gs_id s)), (''producerNodeId'', JStr (gs_producerNodeId s)),
     (''consumerNodeId'', JStr (gs_consumerNodeId s)), (''seamContract'', ref_json (gs_seamContract s)),
     (''artifactRequirementId'', JStr (gs_artifactRequirementId s)),
     (''validationObligationIds'', JArr (map JStr (gs_validationObligationIds s)))]"

fun epistemic_json :: "epistemic_assessment \<Rightarrow> json" where
  "epistemic_json (Unknown_because r) =
     JObj [(''state'', JStr ''unknown''), (''reason'', JStr r), (''evidenceRefs'', JArr [])]"
| "epistemic_json (Assessed s c es) = JObj [
     (''state'', JStr (case s of Known \<Rightarrow> ''known'' | Partial \<Rightarrow> ''partial'' | Conflicting \<Rightarrow> ''conflicting'')),
     (''confidence'', JStr (case c of High \<Rightarrow> ''high'' | Medium \<Rightarrow> ''medium'' | Low \<Rightarrow> ''low'')),
     (''evidenceRefs'', JArr (map JStr es))]"

fun version_json :: "version_ref \<Rightarrow> json" where
  "version_json (View_version d) = JObj [(''kind'', JStr ''repository_view''), (''digest'', JStr d)]"
| "version_json (Artifact_version r) = JObj [(''kind'', JStr ''artifact_contract''), (''ref'', ref_json r)]"

fun access_props :: "claim_access \<Rightarrow> (string \<times> json) list" where
  "access_props Observes = [(''access'', JStr ''observe'')]"
| "access_props (Modifies p r) = [(''access'', JStr ''modify''),
     (''ownerPhase'', JStr (case p of Owned_in_implementation \<Rightarrow> ''implementation'' | Owned_in_integration \<Rightarrow> ''integration'')),
     (''outputArtifact'', ref_json r)]"

definition claim_json :: "resource_claim \<Rightarrow> json" where
  "claim_json c = JObj ([(''id'', JStr (cl_id c)), (''nodeId'', JStr (cl_nodeId c)),
     (''resourceId'', JStr (cl_resourceId c)),
     (''source'', JStr (case cl_source c of By_planner \<Rightarrow> ''planner'' | By_compiler \<Rightarrow> ''compiler''
        | By_repository_policy \<Rightarrow> ''repository_policy'')),
     (''evidenceRefs'', JArr (map JStr (cl_evidenceRefs c))), (''epistemic'', epistemic_json (cl_epistemic c)),
     (''inputVersion'', version_json (cl_inputVersion c))] @ access_props (cl_access c))"

definition lease_json :: "lease_claim \<Rightarrow> json" where
  "lease_json c = JObj [(''id'', JStr (lc_id c)), (''nodeId'', JStr (lc_nodeId c)),
     (''provider'', JStr (lc_provider c)), (''resourceKey'', JStr (lc_resourceKey c)),
     (''mode'', JStr (case lc_mode c of Shared \<Rightarrow> ''shared'' | Exclusive \<Rightarrow> ''exclusive'')),
     (''phase'', JStr (case lc_phase c of In_implementation \<Rightarrow> ''implementation''
        | In_validation \<Rightarrow> ''validation'' | In_integration \<Rightarrow> ''integration'' | In_delivery \<Rightarrow> ''delivery''))]"

definition material_json :: "graph_material \<Rightarrow> json" where
  "material_json g = JObj [(''graphId'', JStr (gr_graphId g)), (''revision'', JNum (of_int (gr_revision g))),
     (''semanticPlan'', ref_json (gr_semanticPlan g)),
     (''repositoryView'', JObj [(''digest'', JStr (rv_digest (gr_repositoryView g))),
        (''treeSha'', JStr (rv_treeSha (gr_repositoryView g))),
        (''resourceCatalogDigest'', JStr (rv_resourceCatalogDigest (gr_repositoryView g)))]),
     (''rootId'', JStr (gr_rootId g)),
     (''nodes'', JObj (map (\<lambda>(k, n). (k, node_json n)) (gr_nodes g))),
     (''artifactRequirements'', JArr (map requirement_json (gr_artifactRequirements g))),
     (''seamBindings'', JArr (map seam_json (gr_seamBindings g))),
     (''resourceClaims'', JArr (map claim_json (gr_resourceClaims g))),
     (''runtimeLeaseClaims'', JArr (map lease_json (gr_runtimeLeaseClaims g))),
     (''contractRefs'', JArr (map ref_json (gr_contractRefs g)))]"

section \<open>Normal form\<close>

definition refKey :: "contract_ref \<Rightarrow> string" where
  "refKey r = cr_id r @ '':'' @ number_text (cr_revision r) @ '':'' @ cr_digest r"

datatype build_error =
    Graph_schema
  | Conflicting_id string string
  | Relation_id_reused string string string

text \<open>
  \<open>canonicalJson(existing) !== canonicalJson(normalized)\<close> compares two relations of one collection, whose
  texts are equal exactly when the relations are. The \<open>Map\<close> is in insertion order.
\<close>

definition normalizeRelations ::
  "('a \<Rightarrow> string) \<Rightarrow> string \<Rightarrow> ('a \<Rightarrow> 'a) \<Rightarrow> 'a list \<Rightarrow> build_error + 'a list" where
  "normalizeRelations rid collection nf rs =
     bindE (foldE (\<lambda>byId r. case map_of byId (rid (nf r)) of
         Some e \<Rightarrow> throwIf (e \<noteq> nf r) (Conflicting_id collection (rid (nf r))) (Inr byId)
       | None \<Rightarrow> Inr (byId @ [(rid (nf r), nf r)])) [] rs)
     (\<lambda>byId. Inr (sort_key rid (map snd byId)))"

definition normalizeContractRefs :: "contract_ref list \<Rightarrow> contract_ref list" where
  "normalizeContractRefs refs =
     sort_key refKey (map snd (fold (\<lambda>r m. AList.update (refKey r) r m) refs []))"

definition normal_requirement :: "artifact_requirement \<Rightarrow> artifact_requirement" where
  "normal_requirement r =
     r\<lparr>rq_acceptedManifestKinds := sort_key manifest_kind_name (nub (rq_acceptedManifestKinds r))\<rparr>"

definition normal_seam :: "graph_seam \<Rightarrow> graph_seam" where
  "normal_seam s = s\<lparr>gs_validationObligationIds := uniq_sort (gs_validationObligationIds s)\<rparr>"

fun normal_epistemic :: "epistemic_assessment \<Rightarrow> epistemic_assessment" where
  "normal_epistemic (Unknown_because r) = Unknown_because r"
| "normal_epistemic (Assessed s c es) = Assessed s c (uniq_sort es)"

definition normal_claim :: "resource_claim \<Rightarrow> resource_claim" where
  "normal_claim c = c\<lparr>cl_evidenceRefs := uniq_sort (cl_evidenceRefs c), cl_epistemic := normal_epistemic (cl_epistemic c)\<rparr>"

definition assertRelationIdsAreGloballyUnique :: "(string \<times> string list) list \<Rightarrow> build_error + (string \<times> string) list" where
  "assertRelationIdsAreGloballyUnique collections =
     foldE (\<lambda>owners (c, i). case map_of owners i of
         Some w \<Rightarrow> Inl (Relation_id_reused i w c)
       | None \<Rightarrow> Inr (owners @ [(i, c)]))
       [] (concat (map (\<lambda>(c, ids). map (Pair c) ids) collections))"

definition normalizeGraphRevisionMaterial :: "graph_material \<Rightarrow> build_error + graph_material" where
  "normalizeGraphRevisionMaterial m =
     bindE (normalizeRelations rq_id ''artifactRequirements'' normal_requirement (gr_artifactRequirements m)) (\<lambda>rs.
     bindE (normalizeRelations gs_id ''seamBindings'' normal_seam (gr_seamBindings m)) (\<lambda>ss.
     bindE (normalizeRelations cl_id ''resourceClaims'' normal_claim (gr_resourceClaims m)) (\<lambda>cs.
     bindE (normalizeRelations lc_id ''runtimeLeaseClaims'' (\<lambda>c. c) (gr_runtimeLeaseClaims m)) (\<lambda>ls.
     bindE (assertRelationIdsAreGloballyUnique [(''artifactRequirements'', map rq_id rs), (''seamBindings'', map gs_id ss),
       (''resourceClaims'', map cl_id cs), (''runtimeLeaseClaims'', map lc_id ls)]) (\<lambda>_.
     Inr (m\<lparr>gr_artifactRequirements := rs, gr_seamBindings := ss, gr_resourceClaims := cs,
       gr_runtimeLeaseClaims := ls, gr_contractRefs := normalizeContractRefs (gr_contractRefs m)\<rparr>))))))"

definition buildGraphRevision :: "host \<Rightarrow> graph_material \<Rightarrow> build_error + graph_revision" where
  "buildGraphRevision h raw = requireE (parse_graph_material raw) Graph_schema (\<lambda>parsed.
     bindE (normalizeGraphRevisionMaterial parsed) (\<lambda>m.
     Inr (graph_material.extend m (graph_revision.fields (computeCanonicalDigest h (material_json m))))))"

end
