(* ===== verification/Graph_Validation.thy ===== *)
theory Graph_Validation
  imports Graph_Revision
begin

text \<open>
  The validation of a canonical graph: every check of \<open>validateGraphRevision\<close> in order, the depth-first
  cycle check, the search for version order between two writers, and the check of a transition between two
  revisions.

  Source: packages/task-graph/src/canonical-graph.ts.
\<close>

section \<open>Findings\<close>

datatype finding_code =
    Gf_schema_invalid | Gf_digest_mismatch | Gf_missing_root | Gf_invalid_root
  | Gf_node_key_mismatch | Gf_missing_parent | Gf_hierarchy_cycle
  | Gf_missing_relation_node | Gf_missing_contract_ref | Gf_duplicate_relation
  | Gf_artifact_unreachable | Gf_artifact_cycle | Gf_resource_double_writer
  | Gf_resource_overlap_unknown | Gf_invalid_version_chain | Gf_missing_seam_artifact
  | Gf_missing_seam_obligation | Gf_nonconsecutive_revision | Gf_content_identity_unchanged

record finding =
  gf_code :: finding_code
  gf_message :: string
  gf_nodeId :: "string option"
  gf_relationId :: "string option"

text \<open>\<open>...(nodeId ? { nodeId } : {})\<close>: an empty id is left out.\<close>

definition truthy :: "string option \<Rightarrow> string option" where
  "truthy v = (if v = Some [] then None else v)"

definition mk_finding :: "finding_code \<Rightarrow> string \<Rightarrow> string option \<Rightarrow> string option \<Rightarrow> finding" where
  "mk_finding c m n r = \<lparr>gf_code = c, gf_message = m, gf_nodeId = truthy n, gf_relationId = truthy r\<rparr>"

datatype overlap = Overlap_yes | Overlap_no | Overlap_unknown

record validation_options =
  vo_hasher :: "host option"
  vo_resourceOverlap :: "(string \<Rightarrow> string \<Rightarrow> overlap) option"
  vo_artifactReachability :: "(artifact_requirement \<Rightarrow> bool) option"

definition whenever :: "bool \<Rightarrow> finding \<Rightarrow> finding list" where
  "whenever c f = (if c then [f] else [])"

lemma whenever_Nil [simp]: "whenever c f = [] \<longleftrightarrow> \<not> c"
  by (simp add: whenever_def)

section \<open>The cycle check\<close>

text \<open>
  \<open>detectCycle\<close> over a graph given by its edges. \<open>active\<close> is the set the call stack keeps (\<open>active.add\<close>
  on entry, \<open>active.delete\<close> on return); the pair is \<open>done\<close> and \<open>reported\<close>.
\<close>

type_synonym edges = "(string \<times> string) list"

definition successors :: "edges \<Rightarrow> string \<Rightarrow> string list" where
  "successors es x = map snd (filter (\<lambda>e. fst e = x) es)"

definition sources :: "edges \<Rightarrow> string set" where
  "sources es = fst ` set es"

lemma successors_edge [simp]: "set (successors es x) = {y. (x, y) \<in> set es}"
  by (force simp: successors_def)

lemma successors_outside: "x \<notin> sources es \<Longrightarrow> successors es x = []"
  by (force simp: successors_def sources_def filter_empty_conv)

function visit_all :: "edges \<Rightarrow> string list \<Rightarrow> string list \<Rightarrow> string list \<Rightarrow> bool \<Rightarrow> string list \<times> bool" where
  "visit_all es active [] finished reported = (finished, reported)"
| "visit_all es active (x # xs) finished reported =
     (if x \<in> set active then visit_all es active xs finished True
      else if x \<in> set finished then visit_all es active xs finished reported
      else let inner = visit_all es (x # active) (successors es x) finished reported in
        visit_all es active xs (x # fst inner) (snd inner))"
  by pat_completeness auto

lemma visit_all_finished:
  "visit_all_dom (es, active, xs, finished, reported) \<Longrightarrow>
     set finished \<subseteq> set (fst (visit_all es active xs finished reported))"
proof (induction es active xs finished reported rule: visit_all.pinduct)
  case (1 es active finished reported)
  then show ?case by (simp add: visit_all.psimps)
next
  case (2 es active x xs finished reported)
  show ?case
    using 2(2) 2(3) 2(4) 2(5)[OF _ _ refl]
    by (simp add: visit_all.psimps(2)[OF 2(1)] Let_def) blast
qed

text \<open>What is left to enter: the sources of edges that are neither active nor finished.\<close>

definition unvisited :: "edges \<Rightarrow> string list \<Rightarrow> string list \<Rightarrow> nat" where
  "unvisited es active finished = card (sources es - set active - set finished)"

lemma unvisited_mono: "set finished \<subseteq> set finished' \<Longrightarrow> unvisited es active finished' \<le> unvisited es active finished"
  unfolding unvisited_def by (intro card_mono) (auto simp: sources_def)

lemma unvisited_enter:
  assumes "x \<notin> set active" "x \<notin> set finished" "x \<in> sources es"
  shows "unvisited es (x # active) finished < unvisited es active finished"
  unfolding unvisited_def using assms by (intro psubset_card_mono) (auto simp: sources_def)

lemma unvisited_outside: "x \<notin> sources es \<Longrightarrow> unvisited es (x # active) finished = unvisited es active finished"
  unfolding unvisited_def by (rule arg_cong[where f = card]) auto

termination visit_all
proof (relation "measures [\<lambda>(es, active, xs, finished, reported). unvisited es active finished,
    \<lambda>(es, active, xs, finished, reported). length xs]", goal_cases)
  case (4 es active x xs finished reported)
  then show ?case
    by (cases "x \<in> sources es") (auto simp: unvisited_enter unvisited_outside successors_outside)
next
  case (5 es active x xs finished reported inner)
  have "set finished \<subseteq> set (x # fst inner)"
    using visit_all_finished[OF 5(4)] 5(3) by auto
  from unvisited_mono[OF this, of es active] show ?case by auto
qed auto

definition detectCycle :: "edges \<Rightarrow> string list \<Rightarrow> bool" where
  "detectCycle es ids = snd (visit_all es [] ids [] False)"

section \<open>The hierarchy\<close>

text \<open>\<open>graph.nodes[id]?.parentId ? [parentId] : []\<close> as the edges from each node to its parent.\<close>

definition parent_edges :: "'a graph_material_scheme \<Rightarrow> edges" where
  "parent_edges g = concat (map (\<lambda>(k, n). case truthy (tn_parentId n) of None \<Rightarrow> [] | Some p \<Rightarrow> [(k, p)]) (gr_nodes g))"

definition validateHierarchy :: "'a graph_material_scheme \<Rightarrow> finding list" where
  "validateHierarchy g =
     (case oget (gr_nodes g) (gr_rootId g) of
        None \<Rightarrow> [mk_finding Gf_missing_root (''Root '' @ gr_rootId g @ '' does not exist.'') (Some (gr_rootId g)) None]
      | Some rn \<Rightarrow> whenever
          (tn_parentId rn \<noteq> None \<or> tn_kind rn \<noteq> Root_node \<and> tn_kind rn \<noteq> Composite_node \<and> length (gr_nodes g) > 1)
          (mk_finding Gf_invalid_root ''Root must be parentless and own the graph hierarchy.'' (Some (tn_id rn)) None)) @
     concat (map (\<lambda>(k, n).
        whenever (k \<noteq> tn_id n)
          (mk_finding Gf_node_key_mismatch (''Node key '' @ k @ '' differs from id '' @ tn_id n @ ''.'') (Some (tn_id n)) None) @
        whenever (tn_id n \<noteq> gr_rootId g \<and>
            (case tn_parentId n of None \<Rightarrow> True | Some p \<Rightarrow> oget (gr_nodes g) p = None))
          (mk_finding Gf_missing_parent (''Node '' @ tn_id n @ '' has no valid parent.'') (Some (tn_id n)) None))
       (own_entries (gr_nodes g))) @
     whenever (detectCycle (parent_edges g) (okeys (gr_nodes g)))
       (mk_finding Gf_hierarchy_cycle ''Hierarchy contains a cycle.'' None None)"

section \<open>References and relations\<close>

definition declared :: "'a graph_material_scheme \<Rightarrow> contract_ref \<Rightarrow> bool" where
  "declared g r \<longleftrightarrow> refKey r \<in> refKey ` set (gr_contractRefs g)"

definition claim_reference_findings :: "'a graph_material_scheme \<Rightarrow> resource_claim \<Rightarrow> finding list" where
  "claim_reference_findings g c =
     (case outputArtifact c of None \<Rightarrow> [] | Some r \<Rightarrow> whenever (\<not> declared g r)
        (mk_finding Gf_missing_contract_ref (''Resource claim '' @ cl_id c @ '' references an undeclared output contract.'')
          (Some (cl_nodeId c)) (Some (cl_id c)))) @
     (case cl_inputVersion c of View_version _ \<Rightarrow> [] | Artifact_version r \<Rightarrow> whenever (\<not> declared g r)
        (mk_finding Gf_missing_contract_ref (''Resource claim '' @ cl_id c @ '' references an undeclared input contract.'')
          (Some (cl_nodeId c)) (Some (cl_id c))))"

text \<open>Every relation of the graph in the order of the code's spread, as its id and the nodes it names.\<close>

definition graph_relations :: "'a graph_material_scheme \<Rightarrow> (string \<times> string list) list" where
  "graph_relations g =
     map (\<lambda>r. (rq_id r, [rq_producerNodeId r, rq_consumerNodeId r])) (gr_artifactRequirements g) @
     map (\<lambda>s. (gs_id s, [gs_producerNodeId s, gs_consumerNodeId s])) (gr_seamBindings g) @
     map (\<lambda>c. (cl_id c, [cl_nodeId c])) (gr_resourceClaims g) @
     map (\<lambda>c. (lc_id c, [lc_nodeId c])) (gr_runtimeLeaseClaims g)"

fun relation_findings :: "'a graph_material_scheme \<Rightarrow> string list \<Rightarrow> (string \<times> string list) list \<Rightarrow> finding list" where
  "relation_findings g seen [] = []"
| "relation_findings g seen ((i, ns) # rs) =
     whenever (i \<in> set seen)
       (mk_finding Gf_duplicate_relation (''Relation id '' @ i @ '' is duplicated.'') None (Some i)) @
     concat (map (\<lambda>n. whenever (oget (gr_nodes g) n = None)
       (mk_finding Gf_missing_relation_node (''Relation '' @ i @ '' references missing node '' @ n @ ''.'') (Some n) (Some i))) ns) @
     relation_findings g (i # seen) rs"

definition validateReferences :: "'a graph_material_scheme \<Rightarrow> finding list" where
  "validateReferences g =
     concat (map (\<lambda>n. whenever (\<not> declared g (tn_contractRef n))
       (mk_finding Gf_missing_contract_ref (''Node '' @ tn_id n @ '' references an undeclared contract.'') (Some (tn_id n)) None))
       (ovalues (gr_nodes g))) @
     concat (map (\<lambda>r. whenever (\<not> declared g (rq_artifactContract r))
       (mk_finding Gf_missing_contract_ref (''Artifact requirement '' @ rq_id r @ '' references an undeclared contract.'')
         None (Some (rq_id r)))) (gr_artifactRequirements g)) @
     concat (map (\<lambda>s. whenever (\<not> declared g (gs_seamContract s))
       (mk_finding Gf_missing_contract_ref (''Seam '' @ gs_id s @ '' references an undeclared contract.'')
         None (Some (gs_id s)))) (gr_seamBindings g)) @
     concat (map (claim_reference_findings g) (gr_resourceClaims g)) @
     relation_findings g [] (graph_relations g)"

section \<open>Artifact flow\<close>

definition writers :: "'a graph_material_scheme \<Rightarrow> resource_claim list" where
  "writers g = filter modifies (gr_resourceClaims g)"

text \<open>The \<open>Map\<close> from an output to its producer: a later claim replaces an earlier one.\<close>

definition produced :: "'a graph_material_scheme \<Rightarrow> (string \<times> string) list" where
  "produced g = rev (concat (map (\<lambda>c. case outputArtifact c of None \<Rightarrow> [] | Some r \<Rightarrow> [(refKey r, cl_nodeId c)]) (writers g)))"

definition artifact_edges :: "'a graph_material_scheme \<Rightarrow> edges" where
  "artifact_edges g = map (\<lambda>r. (rq_producerNodeId r, rq_consumerNodeId r)) (gr_artifactRequirements g)"

definition validateArtifactFlow :: "'a graph_material_scheme \<Rightarrow> (artifact_requirement \<Rightarrow> bool) option \<Rightarrow> finding list" where
  "validateArtifactFlow g reachability =
     concat (map (\<lambda>r. whenever
        (map_of (produced g) (refKey (rq_artifactContract r)) \<noteq> Some (rq_producerNodeId r) \<or>
         (case reachability of None \<Rightarrow> False | Some canMaterialize \<Rightarrow> \<not> canMaterialize r))
        (mk_finding Gf_artifact_unreachable (''Artifact '' @ rq_id r @ '' is not materializable from its declared producer.'')
          (Some (rq_producerNodeId r)) (Some (rq_id r)))) (gr_artifactRequirements g)) @
     whenever (detectCycle (artifact_edges g) (okeys (gr_nodes g)))
       (mk_finding Gf_artifact_cycle ''Artifact dataflow contains a cycle.'' None None)"

section \<open>Version order between writers\<close>

definition consumes_version :: "'a graph_material_scheme \<Rightarrow> resource_claim \<Rightarrow> resource_claim \<Rightarrow> bool" where
  "consumes_version g current nxt = (case (cl_inputVersion nxt, outputArtifact current) of
     (Artifact_version r, Some out) \<Rightarrow> refKey r = refKey out \<and>
       list_ex (\<lambda>q. rq_producerNodeId q = cl_nodeId current \<and> rq_consumerNodeId q = cl_nodeId nxt \<and>
         refKey (rq_artifactContract q) = refKey out) (gr_artifactRequirements g)
   | _ \<Rightarrow> False)"

text \<open>
  The loop of \<open>versionReachable\<close>. The head of the list is the end \<open>pending.pop\<close> takes from, so what the
  inner loop pushed last comes first.
\<close>

function version_search :: "'a graph_material_scheme \<Rightarrow> string \<Rightarrow> resource_claim list \<Rightarrow> string list \<Rightarrow> bool" where
  "version_search g target [] seen = False"
| "version_search g target (current # pending) seen =
     (if cl_id current = target then True
      else if cl_id current \<in> set seen then version_search g target pending seen
      else version_search g target (rev (filter (consumes_version g current) (writers g)) @ pending) (cl_id current # seen))"
  by pat_completeness auto

text \<open>What the search may still enter: the ids of the writers and of what is pending, but for the seen ones.\<close>

definition searchable :: "'a graph_material_scheme \<Rightarrow> resource_claim list \<Rightarrow> string list \<Rightarrow> nat" where
  "searchable g pending seen = card (cl_id ` set (writers g) \<union> cl_id ` set pending - set seen)"

lemma searchable_skip: "searchable g pending seen \<le> searchable g (c # pending) seen"
  unfolding searchable_def by (intro card_mono) auto

lemma searchable_enter:
  assumes "cl_id c \<notin> set seen"
  shows "searchable g (rev (filter P (writers g)) @ pending) (cl_id c # seen) < searchable g (c # pending) seen"
  unfolding searchable_def using assms by (intro psubset_card_mono) auto

termination version_search
proof (relation "measures [\<lambda>(g, target, pending, seen). searchable g pending seen,
    \<lambda>(g, target, pending, seen). length pending]", goal_cases)
  case (2 g target current pending seen)
  then show ?case using searchable_skip[of g pending seen current] by auto
next
  case (3 g target current pending seen)
  then show ?case by (simp add: searchable_enter)
qed auto

definition versionReachable :: "'a graph_material_scheme \<Rightarrow> resource_claim \<Rightarrow> resource_claim \<Rightarrow> bool" where
  "versionReachable g a b = version_search g (cl_id b) [a] []"

definition orderedByArtifact :: "'a graph_material_scheme \<Rightarrow> resource_claim \<Rightarrow> resource_claim \<Rightarrow> bool" where
  "orderedByArtifact g a b \<longleftrightarrow> versionReachable g a b \<or> versionReachable g b a"

section \<open>Ownership, version chains and seams\<close>

fun pairs :: "'a list \<Rightarrow> ('a \<times> 'a) list" where
  "pairs [] = []"
| "pairs (x # xs) = map (Pair x) xs @ pairs xs"

definition overlap_state :: "(string \<Rightarrow> string \<Rightarrow> overlap) option \<Rightarrow> overlap \<Rightarrow> resource_claim \<Rightarrow> resource_claim \<Rightarrow> overlap" where
  "overlap_state query otherwise a b = (case query of
     Some f \<Rightarrow> f (cl_resourceId a) (cl_resourceId b)
   | None \<Rightarrow> if cl_resourceId a = cl_resourceId b then Overlap_yes else otherwise)"

definition ownership_findings ::
  "'a graph_material_scheme \<Rightarrow> (string \<Rightarrow> string \<Rightarrow> overlap) option \<Rightarrow> resource_claim \<times> resource_claim \<Rightarrow> finding list" where
  "ownership_findings g query = (\<lambda>(l, r).
     if \<not> modifies l \<and> \<not> modifies r then []
     else case overlap_state query Overlap_unknown l r of
       Overlap_no \<Rightarrow> []
     | Overlap_unknown \<Rightarrow> [mk_finding Gf_resource_overlap_unknown
         (''Claims '' @ cl_id l @ '' and '' @ cl_id r @ '' include a writer and are not proven disjoint.'') None None]
     | Overlap_yes \<Rightarrow> whenever (modifies l \<and> modifies r \<and> \<not> orderedByArtifact g l r)
         (mk_finding Gf_resource_double_writer
           (''Writers '' @ cl_nodeId l @ '' and '' @ cl_nodeId r @ '' are not version-ordered.'') None None))"

definition validateOwnership :: "'a graph_material_scheme \<Rightarrow> (string \<Rightarrow> string \<Rightarrow> overlap) option \<Rightarrow> finding list" where
  "validateOwnership g query = concat (map (ownership_findings g query) (pairs (gr_resourceClaims g)))"

definition chain_findings ::
  "'a graph_material_scheme \<Rightarrow> (string \<Rightarrow> string \<Rightarrow> overlap) option \<Rightarrow> resource_claim \<Rightarrow> resource_claim \<Rightarrow> finding list" where
  "chain_findings g query successor predecessor =
     (case (cl_inputVersion successor, outputArtifact predecessor) of
        (Artifact_version r, Some out) \<Rightarrow> whenever
          (cl_id successor \<noteq> cl_id predecessor \<and>
           overlap_state query Overlap_no successor predecessor = Overlap_yes \<and>
           refKey r = refKey out \<and> \<not> orderedByArtifact g predecessor successor)
          (mk_finding Gf_invalid_version_chain (''Writer '' @ cl_nodeId successor @ '' consumes '' @ cr_id out @
             '' without a matching ArtifactRequirement.'') (Some (cl_nodeId successor)) None)
      | _ \<Rightarrow> [])"

definition validateVersionChains :: "'a graph_material_scheme \<Rightarrow> (string \<Rightarrow> string \<Rightarrow> overlap) option \<Rightarrow> finding list" where
  "validateVersionChains g query =
     concat (map (\<lambda>s. concat (map (chain_findings g query s) (writers g))) (writers g))"

definition seam_findings :: "'a graph_material_scheme \<Rightarrow> graph_seam \<Rightarrow> finding list" where
  "seam_findings g s =
     whenever (case map_of (rev (map (\<lambda>r. (rq_id r, r)) (gr_artifactRequirements g))) (gs_artifactRequirementId s) of
         None \<Rightarrow> True
       | Some r \<Rightarrow> rq_producerNodeId r \<noteq> gs_producerNodeId s \<or> rq_consumerNodeId r \<noteq> gs_consumerNodeId s)
       (mk_finding Gf_missing_seam_artifact (''Seam '' @ gs_id s @ '' has no matching artifact requirement.'') None (Some (gs_id s))) @
     concat (map (\<lambda>i. whenever (\<not> list_ex (\<lambda>r. take (length i + 1) (refKey r) = i @ '':'') (gr_contractRefs g))
       (mk_finding Gf_missing_seam_obligation (''Seam '' @ gs_id s @ '' references undeclared validation obligation '' @ i @ ''.'')
         None (Some (gs_id s)))) (gs_validationObligationIds s))"

definition validateSeams :: "'a graph_material_scheme \<Rightarrow> finding list" where
  "validateSeams g = concat (map (seam_findings g) (gr_seamBindings g))"

section \<open>The validation\<close>

definition validate_parsed :: "validation_options \<Rightarrow> graph_revision \<Rightarrow> finding list" where
  "validate_parsed opts g =
     (case vo_hasher opts of None \<Rightarrow> [] | Some h \<Rightarrow> whenever
        (gr_digest g \<noteq> computeCanonicalDigest h (material_json (graph_material.truncate g)))
        (mk_finding Gf_digest_mismatch ''Graph digest does not identify its canonical content.'' None None)) @
     validateHierarchy g @ validateReferences g @
     validateArtifactFlow g (vo_artifactReachability opts) @
     validateOwnership g (vo_resourceOverlap opts) @
     validateVersionChains g (vo_resourceOverlap opts) @
     validateSeams g"

text \<open>The texts of zod's issues for a value it rejects are those of the library, given as \<open>zod_issues\<close>.\<close>

definition validateGraphRevision ::
  "(graph_revision \<Rightarrow> string list) \<Rightarrow> validation_options \<Rightarrow> graph_revision \<Rightarrow> finding list" where
  "validateGraphRevision zod_issues opts input = (case parse_graph_revision input of
     None \<Rightarrow> map (\<lambda>m. mk_finding Gf_schema_invalid m None None) (zod_issues input)
   | Some g \<Rightarrow> validate_parsed opts g)"

definition validateGraphRevisionTransition :: "graph_revision \<Rightarrow> graph_revision \<Rightarrow> finding list" where
  "validateGraphRevisionTransition previous next_revision =
     whenever (gr_graphId next_revision \<noteq> gr_graphId previous \<or> gr_revision next_revision \<noteq> gr_revision previous + 1)
       (mk_finding Gf_nonconsecutive_revision
         ''A revision transition must preserve graphId and increment revision by one.'' None None) @
     whenever (gr_digest next_revision = gr_digest previous)
       (mk_finding Gf_content_identity_unchanged ''A new revision must identify different canonical content.'' None None)"

end
