(* ===== verification/Graph_Laws.thy ===== *)
theory Graph_Laws
  imports Graph_Validation
begin

text \<open>
  What the two searches of the validation decide: the depth-first check reports exactly the cycles
  reachable from its starting points, and the search for version order decides reachability along the
  declared consumptions.
\<close>

lemma closed_reaches: "r `` F \<subseteq> F \<Longrightarrow> x \<in> F \<Longrightarrow> (x, y) \<in> r\<^sup>* \<Longrightarrow> y \<in> F"
  using Image_closed_trancl[of r F] by blast

section \<open>Cycles\<close>

lemma visit_all_sound:
  assumes "snd (visit_all es active xs finished reported)" and "\<not> reported"
    and "\<And>a x. a \<in> set active \<Longrightarrow> x \<in> set xs \<Longrightarrow> (a, x) \<in> (set es)\<^sup>+"
  shows "\<exists>x \<in> set xs. \<exists>z. (x, z) \<in> (set es)\<^sup>* \<and> (z, z) \<in> (set es)\<^sup>+"
  using assms
proof (induction es active xs finished reported rule: visit_all.induct)
  case (2 es active x xs finished reported)
  let ?inner = "visit_all es (x # active) (successors es x) finished reported"
  consider "x \<in> set active" | "x \<notin> set active" "x \<in> set finished"
    | "x \<notin> set active" "x \<notin> set finished" "snd ?inner" | "x \<notin> set active" "x \<notin> set finished" "\<not> snd ?inner"
    by blast
  then show ?case
  proof cases
    case 1
    with 2(7) have "(x, x) \<in> (set es)\<^sup>+" by simp
    then show ?thesis by auto
  next
    case 2
    with "2.prems" "2.IH"(2) show ?thesis by auto
  next
    case 3
    have "(a, y) \<in> (set es)\<^sup>+" if "a \<in> set (x # active)" "y \<in> set (successors es x)" for a y
      using that "2.prems"(3)[of a x] by (auto intro: trancl_into_trancl)
    from "2.IH"(3)[OF 3(1,2,3) "2.prems"(2) this] obtain y z where
      "(x, y) \<in> set es" "(y, z) \<in> (set es)\<^sup>*" "(z, z) \<in> (set es)\<^sup>+" by auto
    then show ?thesis by (meson converse_rtrancl_into_rtrancl list.set_intros(1))
  next
    case 4
    with "2.prems" "2.IH"(4)[OF 4(1,2) refl] show ?thesis by (auto simp: Let_def)
  qed
qed simp

lemma visit_all_reported: "reported \<Longrightarrow> snd (visit_all es active xs finished reported)"
  by (induction es active xs finished reported rule: visit_all.induct) (auto simp: Let_def)

lemma visit_all_complete:
  assumes "\<not> snd (visit_all es active xs finished reported)"
    and "set es `` set finished \<subseteq> set finished" and "\<forall>z \<in> set finished. (z, z) \<notin> (set es)\<^sup>+"
  defines "f \<equiv> set (fst (visit_all es active xs finished reported))"
  shows "set finished \<subseteq> f \<and> set xs \<subseteq> f \<and> set es `` f \<subseteq> f \<and> (\<forall>z \<in> f. (z, z) \<notin> (set es)\<^sup>+)"
  using assms(1-3) unfolding f_def
proof (induction es active xs finished reported rule: visit_all.induct)
  case (2 es active x xs finished reported)
  let ?inner = "visit_all es (x # active) (successors es x) finished reported"
  have "x \<notin> set active"
    using "2.prems"(1) by (auto simp: visit_all_reported)
  show ?case
  proof (cases "x \<in> set finished")
    case True
    with \<open>x \<notin> set active\<close> "2.prems" "2.IH"(2) show ?thesis by auto
  next
    case False
    have "\<not> snd ?inner"
      using "2.prems"(1) \<open>x \<notin> set active\<close> False by (auto simp: Let_def visit_all_reported)
    with "2.IH"(3)[OF \<open>x \<notin> set active\<close> False] "2.prems"(2,3) have inner: "set finished \<subseteq> set (fst ?inner)"
      "set (successors es x) \<subseteq> set (fst ?inner)" "set es `` set (fst ?inner) \<subseteq> set (fst ?inner)"
      "\<forall>z \<in> set (fst ?inner). (z, z) \<notin> (set es)\<^sup>+" by blast+
    have closed: "set es `` set (x # fst ?inner) \<subseteq> set (x # fst ?inner)"
      using inner(2,3) by auto
    have "(x, x) \<notin> (set es)\<^sup>+"
    proof
      assume "(x, x) \<in> (set es)\<^sup>+"
      then obtain y where "(x, y) \<in> set es" "(y, x) \<in> (set es)\<^sup>*" by (meson tranclD)
      moreover from this(1) inner(2) have "y \<in> set (fst ?inner)" by auto
      ultimately have "x \<in> set (fst ?inner)" using closed_reaches[OF inner(3)] by blast
      with inner(4) \<open>(x, x) \<in> (set es)\<^sup>+\<close> show False by blast
    qed
    with inner(4) have acyclic: "\<forall>z \<in> set (x # fst ?inner). (z, z) \<notin> (set es)\<^sup>+" by simp
    from "2.IH"(4)[OF \<open>x \<notin> set active\<close> False refl _ closed acyclic] "2.prems"(1) \<open>x \<notin> set active\<close> False inner(1)
    show ?thesis by (auto simp: Let_def)
  qed
qed simp

theorem detectCycle_iff:
  "detectCycle es ids \<longleftrightarrow> (\<exists>x \<in> set ids. \<exists>z. (x, z) \<in> (set es)\<^sup>* \<and> (z, z) \<in> (set es)\<^sup>+)"
proof
  assume "detectCycle es ids"
  then show "\<exists>x \<in> set ids. \<exists>z. (x, z) \<in> (set es)\<^sup>* \<and> (z, z) \<in> (set es)\<^sup>+"
    unfolding detectCycle_def by (rule visit_all_sound) simp_all
next
  assume "\<exists>x \<in> set ids. \<exists>z. (x, z) \<in> (set es)\<^sup>* \<and> (z, z) \<in> (set es)\<^sup>+"
  then obtain x z where cyc: "x \<in> set ids" "(x, z) \<in> (set es)\<^sup>*" "(z, z) \<in> (set es)\<^sup>+" by blast
  show "detectCycle es ids"
  proof (rule ccontr)
    assume "\<not> detectCycle es ids"
    from visit_all_complete[OF this[unfolded detectCycle_def]] obtain f where
      "set ids \<subseteq> f" "set es `` f \<subseteq> f" "\<forall>z \<in> f. (z, z) \<notin> (set es)\<^sup>+" by auto
    moreover from this(1) closed_reaches[OF this(2)] cyc(1,2) have "z \<in> f" by blast
    ultimately show False using cyc(3) by blast
  qed
qed

section \<open>Version order\<close>

declare version_search.simps(2) [simp del]

text \<open>A writer consumes the version another one produced, over a declared requirement.\<close>

definition version_edges :: "'a graph_material_scheme \<Rightarrow> (resource_claim \<times> resource_claim) set" where
  "version_edges g = {(a, b). b \<in> set (writers g) \<and> consumes_version g a b}"

lemma version_search_sound:
  assumes "version_search g target pending seen"
  shows "\<exists>c \<in> set pending. \<exists>d. (c, d) \<in> (version_edges g)\<^sup>* \<and> cl_id d = target"
  using assms
proof (induction g target pending seen rule: version_search.induct)
  case (2 g target current pending seen)
  consider "cl_id current = target" | "cl_id current \<noteq> target" "cl_id current \<in> set seen"
    | "cl_id current \<noteq> target" "cl_id current \<notin> set seen" by blast
  then show ?case
  proof cases
    case 3
    with "2.prems" "2.IH"(2) obtain c d where "c \<in> set (filter (consumes_version g current) (writers g)) \<union> set pending"
      "(c, d) \<in> (version_edges g)\<^sup>*" "cl_id d = target" by (auto simp: version_search.simps(2))
    moreover have "(current, c) \<in> version_edges g" if "c \<in> set (filter (consumes_version g current) (writers g))"
      using that by (simp add: version_edges_def)
    ultimately show ?thesis by (auto intro: converse_rtrancl_into_rtrancl)
  qed (use 2 in \<open>auto simp: version_search.simps(2)\<close>)
qed simp

text \<open>
  The other direction needs that ids identify the claims of the search: \<open>seen\<close> remembers ids. \<open>visited\<close>
  is what has been seen, with every successor seen or pending.
\<close>

lemma version_search_complete:
  assumes "\<not> version_search g target pending seen"
    and "set pending \<subseteq> cs" "set (writers g) \<subseteq> cs" "inj_on cl_id cs" "t \<in> cs" "cl_id t = target"
    and "visited \<subseteq> cs" "cl_id ` visited = set seen" "t \<notin> visited"
    and "version_edges g `` visited \<subseteq> visited \<union> set pending"
  shows "\<exists>f. set pending \<subseteq> f \<and> visited \<subseteq> f \<and> version_edges g `` f \<subseteq> f \<and> t \<notin> f"
  using assms
proof (induction g target pending seen arbitrary: visited rule: version_search.induct)
  case (1 g target seen)
  then show ?case by (intro exI[of _ visited]) auto
next
  case (2 g target current pending seen)
  have in_cs: "current \<in> cs" using "2.prems"(2) by simp
  have other: "cl_id current \<noteq> target" using "2.prems"(1) by (auto simp: version_search.simps(2))
  show ?case
  proof (cases "cl_id current \<in> set seen")
    case True
    with "2.prems"(8) have "cl_id current \<in> cl_id ` visited" by simp
    then obtain v where v: "cl_id current = cl_id v" "v \<in> visited" by (rule imageE)
    from inj_onD[OF "2.prems"(4) v(1) in_cs] v(2) "2.prems"(7) have visited: "current \<in> visited" by blast
    have stop: "\<not> version_search g target pending seen"
      using "2.prems"(1) other True by (simp add: version_search.simps(2))
    have "version_edges g `` visited \<subseteq> visited \<union> set pending"
      using "2.prems"(10) visited by auto
    from "2.IH"(1)[OF other True stop _ "2.prems"(3-9) this] "2.prems"(2) obtain f where
      "set pending \<subseteq> f" "visited \<subseteq> f" "version_edges g `` f \<subseteq> f" "t \<notin> f" by auto
    with visited show ?thesis by (intro exI[of _ f]) auto
  next
    case False
    let ?next = "rev (filter (consumes_version g current) (writers g))"
    have stop: "\<not> version_search g target (?next @ pending) (cl_id current # seen)"
      using "2.prems"(1) other False by (simp add: version_search.simps(2))
    have edges: "version_edges g `` insert current visited \<subseteq> insert current visited \<union> set (?next @ pending)"
      using "2.prems"(10) by (auto simp: version_edges_def)
    have sub: "set (?next @ pending) \<subseteq> cs" "insert current visited \<subseteq> cs"
      using "2.prems"(2,3,7) by auto
    have ids: "cl_id ` insert current visited = set (cl_id current # seen)" "t \<notin> insert current visited"
      using other "2.prems"(6,8,9) by auto
    from "2.IH"(2)[OF other False stop sub(1) "2.prems"(3-6) sub(2) ids edges] obtain f where
      "set (?next @ pending) \<subseteq> f" "insert current visited \<subseteq> f" "version_edges g `` f \<subseteq> f" "t \<notin> f" by blast
    then show ?thesis by (intro exI[of _ f]) auto
  qed
qed

lemma versionReachable_iff:
  assumes "distinct (map cl_id (gr_resourceClaims g))" and "a \<in> set (gr_resourceClaims g)" "b \<in> set (gr_resourceClaims g)"
  shows "versionReachable g a b \<longleftrightarrow> (a, b) \<in> (version_edges g)\<^sup>*"
proof
  have inj: "inj_on cl_id (set (gr_resourceClaims g))" using assms(1) by (simp add: distinct_map)
  have within: "d \<in> set (gr_resourceClaims g)" if "(a, d) \<in> (version_edges g)\<^sup>*" for d
    using that assms(2) by (induction) (auto simp: version_edges_def writers_def)
  {
    assume "versionReachable g a b"
    then obtain d where "(a, d) \<in> (version_edges g)\<^sup>*" "cl_id d = cl_id b"
      unfolding versionReachable_def by (auto dest: version_search_sound)
    with within inj assms(3) show "(a, b) \<in> (version_edges g)\<^sup>*" by (metis inj_onD)
  next
    assume reach: "(a, b) \<in> (version_edges g)\<^sup>*"
    show "versionReachable g a b"
    proof (rule ccontr)
      assume "\<not> versionReachable g a b"
      from version_search_complete[OF this[unfolded versionReachable_def], of "set (gr_resourceClaims g)" b "{}"]
      obtain f where "a \<in> f" "version_edges g `` f \<subseteq> f" "b \<notin> f"
        using inj assms(2,3) by (auto simp: writers_def)
      with closed_reaches[OF _ _ reach] show False by blast
    qed
  }
qed

end
