(* ===== verification/Graph_Soundness.thy ===== *)
theory Graph_Soundness
  imports Graph_Laws
begin

text \<open>
  What a graph without findings is: the declarative reading of every check of the validation, first each
  check on its own and then all of them together.

  Source: packages/task-graph/src/canonical-graph.ts.
\<close>

section \<open>The hierarchy is a tree\<close>

definition parent_edge :: "'a graph_material_scheme \<Rightarrow> (string \<times> string) set" where
  "parent_edge g = {(k, p). \<exists>n. oget (gr_nodes g) k = Some n \<and> tn_parentId n = Some p}"

definition rooted_tree :: "'a graph_material_scheme \<Rightarrow> bool" where
  "rooted_tree g \<longleftrightarrow>
     (\<exists>n. oget (gr_nodes g) (gr_rootId g) = Some n \<and> tn_parentId n = None \<and>
        (tn_kind n \<in> {Root_node, Composite_node} \<or> length (gr_nodes g) \<le> 1)) \<and>
     (\<forall>k n. oget (gr_nodes g) k = Some n \<longrightarrow> tn_id n = k \<and> (k, gr_rootId g) \<in> (parent_edge g)\<^sup>*)"

text \<open>What the schema and the object give: every key once, and no empty parent.\<close>

definition node_table :: "'a graph_material_scheme \<Rightarrow> bool" where
  "node_table g \<longleftrightarrow> distinct (map fst (gr_nodes g)) \<and> (\<forall>n \<in> snd ` set (gr_nodes g). tn_parentId n \<noteq> Some [])"

lemma parse_entry_table:
  assumes "parse_entry x = Some y"
  shows "fst y = fst x" "tn_parentId (snd y) \<noteq> Some []"
proof -
  have "entityId s \<noteq> Some []" for s by (simp add: entityId_Some)
  with assms show "fst y = fst x" "tn_parentId (snd y) \<noteq> Some []"
    by (auto simp: parse_entry_def parse_task_node_def parse_simps opt_of_def split: option.splits)
qed

lemma arr_of_entries:
  "arr_of parse_entry xs = Some ys \<Longrightarrow> map fst ys = map fst xs \<and> (\<forall>n \<in> snd ` set ys. tn_parentId n \<noteq> Some [])"
proof (induction xs arbitrary: ys)
  case (Cons x xs)
  then obtain y zs where "parse_entry x = Some y" "arr_of parse_entry xs = Some zs" "ys = y # zs"
    by (auto simp: parse_simps)
  with Cons.IH[of zs] parse_entry_table[of x y] show ?case by simp
qed simp

lemma parsed_node_table:
  assumes "parse_graph_revision raw = Some g" and "distinct (map fst (gr_nodes raw))"
  shows "node_table g"
proof -
  from assms(1) have "arr_of parse_entry (gr_nodes raw) = Some (gr_nodes g)"
    by (auto simp: parse_graph_revision_def parse_graph_material_def parse_simps graph_material.defs graph_revision.defs)
  with arr_of_entries[OF this] assms(2) show ?thesis by (simp add: node_table_def)
qed

lemma parent_edges_set:
  assumes "node_table g"
  shows "set (parent_edges g) = parent_edge g"
proof -
  have entries: "(k, n) \<in> set (gr_nodes g) \<longleftrightarrow> oget (gr_nodes g) k = Some n" for k n
    using assms by (simp add: node_table_def)
  have "truthy (tn_parentId n) = tn_parentId n" if "(k, n) \<in> set (gr_nodes g)" for k n
    using that assms by (force simp: node_table_def truthy_def)
  then have "(k, p) \<in> set (parent_edges g) \<longleftrightarrow> (\<exists>n. (k, n) \<in> set (gr_nodes g) \<and> tn_parentId n = Some p)" for k p
    unfolding parent_edges_def by (auto split: option.splits) metis
  then show ?thesis
    unfolding entries parent_edge_def by auto
qed

lemma parent_edge_functional: "(k, p) \<in> parent_edge g \<Longrightarrow> (k, q) \<in> parent_edge g \<Longrightarrow> p = q"
  by (auto simp: parent_edge_def)

lemma functional_path_to_cycle:
  assumes "\<And>k p q. (k, p) \<in> r \<Longrightarrow> (k, q) \<in> r \<Longrightarrow> p = q"
    and "(x, y) \<in> r\<^sup>*" and "(x, z) \<in> r\<^sup>*"
  shows "(y, z) \<in> r\<^sup>* \<or> (z, y) \<in> r\<^sup>*"
  using assms(2,3)
proof (induction)
  case (step u v)
  from step.IH[OF step.prems] show ?case
  proof
    assume "(u, z) \<in> r\<^sup>*"
    then show ?thesis
    proof (cases rule: converse_rtranclE)
      case (step w)
      with assms(1) \<open>(u, v) \<in> r\<close> have "w = v" by blast
      with step show ?thesis by blast
    qed (use \<open>(u, v) \<in> r\<close> in blast)
  qed (use step(2) in \<open>meson rtrancl.rtrancl_into_rtrancl\<close>)
qed simp

text \<open>The four checks of the hierarchy, read one by one.\<close>

definition top_ok :: "'a graph_material_scheme \<Rightarrow> bool" where
  "top_ok g \<longleftrightarrow> (\<exists>n. oget (gr_nodes g) (gr_rootId g) = Some n \<and> tn_parentId n = None \<and>
     (tn_kind n \<in> {Root_node, Composite_node} \<or> length (gr_nodes g) \<le> 1))"

definition keys_ok :: "'a graph_material_scheme \<Rightarrow> bool" where
  "keys_ok g \<longleftrightarrow> (\<forall>k n. oget (gr_nodes g) k = Some n \<longrightarrow> tn_id n = k)"

definition parents_ok :: "'a graph_material_scheme \<Rightarrow> bool" where
  "parents_ok g \<longleftrightarrow> (\<forall>k n. oget (gr_nodes g) k = Some n \<longrightarrow> tn_id n \<noteq> gr_rootId g \<longrightarrow>
     (\<exists>p. tn_parentId n = Some p \<and> oget (gr_nodes g) p \<noteq> None))"

definition cycles_ok :: "'a graph_material_scheme \<Rightarrow> bool" where
  "cycles_ok g \<longleftrightarrow> (\<forall>k n z. oget (gr_nodes g) k = Some n \<longrightarrow> (k, z) \<in> (parent_edge g)\<^sup>* \<longrightarrow> (z, z) \<notin> (parent_edge g)\<^sup>+)"

lemma hierarchy_checks:
  assumes "node_table g"
  shows "validateHierarchy g = [] \<longleftrightarrow> top_ok g \<and> keys_ok g \<and> parents_ok g \<and> cycles_ok g"
proof -
  have entries: "(k, n) \<in> set (gr_nodes g) \<longleftrightarrow> oget (gr_nodes g) k = Some n" for k n
    using assms by (simp add: node_table_def)
  have keys: "set (okeys (gr_nodes g)) = {k. \<exists>n. oget (gr_nodes g) k = Some n}"
    unfolding entries[symmetric] by force
  have cyc: "detectCycle (parent_edges g) (okeys (gr_nodes g)) \<longleftrightarrow> \<not> cycles_ok g"
    unfolding detectCycle_iff parent_edges_set[OF assms] cycles_ok_def keys by blast
  have table: "(\<forall>(k, n) \<in> set (own_entries (gr_nodes g)). k = tn_id n \<and> (tn_id n = gr_rootId g \<or>
      \<not> (case tn_parentId n of None \<Rightarrow> True | Some p \<Rightarrow> oget (gr_nodes g) p = None))) \<longleftrightarrow> keys_ok g \<and> parents_ok g"
  proof -
    have parent: "\<not> (case v of None \<Rightarrow> True | Some p \<Rightarrow> oget (gr_nodes g) p = None) \<longleftrightarrow>
        (\<exists>p. v = Some p \<and> oget (gr_nodes g) p \<noteq> None)" for v by (cases v) auto
    have all: "(\<forall>(k, n) \<in> set (own_entries (gr_nodes g)). P k n) \<longleftrightarrow> (\<forall>k n. oget (gr_nodes g) k = Some n \<longrightarrow> P k n)" for P
      unfolding set_own_entries entries[symmetric] by blast
    show ?thesis
      unfolding all parent keys_ok_def parents_ok_def by blast
  qed
  have top: "(case oget (gr_nodes g) (gr_rootId g) of None \<Rightarrow> False | Some n \<Rightarrow> \<not> (tn_parentId n \<noteq> None \<or>
      tn_kind n \<noteq> Root_node \<and> tn_kind n \<noteq> Composite_node \<and> length (gr_nodes g) > 1)) \<longleftrightarrow> top_ok g"
    by (cases "oget (gr_nodes g) (gr_rootId g)") (auto simp: top_ok_def not_less)
  have every: "validateHierarchy g = [] \<longleftrightarrow>
      (case oget (gr_nodes g) (gr_rootId g) of None \<Rightarrow> False | Some n \<Rightarrow> \<not> (tn_parentId n \<noteq> None \<or>
        tn_kind n \<noteq> Root_node \<and> tn_kind n \<noteq> Composite_node \<and> length (gr_nodes g) > 1)) \<and>
      (\<forall>(k, n) \<in> set (own_entries (gr_nodes g)). k = tn_id n \<and> (tn_id n = gr_rootId g \<or>
        \<not> (case tn_parentId n of None \<Rightarrow> True | Some p \<Rightarrow> oget (gr_nodes g) p = None))) \<and>
      \<not> detectCycle (parent_edges g) (okeys (gr_nodes g))"
    unfolding validateHierarchy_def
    by (cases "oget (gr_nodes g) (gr_rootId g)") (simp_all add: case_prod_unfold)
  show ?thesis
    unfolding every cyc table top by blast
qed

lemma checked_reaches_root:
  assumes "node_table g" "top_ok g" "keys_ok g" "parents_ok g" "cycles_ok g"
  shows "oget (gr_nodes g) k = Some n \<Longrightarrow> (k, gr_rootId g) \<in> (parent_edge g)\<^sup>*"
proof -
  have "finite (parent_edge g)"
    unfolding parent_edges_set[OF assms(1), symmetric] by simp
  moreover have "acyclic (parent_edge g)"
  proof (rule acyclicI, intro allI notI)
    fix x assume x: "(x, x) \<in> (parent_edge g)\<^sup>+"
    then obtain y where "(x, y) \<in> parent_edge g" by (meson tranclD)
    then obtain n where "oget (gr_nodes g) x = Some n" by (auto simp: parent_edge_def)
    with x assms(5) show False by (auto simp: cycles_ok_def)
  qed
  ultimately have "wf ((parent_edge g)\<inverse>)" by (rule finite_acyclic_wf_converse)
  then show "oget (gr_nodes g) k = Some n \<Longrightarrow> (k, gr_rootId g) \<in> (parent_edge g)\<^sup>*"
  proof (induction k arbitrary: n rule: wf_induct_rule)
    case (less k)
    show ?case
    proof (cases "k = gr_rootId g")
      case False
      with less.prems assms(3,4) obtain p m where "tn_parentId n = Some p" "oget (gr_nodes g) p = Some m"
        by (fastforce simp: keys_ok_def parents_ok_def)
      with less.prems less.IH[of p m] show ?thesis
        by (auto simp: parent_edge_def intro: converse_rtrancl_into_rtrancl)
    qed simp
  qed
qed

lemma functional_cycle_stays:
  assumes "\<And>k p q. (k, p) \<in> r \<Longrightarrow> (k, q) \<in> r \<Longrightarrow> p = q" and "(z, z) \<in> r\<^sup>+" and "(z, y) \<in> r\<^sup>*"
  shows "(y, z) \<in> r\<^sup>+"
  using assms(3)
proof (induction)
  case base
  show ?case by (rule assms(2))
next
  case (step y w)
  from step.IH obtain v where "(y, v) \<in> r" "(v, z) \<in> r\<^sup>*" by (meson tranclD)
  with assms(1)[OF step.hyps(2)] have "(w, z) \<in> r\<^sup>*" by blast
  from rtrancl_trancl_trancl[OF this assms(2)] show ?case .
qed

lemma tree_has_no_cycle:
  assumes "rooted_tree g"
  shows "cycles_ok g"
  unfolding cycles_ok_def
proof (intro allI impI notI)
  let ?r = "parent_edge g" and ?o = "gr_rootId g"
  fix k n z assume k: "oget (gr_nodes g) k = Some n" "(k, z) \<in> ?r\<^sup>*" and cyc: "(z, z) \<in> ?r\<^sup>+"
  have top: "(?o, p) \<notin> ?r\<^sup>+" for p
    using assms by (auto simp: rooted_tree_def parent_edge_def dest: tranclD)
  from assms k(1) have "(k, ?o) \<in> ?r\<^sup>*" by (auto simp: rooted_tree_def)
  from functional_path_to_cycle[OF parent_edge_functional k(2) this] have "(z, ?o) \<in> ?r\<^sup>*"
    using top by (auto simp: rtrancl_eq_or_trancl)
  with parent_edge_functional have "(?o, z) \<in> ?r\<^sup>+" by (rule functional_cycle_stays[OF _ cyc])
  with top show False by blast
qed

lemma hierarchy_findings:
  assumes "node_table g"
  shows "validateHierarchy g = [] \<longleftrightarrow> rooted_tree g"
  unfolding hierarchy_checks[OF assms]
proof
  assume "top_ok g \<and> keys_ok g \<and> parents_ok g \<and> cycles_ok g"
  with checked_reaches_root[OF assms] show "rooted_tree g"
    by (auto simp: rooted_tree_def top_ok_def keys_ok_def)
next
  assume tree: "rooted_tree g"
  have "parents_ok g"
    unfolding parents_ok_def
  proof (intro allI impI)
    fix k n assume k: "oget (gr_nodes g) k = Some n" "tn_id n \<noteq> gr_rootId g"
    with tree have "(k, gr_rootId g) \<in> (parent_edge g)\<^sup>*" "k \<noteq> gr_rootId g" by (auto simp: rooted_tree_def)
    then obtain p where p: "(k, p) \<in> parent_edge g" "(p, gr_rootId g) \<in> (parent_edge g)\<^sup>*" by (meson converse_rtranclE)
    from p(2) have "oget (gr_nodes g) p \<noteq> None"
      by (cases rule: converse_rtranclE) (use tree in \<open>auto simp: rooted_tree_def parent_edge_def\<close>)
    with p(1) k(1) show "\<exists>p. tn_parentId n = Some p \<and> oget (gr_nodes g) p \<noteq> None"
      by (auto simp: parent_edge_def)
  qed
  moreover have "top_ok g" "keys_ok g" using tree by (auto simp: rooted_tree_def top_ok_def keys_ok_def)
  ultimately show "top_ok g \<and> keys_ok g \<and> parents_ok g \<and> cycles_ok g" using tree_has_no_cycle[OF tree] by blast
qed

section \<open>References, artifact flow and ownership\<close>

definition references_ok :: "'a graph_material_scheme \<Rightarrow> bool" where
  "references_ok g \<longleftrightarrow>
     (\<forall>n \<in> snd ` set (gr_nodes g). declared g (tn_contractRef n)) \<and>
     (\<forall>r \<in> set (gr_artifactRequirements g). declared g (rq_artifactContract r)) \<and>
     (\<forall>s \<in> set (gr_seamBindings g). declared g (gs_seamContract s)) \<and>
     (\<forall>c \<in> set (gr_resourceClaims g).
        (\<forall>r. outputArtifact c = Some r \<longrightarrow> declared g r) \<and> (\<forall>r. cl_inputVersion c = Artifact_version r \<longrightarrow> declared g r))"

definition relations_ok :: "'a graph_material_scheme \<Rightarrow> bool" where
  "relations_ok g \<longleftrightarrow> distinct (map fst (graph_relations g)) \<and>
     (\<forall>(i, ns) \<in> set (graph_relations g). \<forall>n \<in> set ns. oget (gr_nodes g) n \<noteq> None)"

lemma relation_findings_Nil:
  "relation_findings g seen rs = [] \<longleftrightarrow> distinct (map fst rs) \<and> set seen \<inter> fst ` set rs = {} \<and>
     (\<forall>(i, ns) \<in> set rs. \<forall>n \<in> set ns. oget (gr_nodes g) n \<noteq> None)"
  by (induction g seen rs rule: relation_findings.induct) auto

lemma reference_findings: "validateReferences g = [] \<longleftrightarrow> references_ok g \<and> relations_ok g"
proof -
  have "claim_reference_findings g c = [] \<longleftrightarrow>
      (\<forall>r. outputArtifact c = Some r \<longrightarrow> declared g r) \<and> (\<forall>r. cl_inputVersion c = Artifact_version r \<longrightarrow> declared g r)" for c
    unfolding claim_reference_findings_def
    by (cases "outputArtifact c"; cases "cl_inputVersion c") (simp_all del: outputArtifact_modifies)
  then show ?thesis
    unfolding validateReferences_def references_ok_def relations_ok_def
    by (simp add: relation_findings_Nil)
qed

text \<open>Every requirement is met by the last writer of its artifact, and the flow has no cycle.\<close>

definition flow_ok :: "(artifact_requirement \<Rightarrow> bool) option \<Rightarrow> 'a graph_material_scheme \<Rightarrow> bool" where
  "flow_ok reach g \<longleftrightarrow>
     (\<forall>r \<in> set (gr_artifactRequirements g). map_of (produced g) (refKey (rq_artifactContract r)) = Some (rq_producerNodeId r) \<and>
        (\<forall>canMaterialize. reach = Some canMaterialize \<longrightarrow> canMaterialize r)) \<and>
     acyclic (set (artifact_edges g))"

lemma requirement_nodes:
  assumes "relations_ok g" "r \<in> set (gr_artifactRequirements g)"
  shows "rq_producerNodeId r \<in> set (okeys (gr_nodes g))" "rq_consumerNodeId r \<in> set (okeys (gr_nodes g))"
proof -
  have "(rq_id r, [rq_producerNodeId r, rq_consumerNodeId r]) \<in> set (graph_relations g)"
    using assms(2) by (simp add: graph_relations_def)
  with assms(1) show "rq_producerNodeId r \<in> set (okeys (gr_nodes g))" "rq_consumerNodeId r \<in> set (okeys (gr_nodes g))"
    by (auto simp: relations_ok_def map_of_eq_None_iff)
qed

lemma artifact_cycle:
  assumes "relations_ok g"
  shows "detectCycle (artifact_edges g) (okeys (gr_nodes g)) \<longleftrightarrow> \<not> acyclic (set (artifact_edges g))"
proof
  assume "\<not> acyclic (set (artifact_edges g))"
  then obtain x where x: "(x, x) \<in> (set (artifact_edges g))\<^sup>+" unfolding acyclic_def by blast
  then obtain y where "(x, y) \<in> set (artifact_edges g)" by (meson tranclD)
  then obtain r where "r \<in> set (gr_artifactRequirements g)" "x = rq_producerNodeId r" by (auto simp: artifact_edges_def)
  with requirement_nodes[OF assms] have "x \<in> set (okeys (gr_nodes g))" by simp
  with x show "detectCycle (artifact_edges g) (okeys (gr_nodes g))" unfolding detectCycle_iff by blast
next
  assume "detectCycle (artifact_edges g) (okeys (gr_nodes g))"
  then show "\<not> acyclic (set (artifact_edges g))" unfolding detectCycle_iff acyclic_def by blast
qed

lemma flow_findings:
  assumes "relations_ok g"
  shows "validateArtifactFlow g reach = [] \<longleftrightarrow> flow_ok reach g"
  unfolding validateArtifactFlow_def flow_ok_def artifact_cycle[OF assms]
  by (cases reach) simp_all

text \<open>Claims that meet a writer are proven disjoint, or the two writers are ordered by the versions they consume.\<close>

definition version_ordered :: "'a graph_material_scheme \<Rightarrow> resource_claim \<Rightarrow> resource_claim \<Rightarrow> bool" where
  "version_ordered g a b \<longleftrightarrow> (a, b) \<in> (version_edges g)\<^sup>* \<or> (b, a) \<in> (version_edges g)\<^sup>*"

definition ownership_ok :: "(string \<Rightarrow> string \<Rightarrow> overlap) option \<Rightarrow> 'a graph_material_scheme \<Rightarrow> bool" where
  "ownership_ok query g \<longleftrightarrow>
     (\<forall>a \<in> set (gr_resourceClaims g). \<forall>b \<in> set (gr_resourceClaims g).
        a \<noteq> b \<longrightarrow> modifies a \<or> modifies b \<longrightarrow>
          overlap_state query Overlap_unknown a b = Overlap_no \<or>
          overlap_state query Overlap_unknown a b = Overlap_yes \<and> (modifies a \<and> modifies b \<longrightarrow> version_ordered g a b))"

definition symmetric_query :: "(string \<Rightarrow> string \<Rightarrow> overlap) option \<Rightarrow> bool" where
  "symmetric_query query \<longleftrightarrow> (\<forall>f a b. query = Some f \<longrightarrow> f a b = f b a)"

lemma overlap_state_sym: "symmetric_query query \<Longrightarrow> overlap_state query d a b = overlap_state query d b a"
  by (auto simp: symmetric_query_def overlap_state_def split: option.splits)

lemma set_pairs: "distinct xs \<Longrightarrow> x \<in> set xs \<Longrightarrow> y \<in> set xs \<Longrightarrow> x \<noteq> y \<Longrightarrow> (x, y) \<in> set (pairs xs) \<or> (y, x) \<in> set (pairs xs)"
  by (induction xs) auto

lemma pairs_set: "distinct xs \<Longrightarrow> (x, y) \<in> set (pairs xs) \<Longrightarrow> x \<in> set xs \<and> y \<in> set xs \<and> x \<noteq> y"
  by (induction xs) auto

lemma claims_distinct: "relations_ok g \<Longrightarrow> distinct (map cl_id (gr_resourceClaims g))"
  by (simp add: relations_ok_def graph_relations_def comp_def)

lemma ownership_findings_Nil:
  assumes "relations_ok g" "a \<in> set (gr_resourceClaims g)" "b \<in> set (gr_resourceClaims g)"
  shows "ownership_findings g query (a, b) = [] \<longleftrightarrow> (modifies a \<or> modifies b \<longrightarrow>
      overlap_state query Overlap_unknown a b = Overlap_no \<or>
      overlap_state query Overlap_unknown a b = Overlap_yes \<and> (modifies a \<and> modifies b \<longrightarrow> version_ordered g a b))"
  using versionReachable_iff[OF claims_distinct[OF assms(1)] assms(2,3)]
    versionReachable_iff[OF claims_distinct[OF assms(1)] assms(3,2)]
  by (auto simp: ownership_findings_def orderedByArtifact_def version_ordered_def split: overlap.splits)

lemma ownership_validated:
  assumes "relations_ok g" and "symmetric_query query"
  shows "validateOwnership g query = [] \<longleftrightarrow> ownership_ok query g"
proof -
  let ?cs = "gr_resourceClaims g"
  have dist: "distinct ?cs" using claims_distinct[OF assms(1)] by (simp add: distinct_map)
  have swap: "ownership_findings g query (a, b) = [] \<longleftrightarrow> ownership_findings g query (b, a) = []"
    if "a \<in> set ?cs" "b \<in> set ?cs" for a b
    unfolding ownership_findings_Nil[OF assms(1) that] ownership_findings_Nil[OF assms(1) that(2,1)]
    using overlap_state_sym[OF assms(2), of Overlap_unknown a b] by (auto simp: version_ordered_def)
  have "validateOwnership g query = [] \<longleftrightarrow>
      (\<forall>a \<in> set ?cs. \<forall>b \<in> set ?cs. a \<noteq> b \<longrightarrow> ownership_findings g query (a, b) = [])"
    unfolding validateOwnership_def using set_pairs[OF dist] pairs_set[OF dist] swap by fastforce
  then show ?thesis
    unfolding ownership_ok_def by (simp add: ownership_findings_Nil[OF assms(1)])
qed

text \<open>With a symmetric query the check of version chains asks nothing the check of ownership has not.\<close>

lemma chains_follow:
  assumes "relations_ok g" "symmetric_query query" "ownership_ok query g"
  shows "validateVersionChains g query = []"
proof -
  have "chain_findings g query s p = []" if "s \<in> set (writers g)" "p \<in> set (writers g)" for s p
  proof -
    have in_claims: "s \<in> set (gr_resourceClaims g)" "p \<in> set (gr_resourceClaims g)" "modifies s" "modifies p"
      using that by (auto simp: writers_def)
    have "orderedByArtifact g p s" if "cl_id s \<noteq> cl_id p" "overlap_state query Overlap_no s p = Overlap_yes"
    proof -
      have "overlap_state query Overlap_unknown s p = Overlap_yes"
        using that(2) by (auto simp: overlap_state_def split: option.splits if_splits)
      with assms(3) in_claims that(1) have "version_ordered g s p" by (fastforce simp: ownership_ok_def)
      then show ?thesis
        using versionReachable_iff[OF claims_distinct[OF assms(1)]] in_claims(1,2)
        by (auto simp: orderedByArtifact_def version_ordered_def)
    qed
    then show ?thesis by (auto simp: chain_findings_def split: version_ref.splits option.splits)
  qed
  then show ?thesis by (simp add: validateVersionChains_def)
qed

definition seams_ok :: "'a graph_material_scheme \<Rightarrow> bool" where
  "seams_ok g \<longleftrightarrow> (\<forall>s \<in> set (gr_seamBindings g).
     (\<exists>r \<in> set (gr_artifactRequirements g). rq_id r = gs_artifactRequirementId s \<and>
        rq_producerNodeId r = gs_producerNodeId s \<and> rq_consumerNodeId r = gs_consumerNodeId s) \<and>
     (\<forall>i \<in> set (gs_validationObligationIds s). \<exists>c \<in> set (gr_contractRefs g). take (length i + 1) (refKey c) = i @ '':''))"

lemma map_of_rev_ids:
  assumes "distinct (map f xs)"
  shows "map_of (rev (map (\<lambda>r. (f r, r)) xs)) i = Some r \<longleftrightarrow> r \<in> set xs \<and> f r = i"
proof -
  have "distinct (map fst (map (\<lambda>r. (f r, r)) (rev xs)))" using assms by (simp add: comp_def rev_map[symmetric])
  from map_of_eq_Some_iff[OF this, of i r] show ?thesis by (auto simp: rev_map)
qed

lemma seam_validated:
  assumes "relations_ok g"
  shows "validateSeams g = [] \<longleftrightarrow> seams_ok g"
proof -
  let ?rs = "gr_artifactRequirements g"
  let ?m = "map_of (rev (map (\<lambda>r. (rq_id r, r)) ?rs))"
  have "distinct (map rq_id ?rs)" using assms by (simp add: relations_ok_def graph_relations_def comp_def)
  note m = map_of_rev_ids[OF this]
  have "(case ?m i of None \<Rightarrow> True | Some r \<Rightarrow> rq_producerNodeId r \<noteq> p \<or> rq_consumerNodeId r \<noteq> c) \<longleftrightarrow>
      \<not> (\<exists>r \<in> set ?rs. rq_id r = i \<and> rq_producerNodeId r = p \<and> rq_consumerNodeId r = c)" for i p c
  proof (cases "?m i")
    case None
    then have "\<not> (r \<in> set ?rs \<and> rq_id r = i)" for r using m[of i r] by simp
    then show ?thesis unfolding None by auto
  next
    case (Some r)
    then have "r \<in> set ?rs" "rq_id r = i" using m[of i r] by simp_all
    moreover have "q = r" if "q \<in> set ?rs" "rq_id q = i" for q using m[of i q] Some that by simp
    ultimately show ?thesis unfolding Some option.case by metis
  qed
  note unmatched = this
  have "seam_findings g s = [] \<longleftrightarrow>
      (\<exists>r \<in> set ?rs. rq_id r = gs_artifactRequirementId s \<and>
        rq_producerNodeId r = gs_producerNodeId s \<and> rq_consumerNodeId r = gs_consumerNodeId s) \<and>
      (\<forall>i \<in> set (gs_validationObligationIds s). \<exists>c \<in> set (gr_contractRefs g). take (length i + 1) (refKey c) = i @ '':'')" for s
    unfolding seam_findings_def append_is_Nil_conv whenever_Nil unmatched by (auto simp: list_ex_iff)
  then show ?thesis
    unfolding validateSeams_def seams_ok_def by (simp only: concat_eq_Nil_conv set_map ball_simps)
qed

section \<open>Sound graphs\<close>

definition sound_graph :: "validation_options \<Rightarrow> graph_revision \<Rightarrow> bool" where
  "sound_graph opts g \<longleftrightarrow>
     (\<forall>h. vo_hasher opts = Some h \<longrightarrow> gr_digest g = computeCanonicalDigest h (material_json (graph_material.truncate g))) \<and>
     rooted_tree g \<and> references_ok g \<and> relations_ok g \<and> flow_ok (vo_artifactReachability opts) g \<and>
     ownership_ok (vo_resourceOverlap opts) g \<and> seams_ok g"

lemma parsed_sound:
  assumes "node_table g" and "symmetric_query (vo_resourceOverlap opts)"
  shows "validate_parsed opts g = [] \<longleftrightarrow> sound_graph opts g"
proof (cases "relations_ok g")
  case True
  have "validateVersionChains g (vo_resourceOverlap opts) = []" if "ownership_ok (vo_resourceOverlap opts) g"
    using chains_follow[OF True assms(2) that] .
  then show ?thesis
    unfolding validate_parsed_def sound_graph_def
    by (auto simp: hierarchy_findings[OF assms(1)] reference_findings flow_findings[OF True] True
        ownership_validated[OF True assms(2)] seam_validated[OF True] split: option.splits)
qed (simp add: validate_parsed_def sound_graph_def reference_findings)

end
