(* ===== verification/Frontier.thy ===== *)
theory Frontier
  imports Graph_Soundness Domain
begin

text \<open>
  The scheduler over the canonical graph: which nodes are ready and why the others are not, which of the
  ready ones may start together, and the last check before a wave starts.

  Sources: packages/scheduler/src/canonical-frontier.ts,
  packages/orchestrator-graph/src/concurrent-resource-invariant.ts.
\<close>

section \<open>The snapshot\<close>

text \<open>A JavaScript number, as far as the code asks: finite or not. \<open>NaN\<close> equals nothing.\<close>

datatype js_number = Finite rat | Not_finite

text \<open>The part of a task contract bundle that scheduling and execution read.\<close>

record artifact_contract =
  ak_id :: string
  ak_revision :: string
  ak_producerNodeId :: string
  ak_expectedPaths :: "string list"

record task_bundle =
  tb_task :: rev_ref
  tb_scope :: rev_ref
  tb_validation :: rev_ref
  tb_seams :: "rev_ref list"
  tb_artifacts :: "artifact_contract list"

record canonical_artifact =
  ca_artifactId :: string
  ca_revision :: js_number
  ca_digest :: string

record canonical_decision =
  cd_decisionId :: string
  cd_affectedNodeIds :: "string list"

record readiness_snapshot =
  sn_graph :: graph_revision
  sn_taskBundles :: "task_bundle obj"
  sn_adoptedArtifacts :: "canonical_artifact list"
  sn_pendingDecisions :: "canonical_decision list"
  sn_activeNodeIds :: "string list"
  sn_activeResourceClaims :: "resource_claim list option"
  sn_activeRuntimeLeases :: "lease_claim list"
  sn_availableExecutorNodeIds :: "string list"
  sn_adoptedNodeIds :: "string list"
  sn_budgetAvailable :: bool
  sn_currentContractDigests :: "string obj option"
  sn_resourceOverlap :: "(string \<Rightarrow> string \<Rightarrow> overlap) option"

datatype readiness_reason =
    Missing_artifact string int
  | Stale_contract string
  | Unresolved_decision string
  | Resource_overlap_unknown string string
  | Resource_claim_conflict string string
  | Runtime_lease_conflict string string string
  | Executor_unavailable
  | Budget_exhausted
  | Already_active
  | Already_adopted

record explanation =
  ex_nodeId :: string
  ex_ready :: bool
  ex_reasons :: "readiness_reason list"

record evaluation =
  ev_ready :: "explanation list"
  ev_blocked :: "explanation list"

section \<open>Readiness\<close>

definition reason_if :: "bool \<Rightarrow> readiness_reason \<Rightarrow> readiness_reason list" where
  "reason_if c r = (if c then [r] else [])"

text \<open>\<open>input.activeResourceClaims ?? graph.resourceClaims.filter(...)\<close>.\<close>

definition active_claims :: "readiness_snapshot \<Rightarrow> resource_claim list" where
  "active_claims sn = (case sn_activeResourceClaims sn of
     Some cs \<Rightarrow> cs
   | None \<Rightarrow> filter (\<lambda>c. cl_nodeId c \<in> set (sn_activeNodeIds sn)) (gr_resourceClaims (sn_graph sn)))"

definition claim_overlap :: "readiness_snapshot \<Rightarrow> resource_claim \<Rightarrow> resource_claim \<Rightarrow> overlap" where
  "claim_overlap sn c active = (case sn_resourceOverlap sn of
     Some f \<Rightarrow> f (cl_resourceId c) (cl_resourceId active)
   | None \<Rightarrow> if cl_resourceId c = cl_resourceId active then Overlap_yes
       else if oget (gr_nodes (sn_graph sn)) (cl_nodeId active) = None then Overlap_unknown else Overlap_no)"

definition claim_reasons :: "readiness_snapshot \<Rightarrow> resource_claim \<Rightarrow> resource_claim \<Rightarrow> readiness_reason list" where
  "claim_reasons sn c active =
     (if cl_nodeId c = cl_nodeId active \<or> \<not> modifies c \<and> \<not> modifies active then []
      else case claim_overlap sn c active of
        Overlap_unknown \<Rightarrow> [Resource_overlap_unknown (cl_resourceId c) (cl_nodeId active)]
      | Overlap_yes \<Rightarrow> [Resource_claim_conflict (cl_resourceId c) (cl_nodeId active)]
      | Overlap_no \<Rightarrow> [])"

definition appendResourceReasons :: "readiness_snapshot \<Rightarrow> string \<Rightarrow> readiness_reason list" where
  "appendResourceReasons sn nodeId =
     concat (map (\<lambda>c. concat (map (claim_reasons sn c) (active_claims sn)))
       (filter (\<lambda>c. cl_nodeId c = nodeId) (gr_resourceClaims (sn_graph sn))))"

definition lease_reasons :: "lease_claim \<Rightarrow> lease_claim \<Rightarrow> readiness_reason list" where
  "lease_reasons c active =
     (if lc_nodeId c = lc_nodeId active \<or> lc_provider c \<noteq> lc_provider active \<or> lc_resourceKey c \<noteq> lc_resourceKey active then []
      else reason_if (\<not> (lc_mode c = Shared \<and> lc_mode active = Shared))
        (Runtime_lease_conflict (lc_provider c) (lc_resourceKey c) (lc_nodeId active)))"

definition appendLeaseReasons :: "readiness_snapshot \<Rightarrow> string \<Rightarrow> readiness_reason list" where
  "appendLeaseReasons sn nodeId =
     concat (map (\<lambda>c. concat (map (lease_reasons c) (sn_activeRuntimeLeases sn)))
       (filter (\<lambda>c. lc_nodeId c = nodeId) (gr_runtimeLeaseClaims (sn_graph sn))))"

definition artifact_adopted :: "readiness_snapshot \<Rightarrow> artifact_requirement \<Rightarrow> bool" where
  "artifact_adopted sn r = list_ex (\<lambda>a. ca_artifactId a = cr_id (rq_artifactContract r) \<and>
     ca_revision a = Finite (of_int (cr_revision (rq_artifactContract r)))) (sn_adoptedArtifacts sn)"

definition explain_reasons :: "readiness_snapshot \<Rightarrow> string \<Rightarrow> task_node \<Rightarrow> readiness_reason list" where
  "explain_reasons sn nodeId node =
     (let ref = tn_contractRef node in
      (case (case sn_currentContractDigests sn of None \<Rightarrow> None | Some ds \<Rightarrow> oget ds (cr_id ref)) of
         None \<Rightarrow> [] | Some d \<Rightarrow> reason_if (d \<noteq> cr_digest ref) (Stale_contract (cr_id ref))) @
      reason_if (oget (sn_taskBundles sn) nodeId = None) (Stale_contract (cr_id ref)) @
      concat (map (\<lambda>r. reason_if (\<not> artifact_adopted sn r)
          (Missing_artifact (cr_id (rq_artifactContract r)) (cr_revision (rq_artifactContract r))))
        (filter (\<lambda>r. rq_consumerNodeId r = nodeId) (gr_artifactRequirements (sn_graph sn)))) @
      concat (map (\<lambda>d. reason_if (nodeId \<in> set (cd_affectedNodeIds d)) (Unresolved_decision (cd_decisionId d)))
        (sn_pendingDecisions sn)) @
      reason_if (nodeId \<notin> set (sn_availableExecutorNodeIds sn)) Executor_unavailable @
      reason_if (\<not> sn_budgetAvailable sn) Budget_exhausted @
      reason_if (nodeId \<in> set (sn_activeNodeIds sn)) Already_active @
      reason_if (nodeId \<in> set (sn_adoptedNodeIds sn)) Already_adopted @
      appendResourceReasons sn nodeId @ appendLeaseReasons sn nodeId)"

text \<open>\<open>None\<close> is the throw for a node the graph does not have.\<close>

definition explainNode :: "readiness_snapshot \<Rightarrow> string \<Rightarrow> explanation option" where
  "explainNode sn nodeId = do {
     node \<leftarrow> oget (gr_nodes (sn_graph sn)) nodeId;
     Some (let rs = explain_reasons sn nodeId node in \<lparr>ex_nodeId = nodeId, ex_ready = (rs = []), ex_reasons = rs\<rparr>) }"

fun explain_all :: "readiness_snapshot \<Rightarrow> string list \<Rightarrow> explanation list option" where
  "explain_all sn [] = Some []"
| "explain_all sn (n # ns) = do { e \<leftarrow> explainNode sn n; es \<leftarrow> explain_all sn ns; Some (e # es) }"

definition evaluateReadiness :: "host \<Rightarrow> readiness_snapshot \<Rightarrow> evaluation option" where
  "evaluateReadiness h sn = do {
     es \<leftarrow> explain_all sn (sort_le (h_le h) (okeys (gr_nodes (sn_graph sn))));
     Some \<lparr>ev_ready = filter ex_ready es, ev_blocked = filter (Not \<circ> ex_ready) es\<rparr> }"

section \<open>Selection\<close>

record risk_estimate =
  rk_score :: js_number
  rk_evidenceRefs :: "string list"

record selection_policy =
  sp_maxParallel :: int
  sp_maxConcurrentRiskScore :: "js_number option"

datatype defer_reason = By_capacity | By_risk | By_claim_conflict | By_lease_conflict

record deferral =
  df_nodeId :: string
  df_reason :: defer_reason
  df_risk :: "risk_estimate option"

record frontier_selection =
  fr_selected :: "explanation list"
  fr_deferred :: "deferral list"

datatype selection_error = Bad_max_parallel | Bad_risk_threshold | Bad_risk_score

definition normalizeRisk :: "risk_estimate \<Rightarrow> selection_error + risk_estimate" where
  "normalizeRisk v = (case rk_score v of
     Not_finite \<Rightarrow> Inl Bad_risk_score
   | Finite s \<Rightarrow> throwIf (s < 0) Bad_risk_score (Inr (v\<lparr>rk_evidenceRefs := uniq_sort (rk_evidenceRefs v)\<rparr>)))"

definition claims_conflict :: "resource_claim \<Rightarrow> resource_claim \<Rightarrow> bool" where
  "claims_conflict c active \<longleftrightarrow> (modifies c \<or> modifies active) \<and> cl_resourceId c = cl_resourceId active"

definition leases_conflict :: "lease_claim \<Rightarrow> lease_claim \<Rightarrow> bool" where
  "leases_conflict c active \<longleftrightarrow> lc_provider c = lc_provider active \<and> lc_resourceKey c = lc_resourceKey active \<and>
     (lc_mode c = Exclusive \<or> lc_mode active = Exclusive)"

definition concurrentHardConflict :: "string \<Rightarrow> string list \<Rightarrow> graph_revision \<Rightarrow> defer_reason option" where
  "concurrentHardConflict candidate selected g =
     (if list_ex (\<lambda>c. list_ex (claims_conflict c) (filter (\<lambda>c. cl_nodeId c \<in> set selected) (gr_resourceClaims g)))
          (filter (\<lambda>c. cl_nodeId c = candidate) (gr_resourceClaims g)) then Some By_claim_conflict
      else if list_ex (\<lambda>c. list_ex (leases_conflict c) (filter (\<lambda>c. lc_nodeId c \<in> set selected) (gr_runtimeLeaseClaims g)))
          (filter (\<lambda>c. lc_nodeId c = candidate) (gr_runtimeLeaseClaims g)) then Some By_lease_conflict
      else None)"

definition exceeds :: "risk_estimate \<Rightarrow> rat \<Rightarrow> bool" where
  "exceeds r threshold = (case rk_score r of Finite s \<Rightarrow> threshold < s | Not_finite \<Rightarrow> False)"

text \<open>One turn of the loop over the candidates.\<close>

definition select_step ::
  "int \<Rightarrow> rat \<Rightarrow> graph_revision option \<Rightarrow> (explanation \<Rightarrow> explanation list \<Rightarrow> risk_estimate) \<Rightarrow>
     frontier_selection \<Rightarrow> explanation \<Rightarrow> selection_error + frontier_selection" where
  "select_step maxParallel threshold graph estimate fr candidate =
     (let n = ex_nodeId candidate;
          defer_by = (\<lambda>reason risk. Inr (fr\<lparr>fr_deferred := fr_deferred fr @ [\<lparr>df_nodeId = n, df_reason = reason, df_risk = risk\<rparr>]\<rparr>)) in
      if maxParallel \<le> int (length (fr_selected fr)) then defer_by By_capacity None
      else case (case graph of None \<Rightarrow> None | Some g \<Rightarrow> concurrentHardConflict n (map ex_nodeId (fr_selected fr)) g) of
        Some conflict \<Rightarrow> defer_by conflict None
      | None \<Rightarrow> bindE (normalizeRisk (estimate candidate (fr_selected fr))) (\<lambda>risk.
          if fr_selected fr \<noteq> [] \<and> exceeds risk threshold then defer_by By_risk (Some risk)
          else Inr (fr\<lparr>fr_selected := fr_selected fr @ [candidate]\<rparr>)))"

definition risk_threshold :: "selection_policy \<Rightarrow> selection_error + rat" where
  "risk_threshold policy = (case sp_maxConcurrentRiskScore policy of
     None \<Rightarrow> Inr 50
   | Some Not_finite \<Rightarrow> Inl Bad_risk_threshold
   | Some (Finite t) \<Rightarrow> throwIf (t < 0) Bad_risk_threshold (Inr t))"

definition selectFrontier ::
  "host \<Rightarrow> explanation list \<Rightarrow> selection_policy \<Rightarrow> graph_revision option \<Rightarrow>
     (explanation \<Rightarrow> explanation list \<Rightarrow> risk_estimate) \<Rightarrow> selection_error + frontier_selection" where
  "selectFrontier h ready policy graph estimate =
     throwIf (sp_maxParallel policy < 1) Bad_max_parallel (
     bindE (risk_threshold policy) (\<lambda>threshold.
     foldE (select_step (sp_maxParallel policy) threshold graph estimate) \<lparr>fr_selected = [], fr_deferred = []\<rparr>
       (sort_le (\<lambda>a b. h_le h (ex_nodeId a) (ex_nodeId b)) (filter ex_ready ready))))"

section \<open>The last check\<close>

datatype wave_error = Concurrent_conflict string string string

definition races :: "resource_claim \<times> resource_claim \<Rightarrow> bool" where
  "races = (\<lambda>(one, other). cl_nodeId one \<noteq> cl_nodeId other \<and> cl_resourceId one = cl_resourceId other \<and>
     (modifies one \<or> modifies other))"

text \<open>\<open>None\<close> when the wave may start; the error names the first racing pair, its nodes sorted.\<close>

definition assertNoConcurrentResourceConflict :: "resource_claim list \<Rightarrow> string list \<Rightarrow> wave_error option" where
  "assertNoConcurrentResourceConflict claims selected =
     (case filter races (pairs (filter (\<lambda>c. cl_nodeId c \<in> set selected) claims)) of
        [] \<Rightarrow> None
      | (one, other) # _ \<Rightarrow> (case sort [cl_nodeId one, cl_nodeId other] of
          [a, b] \<Rightarrow> Some (Concurrent_conflict a b (cl_resourceId one))
        | _ \<Rightarrow> None))"

end
