(* ===== verification/Frontier_Laws.thy ===== *)
theory Frontier_Laws
  imports Frontier
begin

text \<open>
  What readiness and selection compute: the conditions under which a node has no reason to wait, and the
  invariant of the loop that fills a wave.

  Sources: packages/scheduler/src/canonical-frontier.ts,
  packages/orchestrator-graph/src/concurrent-resource-invariant.ts.
\<close>

section \<open>Readiness\<close>

lemma reason_if_Nil [simp]: "reason_if c r = [] \<longleftrightarrow> \<not> c"
  by (simp add: reason_if_def)

text \<open>The conditions a node has to meet, one for each kind of reason.\<close>

definition contract_current :: "readiness_snapshot \<Rightarrow> string \<Rightarrow> task_node \<Rightarrow> bool" where
  "contract_current sn n node \<longleftrightarrow> oget (sn_taskBundles sn) n \<noteq> None \<and>
     (\<forall>ds d. sn_currentContractDigests sn = Some ds \<longrightarrow> oget ds (cr_id (tn_contractRef node)) = Some d \<longrightarrow>
        d = cr_digest (tn_contractRef node))"

definition inputs_adopted :: "readiness_snapshot \<Rightarrow> string \<Rightarrow> bool" where
  "inputs_adopted sn n \<longleftrightarrow> (\<forall>r \<in> set (gr_artifactRequirements (sn_graph sn)). rq_consumerNodeId r = n \<longrightarrow> artifact_adopted sn r)"

definition claims_clear :: "readiness_snapshot \<Rightarrow> string \<Rightarrow> bool" where
  "claims_clear sn n \<longleftrightarrow> (\<forall>c \<in> set (gr_resourceClaims (sn_graph sn)). \<forall>a \<in> set (active_claims sn).
     cl_nodeId c = n \<longrightarrow> cl_nodeId a \<noteq> n \<longrightarrow> modifies c \<or> modifies a \<longrightarrow> claim_overlap sn c a = Overlap_no)"

definition leases_clear :: "readiness_snapshot \<Rightarrow> string \<Rightarrow> bool" where
  "leases_clear sn n \<longleftrightarrow> (\<forall>c \<in> set (gr_runtimeLeaseClaims (sn_graph sn)). \<forall>a \<in> set (sn_activeRuntimeLeases sn).
     lc_nodeId c = n \<longrightarrow> lc_nodeId a \<noteq> n \<longrightarrow> \<not> leases_conflict c a)"

definition may_start :: "readiness_snapshot \<Rightarrow> string \<Rightarrow> bool" where
  "may_start sn n \<longleftrightarrow> (\<exists>node. oget (gr_nodes (sn_graph sn)) n = Some node \<and> contract_current sn n node) \<and>
     inputs_adopted sn n \<and> (\<forall>d \<in> set (sn_pendingDecisions sn). n \<notin> set (cd_affectedNodeIds d)) \<and>
     n \<in> set (sn_availableExecutorNodeIds sn) \<and> sn_budgetAvailable sn \<and>
     n \<notin> set (sn_activeNodeIds sn) \<and> n \<notin> set (sn_adoptedNodeIds sn) \<and> claims_clear sn n \<and> leases_clear sn n"

lemma claim_reasons_Nil: "claim_reasons sn c a = [] \<longleftrightarrow>
    (cl_nodeId a \<noteq> cl_nodeId c \<longrightarrow> modifies c \<or> modifies a \<longrightarrow> claim_overlap sn c a = Overlap_no)"
  by (cases "claim_overlap sn c a") (auto simp: claim_reasons_def)

lemma lease_mode_cases: "m \<noteq> Shared \<longleftrightarrow> m = Exclusive"
  by (cases m) simp_all

lemma lease_reasons_Nil: "lease_reasons c a = [] \<longleftrightarrow> (lc_nodeId a \<noteq> lc_nodeId c \<longrightarrow> \<not> leases_conflict c a)"
  by (auto simp: lease_reasons_def leases_conflict_def lease_mode_cases[symmetric])

lemma claims_clear_Nil: "appendResourceReasons sn n = [] \<longleftrightarrow> claims_clear sn n"
  by (auto simp: appendResourceReasons_def claims_clear_def claim_reasons_Nil)

lemma leases_clear_Nil: "appendLeaseReasons sn n = [] \<longleftrightarrow> leases_clear sn n"
  by (auto simp: appendLeaseReasons_def leases_clear_def lease_reasons_Nil)

lemma contract_current_Nil:
  "(case (case sn_currentContractDigests sn of None \<Rightarrow> None | Some ds \<Rightarrow> oget ds (cr_id (tn_contractRef node))) of
      None \<Rightarrow> [] | Some d \<Rightarrow> reason_if (d \<noteq> cr_digest (tn_contractRef node)) r) = [] \<and>
    oget (sn_taskBundles sn) n \<noteq> None \<longleftrightarrow> contract_current sn n node"
  by (auto simp: contract_current_def split: option.splits)

lemma explain_reasons_Nil:
  assumes "oget (gr_nodes (sn_graph sn)) n = Some node"
  shows "explain_reasons sn n node = [] \<longleftrightarrow> may_start sn n"
  unfolding explain_reasons_def may_start_def Let_def append_is_Nil_conv reason_if_Nil claims_clear_Nil leases_clear_Nil
  using contract_current_Nil[where sn = sn and node = node and n = n and r = "Stale_contract (cr_id (tn_contractRef node))"] assms
  by (auto simp: inputs_adopted_def)

lemma explainNode_Some:
  assumes "n \<in> set (okeys (gr_nodes (sn_graph sn)))"
  obtains e where "explainNode sn n = Some e" "ex_nodeId e = n" "ex_ready e \<longleftrightarrow> may_start sn n" "ex_ready e \<longleftrightarrow> ex_reasons e = []"
proof -
  from assms obtain node where "oget (gr_nodes (sn_graph sn)) n = Some node"
    by (cases "oget (gr_nodes (sn_graph sn)) n") (auto simp: map_of_eq_None_iff)
  with explain_reasons_Nil[OF this] show thesis by (intro that) (auto simp: explainNode_def Let_def)
qed

lemma explain_all_Some:
  assumes "set ns \<subseteq> set (okeys (gr_nodes (sn_graph sn)))"
  shows "\<exists>es. explain_all sn ns = Some es \<and> map ex_nodeId es = ns \<and>
    (\<forall>e \<in> set es. (ex_ready e \<longleftrightarrow> may_start sn (ex_nodeId e)) \<and> (ex_ready e \<longleftrightarrow> ex_reasons e = []))"
  using assms
proof (induction ns)
  case (Cons n ns)
  then obtain es where "explain_all sn ns = Some es" "map ex_nodeId es = ns"
    "\<forall>e \<in> set es. (ex_ready e \<longleftrightarrow> may_start sn (ex_nodeId e)) \<and> (ex_ready e \<longleftrightarrow> ex_reasons e = [])" by auto
  moreover obtain e where "explainNode sn n = Some e" "ex_nodeId e = n" "ex_ready e \<longleftrightarrow> may_start sn n" "ex_ready e \<longleftrightarrow> ex_reasons e = []"
    using explainNode_Some[of n sn] Cons.prems by auto
  ultimately show ?case by auto
qed simp

section \<open>Selection\<close>

text \<open>Two nodes that may run at the same time.\<close>

definition compatible :: "graph_revision \<Rightarrow> string \<Rightarrow> string \<Rightarrow> bool" where
  "compatible g a b \<longleftrightarrow>
     (\<forall>c \<in> set (gr_resourceClaims g). \<forall>d \<in> set (gr_resourceClaims g).
        cl_nodeId c = a \<longrightarrow> cl_nodeId d = b \<longrightarrow> \<not> claims_conflict c d) \<and>
     (\<forall>c \<in> set (gr_runtimeLeaseClaims g). \<forall>d \<in> set (gr_runtimeLeaseClaims g).
        lc_nodeId c = a \<longrightarrow> lc_nodeId d = b \<longrightarrow> \<not> leases_conflict c d)"

lemma compatible_sym: "compatible g a b = compatible g b a"
proof -
  have "claims_conflict c d = claims_conflict d c" "leases_conflict x y = leases_conflict y x" for c d x y
    by (auto simp: claims_conflict_def leases_conflict_def)
  then show ?thesis unfolding compatible_def by blast
qed

lemma no_hard_conflict: "concurrentHardConflict n selected g = None \<longleftrightarrow> (\<forall>m \<in> set selected. compatible g n m)"
  unfolding concurrentHardConflict_def compatible_def by (auto simp: list_ex_iff split: if_splits)

definition frontier_ok :: "int \<Rightarrow> graph_revision option \<Rightarrow> frontier_selection \<Rightarrow> bool" where
  "frontier_ok maxParallel graph fr \<longleftrightarrow> int (length (fr_selected fr)) \<le> maxParallel \<and>
     (\<forall>g. graph = Some g \<longrightarrow> sorted_wrt (compatible g) (map ex_nodeId (fr_selected fr)))"

lemma select_step_cases:
  assumes "select_step k t graph estimate fr c = Inr fr'"
  obtains (selected) "fr' = fr\<lparr>fr_selected := fr_selected fr @ [c]\<rparr>" "int (length (fr_selected fr)) < k"
      "\<And>g. graph = Some g \<Longrightarrow> \<forall>m \<in> set (map ex_nodeId (fr_selected fr)). compatible g (ex_nodeId c) m"
    | (deferred) r p where "fr' = fr\<lparr>fr_deferred := fr_deferred fr @ [\<lparr>df_nodeId = ex_nodeId c, df_reason = r, df_risk = p\<rparr>]\<rparr>"
      "k \<le> int (length (fr_selected fr)) \<or> fr_selected fr \<noteq> []"
proof (cases "k \<le> int (length (fr_selected fr))")
  case True
  with assms show thesis by (intro deferred) (auto simp: select_step_def)
next
  case False
  show thesis
  proof (cases "case graph of None \<Rightarrow> None | Some g \<Rightarrow> concurrentHardConflict (ex_nodeId c) (map ex_nodeId (fr_selected fr)) g")
    case None
    then have clear: "\<forall>m \<in> set (map ex_nodeId (fr_selected fr)). compatible g (ex_nodeId c) m" if "graph = Some g" for g
      using that no_hard_conflict[of "ex_nodeId c" "map ex_nodeId (fr_selected fr)" g] by simp
    from assms False None obtain risk where
      risk: "(if fr_selected fr \<noteq> [] \<and> exceeds risk t
        then Inr (fr\<lparr>fr_deferred := fr_deferred fr @ [\<lparr>df_nodeId = ex_nodeId c, df_reason = By_risk, df_risk = Some risk\<rparr>]\<rparr>)
        else Inr (fr\<lparr>fr_selected := fr_selected fr @ [c]\<rparr>)) = (Inr fr' :: selection_error + frontier_selection)"
      by (auto simp: select_step_def Let_def)
    show thesis
    proof (cases "fr_selected fr \<noteq> [] \<and> exceeds risk t")
      case True
      with risk show thesis by (intro deferred) auto
    next
      case slack: False
      from risk slack have "fr' = fr\<lparr>fr_selected := fr_selected fr @ [c]\<rparr>" by auto
      moreover from False have "int (length (fr_selected fr)) < k" by simp
      ultimately show thesis using clear by (rule selected)
    qed
  next
    case (Some r)
    then have "fr_selected fr \<noteq> []"
      by (auto simp: concurrentHardConflict_def list_ex_iff split: option.splits if_splits)
    with assms False Some show thesis by (intro deferred) (auto simp: select_step_def Let_def)
  qed
qed

lemma select_steps:
  assumes "foldE (select_step k t graph estimate) fr cs = Inr fr'" and "frontier_ok k graph fr"
  shows "frontier_ok k graph fr' \<and>
    mset (map ex_nodeId (fr_selected fr') @ map df_nodeId (fr_deferred fr')) =
      mset (map ex_nodeId (fr_selected fr) @ map df_nodeId (fr_deferred fr)) + mset (map ex_nodeId cs) \<and>
    set (fr_selected fr') \<subseteq> set (fr_selected fr) \<union> set cs \<and>
    (1 \<le> k \<longrightarrow> fr_selected fr \<noteq> [] \<or> cs \<noteq> [] \<longrightarrow> fr_selected fr' \<noteq> [])"
  using assms
proof (induction cs arbitrary: fr)
  case (Cons c cs)
  then obtain n where step: "select_step k t graph estimate fr c = Inr n"
    and rest: "foldE (select_step k t graph estimate) n cs = Inr fr'" by auto
  from step show ?case
  proof (cases rule: select_step_cases)
    case selected
    have "frontier_ok k graph n"
      using selected Cons.prems(2) by (auto simp: frontier_ok_def sorted_wrt_append compatible_sym)
    from Cons.IH[OF rest this] show ?thesis using selected(1) by auto
  next
    case (deferred r p)
    have "frontier_ok k graph n" using deferred(1) Cons.prems(2) by (simp add: frontier_ok_def)
    from Cons.IH[OF rest this] show ?thesis using deferred by auto
  qed
qed simp

lemma sorted_compatible:
  assumes "sorted_wrt (compatible g) ns" "a \<in> set ns" "b \<in> set ns" "a \<noteq> b"
  shows "compatible g a b"
proof -
  from assms(2,3) obtain i j where ij: "i < length ns" "ns ! i = a" "j < length ns" "ns ! j = b" by (meson in_set_conv_nth)
  with assms(4) consider "i < j" | "j < i" by (metis linorder_neqE_nat)
  then show ?thesis
    using assms(1) ij unfolding sorted_wrt_iff_nth_less by cases (blast, metis compatible_sym)
qed

section \<open>The last check\<close>

lemma pairs_member: "(x, y) \<in> set (pairs xs) \<Longrightarrow> x \<in> set xs \<and> y \<in> set xs"
  by (induction xs) auto

lemma compatible_wave_passes:
  assumes "\<And>a b. a \<in> set ns \<Longrightarrow> b \<in> set ns \<Longrightarrow> a \<noteq> b \<Longrightarrow> compatible g a b"
  shows "assertNoConcurrentResourceConflict (gr_resourceClaims g) ns = None"
proof -
  have "\<not> races p" if "p \<in> set (pairs (filter (\<lambda>c. cl_nodeId c \<in> set ns) (gr_resourceClaims g)))" for p
  proof -
    obtain c d where p: "p = (c, d)" by force
    with that pairs_member[of c d] have "c \<in> set (gr_resourceClaims g)" "d \<in> set (gr_resourceClaims g)"
      "cl_nodeId c \<in> set ns" "cl_nodeId d \<in> set ns" by fastforce+
    with assms[of "cl_nodeId c" "cl_nodeId d"] p show ?thesis
      unfolding races_def compatible_def claims_conflict_def by auto
  qed
  then have "filter races (pairs (filter (\<lambda>c. cl_nodeId c \<in> set ns) (gr_resourceClaims g))) = []"
    by (simp add: filter_empty_conv)
  then show ?thesis by (simp add: assertNoConcurrentResourceConflict_def)
qed

end
