(* ===== verification/Authority.thy ===== *)
theory Authority
  imports Frontier_Laws Recovery
begin

text \<open>
  Who may change a path, and what has to lie under a node's worktree before it starts: the write titles that
  modifying claims give over the paths of their artifacts, and the artifacts of everything a node builds on,
  in the order they have to be applied.

  Sources: packages/task-graph/src/resource-authority.ts,
  packages/orchestrator-graph/src/execution-base-closure.ts.
\<close>

section \<open>Write titles\<close>

record authority_violation =
  av_path :: string
  av_ownedByNodeId :: string
  av_attemptedByNodeId :: string

text \<open>\<open>new Map(contracts.map(c => [c.id, c.expectedPaths]))\<close>: the last contract of an id counts.\<close>

definition paths_of :: "artifact_contract list \<Rightarrow> string \<Rightarrow> string list" where
  "paths_of contracts i =
     (case map_of (rev (map (\<lambda>c. (ak_id c, ak_expectedPaths c)) contracts)) i of None \<Rightarrow> [] | Some ps \<Rightarrow> ps)"

text \<open>The turns of the two loops: each path of each modifying claim, with the claim's node.\<close>

definition title_entries :: "resource_claim list \<Rightarrow> artifact_contract list \<Rightarrow> (string \<times> string) list" where
  "title_entries claims contracts = concat (map (\<lambda>c. case outputArtifact c of
     None \<Rightarrow> [] | Some r \<Rightarrow> map (\<lambda>p. (p, cl_nodeId c)) (paths_of contracts (cr_id r))) claims)"

definition add_title :: "string \<times> string \<Rightarrow> string list obj \<Rightarrow> string list obj" where
  "add_title e titles = AList.update (fst e)
     (set_add (snd e) (case map_of titles (fst e) of None \<Rightarrow> [] | Some owners \<Rightarrow> owners)) titles"

definition writeTitles :: "resource_claim list \<Rightarrow> artifact_contract list \<Rightarrow> string list obj" where
  "writeTitles claims contracts = fold add_title (title_entries claims contracts) []"

definition composed_paths :: "artifact_contract list \<Rightarrow> string list \<Rightarrow> string list" where
  "composed_paths contracts composed = concat (map ak_expectedPaths (filter (\<lambda>c. ak_id c \<in> set composed) contracts))"

definition path_violation :: "string list obj \<Rightarrow> string list \<Rightarrow> string \<Rightarrow> string \<Rightarrow> authority_violation list" where
  "path_violation titles excused nodeId path =
     (if path \<in> set excused then []
      else case map_of titles path of
        None \<Rightarrow> []
      | Some owners \<Rightarrow> (case sort (filter (\<lambda>w. w \<noteq> nodeId) owners) of
          [] \<Rightarrow> []
        | w # _ \<Rightarrow> [\<lparr>av_path = path, av_ownedByNodeId = w, av_attemptedByNodeId = nodeId\<rparr>]))"

definition checkResourceAuthority ::
  "string \<Rightarrow> resource_claim list \<Rightarrow> artifact_contract list \<Rightarrow> string list \<Rightarrow> string list \<Rightarrow> authority_violation list" where
  "checkResourceAuthority nodeId claims contracts changed composed =
     concat (map (path_violation (writeTitles claims contracts) (composed_paths contracts composed) nodeId) (uniq_sort changed))"

text \<open>The driver calls it with at least one violation: \<open>violations[0]!\<close>.\<close>

definition describeResourceAuthorityViolations :: "authority_violation list \<Rightarrow> string" where
  "describeResourceAuthorityViolations vs = ''ownership_violation: '' @ av_attemptedByNodeId (hd vs) @
     '' wrote resources it does not claim: '' @
     join_with ''; '' (map (\<lambda>v. av_path v @ '' is owned by '' @ av_ownedByNodeId v) vs) @
     ''. Amend the plan instead of repairing the attempt.''"

text \<open>What the map holds: the nodes whose modifying claims produce an artifact with the path.\<close>

definition holds_title :: "resource_claim list \<Rightarrow> artifact_contract list \<Rightarrow> string \<Rightarrow> string \<Rightarrow> bool" where
  "holds_title claims contracts path n \<longleftrightarrow>
     (\<exists>c \<in> set claims. \<exists>r. outputArtifact c = Some r \<and> cl_nodeId c = n \<and> path \<in> set (paths_of contracts (cr_id r)))"

definition title_set :: "string list obj \<Rightarrow> string \<Rightarrow> string set" where
  "title_set titles path = (case map_of titles path of None \<Rightarrow> {} | Some owners \<Rightarrow> set owners)"

lemma title_set_add: "title_set (add_title e t) p = (if p = fst e then insert (snd e) (title_set t p) else title_set t p)"
  by (auto simp: title_set_def add_title_def set_add_def split: option.splits)

lemma title_set_fold: "title_set (fold add_title es t) p = title_set t p \<union> {n. (p, n) \<in> set es}"
  by (induction es arbitrary: t) (auto simp: title_set_add)

lemma writeTitles_holds: "title_set (writeTitles claims contracts) path = {n. holds_title claims contracts path n}"
proof -
  have "(path, n) \<in> set (title_entries claims contracts) \<longleftrightarrow> holds_title claims contracts path n" for n
    unfolding title_entries_def holds_title_def by (force split: option.splits)
  then show ?thesis by (simp add: writeTitles_def title_set_fold) (simp add: title_set_def)
qed

lemma path_violation_set:
  "v \<in> set (path_violation titles excused nodeId path) \<longleftrightarrow>
     path \<notin> set excused \<and> av_path v = path \<and> av_attemptedByNodeId v = nodeId \<and>
     av_ownedByNodeId v \<in> title_set titles path - {nodeId} \<and>
     (\<forall>w \<in> title_set titles path - {nodeId}. av_ownedByNodeId v \<le> w)"
proof (cases "map_of titles path")
  case (Some owners)
  let ?foreign = "sort (filter (\<lambda>w. w \<noteq> nodeId) owners)"
  have foreign: "set ?foreign = title_set titles path - {nodeId}" "sorted ?foreign" using Some by (auto simp: title_set_def)
  show ?thesis
  proof (cases ?foreign)
    case Nil
    with foreign(1) Some show ?thesis by (auto simp: path_violation_def)
  next
    case (Cons w ws)
    then have least: "w \<in> title_set titles path - {nodeId}" "\<forall>x \<in> title_set titles path - {nodeId}. w \<le> x"
      using foreign by auto
    have "v \<in> set (path_violation titles excused nodeId path) \<longleftrightarrow>
        path \<notin> set excused \<and> v = \<lparr>av_path = path, av_ownedByNodeId = w, av_attemptedByNodeId = nodeId\<rparr>"
      using Some Cons by (simp add: path_violation_def)
    also have "\<dots> \<longleftrightarrow> path \<notin> set excused \<and> av_path v = path \<and> av_attemptedByNodeId v = nodeId \<and> av_ownedByNodeId v = w"
      by (cases v) auto
    also have "av_ownedByNodeId v = w \<longleftrightarrow> av_ownedByNodeId v \<in> title_set titles path - {nodeId} \<and>
        (\<forall>x \<in> title_set titles path - {nodeId}. av_ownedByNodeId v \<le> x)"
    proof
      assume "av_ownedByNodeId v = w"
      with least show "av_ownedByNodeId v \<in> title_set titles path - {nodeId} \<and>
        (\<forall>x \<in> title_set titles path - {nodeId}. av_ownedByNodeId v \<le> x)" by blast
    next
      assume v: "av_ownedByNodeId v \<in> title_set titles path - {nodeId} \<and>
        (\<forall>x \<in> title_set titles path - {nodeId}. av_ownedByNodeId v \<le> x)"
      then have "av_ownedByNodeId v \<le> w" using least(1) by blast
      moreover have "w \<le> av_ownedByNodeId v" using least(2) v by blast
      ultimately show "av_ownedByNodeId v = w" by (rule antisym)
    qed
    finally show ?thesis .
  qed
qed (simp add: path_violation_def title_set_def)

section \<open>The base of a node\<close>

text \<open>
  \<open>visit\<close> has the control flow of the cycle check (\<open>visiting\<close> is \<open>active\<close>), so its order is the order in
  which that search finishes nodes, on the edges from each consumer to its producers.
\<close>

definition consumer_edges :: "'a graph_material_scheme \<Rightarrow> edges" where
  "consumer_edges g = map (\<lambda>r. (rq_consumerNodeId r, rq_producerNodeId r)) (gr_artifactRequirements g)"

definition base_order :: "'a graph_material_scheme \<Rightarrow> string \<Rightarrow> string list" where
  "base_order g n = filter (\<lambda>m. m \<noteq> n) (rev (fst (visit_all (consumer_edges g) [] [n] [] False)))"

record base_artifact =
  ba_producerNodeId :: string
  ba_artifactId :: string
  ba_revision :: int

definition requirement_artifact :: "artifact_requirement \<Rightarrow> base_artifact" where
  "requirement_artifact r = \<lparr>ba_producerNodeId = rq_producerNodeId r, ba_artifactId = cr_id (rq_artifactContract r),
     ba_revision = cr_revision (rq_artifactContract r)\<rparr>"

definition same_contract :: "base_artifact \<Rightarrow> base_artifact \<Rightarrow> bool" where
  "same_contract a b \<longleftrightarrow> ba_artifactId a = ba_artifactId b \<and> ba_revision a = ba_revision b"

definition add_artifact :: "base_artifact \<Rightarrow> base_artifact list \<Rightarrow> base_artifact list" where
  "add_artifact a artifacts = (if list_ex (same_contract a) artifacts then artifacts else artifacts @ [a])"

definition base_candidates :: "'a graph_material_scheme \<Rightarrow> string \<Rightarrow> artifact_requirement list" where
  "base_candidates g n = concat (map (\<lambda>p. filter
     (\<lambda>r. rq_producerNodeId r = p \<and> rq_consumerNodeId r \<in> set (base_order g n @ [n])) (gr_artifactRequirements g)) (base_order g n))"

definition executionBaseArtifacts :: "'a graph_material_scheme \<Rightarrow> string \<Rightarrow> base_artifact list" where
  "executionBaseArtifacts g n = fold (add_artifact \<circ> requirement_artifact) (base_candidates g n) []"

end
