(* ===== verification/Evidence_Freshness.thy ===== *)
theory Evidence_Freshness
  imports Recovery
begin

text \<open>
  Whether evidence still says something: an evidence binding is compared with the criterion, proof, candidate,
  baseline and digests it is supposed to be about. Each difference is one issue, in a fixed order.

  Source: packages/contracts/src/evidence-binding.ts.
\<close>

section \<open>The binding's own digest\<close>

fun proof_mode_name :: "proof_mode \<Rightarrow> string" where
  "proof_mode_name Executable = ''executable''"
| "proof_mode_name Static = ''static''"
| "proof_mode_name External_oracle = ''external_oracle''"
| "proof_mode_name Human_review_mode = ''human_review''"
| "proof_mode_name Observational = ''observational''"

fun proof_authority_name :: "proof_authority \<Rightarrow> string" where
  "proof_authority_name Orchestrator_deterministic = ''orchestrator_deterministic''"
| "proof_authority_name Protected_external_oracle = ''protected_external_oracle''"
| "proof_authority_name Operator = ''operator''"

fun evidence_outcome_name :: "evidence_outcome \<Rightarrow> string" where
  "evidence_outcome_name Ev_satisfied = ''satisfied''"
| "evidence_outcome_name Ev_failed = ''failed''"
| "evidence_outcome_name Ev_inconclusive = ''inconclusive''"
| "evidence_outcome_name Ev_not_run = ''not_run''"
| "evidence_outcome_name Ev_not_applicable = ''not_applicable''"

definition exact_candidate_json :: "exact_candidate \<Rightarrow> json" where
  "exact_candidate_json c = JObj [(''manifestDigest'', JStr (ec_manifestDigest c)),
     (''commitOid'', JStr (ec_commitOid c)), (''treeOid'', JStr (ec_treeOid c))]"

definition exact_baseline_json :: "exact_baseline \<Rightarrow> json" where
  "exact_baseline_json b = JObj [(''commitOid'', JStr (eb_commitOid b)), (''treeOid'', JStr (eb_treeOid b))]"

definition binding_material_json :: "evidence_binding \<Rightarrow> json" where
  "binding_material_json b = JObj [(''id'', JStr (bn_id b)), (''revision'', JNum (of_int (bn_revision b))),
     (''goalContractDigest'', JStr (bn_goalContractDigest b)), (''criterionId'', JStr (bn_criterionId b)),
     (''obligationId'', JStr (bn_obligationId b)), (''candidate'', exact_candidate_json (bn_candidate b)),
     (''baseline'', exact_baseline_json (bn_baseline b)), (''proofStrategyDigest'', JStr (bn_proofStrategyDigest b)),
     (''mode'', JStr (proof_mode_name (bn_mode b))), (''authority'', JStr (proof_authority_name (bn_authority b))),
     (''recipeDigest'', JStr (bn_recipeDigest b)), (''environmentDigest'', JStr (bn_environmentDigest b)),
     (''selectorDigest'', JStr (bn_selectorDigest b)), (''outputDigest'', JStr (bn_outputDigest b)),
     (''outcome'', JStr (evidence_outcome_name (bn_outcome b)))]"

text \<open>The driver's hasher: \<open>sha256:\<close> and the hexadecimal digest.\<close>

definition sha256 :: "host \<Rightarrow> json \<Rightarrow> string" where
  "sha256 h v = ''sha256:'' @ h_digest h v"

definition binding_digest :: "host \<Rightarrow> evidence_binding \<Rightarrow> string" where
  "binding_digest h b = sha256 h (toCanonicalJsonValue h (binding_material_json b))"

definition buildEvidenceBinding :: "host \<Rightarrow> evidence_binding \<Rightarrow> evidence_binding option" where
  "buildEvidenceBinding h material = do {
     b \<leftarrow> parse_evidence_binding (material\<lparr>bn_digest := ''-''\<rparr>); Some (b\<lparr>bn_digest := binding_digest h b\<rparr>) }"

section \<open>Freshness\<close>

record evidence_expectation =
  xe_goalContractDigest :: string
  xe_criterionId :: string
  xe_obligationId :: string
  xe_mode :: proof_mode
  xe_authority :: proof_authority
  xe_candidate :: exact_candidate
  xe_baseline :: exact_baseline
  xe_proofStrategyDigest :: string
  xe_recipeDigest :: string
  xe_environmentDigest :: string
  xe_selectorDigest :: string
  xe_outputDigest :: string

datatype freshness_issue =
    Evidence_schema_invalid
  | Evidence_digest_mismatch
  | Stale_contract_binding
  | Stale_proof_pair
  | Stale_candidate_tree
  | Stale_baseline_tree
  | Stale_proof_strategy
  | Stale_recipe
  | Stale_environment
  | Stale_selector
  | Stale_output

definition issue_if :: "bool \<Rightarrow> freshness_issue \<Rightarrow> freshness_issue list" where
  "issue_if c i = (if c then [i] else [])"

definition compareDigest :: "freshness_issue \<Rightarrow> string \<Rightarrow> string \<Rightarrow> freshness_issue list" where
  "compareDigest i actual expected = issue_if (actual \<noteq> expected) i"

text \<open>The result is fresh (\<open>ok\<close>) when the list is empty.\<close>

definition validateEvidenceFreshness :: "host \<Rightarrow> evidence_binding \<Rightarrow> evidence_expectation \<Rightarrow> freshness_issue list" where
  "validateEvidenceFreshness h raw x = (case parse_evidence_binding raw of
     None \<Rightarrow> [Evidence_schema_invalid]
   | Some b \<Rightarrow>
       issue_if (binding_digest h b \<noteq> bn_digest b) Evidence_digest_mismatch @
       issue_if (bn_goalContractDigest b \<noteq> xe_goalContractDigest x \<or> bn_criterionId b \<noteq> xe_criterionId x \<or>
         bn_obligationId b \<noteq> xe_obligationId x) Stale_contract_binding @
       issue_if (bn_mode b \<noteq> xe_mode x \<or> bn_authority b \<noteq> xe_authority x) Stale_proof_pair @
       issue_if (bn_candidate b \<noteq> xe_candidate x) Stale_candidate_tree @
       issue_if (bn_baseline b \<noteq> xe_baseline x) Stale_baseline_tree @
       compareDigest Stale_proof_strategy (bn_proofStrategyDigest b) (xe_proofStrategyDigest x) @
       compareDigest Stale_recipe (bn_recipeDigest b) (xe_recipeDigest x) @
       compareDigest Stale_environment (bn_environmentDigest b) (xe_environmentDigest x) @
       compareDigest Stale_selector (bn_selectorDigest b) (xe_selectorDigest x) @
       compareDigest Stale_output (bn_outputDigest b) (xe_outputDigest x))"

text \<open>Fresh evidence is about exactly what was expected, and is the material its digest names.\<close>

definition bound_to :: "evidence_binding \<Rightarrow> evidence_expectation \<Rightarrow> bool" where
  "bound_to b x \<longleftrightarrow> bn_goalContractDigest b = xe_goalContractDigest x \<and> bn_criterionId b = xe_criterionId x \<and>
     bn_obligationId b = xe_obligationId x \<and> bn_mode b = xe_mode x \<and> bn_authority b = xe_authority x \<and>
     bn_candidate b = xe_candidate x \<and> bn_baseline b = xe_baseline x \<and>
     bn_proofStrategyDigest b = xe_proofStrategyDigest x \<and> bn_recipeDigest b = xe_recipeDigest x \<and>
     bn_environmentDigest b = xe_environmentDigest x \<and> bn_selectorDigest b = xe_selectorDigest x \<and>
     bn_outputDigest b = xe_outputDigest x"

lemma issue_if_Nil [simp]: "issue_if c i = [] \<longleftrightarrow> \<not> c"
  by (simp add: issue_if_def)

lemma fresh_iff:
  "validateEvidenceFreshness h raw x = [] \<longleftrightarrow>
     (\<exists>b. parse_evidence_binding raw = Some b \<and> bn_digest b = binding_digest h b \<and> bound_to b x)"
  by (auto simp: validateEvidenceFreshness_def compareDigest_def bound_to_def split: option.splits)

end
