(* ===== verification/Driver.thy ===== *)
theory Driver
  imports Authority Coordinator Evidence_Freshness
begin

text \<open>
  The driver that takes a run through its waves: it derives the frontier from the projection, has the
  selection recorded, prepares the attempts of a wave, and turns what an executor hands back into the facts
  the coordinator records. What is concurrent in it, the wave itself, is in the theory Wave_Pool.

  Source: packages/orchestrator-graph/src/canonical-execution-driver.ts.
\<close>

section \<open>Data\<close>

record execution_target =
  et_sourceTargetFingerprint :: string
  et_targetBranch :: string
  et_targetHead :: string

text \<open>The parts of an obligation, of a proof strategy and of the goal that the driver reads.\<close>

record proof_obligation =
  po_required :: bool
  po_proofStrategy :: contract_ref

record proof_strategy =
  ps_revision :: int
  ps_digest :: string
  ps_criterionId :: string
  ps_mode :: proof_mode
  ps_authority :: proof_authority
  ps_selectorDigest :: "string option"
  ps_environmentPolicyDigest :: string

record evidence_authority =
  ea_goalDigest :: string
  ea_baseline :: exact_baseline
  ea_validationObligations :: "proof_obligation obj"
  ea_proofStrategies :: "proof_strategy obj"

record run_config =
  rc_maxParallel :: js_number
  rc_maxTokensTotal :: "int option"
  rc_maxCostUsd :: "rat option"

record execution_run =
  xr_runId :: string
  xr_graph :: graph_revision
  xr_contracts :: "task_bundle obj"
  xr_repositoryContextDigest :: string
  xr_executorProfile :: rev_ref
  xr_effectiveConfig :: run_config
  xr_availableExecutorNodeIds :: "string list"
  xr_target :: execution_target
  xr_evidenceAuthority :: "evidence_authority option"
  xr_maxWaves :: "nat option"

text \<open>The part of a candidate-tree manifest the driver reads.\<close>

record candidate_manifest =
  cm_id :: string
  cm_manifestDigest :: string
  cm_commitOid :: string
  cm_treeOid :: string
  cm_sourceCandidate :: exact_baseline

record success =
  su_usage :: "attempt_usage option"
  su_candidateCommit :: string
  su_outputDigest :: string
  su_changedFiles :: "string list"
  su_evidenceMatrix :: evidence_matrix
  su_candidateManifest :: "candidate_manifest option"
  su_artifactManifests :: "artifact_manifest obj"
  su_integrationManifestId :: "string option"
  su_finalManifestId :: "string option"
  su_finalManifest :: "final_manifest option"

record checkpoint =
  ck_candidateCommit :: string
  ck_outputDigest :: string
  ck_changedFiles :: "string list"

datatype outcome =
    Success success
  | Needs_input string "string list" "decision_blocker list option"
  | Failure string "attempt_usage option" "checkpoint option"

record prior_failure =
  pf_attemptId :: string
  pf_reason :: string
  pf_checkpointCommit :: "string option"

record prepared_attempt =
  pa_waveId :: string
  pa_attemptId :: string
  pa_inputFingerprint :: string
  pa_priorFailure :: "prior_failure option"
  pa_node :: task_node
  pa_contract :: task_bundle
  pa_consumedArtifacts :: "adopted_artifact list"
  pa_startedEvent :: run_event_input

datatype driver_error =
    Graph_invalid
  | Bad_parallelism
  | No_task_bundle string
  | Readiness_failed
  | Selection_failed selection_error
  | Wave_conflict wave_error
  | Unknown_node string
  | Missing_input string string
  | Fingerprint_invalid
  | Matrix_of_other_candidate string string
  | Matrix_of_other_contract string string
  | No_candidate_manifest string
  | Candidate_not_identified string
  | Criteria_not_bound string
  | Binding_missing string string
  | No_proof_authority string
  | No_recipe_digest string
  | Stale_evidence string "freshness_issue list"
  | Manifest_missing string string
  | Manifest_not_bound string string
  | No_final_manifest
  | Payload_refused

section \<open>Numbers in text\<close>

text \<open>\<open>Number(text)\<close> up to the rounding of doubles; \<open>None\<close> below is a text that is no number.\<close>

definition digit_of :: "char \<Rightarrow> nat option" where
  "digit_of c = (if is_digit c then Some (of_char c - 48)
     else if in_range CHR ''a'' CHR ''f'' c then Some (of_char c - 87)
     else if in_range CHR ''A'' CHR ''F'' c then Some (of_char c - 55) else None)"

fun radix_digits :: "nat \<Rightarrow> nat \<Rightarrow> string \<Rightarrow> nat option" where
  "radix_digits b acc [] = Some acc"
| "radix_digits b acc (c # cs) = (case digit_of c of
     None \<Rightarrow> None | Some d \<Rightarrow> if d < b then radix_digits b (b * acc + d) cs else None)"

definition radix_literal :: "nat \<Rightarrow> string \<Rightarrow> rat option" where
  "radix_literal b cs = (if cs = [] then None else map_option of_nat (radix_digits b 0 cs))"

definition exponent_part :: "string \<Rightarrow> int option" where
  "exponent_part s = (case s of
     [] \<Rightarrow> Some 0
   | e # t \<Rightarrow>
       if e \<noteq> CHR ''e'' \<and> e \<noteq> CHR ''E'' then None
       else
         (let ds = (case t of c # ds \<Rightarrow> if c = CHR ''+'' \<or> c = CHR ''-'' then ds else t | [] \<Rightarrow> [])
          in if ds = [] \<or> \<not> list_all is_digit ds then None
             else Some (if hd t = CHR ''-'' then - int (digits_value 0 ds) else int (digits_value 0 ds))))"

definition scaled :: "nat \<Rightarrow> int \<Rightarrow> rat" where
  "scaled n e = (if e < 0 then of_nat n / 10 ^ nat (- e) else of_nat (n * 10 ^ nat e))"

definition decimal_literal :: "string \<Rightarrow> rat option" where
  "decimal_literal s =
     (let whole = takeWhile is_digit s; rest = dropWhile is_digit s;
          (frac, exp1) = (case rest of c # t \<Rightarrow>
            if c = CHR ''.'' then (takeWhile is_digit t, dropWhile is_digit t) else ([], rest) | [] \<Rightarrow> ([], []))
      in if whole = [] \<and> frac = [] then None
         else map_option (\<lambda>e. scaled (digits_value 0 (whole @ frac)) (e - int (length frac))) (exponent_part exp1))"

definition signed_literal :: "string \<Rightarrow> js_number option" where
  "signed_literal s =
     (if s = ''Infinity'' then Some Not_finite else map_option Finite (decimal_literal s))"

definition js_negate :: "js_number \<Rightarrow> js_number" where
  "js_negate v = (case v of Finite r \<Rightarrow> Finite (- r) | Not_finite \<Rightarrow> Not_finite)"

definition js_Number :: "string \<Rightarrow> js_number" where
  "js_Number text =
     (let s = trim text;
          r = (if s = [] then Some (Finite 0)
               else if take 2 s = ''0x'' \<or> take 2 s = ''0X'' then map_option Finite (radix_literal 16 (drop 2 s))
               else if take 2 s = ''0o'' \<or> take 2 s = ''0O'' then map_option Finite (radix_literal 8 (drop 2 s))
               else if take 2 s = ''0b'' \<or> take 2 s = ''0B'' then map_option Finite (radix_literal 2 (drop 2 s))
               else if hd s = CHR ''-'' then map_option js_negate (signed_literal (tl s))
               else if hd s = CHR ''+'' then signed_literal (tl s)
               else signed_literal s)
      in case r of None \<Rightarrow> Not_finite | Some v \<Rightarrow> v)"

definition names_revision :: "string \<Rightarrow> int \<Rightarrow> bool" where
  "names_revision text revision \<longleftrightarrow> js_Number text = Finite (of_int revision)"

section \<open>Preparing a run\<close>

definition positive_integer :: "js_number \<Rightarrow> bool" where
  "positive_integer v = (case v of Not_finite \<Rightarrow> False | Finite r \<Rightarrow> of_int \<lfloor>r\<rfloor> = r \<and> 1 \<le> r)"

definition prepare :: "execution_run \<Rightarrow> driver_error + execution_run" where
  "prepare run =
     requireE (parse_graph_revision (xr_graph run)) Graph_invalid (\<lambda>graph.
     throwIf (\<not> positive_integer (rc_maxParallel (xr_effectiveConfig run))) Bad_parallelism
     (case filter (\<lambda>n. oget (xr_contracts run) n = None) (okeys (gr_nodes graph)) of
        n # _ \<Rightarrow> Inl (No_task_bundle n)
      | [] \<Rightarrow> Inr (run\<lparr>xr_graph := graph\<rparr>)))"

text \<open>The parallelism of a prepared run.\<close>

definition max_parallel :: "execution_run \<Rightarrow> int" where
  "max_parallel run = (case rc_maxParallel (xr_effectiveConfig run) of Finite r \<Rightarrow> \<lfloor>r\<rfloor> | Not_finite \<Rightarrow> 0)"

definition tokens_used :: "attempt_projection \<Rightarrow> int" where
  "tokens_used a = (case at_usage a of None \<Rightarrow> 0 | Some u \<Rightarrow> (case us_tokensTotal u of None \<Rightarrow> 0 | Some t \<Rightarrow> t))"

definition cost_used :: "attempt_projection \<Rightarrow> rat" where
  "cost_used a = (case at_usage a of None \<Rightarrow> 0 | Some u \<Rightarrow> (case us_costUsd u of None \<Rightarrow> 0 | Some c \<Rightarrow> c))"

definition budgetAvailable :: "execution_run \<Rightarrow> run_projection \<Rightarrow> bool" where
  "budgetAvailable run s \<longleftrightarrow>
     (case rc_maxTokensTotal (xr_effectiveConfig run) of None \<Rightarrow> True
      | Some limit \<Rightarrow> sum_list (map tokens_used (ovalues (p_attempts s))) < limit) \<and>
     (case rc_maxCostUsd (xr_effectiveConfig run) of None \<Rightarrow> True
      | Some limit \<Rightarrow> sum_list (map cost_used (ovalues (p_attempts s))) < limit)"

section \<open>Selecting a wave\<close>

definition running_nodes :: "run_projection \<Rightarrow> string list" where
  "running_nodes s = map at_nodeId (filter (\<lambda>a. at_status a = At_running) (ovalues (p_attempts s)))"

definition pending_decisions :: "run_projection \<Rightarrow> decision list" where
  "pending_decisions s = filter (\<lambda>d. dc_status d = Pending) (ovalues (p_decisions s))"

definition snapshot_of :: "execution_run \<Rightarrow> run_projection \<Rightarrow> readiness_snapshot" where
  "snapshot_of run s =
     \<lparr>sn_graph = xr_graph run, sn_taskBundles = xr_contracts run,
      sn_adoptedArtifacts = map (\<lambda>a. \<lparr>ca_artifactId = rr_id (aa_contract a),
        ca_revision = js_Number (rr_revision (aa_contract a)), ca_digest = aa_digest a\<rparr>) (ovalues (p_adoptedArtifacts s)),
      sn_pendingDecisions = map (\<lambda>d. \<lparr>cd_decisionId = dc_id d, cd_affectedNodeIds = dc_affectedNodeIds d\<rparr>) (pending_decisions s),
      sn_activeNodeIds = running_nodes s, sn_activeResourceClaims = None,
      sn_activeRuntimeLeases = filter (\<lambda>c. lc_nodeId c \<in> set (running_nodes s)) (gr_runtimeLeaseClaims (xr_graph run)),
      sn_availableExecutorNodeIds = xr_availableExecutorNodeIds run,
      sn_adoptedNodeIds = map aa_nodeId (ovalues (p_adoptedArtifacts s)),
      sn_budgetAvailable = budgetAvailable run s,
      sn_currentContractDigests = Some (fold (\<lambda>r. oput (cr_id r) (cr_digest r)) (gr_contractRefs (xr_graph run)) []),
      sn_resourceOverlap = None\<rparr>"

fun defer_code :: "defer_reason \<Rightarrow> string" where
  "defer_code By_capacity = ''capacity''"
| "defer_code By_risk = ''integration_risk_concurrency''"
| "defer_code By_claim_conflict = ''resource_claim_conflict''"
| "defer_code By_lease_conflict = ''runtime_lease_conflict''"

text \<open>A reason as the journal keeps it: its code and its other properties.\<close>

fun reason_entry :: "readiness_reason \<Rightarrow> string \<times> json_obj" where
  "reason_entry (Missing_artifact a r) = (''missing_artifact'', [(''artifactId'', JStr a), (''revision'', JNum (of_int r))])"
| "reason_entry (Stale_contract c) = (''stale_contract'', [(''contractId'', JStr c)])"
| "reason_entry (Unresolved_decision d) = (''unresolved_decision'', [(''decisionId'', JStr d)])"
| "reason_entry (Resource_overlap_unknown r n) = (''resource_overlap_unknown'', [(''resourceId'', JStr r), (''activeNodeId'', JStr n)])"
| "reason_entry (Resource_claim_conflict r n) = (''resource_claim_conflict'', [(''resourceId'', JStr r), (''activeNodeId'', JStr n)])"
| "reason_entry (Runtime_lease_conflict p k n) = (''runtime_lease_conflict'',
     [(''provider'', JStr p), (''resourceKey'', JStr k), (''activeNodeId'', JStr n)])"
| "reason_entry Executor_unavailable = (''executor_unavailable'', [])"
| "reason_entry Budget_exhausted = (''budget_exhausted'', [])"
| "reason_entry Already_active = (''already_active'', [])"
| "reason_entry Already_adopted = (''already_adopted'', [])"

definition shown_explanation :: "deferral list \<Rightarrow> explanation \<Rightarrow> scheduler_explanation" where
  "shown_explanation deferred x =
     (case map_of (rev (map (\<lambda>d. (df_nodeId d, df_reason d)) deferred)) (ex_nodeId x) of
        None \<Rightarrow> \<lparr>se_nodeId = ex_nodeId x, se_ready = ex_ready x, se_reasons = map reason_entry (ex_reasons x), se_deferred = None\<rparr>
      | Some r \<Rightarrow> \<lparr>se_nodeId = ex_nodeId x, se_ready = False, se_reasons = [(defer_code r, [])], se_deferred = None\<rparr>)"

definition select_frontier ::
  "host \<Rightarrow> (explanation \<Rightarrow> explanation list \<Rightarrow> risk_estimate) \<Rightarrow> execution_run \<Rightarrow> run_projection \<Rightarrow>
     driver_error + string list \<times> scheduler_explanation list" where
  "select_frontier h estimate run s =
     requireE (evaluateReadiness h (snapshot_of run s)) Readiness_failed (\<lambda>ev.
     bindE (map_sum Selection_failed id (selectFrontier h (ev_ready ev)
         \<lparr>sp_maxParallel = max_parallel run, sp_maxConcurrentRiskScore = None\<rparr> (Some (xr_graph run)) estimate)) (\<lambda>fr.
     let nodeIds = map ex_nodeId (fr_selected fr)
     in case assertNoConcurrentResourceConflict (gr_resourceClaims (xr_graph run)) nodeIds of
          Some e \<Rightarrow> Inl (Wave_conflict e)
        | None \<Rightarrow> Inr (nodeIds, map (shown_explanation (fr_deferred fr)) (ev_ready ev @ ev_blocked ev))))"

definition shown_config :: "execution_run \<Rightarrow> scheduler_config" where
  "shown_config run = \<lparr>sc_maxParallel = Some (max_parallel run),
     sc_maxTokensTotal = rc_maxTokensTotal (xr_effectiveConfig run),
     sc_maxCostUsd = rc_maxCostUsd (xr_effectiveConfig run), sc_extra = []\<rparr>"

definition observe_command :: "execution_run \<Rightarrow> run_projection \<Rightarrow> scheduler_explanation list \<Rightarrow> string list \<Rightarrow> string \<Rightarrow> run_command" where
  "observe_command run s explanations ready now =
     Observe_readiness \<lparr>ro_readyNodeIds = ready, ro_pendingDecisionIds = sort (map dc_id (pending_decisions s)),
       ro_explanations = Some explanations, ro_effectiveConfig = Some (shown_config run),
       ro_schedulerState = Some \<lparr>sst_materializableNodeIds = okeys (gr_nodes (xr_graph run)),
         sst_activeResourceNodeIds = running_nodes s, sst_openCircuitBreakerNodeIds = [],
         sst_availableExecutorNodeIds = xr_availableExecutorNodeIds run, sst_stoppedNodeIds = p_stoppedNodeIds s,
         sst_budgetAvailable = budgetAvailable run s\<rparr>,
       ro_budgetAvailable = Some (budgetAvailable run s), ro_conflictEvidence = None, ro_evaluatedAt = Some now\<rparr>"

definition wave_id :: "execution_run \<Rightarrow> run_projection \<Rightarrow> string" where
  "wave_id run s = xr_runId run @ '':wave:'' @ decimal (length (p_selectedWaves s) + 1)"

definition select_command :: "execution_run \<Rightarrow> run_projection \<Rightarrow> scheduler_explanation list \<Rightarrow> string list \<Rightarrow> string \<Rightarrow> run_command" where
  "select_command run s explanations nodeIds now =
     Select_wave \<lparr>ws_waveId = wave_id run s, ws_nodeIds = nodeIds, ws_maxParallel = max_parallel run,
       ws_blocked = Some (filter (\<lambda>x. se_nodeId x \<notin> set nodeIds) explanations),
       ws_effectiveConfig = Some (shown_config run), ws_conflictEvidence = None, ws_evaluatedAt = Some now\<rparr>"

section \<open>Preparing an attempt\<close>

definition fact_at :: "string \<Rightarrow> string \<Rightarrow> event_payload \<Rightarrow> run_event_input" where
  "fact_at eventId now payload = \<lparr>ev_eventId = eventId, ev_occurredAt = now, ev_payload = payload\<rparr>"

definition adopted_input :: "run_projection \<Rightarrow> base_artifact \<Rightarrow> adopted_artifact option" where
  "adopted_input s b = find (\<lambda>a. rr_id (aa_contract a) = ba_artifactId b \<and>
     names_revision (rr_revision (aa_contract a)) (ba_revision b)) (ovalues (p_adoptedArtifacts s))"

fun adopted_inputs :: "run_projection \<Rightarrow> string \<Rightarrow> base_artifact list \<Rightarrow> driver_error + adopted_artifact list" where
  "adopted_inputs s nodeId [] = Inr []"
| "adopted_inputs s nodeId (b # bs) =
     requireE (adopted_input s b) (Missing_input nodeId (ba_artifactId b)) (\<lambda>a.
     bindE (adopted_inputs s nodeId bs) (\<lambda>xs. Inr (a # xs)))"

definition attempts_of :: "run_projection \<Rightarrow> string \<Rightarrow> attempt_projection list" where
  "attempts_of s nodeId = filter (\<lambda>a. at_nodeId a = nodeId) (ovalues (p_attempts s))"

definition previous_attempt :: "run_projection \<Rightarrow> string \<Rightarrow> attempt_projection option" where
  "previous_attempt s nodeId =
     (case rev (filter (\<lambda>a. at_status a \<in> {At_failed, At_discarded, At_stale}) (attempts_of s nodeId)) of
        [] \<Rightarrow> None | a # _ \<Rightarrow> Some a)"

definition prior_failure_of :: "attempt_projection option \<Rightarrow> prior_failure option" where
  "prior_failure_of previous = (case previous of
     None \<Rightarrow> None
   | Some a \<Rightarrow> (case at_failureReason a of
       None \<Rightarrow> None
     | Some reason \<Rightarrow> if at_status a = At_failed
         then Some \<lparr>pf_attemptId = at_attemptId a, pf_reason = reason, pf_checkpointCommit = at_candidateCommit a\<rparr>
         else None))"

definition recovery_context :: "host \<Rightarrow> attempt_projection \<Rightarrow> prior_failure \<Rightarrow> string" where
  "recovery_context h previous f = sha256 h (JObj ([(''attemptId'', JStr (pf_attemptId f)),
     (''inputFingerprint'', JStr (at_inputFingerprint previous)), (''reason'', JStr (pf_reason f))] @
     opt_prop ''checkpointCommit'' JStr (pf_checkpointCommit f)))"

definition input_source :: "host \<Rightarrow> execution_run \<Rightarrow> string \<Rightarrow> task_bundle \<Rightarrow> adopted_artifact list \<Rightarrow>
    attempt_projection option \<Rightarrow> fingerprint_source" where
  "input_source h run nodeId contract consumed previous =
     \<lparr>fs_graphId = gr_graphId (xr_graph run), fs_nodeId = nodeId,
      fs_contractRevisions = [tb_task contract, tb_scope contract, tb_validation contract] @ tb_seams contract @
        map (\<lambda>a. \<lparr>rr_id = ak_id a, rr_revision = ak_revision a\<rparr>) (tb_artifacts contract),
      fs_baseCommit = et_targetHead (xr_target run),
      fs_consumedArtifacts = map (\<lambda>a. \<lparr>ar_id = aa_artifactId a, ar_digest = aa_digest a\<rparr>) consumed,
      fs_repositoryContextDigest = xr_repositoryContextDigest run, fs_executorProfile = xr_executorProfile run,
      fs_validationContract = tb_validation contract,
      fs_recoveryContextDigest = (case (previous, prior_failure_of previous) of
        (Some p, Some f) \<Rightarrow> Some (recovery_context h p f) | _ \<Rightarrow> None)\<rparr>"

definition attempt_id :: "execution_run \<Rightarrow> run_projection \<Rightarrow> string \<Rightarrow> string" where
  "attempt_id run s nodeId = xr_runId run @ '':attempt:'' @ nodeId @ '':'' @ decimal (length (attempts_of s nodeId) + 1)"

definition started_payload :: "node_kind \<Rightarrow> adopted_artifact list \<Rightarrow> attempt_start \<Rightarrow> event_payload" where
  "started_payload k consumed common =
     (if k \<in> {Root_node, Composite_node, Integrator_node} \<and> consumed \<noteq> []
      then Integration_ev (Integration_started common (map aa_artifactId consumed))
      else Attempt_ev (Attempt_started common))"

text \<open>\<open>None\<close> for the node or its bundle is the read of a property of \<open>undefined\<close>; \<open>prepare\<close> excludes it.\<close>

definition createAttempt :: "host \<Rightarrow> execution_run \<Rightarrow> run_projection \<Rightarrow> string \<Rightarrow> string \<Rightarrow> string \<Rightarrow> driver_error + prepared_attempt" where
  "createAttempt h run s nodeId waveId now =
     requireE (oget (gr_nodes (xr_graph run)) nodeId) (Unknown_node nodeId) (\<lambda>node.
     requireE (oget (xr_contracts run) nodeId) (No_task_bundle nodeId) (\<lambda>contract.
     bindE (adopted_inputs s nodeId (executionBaseArtifacts (xr_graph run) nodeId)) (\<lambda>consumed.
     let previous = previous_attempt s nodeId; i = attempt_id run s nodeId in
     requireE (computeInputFingerprint h (input_source h run nodeId contract consumed previous)) Fingerprint_invalid (\<lambda>fp.
     Inr \<lparr>pa_waveId = waveId, pa_attemptId = i, pa_inputFingerprint = fp, pa_priorFailure = prior_failure_of previous,
       pa_node = node, pa_contract = contract, pa_consumedArtifacts = consumed,
       pa_startedEvent = fact_at (i @ '':started'') now (started_payload (tn_kind node) consumed
         \<lparr>as_attemptId = i, as_nodeId = nodeId, as_inputFingerprint = fp,
          as_retryOfAttemptId = map_option at_attemptId previous, as_executorProfile = xr_executorProfile run\<rparr>)\<rparr>))))"

section \<open>The decision a failure raises\<close>

definition routing_seams :: "graph_revision \<Rightarrow> seam_binding list" where
  "routing_seams g = map (\<lambda>b. \<lparr>sb_id = gs_id b, sb_producerNodeId = gs_producerNodeId b,
     sb_consumerNodeId = gs_consumerNodeId b\<rparr>) (gr_seamBindings g)"

definition failure_route :: "graph_revision \<Rightarrow> prepared_attempt \<Rightarrow> string \<Rightarrow> repair_route" where
  "failure_route g a reason = routeRepair (tn_id (pa_node a)) reason (routing_seams g)
     (map (\<lambda>x. \<lparr>ao_artifactId = rr_id (aa_contract x), ao_producerNodeId = aa_nodeId x\<rparr>) (pa_consumedArtifacts a))"

definition option_pair :: "string \<Rightarrow> string \<Rightarrow> decision_option list" where
  "option_pair i label = [\<lparr>do_id = i, do_label = label, do_description = None\<rparr>,
     \<lparr>do_id = ''stop'', do_label = ''Stop this work'', do_description = None\<rparr>]"

definition failure_options :: "bool \<Rightarrow> repair_route \<Rightarrow> decision_option list" where
  "failure_options blocked route =
     (if blocked then option_pair ''amend'' ''Amend the plan''
      else case route of
        Amend_plan _ \<Rightarrow> option_pair ''amend'' ''Amend the plan''
      | Effect_policy _ \<Rightarrow> option_pair ''retry'' ''Retry after fixing the environment''
      | Retry_node _ \<Rightarrow> option_pair ''retry'' ''Retry with guidance'')"

definition is_amend :: "repair_route \<Rightarrow> bool" where
  "is_amend route = (case route of Amend_plan _ \<Rightarrow> True | _ \<Rightarrow> False)"

definition repair_target :: "repair_route \<Rightarrow> string option" where
  "repair_target route = (case route of Retry_node n \<Rightarrow> Some n | _ \<Rightarrow> None)"

definition failure_decision :: "graph_revision \<Rightarrow> prepared_attempt \<Rightarrow> string \<Rightarrow> decision_blocker list \<Rightarrow> decision_input" where
  "failure_decision g a reason blockers =
     (let route = failure_route g a reason; blocked = (blockers \<noteq> []); node = pa_node a in
      \<lparr>dc_id = pa_attemptId a @ '':decision'',
       dc_kind = (if blocked \<or> is_amend route then Approve_amendment else Resolve_conflict),
       dc_question = (if blocked then tn_title node @ '' cannot start: '' @ reason
         else ''Execution for '' @ tn_title node @ '' requires guidance: '' @ reason),
       dc_options = failure_options blocked route,
       dc_affectedNodeIds = uniq_sort (tn_id node # opt_list (repair_target route)),
       dc_repairTargetNodeId = repair_target route,
       dc_evidenceRefs = [pa_attemptId a, ''input-fingerprint:'' @ pa_inputFingerprint a],
       dc_blockers = (if blocked then Some blockers else None), dc_impact = Im_behavior,
       dc_raisedAtGraphRevision = Some (gr_revision g)\<rparr>)"

definition decisionFact :: "graph_revision \<Rightarrow> prepared_attempt \<Rightarrow> string \<Rightarrow> string \<Rightarrow> decision_blocker list \<Rightarrow> run_event_input" where
  "decisionFact g a now reason blockers =
     fact_at (pa_attemptId a @ '':decision'') now (Graph_ev (Decision_raised (failure_decision g a reason blockers)))"

end
