(* ===== verification/Driver_Outcome.thy ===== *)
theory Driver_Outcome
  imports Driver
begin

text \<open>
  What an executor's outcome becomes in the journal. Failures and requests for input end the attempt and
  raise a decision; a success is checked (authority over the written paths, the matrix, the evidence behind
  it, the manifests) before its candidate, its artifacts and the final candidate are recorded, in one batch.

  Source: packages/orchestrator-graph/src/canonical-execution-driver.ts.
\<close>

section \<open>The evidence behind a verified matrix\<close>

definition selector_digest :: "host \<Rightarrow> proof_obligation option \<Rightarrow> proof_strategy option \<Rightarrow> string option" where
  "selector_digest h obligation strategy =
     (case (case strategy of None \<Rightarrow> None | Some s \<Rightarrow> ps_selectorDigest s) of
        Some d \<Rightarrow> Some d
      | None \<Rightarrow> (case obligation of
          Some ob \<Rightarrow> if po_required ob then None else Some (sha256 h (JArr []))
        | None \<Rightarrow> None))"

text \<open>The obligation's strategy and the digest of its selector, when there is authority for them.\<close>

definition proof_authority_for :: "host \<Rightarrow> evidence_authority \<Rightarrow> string \<Rightarrow> (proof_strategy \<times> string) option" where
  "proof_authority_for h authority obligationId = do {
     ob \<leftarrow> oget (ea_validationObligations authority) obligationId;
     s \<leftarrow> oget (ea_proofStrategies authority) (cr_id (po_proofStrategy ob));
     d \<leftarrow> selector_digest h (Some ob) (Some s);
     if ps_revision s = cr_revision (po_proofStrategy ob) \<and> ps_digest s = cr_digest (po_proofStrategy ob)
     then Some (s, d) else None }"

definition expected_evidence ::
  "evidence_authority \<Rightarrow> candidate_manifest \<Rightarrow> string \<Rightarrow> proof_strategy \<Rightarrow> string \<Rightarrow> string \<Rightarrow> string \<Rightarrow> evidence_expectation" where
  "expected_evidence authority candidate obligationId strategy selector recipe output =
     \<lparr>xe_goalContractDigest = ea_goalDigest authority, xe_criterionId = ps_criterionId strategy,
      xe_obligationId = obligationId, xe_mode = ps_mode strategy, xe_authority = ps_authority strategy,
      xe_candidate = \<lparr>ec_manifestDigest = cm_manifestDigest candidate, ec_commitOid = cm_commitOid candidate,
        ec_treeOid = cm_treeOid candidate\<rparr>,
      xe_baseline = ea_baseline authority, xe_proofStrategyDigest = ps_digest strategy, xe_recipeDigest = recipe,
      xe_environmentDigest = ps_environmentPolicyDigest strategy, xe_selectorDigest = selector, xe_outputDigest = output\<rparr>"

definition verify_criterion ::
  "host \<Rightarrow> evidence_authority \<Rightarrow> candidate_manifest \<Rightarrow> evidence_matrix \<Rightarrow> criterion_evidence \<Rightarrow> driver_error + unit" where
  "verify_criterion h authority candidate m c =
     requireE (find (\<lambda>b. bn_obligationId b = ce_obligationId c) (em_evidenceBindings m))
       (Binding_missing (em_matrixId m) (ce_obligationId c)) (\<lambda>binding.
     requireE (proof_authority_for h authority (ce_obligationId c)) (No_proof_authority (ce_obligationId c)) (\<lambda>(strategy, selector).
     requireE (em_validationRecipeDigest m) (No_recipe_digest (em_matrixId m)) (\<lambda>recipe.
     let issues = validateEvidenceFreshness h binding
           (expected_evidence authority candidate (ce_obligationId c) strategy selector recipe (bn_outputDigest binding))
     in throwIf (issues \<noteq> []) (Stale_evidence (bn_id binding) issues) (Inr ()))))"

definition names_candidate :: "candidate_manifest \<Rightarrow> string \<Rightarrow> bool" where
  "names_candidate c commit \<longleftrightarrow> cm_commitOid c = commit \<and> eb_commitOid (cm_sourceCandidate c) = commit \<and>
     eb_treeOid (cm_sourceCandidate c) = cm_treeOid c"

definition verifyExactEvidenceAuthority :: "host \<Rightarrow> evidence_authority \<Rightarrow> success \<Rightarrow> driver_error + unit" where
  "verifyExactEvidenceAuthority h authority x =
     (let m = su_evidenceMatrix x in
      requireE (su_candidateManifest x) (No_candidate_manifest (em_matrixId m)) (\<lambda>candidate.
      throwIf (\<not> names_candidate candidate (su_candidateCommit x)) (Candidate_not_identified (cm_id candidate))
      (throwIf (length (em_evidenceBindings m) \<noteq> length (em_criteria m)) (Criteria_not_bound (em_matrixId m))
      (foldE (\<lambda>_. verify_criterion h authority candidate m) () (em_criteria m)))))"

section \<open>Facts\<close>

text \<open>
  A fact the driver builds. The payload of a failure that names blockers has a property the journal's
  schema does not have (its \<open>attempt.failed\<close> is strict), so it is kept apart from the payloads of the model.
\<close>

datatype driver_fact = Fact run_event_input | Failed_with_blockers run_event_input "decision_blocker list"

fun journal_payload :: "driver_fact \<Rightarrow> run_event_input option" where
  "journal_payload (Fact i) = Some i"
| "journal_payload (Failed_with_blockers i bs) = None"

fun journal_payloads :: "driver_fact list \<Rightarrow> run_event_input list option" where
  "journal_payloads [] = Some []"
| "journal_payloads (f # fs) = do { i \<leftarrow> journal_payload f; js \<leftarrow> journal_payloads fs; Some (i # js) }"

definition candidate_fact ::
  "prepared_attempt \<Rightarrow> string \<Rightarrow> string \<Rightarrow> exact_candidate option \<Rightarrow> string \<Rightarrow> string list \<Rightarrow> attempt_usage option \<Rightarrow> string \<Rightarrow> driver_fact" where
  "candidate_fact a suffix commit candidate digest files usage now =
     Fact (fact_at (pa_attemptId a @ suffix) now (Attempt_ev (Attempt_candidate_created
       \<lparr>ac_attemptId = pa_attemptId a, ac_nodeId = tn_id (pa_node a), ac_candidateCommit = commit, ac_candidate = candidate,
        ac_outputDigest = digest, ac_changedFiles = files, ac_usage = usage\<rparr>)))"

definition failed_input :: "prepared_attempt \<Rightarrow> string \<Rightarrow> string \<Rightarrow> attempt_usage option \<Rightarrow> run_event_input" where
  "failed_input a reason now usage = fact_at (pa_attemptId a @ '':failed'') now
     (Attempt_ev (Attempt_failed (pa_attemptId a) (tn_id (pa_node a)) reason usage))"

definition checkpoint_facts :: "prepared_attempt \<Rightarrow> string \<Rightarrow> attempt_usage option \<Rightarrow> checkpoint option \<Rightarrow> driver_fact list" where
  "checkpoint_facts a now usage ck = (case ck of None \<Rightarrow> []
     | Some c \<Rightarrow> [candidate_fact a '':checkpoint'' (ck_candidateCommit c) None (ck_outputDigest c) (ck_changedFiles c) usage now])"

definition failure_facts ::
  "graph_revision \<Rightarrow> prepared_attempt \<Rightarrow> string \<Rightarrow> string \<Rightarrow> attempt_usage option \<Rightarrow> decision_blocker list \<Rightarrow> driver_fact list" where
  "failure_facts g a now reason usage blockers =
     [if blockers = [] then Fact (failed_input a reason now usage)
      else Failed_with_blockers (failed_input a reason now usage) blockers,
      Fact (decisionFact g a now reason blockers)]"

definition exact_of :: "candidate_manifest \<Rightarrow> exact_candidate" where
  "exact_of c = \<lparr>ec_manifestDigest = cm_manifestDigest c, ec_commitOid = cm_commitOid c, ec_treeOid = cm_treeOid c\<rparr>"

definition result_facts :: "prepared_attempt \<Rightarrow> string \<Rightarrow> success \<Rightarrow> driver_fact list" where
  "result_facts a now x =
     (let i = pa_attemptId a; n = tn_id (pa_node a); candidate = map_option exact_of (su_candidateManifest x) in
      if tn_kind (pa_node a) \<noteq> Leaf_node
      then [Fact (fact_at (i @ '':integrated'') now (Integration_ev (Integration_completed i n
        (case su_integrationManifestId x of None \<Rightarrow> i @ '':integration'' | Some m \<Rightarrow> m)
        (su_candidateCommit x) candidate (su_evidenceMatrix x))))]
      else [candidate_fact a '':candidate'' (su_candidateCommit x) candidate (su_outputDigest x) (su_changedFiles x) (su_usage x) now,
        Fact (fact_at (i @ '':validated'') now (Attempt_ev (Validation_completed i n (su_evidenceMatrix x))))])"

definition producedArtifacts :: "task_bundle \<Rightarrow> string \<Rightarrow> artifact_contract list" where
  "producedArtifacts contract nodeId = filter (\<lambda>k. ak_producerNodeId k = nodeId) (tb_artifacts contract)"

text \<open>\<open>contractRefs.find\<close> by id and revision.\<close>

definition declared_ref :: "graph_revision \<Rightarrow> artifact_contract \<Rightarrow> contract_ref option" where
  "declared_ref g k = find (\<lambda>r. cr_id r = ak_id k \<and> names_revision (ak_revision k) (cr_revision r)) (gr_contractRefs g)"

definition binds_attempt :: "prepared_attempt \<Rightarrow> string \<Rightarrow> artifact_contract \<Rightarrow> contract_ref \<Rightarrow> artifact_manifest \<Rightarrow> bool" where
  "binds_attempt a commit k r m \<longleftrightarrow> (let i = am_identity m in
     mi_id i = ak_id k \<and> mi_contract i = r \<and> mi_producerNodeId i = tn_id (pa_node a) \<and>
     mi_producerAttemptId i = pa_attemptId a \<and> mi_inputFingerprint i = pa_inputFingerprint a \<and>
     eb_commitOid (mi_sourceCandidate i) = commit)"

definition adopted_of :: "execution_run \<Rightarrow> prepared_attempt \<Rightarrow> string \<Rightarrow> artifact_contract \<Rightarrow> artifact_manifest \<Rightarrow> adopted_artifact" where
  "adopted_of run a now k m =
     \<lparr>aa_artifactId = ak_id k @ '':'' @ pa_attemptId a, aa_runId = xr_runId run, aa_nodeId = tn_id (pa_node a),
      aa_digest = am_manifestDigest m, aa_producerAttemptId = pa_attemptId a,
      aa_contract = \<lparr>rr_id = ak_id k, rr_revision = ak_revision k\<rparr>, aa_kind = Ak_manifest,
      aa_location = am_manifestDigest m, aa_manifest = Some m, aa_cherryPickMainline = False, aa_adoptedAt = now\<rparr>"

definition adoption_fact ::
  "execution_run \<Rightarrow> prepared_attempt \<Rightarrow> string \<Rightarrow> success \<Rightarrow> artifact_contract \<Rightarrow> driver_error + driver_fact" where
  "adoption_fact run a now x k =
     requireE (oget (su_artifactManifests x) (ak_id k)) (Manifest_missing (pa_attemptId a) (ak_id k)) (\<lambda>m.
     requireE (declared_ref (xr_graph run) k) (Manifest_not_bound (mi_id (am_identity m)) (pa_attemptId a)) (\<lambda>r.
     throwIf (\<not> binds_attempt a (su_candidateCommit x) k r m) (Manifest_not_bound (mi_id (am_identity m)) (pa_attemptId a))
     (Inr (Fact (fact_at (pa_attemptId a @ '':artifact:'' @ ak_id k) now (Attempt_ev (Artifact_adopted (adopted_of run a now k m))))))))"

fun adoption_facts ::
  "execution_run \<Rightarrow> prepared_attempt \<Rightarrow> string \<Rightarrow> success \<Rightarrow> artifact_contract list \<Rightarrow> driver_error + driver_fact list" where
  "adoption_facts run a now x [] = Inr []"
| "adoption_facts run a now x (k # ks) =
     bindE (adoption_fact run a now x k) (\<lambda>f. bindE (adoption_facts run a now x ks) (\<lambda>fs. Inr (f # fs)))"

definition final_facts :: "execution_run \<Rightarrow> prepared_attempt \<Rightarrow> string \<Rightarrow> success \<Rightarrow> driver_error + driver_fact list" where
  "final_facts run a now x =
     (if tn_id (pa_node a) \<noteq> gr_rootId (xr_graph run) then Inr []
      else case (su_finalManifestId x, su_finalManifest x) of
        (Some i, Some m) \<Rightarrow> Inr [Fact (fact_at (pa_attemptId a @ '':final'') now (Delivery_ev (Final_candidate_verified
          \<lparr>vf_manifestId = i, vf_commit = su_candidateCommit x, vf_evidenceMatrixId = em_matrixId (su_evidenceMatrix x),
           vf_evidenceEligible = True, vf_executionSucceeded = True,
           vf_sourceTargetFingerprint = et_sourceTargetFingerprint (xr_target run),
           vf_targetBranch = et_targetBranch (xr_target run), vf_targetHead = et_targetHead (xr_target run),
           vf_finalManifest = Some m\<rparr>)))]
      | _ \<Rightarrow> Inl No_final_manifest)"

section \<open>Recording an outcome\<close>

fun matrix_outcome_name :: "matrix_outcome \<Rightarrow> string" where
  "matrix_outcome_name Verified = ''verified''"
| "matrix_outcome_name Unverified = ''unverified''"
| "matrix_outcome_name Failed_matrix = ''failed''"

definition authority_violations :: "execution_run \<Rightarrow> prepared_attempt \<Rightarrow> string list \<Rightarrow> authority_violation list" where
  "authority_violations run a changed = checkResourceAuthority (tn_id (pa_node a)) (gr_resourceClaims (xr_graph run))
     (concat (map tb_artifacts (ovalues (xr_contracts run)))) changed
     (if tn_kind (pa_node a) = Leaf_node then [] else map (rr_id \<circ> aa_contract) (pa_consumedArtifacts a))"

definition success_facts :: "host \<Rightarrow> execution_run \<Rightarrow> prepared_attempt \<Rightarrow> string \<Rightarrow> success \<Rightarrow> driver_error + driver_fact list" where
  "success_facts h run a now x =
     (let m = su_evidenceMatrix x; g = xr_graph run; violations = authority_violations run a (su_changedFiles x) in
      if violations \<noteq> [] then Inr (failure_facts g a now (describeResourceAuthorityViolations violations) None [])
      else
        throwIf (em_candidateCommit m \<noteq> su_candidateCommit x) (Matrix_of_other_candidate (em_matrixId m) (tn_id (pa_node a)))
        (throwIf (em_validationContract m \<noteq> tb_validation (pa_contract a)) (Matrix_of_other_contract (em_matrixId m) (tn_id (pa_node a)))
        (bindE (case xr_evidenceAuthority run of
            None \<Rightarrow> Inr ()
          | Some authority \<Rightarrow> if em_outcome m = Verified then verifyExactEvidenceAuthority h authority x else Inr ()) (\<lambda>_.
        if em_outcome m \<noteq> Verified
        then Inr (result_facts a now x @
          [Fact (decisionFact g a now (''Validation outcome is '' @ matrix_outcome_name (em_outcome m) @ ''.'') [])])
        else bindE (adoption_facts run a now x (producedArtifacts (pa_contract a) (tn_id (pa_node a)))) (\<lambda>adopted.
          bindE (final_facts run a now x) (\<lambda>final. Inr (result_facts a now x @ adopted @ final)))))))"

fun outcome_facts :: "host \<Rightarrow> execution_run \<Rightarrow> prepared_attempt \<Rightarrow> string \<Rightarrow> outcome \<Rightarrow> driver_error + driver_fact list" where
  "outcome_facts h run a now (Failure reason usage ck) =
     Inr (checkpoint_facts a now usage ck @ failure_facts (xr_graph run) a now reason usage [])"
| "outcome_facts h run a now (Needs_input reason ids unmaterialized) =
     Inr (failure_facts (xr_graph run) a now reason None (case unmaterialized of None \<Rightarrow> [] | Some bs \<Rightarrow> bs))"
| "outcome_facts h run a now (Success x) = success_facts h run a now x"

text \<open>The batch handed to \<open>coordinator.record\<close>, or what \<open>recordOutcome\<close> throws.\<close>

definition recordOutcome :: "host \<Rightarrow> execution_run \<Rightarrow> prepared_attempt \<Rightarrow> string \<Rightarrow> outcome \<Rightarrow> driver_error + run_event_input list" where
  "recordOutcome h run a now out =
     bindE (outcome_facts h run a now out) (\<lambda>fs. requireE (journal_payloads fs) Payload_refused Inr)"

end
