(* ===== verification/Wave_Pool.thy ===== *)
theory Wave_Pool
  imports Driver_Outcome
begin

text \<open>
  How a wave runs: workers take attempts from one queue, executions are in flight together, and outcomes are
  recorded one at a time in the order they came back. What can happen next depends on the executors and on
  the event loop, so the wave is a step relation, and the statements are about everything it can do.

  Source: packages/orchestrator-graph/src/canonical-execution-driver.ts.
\<close>

section \<open>The wave of a run\<close>

text \<open>The attempts of a selected wave, each with its reading of the clock.\<close>

fun create_attempts :: "host \<Rightarrow> execution_run \<Rightarrow> run_projection \<Rightarrow> string \<Rightarrow> (string \<times> string) list \<Rightarrow> driver_error + prepared_attempt list" where
  "create_attempts h run s waveId [] = Inr []"
| "create_attempts h run s waveId ((n, now) # ns) =
     bindE (createAttempt h run s n waveId now) (\<lambda>a. bindE (create_attempts h run s waveId ns) (\<lambda>xs. Inr (a # xs)))"

lemma create_attempts_length: "create_attempts h run s waveId ns = Inr xs \<Longrightarrow> length xs = length ns"
  by (induction ns arbitrary: xs) auto

section \<open>States and steps\<close>

text \<open>
  \<open>wv_free\<close> counts the workers at the top of their loop. An outcome joins \<open>wv_chain\<close> when its execution
  returns; the head of the chain is being recorded. \<open>wv_thrown\<close> and \<open>wv_refused\<close> hold the executions and
  the records that threw, in order.
\<close>

record ('a, 'b, 'x) wave =
  wv_queue :: "'a list"
  wv_free :: nat
  wv_running :: "'a list"
  wv_chain :: "('a \<times> 'b) list"
  wv_recorded :: "('a \<times> 'b) list"
  wv_thrown :: "('a \<times> 'x) list"
  wv_refused :: "('a \<times> 'x) list"

definition wave_start :: "int \<Rightarrow> 'a list \<Rightarrow> ('a, 'b, 'x) wave" where
  "wave_start maxParallel attempts =
     \<lparr>wv_queue = attempts, wv_free = min (nat (max 1 maxParallel)) (length attempts), wv_running = [],
      wv_chain = [], wv_recorded = [], wv_thrown = [], wv_refused = []\<rparr>"

inductive wave_step :: "('a, 'b, 'x) wave \<Rightarrow> ('a, 'b, 'x) wave \<Rightarrow> bool" where
  take: "wv_queue s = a # q \<Longrightarrow> wv_free s = Suc k \<Longrightarrow>
    wave_step s (s\<lparr>wv_queue := q, wv_free := k, wv_running := wv_running s @ [a]\<rparr>)"
| leave: "wv_queue s = [] \<Longrightarrow> wv_free s = Suc k \<Longrightarrow> wave_step s (s\<lparr>wv_free := k\<rparr>)"
| returned: "wv_running s = us @ a # vs \<Longrightarrow>
    wave_step s (s\<lparr>wv_running := us @ vs, wv_chain := wv_chain s @ [(a, b)]\<rparr>)"
| threw: "wv_running s = us @ a # vs \<Longrightarrow>
    wave_step s (s\<lparr>wv_running := us @ vs, wv_thrown := wv_thrown s @ [(a, x)]\<rparr>)"
| recorded: "wv_chain s = e # es \<Longrightarrow>
    wave_step s (s\<lparr>wv_chain := es, wv_recorded := wv_recorded s @ [e], wv_free := Suc (wv_free s)\<rparr>)"
| refused: "wv_chain s = (a, b) # es \<Longrightarrow>
    wave_step s (s\<lparr>wv_chain := es, wv_refused := wv_refused s @ [(a, x)]\<rparr>)"

definition settled_wave :: "('a, 'b, 'x) wave \<Rightarrow> bool" where
  "settled_wave s \<longleftrightarrow> wv_free s = 0 \<and> wv_running s = [] \<and> wv_chain s = []"

text \<open>
  What \<open>executeWave\<close> has come to: nothing yet, the error it threw, or its return. A record that throws
  rejects \<open>Promise.all\<close> at once; an execution that threw is raised after the others have settled.
\<close>

definition wave_result :: "('a, 'b, 'x) wave \<Rightarrow> ('x + unit) option" where
  "wave_result s = (case wv_refused s of
     (a, x) # _ \<Rightarrow> Some (Inl x)
   | [] \<Rightarrow> if \<not> settled_wave s then None
       else (case wv_thrown s of (a, x) # _ \<Rightarrow> Some (Inl x) | [] \<Rightarrow> Some (Inr ())))"

section \<open>What holds on the way\<close>

definition wave_members :: "('a, 'b, 'x) wave \<Rightarrow> 'a multiset" where
  "wave_members s = mset (wv_queue s @ wv_running s @ map fst (wv_chain s) @ map fst (wv_recorded s) @
     map fst (wv_thrown s) @ map fst (wv_refused s))"

definition busy_workers :: "('a, 'b, 'x) wave \<Rightarrow> nat" where
  "busy_workers s = length (wv_running s) + length (wv_chain s)"

definition wave_measure :: "('a, 'b, 'x) wave \<Rightarrow> nat" where
  "wave_measure s = 4 * length (wv_queue s) + 3 * length (wv_running s) + 2 * length (wv_chain s) + wv_free s"

lemmas wave_defs = wave_members_def busy_workers_def wave_measure_def

lemma step_members: "wave_step s t \<Longrightarrow> wave_members t = wave_members s"
  by (induction rule: wave_step.induct) (auto simp: wave_defs)

lemma step_workers: "wave_step s t \<Longrightarrow> wv_free t + busy_workers t \<le> wv_free s + busy_workers s"
  by (induction rule: wave_step.induct) (auto simp: wave_defs)

lemma step_measure: "wave_step s t \<Longrightarrow> wave_measure t < wave_measure s"
  by (induction rule: wave_step.induct) (auto simp: wave_defs)

lemma step_queue: "wave_step s t \<Longrightarrow> length (wv_queue s) \<le> wv_free s \<Longrightarrow> length (wv_queue t) \<le> wv_free t"
  by (induction rule: wave_step.induct) auto

lemma wave_progress: "settled_wave s \<or> (\<exists>t. wave_step s t)"
proof -
  consider k where "wv_free s = Suc k" | a vs where "wv_running s = a # vs" | e es where "wv_chain s = e # es" | "settled_wave s"
    by (cases "wv_free s"; cases "wv_running s"; cases "wv_chain s") (auto simp: settled_wave_def)
  then show ?thesis
  proof cases
    case 1
    then show ?thesis by (cases "wv_queue s") (blast intro: take leave)+
  next
    case 2
    then show ?thesis using returned[of s "[]"] by (metis append_Nil)
  qed (blast intro: recorded)+
qed

text \<open>A step relation whose steps all go down in a measure.\<close>

lemma steps_bounded:
  assumes "\<And>s t. R s t \<Longrightarrow> f t < (f s :: nat)" and "(R ^^ k) s t"
  shows "k + f t \<le> f s"
  using assms(2)
proof (induction k arbitrary: t)
  case (Suc k)
  then obtain u where "(R ^^ k) s u" "R u t" by auto
  with Suc.IH[of u] assms(1)[of u t] show ?case by simp
qed simp

lemma steps_invariant:
  assumes "(R ^^ k) s t" "P s" "\<And>s t. P s \<Longrightarrow> R s t \<Longrightarrow> P t"
  shows "P t"
  using assms(1) by (induction k arbitrary: t) (auto intro: assms)

end
