(* ===== verification/Graph_Normal_Form.thy ===== *)
theory Graph_Normal_Form
  imports Graph_Validation Event_Inputs
begin

text \<open>
  The normal form of a graph: what normalizing a collection of relations yields, when it fails, and that
  normalizing twice changes nothing.

  Source: packages/task-graph/src/canonical-graph.ts.
\<close>

section \<open>One collection\<close>

definition keyed :: "('a \<Rightarrow> string) \<Rightarrow> (string \<times> 'a) list \<Rightarrow> bool" where
  "keyed rid m \<longleftrightarrow> distinct (map fst m) \<and> (\<forall>(k, v) \<in> set m. k = rid v)"

lemma keyed_lookup: "keyed rid m \<Longrightarrow> map_of m k = Some v \<longleftrightarrow> v \<in> snd ` set m \<and> rid v = k"
  by (force simp: keyed_def)

lemma keyed_missing: "keyed rid m \<Longrightarrow> map_of m k = None \<longleftrightarrow> k \<notin> rid ` snd ` set m"
  by (force simp: keyed_def map_of_eq_None_iff)

lemma keyed_append: "keyed rid m \<Longrightarrow> rid v \<notin> rid ` snd ` set m \<Longrightarrow> keyed rid (m @ [(rid v, v)])"
  by (force simp: keyed_def)

lemma keyed_inj: "keyed rid m \<Longrightarrow> inj_on rid (snd ` set m)"
  by (rule inj_onI) (metis keyed_lookup option.inject)

lemma keyed_distinct:
  assumes "keyed rid m"
  shows "distinct (map rid (map snd m))"
proof -
  have "map fst m = map rid (map snd m)" using assms by (auto simp: keyed_def)
  with assms show ?thesis by (metis keyed_def)
qed

lemma distinct_sort_key: "distinct (map f (sort_key g xs)) \<longleftrightarrow> distinct (map f xs)"
  by (intro mset_eq_imp_distinct_iff) simp

definition relation_step ::
  "('a \<Rightarrow> string) \<Rightarrow> string \<Rightarrow> ('a \<Rightarrow> 'a) \<Rightarrow> (string \<times> 'a) list \<Rightarrow> 'a \<Rightarrow> build_error + (string \<times> 'a) list" where
  "relation_step rid collection nf byId r = (case map_of byId (rid (nf r)) of
     Some e \<Rightarrow> throwIf (e \<noteq> nf r) (Conflicting_id collection (rid (nf r))) (Inr byId)
   | None \<Rightarrow> Inr (byId @ [(rid (nf r), nf r)]))"

lemma normalizeRelations_steps:
  "normalizeRelations rid collection nf rs =
     bindE (foldE (relation_step rid collection nf) [] rs) (\<lambda>byId. Inr (sort_key rid (map snd byId)))"
  by (simp add: normalizeRelations_def relation_step_def[abs_def])

lemma relation_step_Inr:
  assumes "keyed rid m"
  shows "relation_step rid collection nf m r = Inr m' \<longleftrightarrow>
    (nf r \<in> snd ` set m \<and> m' = m \<or> rid (nf r) \<notin> rid ` snd ` set m \<and> m' = m @ [(rid (nf r), nf r)])"
proof (cases "map_of m (rid (nf r))")
  case None
  with keyed_missing[OF assms] have "rid (nf r) \<notin> rid ` snd ` set m" by blast
  then show ?thesis using None by (auto simp: relation_step_def)
next
  case (Some e)
  with keyed_lookup[OF assms] have e: "e \<in> snd ` set m" "rid e = rid (nf r)" by auto
  then have "e = nf r \<longleftrightarrow> nf r \<in> snd ` set m" using keyed_inj[OF assms] by (metis inj_onD)
  moreover have "rid (nf r) \<in> rid ` snd ` set m" using e by (metis imageI)
  ultimately show ?thesis using Some by (auto simp: relation_step_def)
qed

lemma relation_step_keyed:
  assumes "keyed rid m" "relation_step rid collection nf m r = Inr n"
  shows "keyed rid n" "snd ` set n = insert (nf r) (snd ` set m)"
proof -
  from assms consider "nf r \<in> snd ` set m" "n = m" | "rid (nf r) \<notin> rid ` snd ` set m" "n = m @ [(rid (nf r), nf r)]"
    unfolding relation_step_Inr[OF assms(1)] by blast
  then have "keyed rid n \<and> snd ` set n = insert (nf r) (snd ` set m)"
    by cases (use assms(1) in \<open>simp_all add: keyed_append insert_absorb\<close>)
  then show "keyed rid n" "snd ` set n = insert (nf r) (snd ` set m)" by blast+
qed

lemma relation_steps_Inr:
  "keyed rid m \<Longrightarrow> foldE (relation_step rid collection nf) m rs = Inr m' \<Longrightarrow>
     keyed rid m' \<and> snd ` set m' = snd ` set m \<union> nf ` set rs"
proof (induction rs arbitrary: m)
  case (Cons r rs)
  then obtain n where n: "relation_step rid collection nf m r = Inr n" "foldE (relation_step rid collection nf) n rs = Inr m'"
    by auto
  note kept = relation_step_keyed[OF Cons.prems(1) n(1)]
  from Cons.IH[OF kept(1) n(2)] kept(2) show ?case by simp
qed simp

lemma relation_steps_ok:
  assumes "keyed rid m" and "inj_on rid (snd ` set m \<union> nf ` set rs)"
  shows "\<exists>m'. foldE (relation_step rid collection nf) m rs = Inr m'"
  using assms
proof (induction rs arbitrary: m)
  case (Cons r rs)
  have "\<exists>n. relation_step rid collection nf m r = Inr n"
  proof (cases "nf r \<in> snd ` set m")
    case False
    have "rid (nf r) \<notin> rid ` snd ` set m"
    proof
      assume "rid (nf r) \<in> rid ` snd ` set m"
      then obtain e where "e \<in> snd ` set m" "rid (nf r) = rid e" by (rule imageE)
      with inj_onD[OF Cons.prems(2)] False show False by auto
    qed
    then show ?thesis using relation_step_Inr[OF Cons.prems(1)] by blast
  qed (use relation_step_Inr[OF Cons.prems(1)] in blast)
  then obtain n where n: "relation_step rid collection nf m r = Inr n" by blast
  note kept = relation_step_keyed[OF Cons.prems(1) n]
  have "inj_on rid (snd ` set n \<union> nf ` set rs)" using Cons.prems(2) kept(2) by simp
  from Cons.IH[OF kept(1) this] n show ?case by simp
qed simp

text \<open>A list sorted by a key that is distinct on it is determined by its set.\<close>

lemma sorted_by_key_unique:
  assumes "sorted (map f xs)" "sorted (map f ys)" "distinct (map f xs)" "distinct (map f ys)" "set xs = set ys"
  shows "xs = ys"
proof -
  have "map f xs = map f ys"
    using assms by (intro sorted_distinct_set_unique) simp_all
  moreover have "inj_on f (set xs \<union> set ys)" using assms(3,5) by (simp add: distinct_map)
  ultimately show ?thesis by (simp add: inj_on_map_eq_map)
qed

lemma normalizeRelations_Inr:
  "normalizeRelations rid collection nf rs = Inr xs \<longleftrightarrow>
     inj_on rid (nf ` set rs) \<and> sorted (map rid xs) \<and> distinct (map rid xs) \<and> set xs = nf ` set rs"
proof
  assume "normalizeRelations rid collection nf rs = Inr xs"
  then obtain m where m: "foldE (relation_step rid collection nf) [] rs = Inr m" "xs = sort_key rid (map snd m)"
    by (auto simp: normalizeRelations_steps)
  with relation_steps_Inr[of rid "[]", OF _ m(1)] have keyed: "keyed rid m" "snd ` set m = nf ` set rs"
    by (simp_all add: keyed_def)
  show "inj_on rid (nf ` set rs) \<and> sorted (map rid xs) \<and> distinct (map rid xs) \<and> set xs = nf ` set rs"
    using m(2) keyed(2) keyed_inj[OF keyed(1)] keyed_distinct[OF keyed(1)] by (simp add: distinct_sort_key del: map_map)
next
  assume xs: "inj_on rid (nf ` set rs) \<and> sorted (map rid xs) \<and> distinct (map rid xs) \<and> set xs = nf ` set rs"
  then obtain m where m: "foldE (relation_step rid collection nf) [] rs = Inr m"
    using relation_steps_ok[of rid "[]" nf rs collection] by (auto simp: keyed_def)
  with relation_steps_Inr[of rid "[]", OF _ m] have keyed: "keyed rid m" "snd ` set m = nf ` set rs"
    by (simp_all add: keyed_def)
  have "distinct (map rid (sort_key rid (map snd m)))"
    using keyed_distinct[OF keyed(1)] by (simp add: distinct_sort_key del: map_map)
  then have "sort_key rid (map snd m) = xs"
    using xs keyed(2) by (intro sorted_by_key_unique[where f = rid]) simp_all
  with m show "normalizeRelations rid collection nf rs = Inr xs" by (simp add: normalizeRelations_steps)
qed

lemma normalizeRelations_again:
  assumes "normalizeRelations rid collection nf rs = Inr xs" and "\<And>r. nf (nf r) = nf r"
  shows "normalizeRelations rid collection nf xs = Inr xs"
proof -
  have "nf ` set xs = set xs" using assms by (auto simp: normalizeRelations_Inr image_iff)
  then show ?thesis using assms(1) unfolding normalizeRelations_Inr by simp
qed

section \<open>Ids across collections\<close>

lemma unique_ids_step:
  "foldE (\<lambda>owners (c, i). case map_of owners i of Some w \<Rightarrow> Inl (Relation_id_reused i w c) | None \<Rightarrow> Inr (owners @ [(i, c)]))
     owners cs = Inr owners' \<Longrightarrow> distinct (map snd cs) \<and> set (map snd cs) \<inter> fst ` set owners = {}"
proof (induction cs arbitrary: owners)
  case (Cons c cs)
  obtain k i where c: "c = (k, i)" by force
  with Cons.prems have free: "map_of owners i = None" by (auto split: option.splits)
  with Cons.prems c Cons.IH[of "owners @ [(i, k)]"] have
    "distinct (map snd cs) \<and> set (map snd cs) \<inter> fst ` set (owners @ [(i, k)]) = {}" by simp
  with c free show ?case by (auto simp: map_of_eq_None_iff)
qed simp

lemma unique_ids_ok:
  "distinct (map snd cs) \<Longrightarrow> set (map snd cs) \<inter> fst ` set owners = {} \<Longrightarrow>
   \<exists>owners'. foldE (\<lambda>owners (c, i). case map_of owners i of Some w \<Rightarrow> Inl (Relation_id_reused i w c) | None \<Rightarrow> Inr (owners @ [(i, c)]))
     owners cs = Inr owners'"
proof (induction cs arbitrary: owners)
  case (Cons c cs)
  obtain k i where c: "c = (k, i)" by force
  with Cons.prems have "map_of owners i = None" by (auto simp: map_of_eq_None_iff)
  with c Cons.prems Cons.IH[of "owners @ [(i, k)]"] show ?case by auto
qed simp

lemma unique_ids_Inr:
  "(\<exists>owners. assertRelationIdsAreGloballyUnique cs = Inr owners) \<longleftrightarrow> distinct (concat (map snd cs))"
proof -
  have "map snd (concat (map (\<lambda>(c, ids). map (Pair c) ids) cs)) = concat (map snd cs)"
    by (induction cs) (auto simp: comp_def)
  then show ?thesis
    unfolding assertRelationIdsAreGloballyUnique_def
    using unique_ids_step[where owners = "[]"] unique_ids_ok[where owners = "[]"] by fastforce
qed

section \<open>Contract references\<close>

lemma keyed_alt: "keyed rid m \<longleftrightarrow> distinct (map fst m) \<and> (\<forall>k v. map_of m k = Some v \<longrightarrow> k = rid v)"
  by (auto simp: keyed_def)

lemma keyed_values: "keyed rid m \<Longrightarrow> v \<in> snd ` set m \<longleftrightarrow> map_of m (rid v) = Some v"
  by (simp add: keyed_lookup)

lemma keyed_update: "keyed rid m \<Longrightarrow> keyed rid (AList.update (rid v) v m)"
  by (auto simp: keyed_alt split: if_splits)

lemma keyed_update_values:
  assumes "keyed rid m"
  shows "snd ` set (AList.update (rid v) v m) = insert v {w \<in> snd ` set m. rid w \<noteq> rid v}"
proof (rule set_eqI)
  fix w
  show "w \<in> snd ` set (AList.update (rid v) v m) \<longleftrightarrow> w \<in> insert v {w \<in> snd ` set m. rid w \<noteq> rid v}"
    unfolding keyed_values[OF keyed_update[OF assms]] by (auto simp: keyed_values[OF assms])
qed

lemma fold_update_keyed:
  fixes refs :: "'a list"
  assumes "keyed rid m" and "m' = fold (\<lambda>r m. AList.update (rid r) r m) refs m"
  shows "keyed rid m' \<and> snd ` set m' \<subseteq> snd ` set m \<union> set refs \<and>
    (inj_on rid (snd ` set m \<union> set refs) \<longrightarrow> snd ` set m' = snd ` set m \<union> set refs)"
  using assms(1) unfolding assms(2)
proof (induction refs arbitrary: m)
  case (Cons r refs)
  let ?n = "AList.update (rid r) r m"
  note vals = keyed_update_values[OF Cons.prems, of r]
  from Cons.IH[OF keyed_update[OF Cons.prems], of r] have IH:
    "keyed rid (fold (\<lambda>r m. AList.update (rid r) r m) refs ?n)"
    "snd ` set (fold (\<lambda>r m. AList.update (rid r) r m) refs ?n) \<subseteq> snd ` set ?n \<union> set refs"
    "inj_on rid (snd ` set ?n \<union> set refs) \<Longrightarrow>
       snd ` set (fold (\<lambda>r m. AList.update (rid r) r m) refs ?n) = snd ` set ?n \<union> set refs" by blast+
  have U: "snd ` set ?n \<union> set refs = snd ` set m \<union> set (r # refs)" if "inj_on rid (snd ` set m \<union> set (r # refs))"
    unfolding vals using that by (auto simp: inj_on_def)
  have "snd ` set ?n \<union> set refs \<subseteq> snd ` set m \<union> set (r # refs)"
    unfolding vals by auto
  with IH(2) have "snd ` set (fold (\<lambda>r m. AList.update (rid r) r m) refs ?n) \<subseteq> snd ` set m \<union> set (r # refs)"
    by (rule subset_trans)
  moreover have "snd ` set (fold (\<lambda>r m. AList.update (rid r) r m) refs ?n) = snd ` set m \<union> set (r # refs)"
    if inj: "inj_on rid (snd ` set m \<union> set (r # refs))"
    using IH(3) inj unfolding U[OF inj] by blast
  ultimately show ?case using IH(1) by simp
qed simp

lemma normalizeContractRefs_facts:
  "sorted (map refKey (normalizeContractRefs refs))" "distinct (map refKey (normalizeContractRefs refs))"
  "set (normalizeContractRefs refs) \<subseteq> set refs"
  "inj_on refKey (set refs) \<Longrightarrow> set (normalizeContractRefs refs) = set refs"
proof -
  let ?m = "fold (\<lambda>r m. AList.update (refKey r) r m) refs []"
  have "keyed refKey []" by (simp add: keyed_def)
  note m = fold_update_keyed[OF this refl, of refs]
  then show "distinct (map refKey (normalizeContractRefs refs))"
    using keyed_distinct[of refKey ?m] by (simp add: normalizeContractRefs_def distinct_sort_key del: map_map)
  show "sorted (map refKey (normalizeContractRefs refs))" by (simp add: normalizeContractRefs_def)
  show "set (normalizeContractRefs refs) \<subseteq> set refs"
    "inj_on refKey (set refs) \<Longrightarrow> set (normalizeContractRefs refs) = set refs"
    using m by (auto simp: normalizeContractRefs_def)
qed

lemma normalizeContractRefs_again: "normalizeContractRefs (normalizeContractRefs refs) = normalizeContractRefs refs"
proof (rule sorted_by_key_unique[where f = refKey])
  have "inj_on refKey (set (normalizeContractRefs refs))"
    using normalizeContractRefs_facts(2)[of refs] by (simp add: distinct_map)
  then show "set (normalizeContractRefs (normalizeContractRefs refs)) = set (normalizeContractRefs refs)"
    by (rule normalizeContractRefs_facts(4))
qed (simp_all add: normalizeContractRefs_facts)

section \<open>Single relations\<close>

lemma nub_distinct [simp]: "distinct xs \<Longrightarrow> nub xs = xs"
  by (simp add: nub_def distinct_remdups_id)

lemma normal_requirement_again [simp]: "normal_requirement (normal_requirement r) = normal_requirement r"
  by (simp add: normal_requirement_def sort_key_id_if_sorted)

lemma normal_seam_again [simp]: "normal_seam (normal_seam s) = normal_seam s"
  by (simp add: normal_seam_def)

lemma normal_epistemic_again [simp]: "normal_epistemic (normal_epistemic e) = normal_epistemic e"
  by (cases e) simp_all

lemma normal_claim_again [simp]: "normal_claim (normal_claim c) = normal_claim c"
  by (simp add: normal_claim_def)

lemma normal_ids [simp]: "rq_id (normal_requirement r) = rq_id r" "gs_id (normal_seam s) = gs_id s" "cl_id (normal_claim c) = cl_id c"
  by (simp_all add: normal_requirement_def normal_seam_def normal_claim_def)

lemma arr_of_fixed_iff: "arr_of p xs = Some xs \<longleftrightarrow> (\<forall>x \<in> set xs. p x = Some x)"
  by (induction xs) (auto simp: parse_simps)

lemma parse_normal_requirement: "parse_artifact_requirement r = Some r \<Longrightarrow> parse_artifact_requirement (normal_requirement r) = Some (normal_requirement r)"
  by (cases r) (auto simp: parse_artifact_requirement_def normal_requirement_def parse_simps Suc_le_eq neq_Nil_conv
      simp flip: length_greater_0_conv dest!: arg_cong[where f = set])

lemma fixed_nonempty: "nonEmptyString s = Some t \<Longrightarrow> t \<noteq> []"
  by (simp add: nonEmptyString_Some)

lemma parse_normal_seam: "parse_graph_seam s = Some s \<Longrightarrow> parse_graph_seam (normal_seam s) = Some (normal_seam s)"
  by (cases s) (auto simp: parse_graph_seam_def normal_seam_def parse_simps arr_of_fixed_iff Suc_le_eq)

lemma parse_normal_epistemic: "parse_epistemic e = Some e \<Longrightarrow> parse_epistemic (normal_epistemic e) = Some (normal_epistemic e)"
  by (cases e) (auto simp: parse_simps arr_of_fixed_iff)

lemma parse_normal_claim: "parse_resource_claim c = Some c \<Longrightarrow> parse_resource_claim (normal_claim c) = Some (normal_claim c)"
  by (cases c) (auto simp: parse_resource_claim_def normal_claim_def parse_simps arr_of_fixed_iff parse_normal_epistemic)

section \<open>A whole graph\<close>

lemma normalize_material_Inr:
  "normalizeGraphRevisionMaterial m = Inr n \<longleftrightarrow>
     (\<exists>rs ss cs ls.
       normalizeRelations rq_id ''artifactRequirements'' normal_requirement (gr_artifactRequirements m) = Inr rs \<and>
       normalizeRelations gs_id ''seamBindings'' normal_seam (gr_seamBindings m) = Inr ss \<and>
       normalizeRelations cl_id ''resourceClaims'' normal_claim (gr_resourceClaims m) = Inr cs \<and>
       normalizeRelations lc_id ''runtimeLeaseClaims'' (\<lambda>c. c) (gr_runtimeLeaseClaims m) = Inr ls \<and>
       distinct (map rq_id rs @ map gs_id ss @ map cl_id cs @ map lc_id ls) \<and>
       n = m\<lparr>gr_artifactRequirements := rs, gr_seamBindings := ss, gr_resourceClaims := cs,
         gr_runtimeLeaseClaims := ls, gr_contractRefs := normalizeContractRefs (gr_contractRefs m)\<rparr>)"
proof -
  have unique: "(\<exists>owners. assertRelationIdsAreGloballyUnique [(''artifactRequirements'', a), (''seamBindings'', b),
      (''resourceClaims'', c), (''runtimeLeaseClaims'', d)] = Inr owners) \<longleftrightarrow> distinct (a @ b @ c @ d)" for a b c d
    unfolding unique_ids_Inr by simp
  show ?thesis
    unfolding normalizeGraphRevisionMaterial_def bindE_Inr using unique by (auto simp del: distinct_append)
qed

lemma normalize_material_again:
  assumes "normalizeGraphRevisionMaterial m = Inr n"
  shows "normalizeGraphRevisionMaterial n = Inr n"
proof -
  from assms obtain rs ss cs ls where
    parts: "normalizeRelations rq_id ''artifactRequirements'' normal_requirement (gr_artifactRequirements m) = Inr rs"
      "normalizeRelations gs_id ''seamBindings'' normal_seam (gr_seamBindings m) = Inr ss"
      "normalizeRelations cl_id ''resourceClaims'' normal_claim (gr_resourceClaims m) = Inr cs"
      "normalizeRelations lc_id ''runtimeLeaseClaims'' (\<lambda>c. c) (gr_runtimeLeaseClaims m) = Inr ls"
      "distinct (map rq_id rs @ map gs_id ss @ map cl_id cs @ map lc_id ls)"
    and n: "n = m\<lparr>gr_artifactRequirements := rs, gr_seamBindings := ss, gr_resourceClaims := cs,
         gr_runtimeLeaseClaims := ls, gr_contractRefs := normalizeContractRefs (gr_contractRefs m)\<rparr>"
    unfolding normalize_material_Inr by blast
  have "normalizeRelations rq_id ''artifactRequirements'' normal_requirement rs = Inr rs"
    "normalizeRelations gs_id ''seamBindings'' normal_seam ss = Inr ss"
    "normalizeRelations cl_id ''resourceClaims'' normal_claim cs = Inr cs"
    "normalizeRelations lc_id ''runtimeLeaseClaims'' (\<lambda>c. c) ls = Inr ls"
    using parts(1-4) by (auto intro: normalizeRelations_again)
  with parts(5) show ?thesis
    unfolding normalize_material_Inr n by (simp add: normalizeContractRefs_again del: distinct_append)
qed

lemma normalize_material_parsed:
  assumes "normalizeGraphRevisionMaterial m = Inr n" and "parse_graph_material m = Some m"
  shows "parse_graph_material n = Some n"
proof -
  from assms(1) obtain rs ss cs ls where
    sets: "set rs = normal_requirement ` set (gr_artifactRequirements m)" "set ss = normal_seam ` set (gr_seamBindings m)"
      "set cs = normal_claim ` set (gr_resourceClaims m)" "set ls = set (gr_runtimeLeaseClaims m)"
    and n: "n = m\<lparr>gr_artifactRequirements := rs, gr_seamBindings := ss, gr_resourceClaims := cs,
         gr_runtimeLeaseClaims := ls, gr_contractRefs := normalizeContractRefs (gr_contractRefs m)\<rparr>"
    unfolding normalize_material_Inr normalizeRelations_Inr by auto
  from assms(2) have "arr_of parse_artifact_requirement (gr_artifactRequirements m) = Some (gr_artifactRequirements m)"
    "arr_of parse_graph_seam (gr_seamBindings m) = Some (gr_seamBindings m)"
    "arr_of parse_resource_claim (gr_resourceClaims m) = Some (gr_resourceClaims m)"
    "arr_of parse_lease_claim (gr_runtimeLeaseClaims m) = Some (gr_runtimeLeaseClaims m)"
    "arr_of parse_contract_ref (gr_contractRefs m) = Some (gr_contractRefs m)"
    by (cases m; auto simp: parse_graph_material_def parse_simps)+
  then have "arr_of parse_artifact_requirement rs = Some rs" "arr_of parse_graph_seam ss = Some ss"
    "arr_of parse_resource_claim cs = Some cs" "arr_of parse_lease_claim ls = Some ls"
    "arr_of parse_contract_ref (normalizeContractRefs (gr_contractRefs m)) = Some (normalizeContractRefs (gr_contractRefs m))"
    using normalizeContractRefs_facts(3)[of "gr_contractRefs m"]
    unfolding arr_of_fixed_iff sets by (auto simp: parse_normal_requirement parse_normal_seam parse_normal_claim)
  then show ?thesis
    using assms(2) unfolding n by (cases m) (auto simp: parse_graph_material_def parse_simps)
qed

lemma buildGraphRevision_Inr:
  "buildGraphRevision h raw = Inr g \<longleftrightarrow> (\<exists>m n. parse_graph_material raw = Some m \<and> normalizeGraphRevisionMaterial m = Inr n \<and>
     g = graph_material.extend n (graph_revision.fields (computeCanonicalDigest h (material_json n))))"
  by (auto simp: buildGraphRevision_def)

text \<open>Relations are sets to the builder, and contract references are when their keys tell them apart.\<close>

definition same_relations :: "graph_material \<Rightarrow> graph_material \<Rightarrow> bool" where
  "same_relations m m' \<longleftrightarrow>
     set (gr_artifactRequirements m') = set (gr_artifactRequirements m) \<and> set (gr_seamBindings m') = set (gr_seamBindings m) \<and>
     set (gr_resourceClaims m') = set (gr_resourceClaims m) \<and> set (gr_runtimeLeaseClaims m') = set (gr_runtimeLeaseClaims m) \<and>
     set (gr_contractRefs m') = set (gr_contractRefs m) \<and>
     m' = m\<lparr>gr_artifactRequirements := gr_artifactRequirements m', gr_seamBindings := gr_seamBindings m',
       gr_resourceClaims := gr_resourceClaims m', gr_runtimeLeaseClaims := gr_runtimeLeaseClaims m',
       gr_contractRefs := gr_contractRefs m'\<rparr>"

lemma normalizeRelations_set:
  "set rs' = set rs \<Longrightarrow> normalizeRelations rid c nf rs = Inr xs \<Longrightarrow> normalizeRelations rid c nf rs' = Inr xs"
  by (simp add: normalizeRelations_Inr)

lemma normalizeContractRefs_set:
  assumes "set refs' = set refs" "inj_on refKey (set refs)"
  shows "normalizeContractRefs refs' = normalizeContractRefs refs"
  using assms by (intro sorted_by_key_unique[where f = refKey]) (simp_all add: normalizeContractRefs_facts)

lemma normalize_material_set:
  assumes "normalizeGraphRevisionMaterial m = Inr n" "same_relations m m'" "inj_on refKey (set (gr_contractRefs m))"
  shows "normalizeGraphRevisionMaterial m' = Inr n"
proof -
  from assms(1) obtain rs ss cs ls where
    parts: "normalizeRelations rq_id ''artifactRequirements'' normal_requirement (gr_artifactRequirements m) = Inr rs"
      "normalizeRelations gs_id ''seamBindings'' normal_seam (gr_seamBindings m) = Inr ss"
      "normalizeRelations cl_id ''resourceClaims'' normal_claim (gr_resourceClaims m) = Inr cs"
      "normalizeRelations lc_id ''runtimeLeaseClaims'' (\<lambda>c. c) (gr_runtimeLeaseClaims m) = Inr ls"
      "distinct (map rq_id rs @ map gs_id ss @ map cl_id cs @ map lc_id ls)"
    and n: "n = m\<lparr>gr_artifactRequirements := rs, gr_seamBindings := ss, gr_resourceClaims := cs,
         gr_runtimeLeaseClaims := ls, gr_contractRefs := normalizeContractRefs (gr_contractRefs m)\<rparr>"
    unfolding normalize_material_Inr by blast
  have same: "set (gr_artifactRequirements m') = set (gr_artifactRequirements m)" "set (gr_seamBindings m') = set (gr_seamBindings m)"
    "set (gr_resourceClaims m') = set (gr_resourceClaims m)" "set (gr_runtimeLeaseClaims m') = set (gr_runtimeLeaseClaims m)"
    "set (gr_contractRefs m') = set (gr_contractRefs m)"
    and m': "m' = m\<lparr>gr_artifactRequirements := gr_artifactRequirements m', gr_seamBindings := gr_seamBindings m',
       gr_resourceClaims := gr_resourceClaims m', gr_runtimeLeaseClaims := gr_runtimeLeaseClaims m', gr_contractRefs := gr_contractRefs m'\<rparr>"
    using assms(2) unfolding same_relations_def by blast+
  have "n = m'\<lparr>gr_artifactRequirements := rs, gr_seamBindings := ss, gr_resourceClaims := cs,
         gr_runtimeLeaseClaims := ls, gr_contractRefs := normalizeContractRefs (gr_contractRefs m')\<rparr>"
    unfolding n normalizeContractRefs_set[OF same(5) assms(3)] by (subst m') simp
  with parts(5) normalizeRelations_set[OF same(1) parts(1)] normalizeRelations_set[OF same(2) parts(2)]
    normalizeRelations_set[OF same(3) parts(3)] normalizeRelations_set[OF same(4) parts(4)]
  show ?thesis unfolding normalize_material_Inr by blast
qed

end
