(* ===== verification/Graph_Properties.thy ===== *)
theory Graph_Properties
  imports Graph_Soundness Graph_Normal_Form Sample_Run
begin

text \<open>
  The properties of the canonical graph: what a graph without findings is, that two writers of one resource
  are ordered by the artifacts they pass on, and that the builder brings every graph to one normal form.

  Source: packages/task-graph/src/canonical-graph.ts.
\<close>

section \<open>A sample graph\<close>

definition sample_ref :: "string \<Rightarrow> contract_ref" where
  "sample_ref i = \<lparr>cr_id = i, cr_revision = 1, cr_digest = ''d''\<rparr>"

definition sample_node :: "string \<Rightarrow> string option \<Rightarrow> node_kind \<Rightarrow> task_node" where
  "sample_node i p k = \<lparr>tn_id = i, tn_parentId = p, tn_kind = k, tn_title = ''Title'', tn_goal = ''Goal'',
     tn_contractRef = sample_ref (''c-'' @ i)\<rparr>"

definition sample_modification :: "string \<Rightarrow> version_ref \<Rightarrow> string \<Rightarrow> resource_claim" where
  "sample_modification n v out = \<lparr>cl_id = ''w-'' @ n, cl_nodeId = n, cl_resourceId = ''path:src/domain'', cl_source = By_planner,
     cl_evidenceRefs = [''e''], cl_epistemic = Assessed Known High [''e''],
     cl_access = Modifies Owned_in_implementation (sample_ref out), cl_inputVersion = v\<rparr>"

text \<open>Two leaves write one directory, the second on top of the first one's artifact.\<close>

definition sample_material :: graph_material where
  "sample_material = \<lparr>gr_graphId = ''g'', gr_revision = 1, gr_semanticPlan = sample_ref ''plan'',
     gr_repositoryView = \<lparr>rv_digest = ''v'', rv_treeSha = ''t'', rv_resourceCatalogDigest = ''k''\<rparr>, gr_rootId = ''root'',
     gr_nodes = [(''root'', sample_node ''root'' None Root_node), (''a'', sample_node ''a'' (Some ''root'') Leaf_node),
       (''b'', sample_node ''b'' (Some ''root'') Leaf_node)],
     gr_artifactRequirements = [\<lparr>rq_id = ''r1'', rq_producerNodeId = ''a'', rq_consumerNodeId = ''b'',
       rq_artifactContract = sample_ref ''art-a'', rq_consumerInputName = ''in'', rq_acceptedManifestKinds = [Change_set_kind]\<rparr>],
     gr_seamBindings = [],
     gr_resourceClaims = [sample_modification ''a'' (View_version ''v'') ''art-a'',
       sample_modification ''b'' (Artifact_version (sample_ref ''art-a'')) ''art-b''],
     gr_runtimeLeaseClaims = [],
     gr_contractRefs = map sample_ref [''art-a'', ''art-b'', ''c-a'', ''c-b'', ''c-root'']\<rparr>"

definition sample_graph :: graph_revision where
  "sample_graph = graph_material.extend sample_material (graph_revision.fields ''digest'')"

definition sample_options :: validation_options where
  "sample_options = \<lparr>vo_hasher = Some sample_host, vo_resourceOverlap = None, vo_artifactReachability = None\<rparr>"

lemma sample_build: "buildGraphRevision sample_host sample_material = Inr sample_graph"
  by code_simp

lemma sample_parse: "parse_graph_revision sample_graph = Some sample_graph"
  by code_simp

lemma sample_validation: "validateGraphRevision (\<lambda>_. []) sample_options sample_graph = []"
  by code_simp

section \<open>Validation\<close>

text \<open>
  C27. The validation is exact. A graph that satisfies the schema has no findings precisely when its digest
  identifies its content, its nodes form one tree below a parentless root, every reference is declared,
  relations have distinct ids and name existing nodes, every requirement is met by the writer it names and
  the artifact flow has no cycle, every claim that meets a writer is proven disjoint or version-ordered, and
  every seam crosses a requirement between its two nodes.
\<close>

theorem graph_validation_is_exact:
  assumes "parse_graph_revision raw = Some g" and "distinct (map fst (gr_nodes raw))"
    and "symmetric_query (vo_resourceOverlap opts)"
  shows "validateGraphRevision zod_issues opts raw = [] \<longleftrightarrow> sound_graph opts g"
  using parsed_sound[OF parsed_node_table[OF assms(1,2)] assms(3)] assms(1)
  by (simp add: validateGraphRevision_def)

lemma sample_table: "distinct (map fst (gr_nodes sample_graph))"
  by code_simp

lemma sample_query: "symmetric_query (vo_resourceOverlap sample_options)"
  by (simp add: symmetric_query_def sample_options_def)

theorem graph_validation_is_exact_witness: "sound_graph sample_options sample_graph"
  using graph_validation_is_exact[OF sample_parse sample_table sample_query, of "\<lambda>_. []"] sample_validation by simp

lemma version_path:
  assumes "(a, b) \<in> (version_edges g)\<^sup>*" and "a \<noteq> b"
  shows "(cl_nodeId a, cl_nodeId b) \<in> (set (artifact_edges g))\<^sup>+"
proof -
  have edge: "(cl_nodeId c, cl_nodeId d) \<in> set (artifact_edges g)" if "(c, d) \<in> version_edges g" for c d
    using that by (force simp: version_edges_def consumes_version_def artifact_edges_def list_ex_iff
        split: version_ref.splits option.splits)
  from assms have "(a, b) \<in> (version_edges g)\<^sup>+" by (simp add: rtrancl_eq_or_trancl)
  then show ?thesis
    by (induction) (auto dest: edge intro: trancl_into_trancl)
qed

text \<open>
  C28. In a graph without findings no resource has two writers that could run at the same time: of any two
  claims that modify overlapping resources, one node consumes, over a chain of artifacts, what the other one
  produces, and never the other way round as well. In particular they belong to different nodes.
\<close>

theorem validated_writers_are_ordered:
  assumes "validateGraphRevision zod_issues opts raw = []" and "parse_graph_revision raw = Some g"
    and "distinct (map fst (gr_nodes raw))" and "symmetric_query (vo_resourceOverlap opts)"
    and "a \<in> set (gr_resourceClaims g)" "b \<in> set (gr_resourceClaims g)" "a \<noteq> b" "modifies a" "modifies b"
    and "overlap_state (vo_resourceOverlap opts) Overlap_unknown a b = Overlap_yes"
  shows "cl_nodeId a \<noteq> cl_nodeId b \<and>
    ((cl_nodeId a, cl_nodeId b) \<in> (set (artifact_edges g))\<^sup>+) \<noteq> ((cl_nodeId b, cl_nodeId a) \<in> (set (artifact_edges g))\<^sup>+)"
proof -
  from assms(1,2) have "validate_parsed opts g = []" by (simp add: validateGraphRevision_def)
  with parsed_sound[OF parsed_node_table[OF assms(2,3)] assms(4)] have sound: "sound_graph opts g" by blast
  then have acyclic: "(x, x) \<notin> (set (artifact_edges g))\<^sup>+" for x by (auto simp: sound_graph_def flow_ok_def acyclic_def)
  from sound assms(5-10) have "version_ordered g a b" unfolding sound_graph_def ownership_ok_def by fastforce
  then have "(cl_nodeId a, cl_nodeId b) \<in> (set (artifact_edges g))\<^sup>+ \<or> (cl_nodeId b, cl_nodeId a) \<in> (set (artifact_edges g))\<^sup>+"
    using version_path[of a b g] version_path[of b a g] assms(7) by (auto simp: version_ordered_def)
  with acyclic show ?thesis by (metis trancl_trans)
qed

theorem validated_writers_are_ordered_witness: "(''a'', ''b'') \<in> (set (artifact_edges sample_graph))\<^sup>+"
proof -
  let ?a = "sample_modification ''a'' (View_version ''v'') ''art-a''"
  let ?b = "sample_modification ''b'' (Artifact_version (sample_ref ''art-a'')) ''art-b''"
  have claims: "gr_resourceClaims sample_graph = [?a, ?b]" and edges: "artifact_edges sample_graph = [(''a'', ''b'')]"
    by code_simp+
  have facts: "?a \<noteq> ?b" "modifies ?a" "modifies ?b" "overlap_state (vo_resourceOverlap sample_options) Overlap_unknown ?a ?b = Overlap_yes"
    "cl_nodeId ?a = ''a''" "cl_nodeId ?b = ''b''"
    by code_simp+
  have "(''b'', ''a'') \<notin> (set (artifact_edges sample_graph))\<^sup>+"
    unfolding edges by (auto dest: tranclD)
  with validated_writers_are_ordered[OF sample_validation sample_parse sample_table sample_query, of ?a ?b] facts claims
  show ?thesis by simp
qed

section \<open>Normal form\<close>

text \<open>
  C29. The builder has one normal form. What it returns satisfies the schema, its digest identifies it, and
  building it again changes nothing; and a graph given with its relations in another order, or repeated,
  is built to the same graph with the same digest, as long as the keys of its contract references differ.
\<close>

theorem built_graphs_are_normal:
  assumes "buildGraphRevision h m = Inr g" and "parse_graph_material m = Some m"
    and "\<And>v. nonEmptyString (h_digest h v) = Some (h_digest h v)"
  shows "parse_graph_revision g = Some g \<and>
    gr_digest g = computeCanonicalDigest h (material_json (graph_material.truncate g)) \<and>
    buildGraphRevision h (graph_material.truncate g) = Inr g \<and>
    (\<forall>m'. same_relations m m' \<longrightarrow> parse_graph_material m' = Some m' \<longrightarrow> inj_on refKey (set (gr_contractRefs m)) \<longrightarrow>
       buildGraphRevision h m' = Inr g)"
proof -
  from assms(1,2) obtain n where n: "normalizeGraphRevisionMaterial m = Inr n"
    and g: "g = graph_material.extend n (graph_revision.fields (computeCanonicalDigest h (material_json n)))"
    unfolding buildGraphRevision_Inr by auto
  have parsed: "parse_graph_material n = Some n" by (rule normalize_material_parsed[OF n assms(2)])
  have "parse_graph_revision g = Some g"
    using parsed assms(3) by (simp add: parse_graph_revision_def g computeCanonicalDigest_def)
  moreover have "buildGraphRevision h (graph_material.truncate g) = Inr g"
    unfolding buildGraphRevision_Inr using parsed normalize_material_again[OF n] by (simp add: g)
  ultimately show ?thesis
    using normalize_material_set[OF n] unfolding buildGraphRevision_Inr by (auto simp: g)
qed

theorem built_graphs_are_normal_witness:
  "buildGraphRevision sample_host (sample_material\<lparr>gr_resourceClaims := rev (gr_resourceClaims sample_material) @ gr_resourceClaims sample_material\<rparr>) = Inr sample_graph"
proof -
  let ?m = "sample_material\<lparr>gr_resourceClaims := rev (gr_resourceClaims sample_material) @ gr_resourceClaims sample_material\<rparr>"
  have parsed: "parse_graph_material sample_material = Some sample_material" "parse_graph_material ?m = Some ?m"
    by code_simp+
  have digests: "nonEmptyString (h_digest sample_host v) = Some (h_digest sample_host v)" for v
    by (simp add: sample_host_def nonEmptyString_def trim_def is_ws_def)
  have same: "same_relations sample_material ?m" by (simp add: same_relations_def)
  have "distinct (map refKey (gr_contractRefs sample_material))"
    by code_simp
  then have keys: "inj_on refKey (set (gr_contractRefs sample_material))" by (simp add: distinct_map)
  from built_graphs_are_normal[OF sample_build parsed(1) digests] same parsed(2) keys show ?thesis by blast
qed

text \<open>The keys do not separate all references: ids and digests may contain the separator.\<close>

lemma reference_keys_collide:
  "parse_contract_ref \<lparr>cr_id = ''a:1'', cr_revision = 2, cr_digest = ''x''\<rparr> \<noteq> None \<and>
   refKey \<lparr>cr_id = ''a:1'', cr_revision = 2, cr_digest = ''x''\<rparr> = refKey \<lparr>cr_id = ''a'', cr_revision = 1, cr_digest = ''2:x''\<rparr>"
  by code_simp

text \<open>
  Without a resource catalogue nothing but equal ids says whether two claims overlap, so every graph with a
  writer and a claim on another resource has a finding. The reader of stored revisions asks no catalogue.
\<close>

definition sample_disjoint :: graph_revision where
  "sample_disjoint = sample_graph\<lparr>gr_artifactRequirements := [], gr_resourceClaims :=
     [sample_modification ''a'' (View_version ''v'') ''art-a'',
      (sample_modification ''b'' (View_version ''v'') ''art-b'')\<lparr>cl_resourceId := ''path:src/other''\<rparr>]\<rparr>"

lemma disjoint_writers_are_unknown:
  "map gf_code (validateGraphRevision (\<lambda>_. []) sample_options sample_disjoint) = [Gf_resource_overlap_unknown]"
  by code_simp

end
