(* ===== verification/Frontier_Properties.thy ===== *)
theory Frontier_Properties
  imports Frontier_Laws Graph_Properties
begin

text \<open>
  The properties of the scheduler: readiness is decided by the conditions of a node alone, a selected wave
  can run at once, and selection makes progress.

  Sources: packages/scheduler/src/canonical-frontier.ts,
  packages/orchestrator-graph/src/concurrent-resource-invariant.ts.
\<close>

section \<open>Samples\<close>

definition sample_bundle :: task_bundle where
  "sample_bundle = \<lparr>tb_task = \<lparr>rr_id = ''t'', rr_revision = ''1''\<rparr>, tb_scope = \<lparr>rr_id = ''s'', rr_revision = ''1''\<rparr>,
     tb_validation = \<lparr>rr_id = ''v'', rr_revision = ''1''\<rparr>, tb_seams = [], tb_artifacts = []\<rparr>"

text \<open>At the start of the sample graph's run: \<open>a\<close> may start, \<open>b\<close> waits for the artifact of \<open>a\<close>.\<close>

definition sample_snapshot :: readiness_snapshot where
  "sample_snapshot = \<lparr>sn_graph = sample_graph,
     sn_taskBundles = [(''root'', sample_bundle), (''a'', sample_bundle), (''b'', sample_bundle)],
     sn_adoptedArtifacts = [], sn_pendingDecisions = [], sn_activeNodeIds = [], sn_activeResourceClaims = None,
     sn_activeRuntimeLeases = [], sn_availableExecutorNodeIds = [''a'', ''b''], sn_adoptedNodeIds = [],
     sn_budgetAvailable = True, sn_currentContractDigests = None, sn_resourceOverlap = None\<rparr>"

definition ready_as :: "string \<Rightarrow> explanation" where
  "ready_as n = \<lparr>ex_nodeId = n, ex_ready = True, ex_reasons = []\<rparr>"

definition sample_policy :: selection_policy where
  "sample_policy = \<lparr>sp_maxParallel = 2, sp_maxConcurrentRiskScore = None\<rparr>"

definition no_risk :: "explanation \<Rightarrow> explanation list \<Rightarrow> risk_estimate" where
  "no_risk c es = \<lparr>rk_score = Finite 0, rk_evidenceRefs = []\<rparr>"

section \<open>Readiness\<close>

text \<open>
  C30. Readiness is exact. Every node of the graph is explained exactly once; it is ready precisely when its
  contract bundle is present and current, every artifact it consumes is adopted, no pending decision affects
  it, an executor and budget are there, it is neither running nor adopted, no claim of it meets a claim of
  another running node with a writer among them unless they are known to be disjoint, and no lease of it
  meets an exclusive one; and a node that is not ready is given a reason.
\<close>

theorem readiness_is_exact:
  "\<exists>e. evaluateReadiness h sn = Some e \<and>
     mset (map ex_nodeId (ev_ready e) @ map ex_nodeId (ev_blocked e)) = mset (okeys (gr_nodes (sn_graph sn))) \<and>
     ex_nodeId ` set (ev_ready e) = {n. may_start sn n} \<and>
     (\<forall>x \<in> set (ev_blocked e). ex_reasons x \<noteq> [])"
proof -
  let ?ns = "sort_le (h_le h) (okeys (gr_nodes (sn_graph sn)))"
  obtain es where es: "explain_all sn ?ns = Some es" "map ex_nodeId es = ?ns"
    and ready: "\<forall>e \<in> set es. (ex_ready e \<longleftrightarrow> may_start sn (ex_nodeId e)) \<and> (ex_ready e \<longleftrightarrow> ex_reasons e = [])"
    using explain_all_Some[of ?ns sn] by auto
  have "mset (map ex_nodeId (filter ex_ready es) @ map ex_nodeId (filter (Not \<circ> ex_ready) es)) = mset (map ex_nodeId es)"
    by (induction es) auto
  then have all: "mset (map ex_nodeId (filter ex_ready es) @ map ex_nodeId (filter (Not \<circ> ex_ready) es)) = mset (okeys (gr_nodes (sn_graph sn)))"
    using es(2) by simp
  have "n \<in> ex_nodeId ` set (filter ex_ready es)" if "may_start sn n" for n
  proof -
    from that have "n \<in> set ?ns" by (auto simp: may_start_def intro!: rev_image_eqI dest: map_of_SomeD)
    then have "n \<in> ex_nodeId ` set es" using es(2) by (metis set_map)
    with ready that show ?thesis by auto
  qed
  then have "ex_nodeId ` set (filter ex_ready es) = {n. may_start sn n}" using ready by auto
  moreover have "\<forall>x \<in> set (filter (Not \<circ> ex_ready) es). ex_reasons x \<noteq> []" using ready by auto
  ultimately show ?thesis
    using es(1) all by (intro exI[of _ "\<lparr>ev_ready = filter ex_ready es, ev_blocked = filter (Not \<circ> ex_ready) es\<rparr>"]) (simp add: evaluateReadiness_def)
qed

lemma explained_ready: "map_option ex_ready (explainNode sn n) = Some b \<Longrightarrow> may_start sn n = b"
  by (auto simp: explainNode_def Let_def explain_reasons_Nil parse_simps)

lemma sample_explained:
  "map_option ex_ready (explainNode sample_snapshot ''a'') = Some True"
  "map_option ex_ready (explainNode sample_snapshot ''b'') = Some False"
  "map_option ex_ready (explainNode sample_snapshot ''root'') = Some False"
  by code_simp+

lemma sample_nodes: "okeys (gr_nodes (sn_graph sample_snapshot)) = [''root'', ''a'', ''b'']"
  by code_simp

lemma sample_may_start: "may_start sample_snapshot n \<longleftrightarrow> n = ''a''"
proof -
  have "n \<in> set (okeys (gr_nodes (sn_graph sample_snapshot)))" if "may_start sample_snapshot n"
    using that by (auto simp: may_start_def dest: map_of_SomeD intro: rev_image_eqI)
  then have "may_start sample_snapshot n \<Longrightarrow> n = ''root'' \<or> n = ''a'' \<or> n = ''b''"
    unfolding sample_nodes by simp
  then show ?thesis using sample_explained[THEN explained_ready] by blast
qed

theorem readiness_is_exact_witness:
  "\<exists>e. evaluateReadiness sample_host sample_snapshot = Some e \<and> ex_nodeId ` set (ev_ready e) = {''a''}"
  using readiness_is_exact[of sample_host sample_snapshot] unfolding sample_may_start by auto

section \<open>Selection\<close>

text \<open>
  C31. A selected wave can run at once. Selection splits the ready nodes into selected and deferred ones and
  loses none; it selects at most \<open>maxParallel\<close>; no two selected nodes hold claims on one resource with a
  writer among them, nor leases on one key of which one is exclusive; and the check the driver makes before
  it starts the wave therefore never fires.
\<close>

theorem selected_wave_runs_at_once:
  assumes "selectFrontier h ready policy (Some g) estimate = Inr fr"
  shows "mset (map ex_nodeId (fr_selected fr) @ map df_nodeId (fr_deferred fr)) = mset (map ex_nodeId (filter ex_ready ready)) \<and>
    set (fr_selected fr) \<subseteq> {e \<in> set ready. ex_ready e} \<and>
    int (length (fr_selected fr)) \<le> sp_maxParallel policy \<and>
    (\<forall>a \<in> set (fr_selected fr). \<forall>b \<in> set (fr_selected fr). ex_nodeId a \<noteq> ex_nodeId b \<longrightarrow> compatible g (ex_nodeId a) (ex_nodeId b)) \<and>
    assertNoConcurrentResourceConflict (gr_resourceClaims g) (map ex_nodeId (fr_selected fr)) = None"
proof -
  from assms obtain t where "1 \<le> sp_maxParallel policy" and
    steps: "foldE (select_step (sp_maxParallel policy) t (Some g) estimate) \<lparr>fr_selected = [], fr_deferred = []\<rparr>
      (sort_le (\<lambda>a b. h_le h (ex_nodeId a) (ex_nodeId b)) (filter ex_ready ready)) = Inr fr"
    by (auto simp: selectFrontier_def)
  then have "frontier_ok (sp_maxParallel policy) (Some g) \<lparr>fr_selected = [], fr_deferred = []\<rparr>" by (simp add: frontier_ok_def)
  note filled = select_steps[OF steps this]
  then have compatible: "compatible g a b"
    if "a \<in> ex_nodeId ` set (fr_selected fr)" "b \<in> ex_nodeId ` set (fr_selected fr)" "a \<noteq> b" for a b
    using that sorted_compatible[of g "map ex_nodeId (fr_selected fr)" a b] by (simp add: frontier_ok_def)
  then have "assertNoConcurrentResourceConflict (gr_resourceClaims g) (map ex_nodeId (fr_selected fr)) = None"
    by (intro compatible_wave_passes) auto
  moreover have "mset (map ex_nodeId (sort_le le xs)) = mset (map ex_nodeId xs)" for le and xs :: "explanation list"
    by (metis mset_map mset_sort_le)
  ultimately show ?thesis
    using filled compatible by (auto simp: frontier_ok_def)
qed

theorem selected_wave_runs_at_once_witness:
  "compatible sample_graph ''a'' ''root'' \<and> \<not> compatible sample_graph ''a'' ''b''"
proof -
  let ?ready = "[ready_as ''root'', ready_as ''b'', ready_as ''a'']"
  have "selectFrontier sample_host ?ready sample_policy (Some sample_graph) no_risk =
      Inr \<lparr>fr_selected = [ready_as ''a'', ready_as ''root''],
        fr_deferred = [\<lparr>df_nodeId = ''b'', df_reason = By_claim_conflict, df_risk = None\<rparr>]\<rparr>"
    by code_simp
  from selected_wave_runs_at_once[OF this] have "compatible sample_graph ''a'' ''root''" by (simp add: ready_as_def)
  moreover have "concurrentHardConflict ''a'' [''b''] sample_graph \<noteq> None" by code_simp
  ultimately show ?thesis by (simp add: no_hard_conflict)
qed

lemma select_step_runs:
  assumes "\<forall>c es. \<exists>r. normalizeRisk (estimate c es) = Inr r"
  shows "\<exists>fr'. select_step k t graph estimate fr c = Inr fr'"
proof -
  obtain r where r: "normalizeRisk (estimate c (fr_selected fr)) = Inr r" using assms by blast
  show ?thesis
    by (cases "case graph of None \<Rightarrow> None | Some g \<Rightarrow> concurrentHardConflict (ex_nodeId c) (map ex_nodeId (fr_selected fr)) g")
       (simp_all add: select_step_def Let_def r del: bindE_Inr)
qed

text \<open>
  C32. Selection makes progress. With a positive \<open>maxParallel\<close>, a finite threshold that is not negative and
  an estimator that returns finite scores that are not negative, selection returns, and it selects a node
  whenever one is ready, however high the risk and whatever the claims.
\<close>

theorem selection_makes_progress:
  assumes "1 \<le> sp_maxParallel policy" and "risk_threshold policy = Inr t"
    and "\<forall>c es. \<exists>r. normalizeRisk (estimate c es) = Inr r"
  shows "\<exists>fr. selectFrontier h ready policy graph estimate = Inr fr \<and>
    ((\<exists>e \<in> set ready. ex_ready e) \<longrightarrow> fr_selected fr \<noteq> [])"
proof -
  let ?cs = "sort_le (\<lambda>a b. h_le h (ex_nodeId a) (ex_nodeId b)) (filter ex_ready ready)"
  let ?start = "\<lparr>fr_selected = [], fr_deferred = []\<rparr>"
  have runs: "\<exists>fr'. foldE (select_step k t graph estimate) fr cs = Inr fr'" for k fr cs
  proof (induction cs arbitrary: fr)
    case (Cons c cs)
    obtain n where "select_step k t graph estimate fr c = Inr n" using select_step_runs[OF assms(3)] by blast
    with Cons.IH[of n] show ?case by simp
  qed simp
  then obtain fr where steps: "foldE (select_step (sp_maxParallel policy) t graph estimate) ?start ?cs = Inr fr" by blast
  have "frontier_ok (sp_maxParallel policy) graph ?start" using assms(1) by (simp add: frontier_ok_def)
  from select_steps[OF steps this] assms(1) have "?cs \<noteq> [] \<longrightarrow> fr_selected fr \<noteq> []" by simp
  moreover have "?cs \<noteq> []" if "\<exists>e \<in> set ready. ex_ready e"
  proof -
    from that have "set ?cs \<noteq> {}" by auto
    then show ?thesis by (metis set_empty)
  qed
  ultimately show ?thesis using steps assms(1,2) by (auto simp: selectFrontier_def)
qed

theorem selection_makes_progress_witness:
  "\<exists>fr. selectFrontier sample_host [ready_as ''a''] sample_policy None no_risk = Inr fr \<and> fr_selected fr \<noteq> []"
proof -
  have "\<forall>c es. \<exists>r. normalizeRisk (no_risk c es) = Inr r" by (simp add: normalizeRisk_def no_risk_def)
  moreover have "risk_threshold sample_policy = Inr 50" "1 \<le> sp_maxParallel sample_policy" by (simp_all add: risk_threshold_def sample_policy_def)
  moreover have "\<exists>e \<in> set [ready_as ''a'']. ex_ready e" by (simp add: ready_as_def)
  ultimately show ?thesis
    using selection_makes_progress[of sample_policy 50 no_risk sample_host "[ready_as ''a'']" None] by blast
qed

end
