(* ===== verification/Authority_Properties.thy ===== *)
theory Authority_Properties
  imports Authority Frontier_Properties "HOL-Library.Sublist"
begin

text \<open>
  The properties of authority and of the execution base: a foreign write is reported exactly when it is one,
  and a node's base is everything it builds on, producers first.

  Sources: packages/task-graph/src/resource-authority.ts,
  packages/orchestrator-graph/src/execution-base-closure.ts.
\<close>

section \<open>Authority\<close>

text \<open>
  C33. Authority is checked exactly. A violation is reported for a path precisely when the node changed it,
  no artifact it composed carries it, and another node holds write title over it; the owner named is the
  first such node in string order. A node that holds title itself is still reported when another one
  does as well.
\<close>

theorem authority_is_checked_exactly:
  "v \<in> set (checkResourceAuthority nodeId claims contracts changed composed) \<longleftrightarrow>
     av_path v \<in> set changed \<and> av_attemptedByNodeId v = nodeId \<and>
     (\<forall>c \<in> set contracts. ak_id c \<in> set composed \<longrightarrow> av_path v \<notin> set (ak_expectedPaths c)) \<and>
     holds_title claims contracts (av_path v) (av_ownedByNodeId v) \<and> av_ownedByNodeId v \<noteq> nodeId \<and>
     (\<forall>w. holds_title claims contracts (av_path v) w \<longrightarrow> w \<noteq> nodeId \<longrightarrow> av_ownedByNodeId v \<le> w)"
  unfolding checkResourceAuthority_def by (auto simp: path_violation_set writeTitles_holds composed_paths_def)

definition sample_contract :: "string \<Rightarrow> string \<Rightarrow> artifact_contract" where
  "sample_contract i p = \<lparr>ak_id = i, ak_revision = ''1'', ak_producerNodeId = p, ak_expectedPaths = [i @ ''.ts'']\<rparr>"

theorem authority_is_checked_exactly_witness:
  "holds_title (gr_resourceClaims sample_graph) [sample_contract ''art-a'' ''a'', sample_contract ''art-b'' ''b''] ''art-a.ts'' ''a'' \<and>
   checkResourceAuthority ''root'' (gr_resourceClaims sample_graph) [sample_contract ''art-a'' ''a'', sample_contract ''art-b'' ''b'']
     [''art-b.ts'', ''art-a.ts''] [''art-b''] \<noteq> []"
proof -
  let ?cs = "[sample_contract ''art-a'' ''a'', sample_contract ''art-b'' ''b'']"
  have "checkResourceAuthority ''root'' (gr_resourceClaims sample_graph) ?cs [''art-b.ts'', ''art-a.ts''] [''art-b''] =
      [\<lparr>av_path = ''art-a.ts'', av_ownedByNodeId = ''a'', av_attemptedByNodeId = ''root''\<rparr>]"
    by code_simp
  with authority_is_checked_exactly[of "\<lparr>av_path = ''art-a.ts'', av_ownedByNodeId = ''a'', av_attemptedByNodeId = ''root''\<rparr>"
      "''root''" "gr_resourceClaims sample_graph" ?cs "[''art-b.ts'', ''art-a.ts'']" "[''art-b'']"]
  show ?thesis by simp
qed

section \<open>The order in which the search finishes\<close>

fun settled :: "edges \<Rightarrow> string list \<Rightarrow> bool" where
  "settled es [] \<longleftrightarrow> True"
| "settled es (x # xs) \<longleftrightarrow> set (successors es x) \<subseteq> set xs \<and> settled es xs"

lemma visit_all_order:
  assumes "\<not> snd (visit_all es active xs finished reported)"
    and "distinct finished" "set finished \<inter> set active = {}" "settled es finished"
  shows "distinct (fst (visit_all es active xs finished reported)) \<and>
    set (fst (visit_all es active xs finished reported)) \<inter> set active = {} \<and>
    settled es (fst (visit_all es active xs finished reported)) \<and>
    set finished \<union> set xs \<subseteq> set (fst (visit_all es active xs finished reported))"
  using assms
proof (induction es active xs finished reported rule: visit_all.induct)
  case (2 es active x xs finished reported)
  let ?inner = "visit_all es (x # active) (successors es x) finished reported"
  have out: "x \<notin> set active" using "2.prems"(1) by (auto simp: visit_all_reported)
  show ?case
  proof (cases "x \<in> set finished")
    case True
    with out "2.prems" "2.IH"(2) show ?thesis by auto
  next
    case False
    have "\<not> snd ?inner" using "2.prems"(1) out False by (auto simp: Let_def visit_all_reported)
    moreover have "set finished \<inter> set (x # active) = {}" using "2.prems"(3) False by simp
    ultimately have inner: "distinct (fst ?inner)" "set (fst ?inner) \<inter> set (x # active) = {}" "settled es (fst ?inner)"
      "set finished \<union> set (successors es x) \<subseteq> set (fst ?inner)"
      using "2.IH"(3)[OF out False _ "2.prems"(2) _ "2.prems"(4)] by blast+
    have next_ok: "distinct (x # fst ?inner)" "set (x # fst ?inner) \<inter> set active = {}" "settled es (x # fst ?inner)"
      using inner out by auto
    have unfold: "visit_all es active (x # xs) finished reported = visit_all es active xs (x # fst ?inner) (snd ?inner)"
      using out False by (simp add: Let_def)
    from "2.IH"(4)[OF out False refl _ next_ok] "2.prems"(1) inner(4) show ?thesis unfolding unfold by auto
  qed
qed simp

lemma visit_all_reached:
  "set (fst (visit_all es active xs finished reported)) \<subseteq> set finished \<union> (set es)\<^sup>* `` set xs"
proof (induction es active xs finished reported rule: visit_all.induct)
  case (2 es active x xs finished reported)
  let ?inner = "visit_all es (x # active) (successors es x) finished reported"
  consider "x \<in> set active" | "x \<notin> set active" "x \<in> set finished" | "x \<notin> set active" "x \<notin> set finished" by blast
  then show ?case
  proof cases
    case 3
    have "(set es)\<^sup>* `` set (successors es x) \<subseteq> (set es)\<^sup>* `` {x}"
      by (auto intro: converse_rtrancl_into_rtrancl)
    then have "set (fst ?inner) \<subseteq> set finished \<union> (set es)\<^sup>* `` {x}" using "2.IH"(3)[OF 3] by blast
    moreover have "set (fst (visit_all es active (x # xs) finished reported)) \<subseteq> set (x # fst ?inner) \<union> (set es)\<^sup>* `` set xs"
      using "2.IH"(4)[OF 3 refl] 3 by (simp add: Let_def)
    ultimately show ?thesis by (auto 4 3)
  qed (use 2 in auto)
qed simp

definition precedes :: "'a list \<Rightarrow> 'a \<Rightarrow> 'a \<Rightarrow> bool" where
  "precedes xs a b \<longleftrightarrow> (\<exists>us vs ws. xs = us @ a # vs @ b # ws)"

lemma settled_precedes: "settled es xs \<Longrightarrow> x \<in> set xs \<Longrightarrow> (x, y) \<in> set es \<Longrightarrow> precedes (rev xs) y x"
proof (induction xs)
  case (Cons z zs)
  show ?case
  proof (cases "x = z")
    case True
    with Cons.prems have "y \<in> set (rev zs)" by auto
    then obtain us vs where "rev zs = us @ y # vs" by (auto simp: in_set_conv_decomp)
    with True show ?thesis unfolding precedes_def by (intro exI[of _ us] exI[of _ vs] exI[of _ "[]"]) simp
  next
    case False
    with Cons have "precedes (rev zs) y x" by simp
    then obtain us vs ws where "rev zs = us @ y # vs @ x # ws" by (auto simp: precedes_def)
    then show ?thesis unfolding precedes_def by (intro exI[of _ us] exI[of _ vs] exI[of _ "ws @ [z]"]) simp
  qed
qed simp

section \<open>The base\<close>

lemma precedes_filter:
  assumes "precedes xs a b" "P a" "P b"
  shows "precedes (filter P xs) a b"
proof -
  obtain us vs ws where "xs = us @ a # vs @ b # ws" using assms(1) by (auto simp: precedes_def)
  with assms(2,3) show ?thesis unfolding precedes_def
    by (intro exI[of _ "filter P us"] exI[of _ "filter P vs"] exI[of _ "filter P ws"]) simp
qed

lemma base_search:
  fixes g :: "'a graph_material_scheme" and n :: string
  assumes "acyclic (set (consumer_edges g))"
  defines "found \<equiv> fst (visit_all (consumer_edges g) [] [n] [] False)"
  shows "distinct found" "settled (consumer_edges g) found" "set found = {m. (n, m) \<in> (set (consumer_edges g))\<^sup>*}"
proof -
  have quiet: "\<not> snd (visit_all (consumer_edges g) [] [n] [] False)"
    using assms(1) detectCycle_iff[of "consumer_edges g" "[n]"] by (auto simp: detectCycle_def acyclic_def)
  from visit_all_order[OF quiet] show "distinct found" "settled (consumer_edges g) found" by (auto simp: found_def)
  have "set found \<subseteq> {m. (n, m) \<in> (set (consumer_edges g))\<^sup>*}"
    using visit_all_reached[of "consumer_edges g" "[]" "[n]" "[]" False] by (auto simp: found_def)
  moreover have "n \<in> set found" "set (consumer_edges g) `` set found \<subseteq> set found"
    using visit_all_complete[OF quiet] by (auto simp: found_def)
  then have "m \<in> set found" if "(n, m) \<in> (set (consumer_edges g))\<^sup>*" for m
    using Image_closed_trancl[of "set (consumer_edges g)" "set found"] that by blast
  ultimately show "set found = {m. (n, m) \<in> (set (consumer_edges g))\<^sup>*}" by blast
qed

lemma base_order_set:
  "acyclic (set (consumer_edges g)) \<Longrightarrow> set (base_order g n) = {m. (n, m) \<in> (set (consumer_edges g))\<^sup>+}"
  using base_search(3)[of g n] by (auto simp: base_order_def rtrancl_eq_or_trancl acyclic_def)

lemma base_order_distinct: "acyclic (set (consumer_edges g)) \<Longrightarrow> distinct (base_order g n)"
  using base_search(1)[of g n] by (simp add: base_order_def)

lemma base_order_precedes:
  assumes "acyclic (set (consumer_edges g))" "m \<in> set (base_order g n)" "(m, p) \<in> set (consumer_edges g)"
  shows "precedes (base_order g n) p m"
  unfolding base_order_def
proof (rule precedes_filter)
  show "precedes (rev (fst (visit_all (consumer_edges g) [] [n] [] False))) p m"
    using settled_precedes[OF base_search(2)[OF assms(1)] _ assms(3)] assms(2) by (simp add: base_order_def)
  show "m \<noteq> n" using assms(2) by (simp add: base_order_def)
  have "(n, p) \<in> (set (consumer_edges g))\<^sup>+" using assms by (auto simp: base_order_set intro: trancl_into_trancl)
  then show "p \<noteq> n" using assms(1) by (auto simp: acyclic_def)
qed

section \<open>The artifacts of the base\<close>

definition contract_key :: "base_artifact \<Rightarrow> string \<times> int" where
  "contract_key a = (ba_artifactId a, ba_revision a)"

lemma add_artifact_key: "add_artifact a as = (if contract_key a \<in> contract_key ` set as then as else as @ [a])"
  by (auto simp: add_artifact_def same_contract_def contract_key_def list_ex_iff)

lemma add_artifacts:
  "contract_key ` set (fold add_artifact bs as) = contract_key ` (set as \<union> set bs) \<and>
   set (fold add_artifact bs as) \<subseteq> set as \<union> set bs \<and>
   (distinct (map contract_key as) \<longrightarrow> distinct (map contract_key (fold add_artifact bs as))) \<and>
   (sorted_wrt R (as @ bs) \<longrightarrow> sorted_wrt R (fold add_artifact bs as))"
proof (induction bs arbitrary: as)
  case (Cons b bs)
  have "sorted_wrt R (as @ b # bs) \<Longrightarrow> sorted_wrt R (add_artifact b as @ bs)"
    by (auto simp: add_artifact_key sorted_wrt_append)
  with Cons[of "add_artifact b as"] show ?case
    by (auto simp: add_artifact_key split: if_splits)
qed simp

lemma fold_requirements: "fold (add_artifact \<circ> requirement_artifact) rs as = fold add_artifact (map requirement_artifact rs) as"
  by (induction rs arbitrary: as) auto

definition base_requirements :: "'a graph_material_scheme \<Rightarrow> string \<Rightarrow> artifact_requirement set" where
  "base_requirements g n = {r \<in> set (gr_artifactRequirements g). (n, rq_consumerNodeId r) \<in> (set (consumer_edges g))\<^sup>*}"

lemma base_candidates_set:
  assumes "acyclic (set (consumer_edges g))"
  shows "set (base_candidates g n) = base_requirements g n"
proof -
  have "(n, rq_producerNodeId r) \<in> (set (consumer_edges g))\<^sup>+"
    if "r \<in> set (gr_artifactRequirements g)" "(n, rq_consumerNodeId r) \<in> (set (consumer_edges g))\<^sup>*" for r
    using that by (intro rtrancl_into_trancl1) (auto simp: consumer_edges_def)
  then show ?thesis
    by (auto simp: base_candidates_def base_requirements_def base_order_set[OF assms] rtrancl_eq_or_trancl)
qed

text \<open>One artifact may be applied before another: its producer comes first in the base, or is the same.\<close>

definition producer_order :: "string list \<Rightarrow> base_artifact \<Rightarrow> base_artifact \<Rightarrow> bool" where
  "producer_order xs a b \<longleftrightarrow> ba_producerNodeId a = ba_producerNodeId b \<or> precedes xs (ba_producerNodeId a) (ba_producerNodeId b)"

lemma precedes_suffix: "precedes xs a b \<Longrightarrow> precedes (ys @ xs) a b"
  unfolding precedes_def by (metis append.assoc)

lemma precedes_first: "b \<in> set xs \<Longrightarrow> precedes (a # xs) a b"
  unfolding precedes_def by (metis append_Nil in_set_conv_decomp)

lemma sorted_blocks:
  "sorted_wrt (producer_order (ys @ ps)) (map requirement_artifact (concat (map (\<lambda>p. filter (\<lambda>r. rq_producerNodeId r = p \<and> Q r) rs) ps)))"
proof (induction ps arbitrary: ys)
  case (Cons p ps)
  let ?block = "\<lambda>p. filter (\<lambda>r. rq_producerNodeId r = p \<and> Q r) rs"
  have own: "sorted_wrt (producer_order (ys @ p # ps)) (map requirement_artifact (?block p))"
    unfolding sorted_wrt_map by (rule sorted_wrt_mono_rel[of _ "\<lambda>_ _. True"])
      (auto simp: producer_order_def requirement_artifact_def)
  have across: "producer_order (ys @ p # ps) (requirement_artifact r) (requirement_artifact s)"
    if "r \<in> set (?block p)" "s \<in> set (concat (map ?block ps))" for r s
    using that by (auto simp: producer_order_def requirement_artifact_def intro!: precedes_suffix precedes_first)
  have rest: "sorted_wrt (producer_order (ys @ p # ps)) (map requirement_artifact (concat (map ?block ps)))"
    using Cons[of "ys @ [p]"] by simp
  have "sorted_wrt (producer_order (ys @ p # ps)) (map requirement_artifact (?block p) @ map requirement_artifact (concat (map ?block ps)))"
    unfolding sorted_wrt_append using own rest across by force
  then show ?case by simp
qed simp

text \<open>
  C34. A node's base is complete and in an order in which it can be applied. When the artifact requirements
  are acyclic, as validation demands, the producers visited for a node are exactly the nodes it
  transitively builds on, each once and each after everything it was built on itself; the artifacts laid
  down are exactly the contracts required by the node or by a member of its base, one entry for each, and
  they come in the order of their producers.
\<close>

theorem execution_base_is_complete:
  assumes "acyclic (set (consumer_edges g))"
  shows "set (base_order g n) = {m. (n, m) \<in> (set (consumer_edges g))\<^sup>+} \<and> distinct (base_order g n) \<and>
    (\<forall>m \<in> set (base_order g n). \<forall>p. (m, p) \<in> set (consumer_edges g) \<longrightarrow> precedes (base_order g n) p m) \<and>
    contract_key ` set (executionBaseArtifacts g n) = (contract_key \<circ> requirement_artifact) ` base_requirements g n \<and>
    set (executionBaseArtifacts g n) \<subseteq> requirement_artifact ` base_requirements g n \<and>
    distinct (map contract_key (executionBaseArtifacts g n)) \<and>
    sorted_wrt (producer_order (base_order g n)) (executionBaseArtifacts g n)"
proof -
  have "sorted_wrt (producer_order (base_order g n)) (map requirement_artifact (base_candidates g n))"
    unfolding base_candidates_def using sorted_blocks[of "[]"] by simp
  with add_artifacts[of "map requirement_artifact (base_candidates g n)" "[]" "producer_order (base_order g n)"]
  show ?thesis
    using base_order_set[OF assms] base_order_distinct[OF assms] base_order_precedes[OF assms] base_candidates_set[OF assms]
    unfolding executionBaseArtifacts_def fold_requirements by (auto simp: image_comp)
qed

text \<open>Three units deep: \<open>sentences\<close> is built on \<open>words\<close>, which was itself built on \<open>total\<close>.\<close>

definition deep_requirement :: "string \<Rightarrow> string \<Rightarrow> artifact_requirement" where
  "deep_requirement p c = \<lparr>rq_id = p @ c, rq_producerNodeId = p, rq_consumerNodeId = c,
     rq_artifactContract = sample_ref (''art-'' @ p), rq_consumerInputName = ''in'', rq_acceptedManifestKinds = [Change_set_kind]\<rparr>"

definition deep_graph :: graph_revision where
  "deep_graph = sample_graph\<lparr>gr_artifactRequirements :=
     [deep_requirement ''words'' ''sentences'', deep_requirement ''total'' ''words'', deep_requirement ''words'' ''report'']\<rparr>"

theorem execution_base_is_complete_witness:
  "set (base_order deep_graph ''sentences'') = {m. (''sentences'', m) \<in> (set (consumer_edges deep_graph))\<^sup>+} \<and>
   executionBaseArtifacts deep_graph ''sentences'' =
     [requirement_artifact (deep_requirement ''total'' ''words''), requirement_artifact (deep_requirement ''words'' ''sentences'')]"
proof -
  have "\<not> detectCycle (consumer_edges deep_graph) [''sentences'', ''words'', ''report'', ''total'']" by code_simp
  moreover have "x \<in> {''sentences'', ''words'', ''report''}" if "(x, y) \<in> (set (consumer_edges deep_graph))\<^sup>+" for x y
    using tranclD[OF that] by (auto simp: consumer_edges_def deep_graph_def deep_requirement_def)
  ultimately have "acyclic (set (consumer_edges deep_graph))" by (fastforce simp: detectCycle_iff acyclic_def)
  from execution_base_is_complete[OF this, of "''sentences''"]
  have "set (base_order deep_graph ''sentences'') = {m. (''sentences'', m) \<in> (set (consumer_edges deep_graph))\<^sup>+}" by blast
  moreover have "executionBaseArtifacts deep_graph ''sentences'' =
     [requirement_artifact (deep_requirement ''total'' ''words''), requirement_artifact (deep_requirement ''words'' ''sentences'')]"
    by code_simp
  ultimately show ?thesis by blast
qed

end
