(* ===== verification/Driver_Properties.thy ===== *)
theory Driver_Properties
  imports Driver_Outcome Authority_Properties
begin

text \<open>
  The properties of the driver: what it lets into the journal as a result, and whom it asks about the rest.

  Source: packages/orchestrator-graph/src/canonical-execution-driver.ts.
\<close>

section \<open>What a fact is about\<close>

fun decision_of :: "event_payload \<Rightarrow> decision_input option" where
  "decision_of (Graph_ev (Decision_raised d)) = Some d"
| "decision_of _ = None"

fun adoption_of :: "event_payload \<Rightarrow> adopted_artifact option" where
  "adoption_of (Attempt_ev (Artifact_adopted x)) = Some x"
| "adoption_of _ = None"

fun final_of :: "event_payload \<Rightarrow> candidate_verification option" where
  "final_of (Delivery_ev (Final_candidate_verified v)) = Some v"
| "final_of _ = None"

definition picked :: "(event_payload \<Rightarrow> 'a option) \<Rightarrow> run_event_input list \<Rightarrow> 'a list" where
  "picked f is = List.map_filter (f \<circ> ev_payload) is"

lemma picked_simps [simp]:
  "picked f [] = []" "picked f (i # is) = opt_list (f (ev_payload i)) @ picked f is"
  "picked f (is @ js) = picked f is @ picked f js"
  by (induction "is") (auto simp: picked_def opt_list_def List.map_filter_def split: option.splits)

lemma ev_payload_fact_at [simp]: "ev_payload (fact_at i now p) = p"
  by (simp add: fact_at_def)

lemma journal_payloads_Some: "journal_payloads fs = Some is \<longleftrightarrow> fs = map Fact is"
proof (induction fs arbitrary: "is")
  case (Cons f fs)
  then show ?case by (cases f; cases "is"; cases "journal_payloads fs") auto
qed auto

section \<open>Earning adoption\<close>

text \<open>The evidence behind a result: a binding for each criterion that is fresh for exactly this candidate.\<close>

definition backed_criterion :: "host \<Rightarrow> evidence_authority \<Rightarrow> candidate_manifest \<Rightarrow> evidence_matrix \<Rightarrow> criterion_evidence \<Rightarrow> bool" where
  "backed_criterion h authority candidate m c \<longleftrightarrow>
     (\<exists>raw b strategy selector recipe. raw \<in> set (em_evidenceBindings m) \<and> parse_evidence_binding raw = Some b \<and>
       bn_digest b = binding_digest h b \<and> proof_authority_for h authority (ce_obligationId c) = Some (strategy, selector) \<and>
       em_validationRecipeDigest m = Some recipe \<and>
       bound_to b (expected_evidence authority candidate (ce_obligationId c) strategy selector recipe (bn_outputDigest raw)))"

definition backed :: "host \<Rightarrow> evidence_authority \<Rightarrow> success \<Rightarrow> bool" where
  "backed h authority x \<longleftrightarrow> (\<exists>candidate. su_candidateManifest x = Some candidate \<and>
     names_candidate candidate (su_candidateCommit x) \<and>
     (\<forall>c \<in> set (em_criteria (su_evidenceMatrix x)). backed_criterion h authority candidate (su_evidenceMatrix x) c))"

definition earned :: "host \<Rightarrow> execution_run \<Rightarrow> prepared_attempt \<Rightarrow> success \<Rightarrow> bool" where
  "earned h run a x \<longleftrightarrow> authority_violations run a (su_changedFiles x) = [] \<and>
     em_outcome (su_evidenceMatrix x) = Verified \<and> em_candidateCommit (su_evidenceMatrix x) = su_candidateCommit x \<and>
     em_validationContract (su_evidenceMatrix x) = tb_validation (pa_contract a) \<and>
     (\<forall>authority. xr_evidenceAuthority run = Some authority \<longrightarrow> backed h authority x)"

lemma verify_criterion_backed:
  assumes "verify_criterion h authority candidate m c = Inr ()"
  shows "backed_criterion h authority candidate m c"
proof -
  from assms obtain raw strategy selector recipe where found:
    "find (\<lambda>b. bn_obligationId b = ce_obligationId c) (em_evidenceBindings m) = Some raw"
    "proof_authority_for h authority (ce_obligationId c) = Some (strategy, selector)"
    "em_validationRecipeDigest m = Some recipe"
    "validateEvidenceFreshness h raw
       (expected_evidence authority candidate (ce_obligationId c) strategy selector recipe (bn_outputDigest raw)) = []"
    by (auto simp: verify_criterion_def Let_def requireE_Inr throwIf_Inr split: prod.splits)
  from found(1) have "raw \<in> set (em_evidenceBindings m)" by (auto simp: find_Some_iff)
  with found(2,3) found(4)[unfolded fresh_iff] show ?thesis unfolding backed_criterion_def by blast
qed

lemma verify_all_backed: "foldE (\<lambda>_. verify_criterion h authority candidate m) () cs = Inr u \<Longrightarrow>
    c \<in> set cs \<Longrightarrow> backed_criterion h authority candidate m c"
  by (induction cs) (auto dest: verify_criterion_backed)

lemma verified_authority_backed:
  assumes "verifyExactEvidenceAuthority h authority x = Inr u"
  shows "backed h authority x"
proof -
  from assms obtain candidate v where "su_candidateManifest x = Some candidate"
    "names_candidate candidate (su_candidateCommit x)"
    "foldE (\<lambda>_. verify_criterion h authority candidate (su_evidenceMatrix x)) () (em_criteria (su_evidenceMatrix x)) = Inr v"
    by (auto simp: verifyExactEvidenceAuthority_def Let_def requireE_Inr throwIf_Inr)
  then show ?thesis unfolding backed_def using verify_all_backed by blast
qed

section \<open>The facts of an outcome\<close>

text \<open>The artifact recorded for a contract: the manifest the executor handed over binds exactly this attempt.\<close>

definition adoption_for :: "execution_run \<Rightarrow> prepared_attempt \<Rightarrow> string \<Rightarrow> success \<Rightarrow> artifact_contract \<Rightarrow> adopted_artifact \<Rightarrow> bool" where
  "adoption_for run a now x k y \<longleftrightarrow> (\<exists>m r. oget (su_artifactManifests x) (ak_id k) = Some m \<and>
     declared_ref (xr_graph run) k = Some r \<and> binds_attempt a (su_candidateCommit x) k r m \<and> y = adopted_of run a now k m)"

lemma adoption_facts_Inr:
  "adoption_facts run a now x ks = Inr fs \<Longrightarrow> fs = map Fact is \<Longrightarrow>
     list_all2 (adoption_for run a now x) ks (picked adoption_of is) \<and> picked decision_of is = [] \<and> picked final_of is = []"
proof (induction ks arbitrary: fs "is")
  case (Cons k ks)
  from Cons.prems(1) obtain m r gs where k: "oget (su_artifactManifests x) (ak_id k) = Some m" "declared_ref (xr_graph run) k = Some r"
    "binds_attempt a (su_candidateCommit x) k r m" and gs: "adoption_facts run a now x ks = Inr gs"
    and fs: "fs = Fact (fact_at (pa_attemptId a @ '':artifact:'' @ ak_id k) now (Attempt_ev (Artifact_adopted (adopted_of run a now k m)))) # gs"
    by (auto simp: bindE_Inr adoption_fact_def requireE_Inr throwIf_Inr)
  from Cons.prems(2) fs obtain js where js: "gs = map Fact js"
    "is = fact_at (pa_attemptId a @ '':artifact:'' @ ak_id k) now (Attempt_ev (Artifact_adopted (adopted_of run a now k m))) # js"
    by (auto simp: Cons_eq_map_conv)
  from Cons.IH[OF gs js(1)] k js(2) show ?case by (auto simp: opt_list_def adoption_for_def)
qed simp

lemma final_facts_Inr:
  "final_facts run a now x = Inr fs \<Longrightarrow> fs = map Fact is \<Longrightarrow>
     picked adoption_of is = [] \<and> picked decision_of is = [] \<and>
     (picked final_of is \<noteq> [] \<longleftrightarrow> tn_id (pa_node a) = gr_rootId (xr_graph run))"
  by (auto simp: final_facts_def opt_list_def split: if_splits option.splits)

lemma result_facts_picked:
  "result_facts a now x = map Fact is \<Longrightarrow>
     picked adoption_of is = [] \<and> picked decision_of is = [] \<and> picked final_of is = []"
  by (auto simp: result_facts_def candidate_fact_def Let_def opt_list_def split: if_splits)

lemma map_Fact_append: "fs @ gs = map Fact is \<longleftrightarrow> (\<exists>js ks. is = js @ ks \<and> fs = map Fact js \<and> gs = map Fact ks)"
  by (metis append_eq_map_conv map_append)

text \<open>A batch that asks: nothing is adopted, and one decision blocks the node that failed and may stop it.\<close>

definition asks_about :: "prepared_attempt \<Rightarrow> run_event_input list \<Rightarrow> bool" where
  "asks_about a facts \<longleftrightarrow> picked adoption_of facts = [] \<and> picked final_of facts = [] \<and>
     (\<exists>d. picked decision_of facts = [d] \<and> tn_id (pa_node a) \<in> set (dc_affectedNodeIds d) \<and>
        (\<exists>p \<in> set (dc_options d). do_id p = ''stop''))"

lemma failure_decision_asks:
  "tn_id (pa_node a) \<in> set (dc_affectedNodeIds (failure_decision g a reason blockers))"
  "\<exists>p \<in> set (dc_options (failure_decision g a reason blockers)). do_id p = ''stop''"
  by (auto simp: failure_decision_def Let_def failure_options_def option_pair_def split: repair_route.splits)

lemma decision_asks: "asks_about a (facts @ [decisionFact g a now reason blockers]) \<longleftrightarrow>
    picked adoption_of facts = [] \<and> picked decision_of facts = [] \<and> picked final_of facts = []"
  using failure_decision_asks by (auto simp: asks_about_def decisionFact_def opt_list_def append_eq_Cons_conv)

lemma failure_asks:
  assumes "checkpoint_facts a now u ck @ failure_facts g a now reason usage blockers = map Fact facts"
  shows "asks_about a facts"
proof -
  have "failure_facts g a now reason usage blockers = map Fact is \<Longrightarrow>
      is = [failed_input a reason now usage, decisionFact g a now reason blockers]" for "is"
    by (auto simp: failure_facts_def split: if_splits)
  moreover have "checkpoint_facts a now u ck = map Fact js \<Longrightarrow>
      picked adoption_of js = [] \<and> picked decision_of js = [] \<and> picked final_of js = []" for js
    by (auto simp: checkpoint_facts_def candidate_fact_def opt_list_def split: option.splits)
  ultimately obtain js where "facts = (js @ [failed_input a reason now usage]) @ [decisionFact g a now reason blockers]"
    "picked adoption_of js = []" "picked decision_of js = []" "picked final_of js = []"
    using assms unfolding map_Fact_append by (metis append_Cons append_Nil append_assoc)
  then show ?thesis using decision_asks[of a "js @ [failed_input a reason now usage]"] by (simp add: failed_input_def opt_list_def)
qed

lemma success_facts_cases:
  assumes "success_facts h run a now x = Inr fs"
  obtains (violation) "\<not> earned h run a x"
      "fs = failure_facts (xr_graph run) a now (describeResourceAuthorityViolations (authority_violations run a (su_changedFiles x))) None []"
  | (unverified) reason where "\<not> earned h run a x" "fs = result_facts a now x @ [Fact (decisionFact (xr_graph run) a now reason [])]"
  | (verified) adopted final where "earned h run a x"
      "adoption_facts run a now x (producedArtifacts (pa_contract a) (tn_id (pa_node a))) = Inr adopted"
      "final_facts run a now x = Inr final" "fs = result_facts a now x @ adopted @ final"
proof (cases "authority_violations run a (su_changedFiles x) = []")
  case False
  with assms show thesis by (intro violation) (auto simp: success_facts_def Let_def earned_def)
next
  case True
  show thesis
  proof (cases "em_outcome (su_evidenceMatrix x) = Verified")
    case False
    with True assms show thesis
      by (intro unverified) (auto simp: success_facts_def Let_def earned_def bindE_Inr throwIf_Inr split: option.splits if_splits)
  next
    case verified': True
    from True verified' assms obtain adopted final where
      "adoption_facts run a now x (producedArtifacts (pa_contract a) (tn_id (pa_node a))) = Inr adopted"
      "final_facts run a now x = Inr final" "fs = result_facts a now x @ adopted @ final"
      "em_candidateCommit (su_evidenceMatrix x) = su_candidateCommit x"
      "em_validationContract (su_evidenceMatrix x) = tb_validation (pa_contract a)"
      "\<forall>authority. xr_evidenceAuthority run = Some authority \<longrightarrow> verifyExactEvidenceAuthority h authority x = Inr ()"
      by (auto simp: success_facts_def Let_def bindE_Inr throwIf_Inr split: option.splits)
    with True verified' verified_authority_backed show thesis by (intro verified) (auto simp: earned_def)
  qed
qed

text \<open>
  A success that is refused: its matrix speaks of another candidate or contract, or it claims to be verified
  and the evidence does not stand before the run's evidence authority, an artifact the node has to produce
  has no manifest bound to this attempt, or the root names no final manifest.
\<close>

definition refused_success :: "host \<Rightarrow> execution_run \<Rightarrow> prepared_attempt \<Rightarrow> string \<Rightarrow> success \<Rightarrow> bool" where
  "refused_success h run a now x \<longleftrightarrow> authority_violations run a (su_changedFiles x) = [] \<and>
     (em_candidateCommit (su_evidenceMatrix x) \<noteq> su_candidateCommit x \<or>
      em_validationContract (su_evidenceMatrix x) \<noteq> tb_validation (pa_contract a) \<or>
      em_outcome (su_evidenceMatrix x) = Verified \<and>
       ((\<exists>authority e. xr_evidenceAuthority run = Some authority \<and> verifyExactEvidenceAuthority h authority x = Inl e) \<or>
        (\<exists>k \<in> set (producedArtifacts (pa_contract a) (tn_id (pa_node a))). \<nexists>y. adoption_for run a now x k y) \<or>
        tn_id (pa_node a) = gr_rootId (xr_graph run) \<and> (su_finalManifestId x = None \<or> su_finalManifest x = None)))"

lemma adoption_facts_Inl: "(\<exists>e. adoption_facts run a now x ks = Inl e) \<longleftrightarrow> (\<exists>k \<in> set ks. \<nexists>y. adoption_for run a now x k y)"
proof (induction ks)
  case (Cons k ks)
  have "(\<exists>e. adoption_fact run a now x k = Inl e) \<longleftrightarrow> (\<nexists>y. adoption_for run a now x k y)"
    by (auto simp: adoption_fact_def adoption_for_def requireE_def throwIf_def split: option.splits)
  with Cons.IH show ?case
    by (cases "adoption_fact run a now x k"; cases "adoption_facts run a now x ks") auto
qed simp

lemma final_facts_Inl: "(\<exists>e. final_facts run a now x = Inl e) \<longleftrightarrow>
    tn_id (pa_node a) = gr_rootId (xr_graph run) \<and> (su_finalManifestId x = None \<or> su_finalManifest x = None)"
  by (auto simp: final_facts_def split: option.splits)

lemma success_facts_Inl: "(\<exists>e. success_facts h run a now x = Inl e) \<longleftrightarrow> refused_success h run a now x"
proof -
  let ?artifacts = "producedArtifacts (pa_contract a) (tn_id (pa_node a))"
  have evidence: "(\<exists>e. (case xr_evidenceAuthority run of None \<Rightarrow> Inr () | Some authority \<Rightarrow>
        if em_outcome (su_evidenceMatrix x) = Verified then verifyExactEvidenceAuthority h authority x else Inr ()) = Inl e) \<longleftrightarrow>
      em_outcome (su_evidenceMatrix x) = Verified \<and>
      (\<exists>authority e. xr_evidenceAuthority run = Some authority \<and> verifyExactEvidenceAuthority h authority x = Inl e)"
    by (auto split: option.splits)
  show ?thesis
    unfolding refused_success_def adoption_facts_Inl[symmetric]
    using evidence final_facts_Inl[of run a now x]
    by (cases "adoption_facts run a now x ?artifacts"; cases "final_facts run a now x";
        cases "case xr_evidenceAuthority run of None \<Rightarrow> Inr () | Some authority \<Rightarrow>
          if em_outcome (su_evidenceMatrix x) = Verified then verifyExactEvidenceAuthority h authority x else Inr ()")
      (auto simp: success_facts_def Let_def throwIf_def)
qed

lemma success_facts_journal: "success_facts h run a now x = Inr fs \<Longrightarrow> \<exists>is. fs = map Fact is"
proof -
  have result: "\<exists>is. result_facts a now x = map Fact is"
    by (auto simp: result_facts_def candidate_fact_def Let_def Cons_eq_map_conv)
  have "adoption_facts run a now x ks = Inr fs \<Longrightarrow> \<exists>is. fs = map Fact is" for ks fs
    by (induction ks arbitrary: fs) (fastforce simp: adoption_fact_def Cons_eq_map_conv)+
  moreover have "final_facts run a now x = Inr fs \<Longrightarrow> \<exists>is. fs = map Fact is" for fs
    by (auto simp: final_facts_def Cons_eq_map_conv split: if_splits option.splits)
  moreover have "\<exists>is. failure_facts g a now reason usage [] = map Fact is" for g reason usage
    by (auto simp: failure_facts_def Cons_eq_map_conv)
  ultimately show "success_facts h run a now x = Inr fs \<Longrightarrow> \<exists>is. fs = map Fact is"
    using result unfolding success_facts_def Let_def
    by (auto simp: map_Fact_append Cons_eq_map_conv split: if_splits)
qed

lemma recordOutcome_Inl: "recordOutcome h run a now out = Inl e \<Longrightarrow>
    (\<exists>x. out = Success x \<and> refused_success h run a now x) \<or> (\<exists>reason ids b bs. out = Needs_input reason ids (Some (b # bs)))"
proof (cases out)
  case (Success x)
  moreover assume "recordOutcome h run a now out = Inl e"
  ultimately show ?thesis
    using success_facts_Inl[of h run a now x] success_facts_journal[of h run a now x]
    by (cases "success_facts h run a now x") (auto simp: recordOutcome_def journal_payloads_Some[THEN iffD2])
next
  case (Needs_input reason ids bs)
  moreover assume "recordOutcome h run a now out = Inl e"
  ultimately show ?thesis
    by (cases bs; cases "the bs") (auto simp: recordOutcome_def failure_facts_def)
next
  case (Failure reason usage ck)
  moreover assume "recordOutcome h run a now out = Inl e"
  ultimately show ?thesis
    by (cases ck) (auto simp: recordOutcome_def failure_facts_def checkpoint_facts_def candidate_fact_def)
qed

lemma recorded_facts_earned_or_asked:
  assumes "recordOutcome h run a now out = Inr facts"
  shows "(\<exists>x. out = Success x \<and> earned h run a x \<and> picked decision_of facts = [] \<and>
       list_all2 (adoption_for run a now x) (producedArtifacts (pa_contract a) (tn_id (pa_node a))) (picked adoption_of facts) \<and>
       (picked final_of facts \<noteq> [] \<longleftrightarrow> tn_id (pa_node a) = gr_rootId (xr_graph run))) \<or>
    (\<nexists>x. out = Success x \<and> earned h run a x) \<and> asks_about a facts"
proof -
  from assms have facts: "outcome_facts h run a now out = Inr (map Fact facts)"
    by (auto simp: recordOutcome_def bindE_Inr requireE_Inr journal_payloads_Some)
  show ?thesis
  proof (cases out)
    case (Success x)
    with facts have "success_facts h run a now x = Inr (map Fact facts)" by simp
    then show ?thesis
    proof (cases rule: success_facts_cases)
      case violation
      with failure_asks[of a now None None] Success show ?thesis by (auto simp: checkpoint_facts_def)
    next
      case (unverified reason)
      from unverified(2)[symmetric] obtain js where
        "facts = js @ [decisionFact (xr_graph run) a now reason []]" "result_facts a now x = map Fact js"
        unfolding map_Fact_append by (auto simp: Cons_eq_map_conv)
      with result_facts_picked[of a now x js] unverified(1) Success show ?thesis by (simp add: decision_asks)
    next
      case (verified adopted final)
      from verified(4)[symmetric] obtain js ks ls where "facts = js @ ks @ ls" "result_facts a now x = map Fact js"
        "adopted = map Fact ks" "final = map Fact ls"
        unfolding map_Fact_append by blast
      with result_facts_picked[of a now x js] adoption_facts_Inr[OF verified(2), of ks] final_facts_Inr[OF verified(3), of ls]
        verified(1) Success show ?thesis by auto
    qed
  next
    case (Needs_input reason ids bs)
    with facts failure_asks[of a now None None] show ?thesis by (auto simp: checkpoint_facts_def)
  next
    case (Failure reason usage ck)
    with facts failure_asks show ?thesis by auto
  qed
qed


section \<open>A leaf that earns its artifact\<close>

definition sample_strategy :: proof_strategy where
  "sample_strategy = \<lparr>ps_revision = 1, ps_digest = ''ps'', ps_criterionId = ''k'', ps_mode = Executable,
     ps_authority = Orchestrator_deterministic, ps_selectorDigest = Some ''sel'', ps_environmentPolicyDigest = ''env''\<rparr>"

definition sample_authority :: evidence_authority where
  "sample_authority = \<lparr>ea_goalDigest = ''goal'', ea_baseline = \<lparr>eb_commitOid = ''base'', eb_treeOid = ''tree''\<rparr>,
     ea_validationObligations = [(''o'', \<lparr>po_required = True,
       po_proofStrategy = \<lparr>cr_id = ''strategy'', cr_revision = 1, cr_digest = ''ps''\<rparr>\<rparr>)],
     ea_proofStrategies = [(''strategy'', sample_strategy)]\<rparr>"

definition sample_config :: run_config where
  "sample_config = \<lparr>rc_maxParallel = Finite 2, rc_maxTokensTotal = None, rc_maxCostUsd = None\<rparr>"

definition sample_run :: execution_run where
  "sample_run = \<lparr>xr_runId = ''run'', xr_graph = sample_graph,
     xr_contracts = [(''root'', sample_bundle), (''a'', sample_bundle\<lparr>tb_artifacts := [sample_contract ''art-a'' ''a'']\<rparr>),
       (''b'', sample_bundle\<lparr>tb_artifacts := [sample_contract ''art-b'' ''b'']\<rparr>)],
     xr_repositoryContextDigest = ''ctx'', xr_executorProfile = sample_profile, xr_effectiveConfig = sample_config,
     xr_availableExecutorNodeIds = [''root'', ''a'', ''b''],
     xr_target = \<lparr>et_sourceTargetFingerprint = ''fp'', et_targetBranch = ''main'', et_targetHead = ''base''\<rparr>,
     xr_evidenceAuthority = Some sample_authority, xr_maxWaves = None\<rparr>"

definition sample_attempt :: prepared_attempt where
  "sample_attempt = \<lparr>pa_waveId = ''run:wave:1'', pa_attemptId = ''run:attempt:a:1'', pa_inputFingerprint = ''f'',
     pa_priorFailure = None, pa_node = sample_node ''a'' (Some ''root'') Leaf_node,
     pa_contract = sample_bundle\<lparr>tb_artifacts := [sample_contract ''art-a'' ''a'']\<rparr>, pa_consumedArtifacts = [],
     pa_startedEvent = fact_at ''e'' ''t'' (Run_ev (Run_renamed ''t''))\<rparr>"

definition sample_tree_manifest :: candidate_manifest where
  "sample_tree_manifest = \<lparr>cm_id = ''m'', cm_manifestDigest = ''md'', cm_commitOid = ''c'', cm_treeOid = ''ct'',
     cm_sourceCandidate = \<lparr>eb_commitOid = ''c'', eb_treeOid = ''ct''\<rparr>\<rparr>"

definition sample_binding :: evidence_binding where
  "sample_binding = \<lparr>bn_id = ''b'', bn_revision = 1, bn_goalContractDigest = ''goal'', bn_criterionId = ''k'',
     bn_obligationId = ''o'', bn_candidate = exact_of sample_tree_manifest, bn_baseline = ea_baseline sample_authority,
     bn_proofStrategyDigest = ''ps'', bn_mode = Executable, bn_authority = Orchestrator_deterministic,
     bn_recipeDigest = ''recipe'', bn_environmentDigest = ''env'', bn_selectorDigest = ''sel'', bn_outputDigest = ''out'',
     bn_outcome = Ev_satisfied, bn_digest = ''sha256:digest''\<rparr>"

definition sample_output :: artifact_manifest where
  "sample_output = Change_set \<lparr>mi_id = ''art-a'', mi_contract = sample_ref ''art-a'', mi_producerNodeId = ''a'',
     mi_producerAttemptId = ''run:attempt:a:1'', mi_inputFingerprint = ''f'', mi_repositoryObjectStoreId = ''s'',
     mi_objectFormat = Sha1, mi_sourceCandidate = \<lparr>eb_commitOid = ''c'', eb_treeOid = ''ct''\<rparr>, mi_retainedByRef = ''ref''\<rparr>
     ''md'' sample_oid sample_oid []"

definition sample_success :: success where
  "sample_success = \<lparr>su_usage = None, su_candidateCommit = ''c'', su_outputDigest = ''out'', su_changedFiles = [''art-a.ts''],
     su_evidenceMatrix = sample_matrix\<lparr>em_validationContract := tb_validation sample_bundle,
       em_validationRecipeDigest := Some ''recipe'', em_evidenceBindings := [sample_binding]\<rparr>,
     su_candidateManifest = Some sample_tree_manifest, su_artifactManifests = [(''art-a'', sample_output)],
     su_integrationManifestId = None, su_finalManifestId = None, su_finalManifest = None\<rparr>"


section \<open>What the modelling showed\<close>

text \<open>A node that cannot start is not recorded at all: the journal's schema has no blockers on a failed attempt.\<close>

lemma blocked_attempts_are_refused:
  "recordOutcome h run a now (Needs_input reason ids (Some (b # bs))) = Inl Payload_refused"
  by (simp add: recordOutcome_def failure_facts_def)

text \<open>
  A write into another node's file is sent to the environment's owner when the path contains one of the
  markers, here \<open>auth\<close>; with any other path it is a question about the plan.
\<close>

definition foreign_write :: "string \<Rightarrow> authority_violation" where
  "foreign_write path = \<lparr>av_path = path, av_ownedByNodeId = ''b'', av_attemptedByNodeId = ''a''\<rparr>"

lemma violations_on_auth_paths_blame_the_environment:
  "dc_kind (failure_decision sample_graph sample_attempt (describeResourceAuthorityViolations [foreign_write ''src/auth.ts'']) []) = Resolve_conflict"
  "map do_label (dc_options (failure_decision sample_graph sample_attempt
     (describeResourceAuthorityViolations [foreign_write ''src/auth.ts'']) [])) = [''Retry after fixing the environment'', ''Stop this work'']"
  "dc_kind (failure_decision sample_graph sample_attempt (describeResourceAuthorityViolations [foreign_write ''src/user.ts'']) []) = Approve_amendment"
  by code_simp+

text \<open>No level of autonomy answers a question about the plan: the option it would choose is never offered.\<close>

lemma amendments_are_never_delegated:
  "dc_kind (failure_decision g a reason blockers) = Approve_amendment \<Longrightarrow>
     autonomyResolution level (failure_decision g a reason blockers) budget = None"
  by (cases "failure_route g a reason")
    (auto simp: autonomyResolution_def failure_decision_def Let_def failure_options_def option_pair_def is_amend_def split: if_splits)

end
