(* ===== verification/Wave_Properties.thy ===== *)
theory Wave_Properties
  imports Wave_Pool Driver_Properties
begin

text \<open>
  The properties of a wave: it stays within the run's parallelism, comes to an end however the executors
  behave, and loses no attempt on the way.

  Source: packages/orchestrator-graph/src/canonical-execution-driver.ts.
\<close>

section \<open>The selection the wave is made of\<close>

lemma frontier_bounds:
  assumes "selectFrontier h ready policy (Some g) estimate = Inr fr"
  shows "1 \<le> sp_maxParallel policy" "int (length (fr_selected fr)) \<le> sp_maxParallel policy"
    "assertNoConcurrentResourceConflict (gr_resourceClaims g) (map ex_nodeId (fr_selected fr)) = None"
proof -
  from assms obtain t where t: "1 \<le> sp_maxParallel policy"
    "foldE (select_step (sp_maxParallel policy) t (Some g) estimate) \<lparr>fr_selected = [], fr_deferred = []\<rparr>
       (sort_le (\<lambda>a b. h_le h (ex_nodeId a) (ex_nodeId b)) (filter ex_ready ready)) = Inr fr"
    by (auto simp: selectFrontier_def)
  have "frontier_ok (sp_maxParallel policy) (Some g) fr"
    using select_steps[OF t(2)] t(1) by (auto simp: frontier_ok_def)
  then show "1 \<le> sp_maxParallel policy" "int (length (fr_selected fr)) \<le> sp_maxParallel policy"
    "assertNoConcurrentResourceConflict (gr_resourceClaims g) (map ex_nodeId (fr_selected fr)) = None"
    using t(1) by (auto simp: frontier_ok_def intro!: compatible_wave_passes elim: sorted_compatible)
qed

text \<open>The last check never stops a wave: the selection already kept racing nodes apart.\<close>

lemma selection_never_races: "select_frontier h estimate run s \<noteq> Inl (Wave_conflict e)"
proof
  assume "select_frontier h estimate run s = Inl (Wave_conflict e)"
  then obtain ev where "evaluateReadiness h (snapshot_of run s) = Some ev"
    by (cases "evaluateReadiness h (snapshot_of run s)") (auto simp: select_frontier_def)
  with \<open>select_frontier h estimate run s = Inl (Wave_conflict e)\<close> show False
    by (cases "selectFrontier h (ev_ready ev) \<lparr>sp_maxParallel = max_parallel run, sp_maxConcurrentRiskScore = None\<rparr>
        (Some (xr_graph run)) estimate") (auto simp: select_frontier_def Let_def frontier_bounds(3))
qed

lemma selection_fits:
  assumes "select_frontier h estimate run s = Inr (ids, shown)"
  shows "1 \<le> max_parallel run" "int (length ids) \<le> max_parallel run"
proof -
  from assms obtain ev where ev: "evaluateReadiness h (snapshot_of run s) = Some ev" by (auto simp: select_frontier_def)
  obtain fr where fr: "selectFrontier h (ev_ready ev) \<lparr>sp_maxParallel = max_parallel run, sp_maxConcurrentRiskScore = None\<rparr>
      (Some (xr_graph run)) estimate = Inr fr" "ids = map ex_nodeId (fr_selected fr)"
    using assms ev
    by (cases "selectFrontier h (ev_ready ev) \<lparr>sp_maxParallel = max_parallel run, sp_maxConcurrentRiskScore = None\<rparr>
        (Some (xr_graph run)) estimate") (auto simp: select_frontier_def Let_def split: option.splits)
  from frontier_bounds(1,2)[OF fr(1)] fr(2) show "1 \<le> max_parallel run" "int (length ids) \<le> max_parallel run" by simp_all
qed

section \<open>Every wave settles\<close>

lemma wave_reached:
  fixes w0 w :: "('a, 'b, 'x) wave"
  assumes "(wave_step ^^ k) w0 w" and w0: "w0 = wave_start m xs" and "int (length xs) \<le> m" "1 \<le> m"
  shows "k \<le> 5 * length xs" "int (busy_workers w) \<le> m" "wave_members w = mset xs" "length (wv_queue w) \<le> wv_free w"
proof -
  have start: "wv_free w0 = length xs" using assms(3,4) by (simp add: w0 wave_start_def)
  have "k + wave_measure w \<le> wave_measure w0"
    by (rule steps_bounded[OF step_measure assms(1)])
  then show "k \<le> 5 * length xs" using start by (simp add: wave_measure_def w0 wave_start_def)
  have "wv_free w + busy_workers w \<le> length xs"
    by (rule steps_invariant[OF assms(1)]) (use start step_workers in \<open>fastforce simp: busy_workers_def w0 wave_start_def\<close>)+
  then show "int (busy_workers w) \<le> m" using assms(3) by linarith
  have "wave_members w0 = mset xs" by (simp add: wave_members_def w0 wave_start_def)
  then show "wave_members w = mset xs"
    by (rule steps_invariant[OF assms(1)]) (simp add: step_members)
  show "length (wv_queue w) \<le> wv_free w"
    by (rule steps_invariant[OF assms(1)]) (use start in \<open>auto simp: w0 wave_start_def step_queue\<close>)
qed

text \<open>
  C36. A wave ends, within its bounds, with every attempt accounted for. For the attempts prepared from a
  selection, however executions return or throw and whatever the journal refuses: after \<open>k\<close> steps at most
  the run's parallelism of attempts is in flight or being recorded, each attempt is in exactly one place,
  and at most five steps for each attempt have been taken; as long as the wave has not settled it can go on.
  Once it has settled, every attempt was executed and its outcome recorded, thrown or refused; and
  \<open>executeWave\<close> returns normally only when every outcome is in the journal.
\<close>

theorem waves_settle:
  assumes "select_frontier h estimate run s = Inr (ids, shown)" and "map fst stamped = ids"
    and "create_attempts h run s' waveId stamped = Inr attempts"
    and "(wave_step ^^ k) (wave_start (max_parallel run) attempts) w"
  shows "k \<le> 5 * length attempts \<and> int (busy_workers w) \<le> max_parallel run \<and> wave_members w = mset attempts \<and>
    (settled_wave w \<or> (\<exists>w'. wave_step w w')) \<and>
    (settled_wave w \<longrightarrow>
       mset (map fst (wv_recorded w) @ map fst (wv_thrown w) @ map fst (wv_refused w)) = mset attempts) \<and>
    (wave_result w = Some (Inr ()) \<longrightarrow> mset (map fst (wv_recorded w)) = mset attempts)"
proof -
  have "length attempts = length ids" using assms(2) create_attempts_length[OF assms(3)] by auto
  then have "int (length attempts) \<le> max_parallel run" "1 \<le> max_parallel run" using selection_fits[OF assms(1)] by simp_all
  note reached = wave_reached[OF assms(4) refl this]
  have settled: "mset (map fst (wv_recorded w) @ map fst (wv_thrown w) @ map fst (wv_refused w)) = mset attempts" if "settled_wave w"
    using reached(3,4) that by (auto simp: settled_wave_def wave_members_def)
  moreover have "mset (map fst (wv_recorded w)) = mset attempts" if "wave_result w = Some (Inr ())"
    using settled that by (auto simp: wave_result_def split: list.splits if_splits)
  ultimately show ?thesis using reached wave_progress[of w] by blast
qed

section \<open>A sample wave\<close>

definition sample_state :: run_projection where
  "sample_state = (created_projection ''run'' ''e'' ''t'' ''goal'' None)\<lparr>p_lifecycle := Running\<rparr>"

definition sample_risk :: "explanation \<Rightarrow> explanation list \<Rightarrow> risk_estimate" where
  "sample_risk c selected = \<lparr>rk_score = Finite 10, rk_evidenceRefs = []\<rparr>"

lemma sample_selection: "map_sum id fst (select_frontier sample_host sample_risk sample_run sample_state) = Inr [''a'', ''root'']"
  by code_simp

definition sample_stamps :: "(string \<times> string) list" where
  "sample_stamps = [(''a'', ''t''), (''root'', ''t'')]"

lemma sample_attempts:
  "map_sum id (map pa_attemptId) (create_attempts sample_host sample_run sample_state ''run:wave:1'' sample_stamps) =
     Inr [''run:attempt:a:1'', ''run:attempt:root:1'']"
  by code_simp

lemma six_steps:
  assumes "R a b" "R b c" "R c d" "R d e" "R e f" "R f g"
  shows "(R ^^ 6) a g"
proof -
  have "(R ^^ Suc (Suc (Suc (Suc (Suc (Suc 0)))))) a g"
    using assms by (meson relpowp_0_I relpowp_Suc_I)
  then show ?thesis by (simp add: eval_nat_numeral)
qed

text \<open>Two attempts of which the first is recorded and the second throws.\<close>

lemma sample_steps:
  fixes a b :: 'a and y :: 'b and x :: 'x
  shows "\<exists>w :: ('a, 'b, 'x) wave. (wave_step ^^ 6) (wave_start 2 [a, b]) w \<and> settled_wave w \<and> wave_result w = Some (Inl x) \<and>
    wv_recorded w = [(a, y)]"
proof -
  let ?s0 = "wave_start 2 [a, b] :: ('a, 'b, 'x) wave"
  let ?s1 = "?s0\<lparr>wv_queue := [b], wv_free := 1, wv_running := [a]\<rparr>"
  let ?s2 = "?s1\<lparr>wv_queue := [], wv_free := 0, wv_running := [a, b]\<rparr>"
  let ?s3 = "?s2\<lparr>wv_running := [a], wv_thrown := [(b, x)]\<rparr>"
  let ?s4 = "?s3\<lparr>wv_running := [], wv_chain := [(a, y)]\<rparr>"
  let ?s5 = "?s4\<lparr>wv_chain := [], wv_recorded := [(a, y)], wv_free := 1\<rparr>"
  let ?s6 = "?s5\<lparr>wv_free := 0\<rparr>"
  have "wave_step ?s0 ?s1" using take[of ?s0 a "[b]" 1] by (simp add: wave_start_def)
  moreover have "wave_step ?s1 ?s2" using take[of ?s1 b "[]" 0] by (simp add: wave_start_def)
  moreover have "wave_step ?s2 ?s3" using threw[of ?s2 "[a]" b "[]" x] by (simp add: wave_start_def)
  moreover have "wave_step ?s3 ?s4" using returned[of ?s3 "[]" a "[]" y] by (simp add: wave_start_def)
  moreover have "wave_step ?s4 ?s5" using recorded[of ?s4 "(a, y)" "[]"] by (simp add: wave_start_def)
  moreover have "wave_step ?s5 ?s6" using leave[of ?s5 0] by (simp add: wave_start_def)
  ultimately have "(wave_step ^^ 6) ?s0 ?s6"
    by (rule six_steps)
  then show ?thesis by (intro exI[of _ ?s6]) (simp add: settled_wave_def wave_result_def wave_start_def)
qed

text \<open>
  A record that throws is not held back as a throwing execution is: the wave is over for its caller while the
  other attempt is still running, although every started attempt is meant to settle first.
\<close>

lemma refused_records_abandon_siblings:
  fixes a b :: 'a and y :: 'b and x :: 'x
  shows "\<exists>w :: ('a, 'b, 'x) wave. wave_step\<^sup>*\<^sup>* (wave_start 2 [a, b]) w \<and> wave_result w = Some (Inl x) \<and> wv_running w = [b]"
proof -
  let ?s0 = "wave_start 2 [a, b] :: ('a, 'b, 'x) wave"
  let ?s1 = "?s0\<lparr>wv_queue := [b], wv_free := 1, wv_running := [a]\<rparr>"
  let ?s2 = "?s1\<lparr>wv_queue := [], wv_free := 0, wv_running := [a, b]\<rparr>"
  let ?s3 = "?s2\<lparr>wv_running := [b], wv_chain := [(a, y)]\<rparr>"
  let ?s4 = "?s3\<lparr>wv_chain := [], wv_refused := [(a, x)]\<rparr>"
  have "wave_step ?s0 ?s1" using take[of ?s0 a "[b]" 1] by (simp add: wave_start_def)
  moreover have "wave_step ?s1 ?s2" using take[of ?s1 b "[]" 0] by (simp add: wave_start_def)
  moreover have "wave_step ?s2 ?s3" using returned[of ?s2 "[]" a "[b]" y] by (simp add: wave_start_def)
  moreover have "wave_step ?s3 ?s4" using refused[of ?s3 a y "[]" x] by (simp add: wave_start_def)
  ultimately have "wave_step\<^sup>*\<^sup>* ?s0 ?s4" by (meson converse_rtranclp_into_rtranclp rtranclp.rtrancl_refl)
  then show ?thesis by (intro exI[of _ ?s4]) (simp add: wave_result_def wave_start_def)
qed

theorem waves_settle_witness:
  "\<exists>(attempts :: prepared_attempt list) (w :: (prepared_attempt, outcome, string) wave).
     length attempts = 2 \<and> settled_wave w \<and> length (wv_recorded w) = 1 \<and>
     mset (map fst (wv_recorded w) @ map fst (wv_thrown w) @ map fst (wv_refused w)) = mset attempts"
proof -
  obtain shown where selection: "select_frontier sample_host sample_risk sample_run sample_state = Inr ([''a'', ''root''], shown)"
    using sample_selection by (cases "select_frontier sample_host sample_risk sample_run sample_state") auto
  obtain attempts where attempts: "create_attempts sample_host sample_run sample_state ''run:wave:1'' sample_stamps = Inr attempts"
    "map pa_attemptId attempts = [''run:attempt:a:1'', ''run:attempt:root:1'']"
    using sample_attempts by (cases "create_attempts sample_host sample_run sample_state ''run:wave:1'' sample_stamps") auto
  then obtain a b where two: "attempts = [a, b]" by (auto simp: map_eq_Cons_conv)
  obtain w :: "(prepared_attempt, outcome, string) wave" where w: "(wave_step ^^ 6) (wave_start 2 [a, b]) w" "settled_wave w"
    "wv_recorded w = [(a, Success sample_success)]" using sample_steps[of a b "''x''" "Success sample_success"] by blast
  have "max_parallel sample_run = 2" by code_simp
  with w(1) two have "(wave_step ^^ 6) (wave_start (max_parallel sample_run) attempts) w" by simp
  from waves_settle[OF selection _ attempts(1) this] w(2,3) two show ?thesis
    by (intro exI[of _ attempts] exI[of _ w]) (simp add: sample_stamps_def)
qed

end
