(* ===== verification/Driver_Run.thy ===== *)
theory Driver_Run
  imports Wave_Properties
begin

text \<open>
  The loop of the driver over the coordinator: load, select, have the observation and the wave recorded,
  start the attempts, run the wave, and go round again. The wave is a parameter, since how its executions
  interleave is not the loop's doing (Wave_Pool says what it can do); the clock is the coordinator's.

  Source: packages/orchestrator-graph/src/canonical-execution-driver.ts.
\<close>

section \<open>The loop\<close>

datatype ('e, 'x) run_error =
    Driver_threw driver_error
  | Coordinator_threw "'e coordinator_error"
  | Wave_threw 'x
  | Waves_exhausted nat

type_synonym ('w, 'e, 'x) wave_runner =
  "execution_run \<Rightarrow> prepared_attempt list \<Rightarrow> run_projection \<Rightarrow> 'w \<Rightarrow> ('x + run_projection) \<times> 'w"

fun read_clock :: "('w, 'e) ports \<Rightarrow> string list \<Rightarrow> 'w \<Rightarrow> (string \<times> string) list \<times> 'w" where
  "read_clock pt [] w = ([], w)"
| "read_clock pt (n # ns) w = (let (t, w1) = pt_clock pt w; (xs, w2) = read_clock pt ns w1 in ((n, t) # xs, w2))"

text \<open>One turn: \<open>Inl\<close> of the state the run returns, or \<open>Inr\<close> of the state after a wave that leaves it running.\<close>

definition run_turn ::
  "host \<Rightarrow> ('w, 'e) ports \<Rightarrow> (explanation \<Rightarrow> explanation list \<Rightarrow> risk_estimate) \<Rightarrow> ('w, 'e, 'x) wave_runner \<Rightarrow>
     execution_run \<Rightarrow> 'w \<Rightarrow> (('e, 'x) run_error + run_projection + run_projection) \<times> 'w" where
  "run_turn h pt estimate wave run w0 =
     (case load_run h pt w0 of
        (Inl e, w1) \<Rightarrow> (Inl (Coordinator_threw e), w1)
      | (Inr s0, w1) \<Rightarrow>
          if p_lifecycle s0 \<noteq> Running \<and> p_lifecycle s0 \<noteq> Waiting_for_input then (Inr (Inl s0), w1)
          else (case select_frontier h estimate run s0 of
            Inl e \<Rightarrow> (Inl (Driver_threw e), w1)
          | Inr (nodeIds, shown) \<Rightarrow>
              (let (t1, w2) = pt_clock pt w1
               in case execute h pt (xr_runId run) (observe_command run s0 shown nodeIds t1) w2 of
                 (Inl e, w3) \<Rightarrow> (Inl (Coordinator_threw e), w3)
               | (Inr s1, w3) \<Rightarrow>
                   if p_lifecycle s1 \<noteq> Running \<or> nodeIds = [] then (Inr (Inl s1), w3)
                   else (let (t2, w4) = pt_clock pt w3; waveId = wave_id run s1
                     in case execute h pt (xr_runId run) (select_command run s1 shown nodeIds t2) w4 of
                       (Inl e, w5) \<Rightarrow> (Inl (Coordinator_threw e), w5)
                     | (Inr s2, w5) \<Rightarrow>
                         (let (stamped, w6) = read_clock pt nodeIds w5
                          in case create_attempts h run s2 waveId stamped of
                            Inl e \<Rightarrow> (Inl (Driver_threw e), w6)
                          | Inr attempts \<Rightarrow>
                              (case record_facts h pt (map pa_startedEvent attempts) w6 of
                                 (Inl e, w7) \<Rightarrow> (Inl (Coordinator_threw e), w7)
                               | (Inr s3, w7) \<Rightarrow>
                                   (case wave run attempts s3 w7 of
                                      (Inl x, w8) \<Rightarrow> (Inl (Wave_threw x), w8)
                                    | (Inr s4, w8) \<Rightarrow>
                                        (Inr (if p_lifecycle s4 \<noteq> Running then Inl s4 else Inr s4), w8))))))))"

fun run_turns ::
  "host \<Rightarrow> ('w, 'e) ports \<Rightarrow> (explanation \<Rightarrow> explanation list \<Rightarrow> risk_estimate) \<Rightarrow> ('w, 'e, 'x) wave_runner \<Rightarrow>
     nat \<Rightarrow> nat \<Rightarrow> execution_run \<Rightarrow> 'w \<Rightarrow> (('e, 'x) run_error + run_projection) \<times> 'w" where
  "run_turns h pt estimate wave 0 maxWaves run w = (Inl (Waves_exhausted maxWaves), w)"
| "run_turns h pt estimate wave (Suc k) maxWaves run w =
     (case run_turn h pt estimate wave run w of
        (Inl e, w1) \<Rightarrow> (Inl e, w1)
      | (Inr (Inl s), w1) \<Rightarrow> (Inr s, w1)
      | (Inr (Inr s), w1) \<Rightarrow> run_turns h pt estimate wave k maxWaves run w1)"

definition max_waves :: "execution_run \<Rightarrow> nat" where
  "max_waves run = (case xr_maxWaves run of Some k \<Rightarrow> k | None \<Rightarrow> length (okeys (gr_nodes (xr_graph run))) * 3)"

definition run_driver ::
  "host \<Rightarrow> ('w, 'e) ports \<Rightarrow> (explanation \<Rightarrow> explanation list \<Rightarrow> risk_estimate) \<Rightarrow> ('w, 'e, 'x) wave_runner \<Rightarrow>
     execution_run \<Rightarrow> 'w \<Rightarrow> (('e, 'x) run_error + run_projection) \<times> 'w" where
  "run_driver h pt estimate wave input w =
     (case prepare input of
        Inl e \<Rightarrow> (Inl (Driver_threw e), w)
      | Inr run \<Rightarrow> run_turns h pt estimate wave (max_waves run) (max_waves run) run w)"

section \<open>The wave the reducer is offered\<close>

text \<open>The waves of a run that only this driver selects for are numbered from one.\<close>

definition numbered_waves :: "execution_run \<Rightarrow> run_projection \<Rightarrow> bool" where
  "numbered_waves run s \<longleftrightarrow> (\<forall>w \<in> set (p_selectedWaves s). \<exists>k \<le> length (p_selectedWaves s).
     ws_waveId w = xr_runId run @ '':wave:'' @ decimal k)"

lemma wave_id_fresh:
  assumes "numbered_waves run s" "w \<in> set (p_selectedWaves s)"
  shows "ws_waveId w \<noteq> wave_id run s"
proof
  assume "ws_waveId w = wave_id run s"
  moreover obtain k where "k \<le> length (p_selectedWaves s)" "ws_waveId w = xr_runId run @ '':wave:'' @ decimal k"
    using assms by (auto simp: numbered_waves_def)
  ultimately show False using decimal_inj[of k "length (p_selectedWaves s) + 1"] by (simp add: wave_id_def)
qed

text \<open>
  The reducer accepts the wave the driver selects: when the observation of the same turn was folded and left the
  run running, the wave is within its width, made of nodes observed ready, and new; and the numbering goes on.
\<close>

lemma driven_waves_are_accepted:
  assumes "select_frontier h estimate run s = Inr (ids, shown)"
    and "observe_command run s shown ids t1 = Observe_readiness r" "on_readiness_observed r s = Inr s1"
    and "select_command run s1 shown ids t2 = Select_wave w" "p_lifecycle s1 = Running" "numbered_waves run s1"
  shows "on_wave_selected w s1 = Inr (s1\<lparr>p_selectedWaves := p_selectedWaves s1 @ [w]\<rparr>)"
    and "numbered_waves run (s1\<lparr>p_selectedWaves := p_selectedWaves s1 @ [w]\<rparr>)"
proof -
  have w: "ws_waveId w = wave_id run s1" "ws_nodeIds w = ids" "ws_maxParallel w = max_parallel run"
    using assms(4) by (auto simp: select_command_def)
  have r: "ro_readyNodeIds r = ids" using assms(2) by (auto simp: observe_command_def)
  have "set (ro_readyNodeIds (p_readiness s1)) = set ids"
    using assms(3) r by (auto simp: on_readiness_observed_def Let_def transition_def split: list.splits if_splits)
  with selection_fits(2)[OF assms(1)] w assms(5) wave_id_fresh[OF assms(6)]
  show "on_wave_selected w s1 = Inr (s1\<lparr>p_selectedWaves := p_selectedWaves s1 @ [w]\<rparr>)"
    by (auto simp: on_wave_selected_def list_ex_iff)
  show "numbered_waves run (s1\<lparr>p_selectedWaves := p_selectedWaves s1 @ [w]\<rparr>)"
    using assms(6) w by (auto simp: numbered_waves_def wave_id_def intro: le_SucI)
qed

end
