(* ===== verification/Effect_Store.thy ===== *)
theory Effect_Store
  imports Effect_Protocol
begin

text \<open>
  The values and the directories behind physical effects: the input an effect was requested with, stored under
  its digest, and every observation of it, stored as a receipt under its identity. A directory is the
  map from the names of its published files to what they hold; temporary files are never read and are left
  out. Publishing links a finished file to its name and fails when the name exists; \<open>race\<close> is what other
  processes do to the directory between the first look and the link.

  Sources: packages/contracts/src/effect-input.ts, packages/run-store/src/effect-input-store.ts,
  packages/run-store/src/effect-receipt-store.ts.
\<close>

section \<open>Effect inputs\<close>

text \<open>A payload is a plain object of finite JSON by its type here; the schema clones it in canonical form.\<close>

record effect_input_spec =
  es_kind :: effect_kind
  es_payload :: "(string \<times> json) list"

record effect_input =
  fi_inputDigest :: string
  fi_spec :: effect_input_spec

definition clone_payload :: "host \<Rightarrow> (string \<times> json) list \<Rightarrow> (string \<times> json) list" where
  "clone_payload h p = (case toCanonicalJsonValue h (JObj p) of JObj q \<Rightarrow> q | _ \<Rightarrow> [])"

definition parse_effect_input_spec :: "host \<Rightarrow> effect_input_spec \<Rightarrow> effect_input_spec" where
  "parse_effect_input_spec h s = s\<lparr>es_payload := clone_payload h (es_payload s)\<rparr>"

definition spec_json :: "effect_input_spec \<Rightarrow> json" where
  "spec_json s = JObj [(''schemaVersion'', JNum 1), (''kind'', JStr (kind_name (es_kind s))), (''payload'', JObj (es_payload s))]"

definition parse_effect_input :: "host \<Rightarrow> effect_input \<Rightarrow> effect_input option" where
  "parse_effect_input h x = do {
     d \<leftarrow> nonEmptyString (fi_inputDigest x); Some \<lparr>fi_inputDigest = d, fi_spec = parse_effect_input_spec h (fi_spec x)\<rparr> }"

definition buildEffectInput :: "host \<Rightarrow> effect_input_spec \<Rightarrow> effect_input option" where
  "buildEffectInput h raw = (let s = parse_effect_input_spec h raw in
     parse_effect_input h \<lparr>fi_inputDigest = computeCanonicalDigest h (spec_json s), fi_spec = s\<rparr>)"

definition validateEffectInputIdentity :: "host \<Rightarrow> effect_input \<Rightarrow> identity_issue list" where
  "validateEffectInputIdentity h x = (case parse_effect_input h x of
     None \<Rightarrow> [Schema_invalid]
   | Some p \<Rightarrow> if computeCanonicalDigest h (spec_json (fi_spec p)) \<noteq> fi_inputDigest p then [Id_mismatch] else [])"

definition same_spec :: "host \<Rightarrow> effect_input_spec \<Rightarrow> effect_input_spec \<Rightarrow> bool" where
  "same_spec h a b \<longleftrightarrow> toCanonicalJsonValue h (spec_json a) = toCanonicalJsonValue h (spec_json b)"

section \<open>The directory of inputs\<close>

datatype directory_error =
    Stored_schema_invalid
  | Stored_identity_invalid
  | Incomplete_json
  | Not_canonical_bytes
  | Foreign_content string
  | Name_mismatch string
  | Listed_twice string
  | Other_content string
  | Winner_unreadable string
  | Empty_receipt_id
  | No_digest

text \<open>A file of inputs holds a spec, in its canonical bytes or not, or is no complete JSON.\<close>

datatype input_file = Spec_file effect_input_spec bool | Broken_spec

type_synonym input_dir = "input_file obj"

definition parseAndBuild :: "host \<Rightarrow> effect_input_spec \<Rightarrow> directory_error + effect_input" where
  "parseAndBuild h s = requireE (buildEffectInput h (parse_effect_input_spec h s)) No_digest Inr"

definition read_input :: "host \<Rightarrow> input_dir \<Rightarrow> string \<Rightarrow> directory_error + effect_input option" where
  "read_input h d name = (case oget d name of
     None \<Rightarrow> Inr None
   | Some Broken_spec \<Rightarrow> Inl Incomplete_json
   | Some (Spec_file s canonical) \<Rightarrow> bindE (parseAndBuild h s) (\<lambda>x. throwIf (\<not> canonical) Not_canonical_bytes (Inr (Some x))))"

definition readInputIfPresent :: "host \<Rightarrow> (string \<Rightarrow> string) \<Rightarrow> input_dir \<Rightarrow> string \<Rightarrow> string \<Rightarrow> directory_error + effect_input option" where
  "readInputIfPresent h fname d name digest = bindE (read_input h d name) (\<lambda>r. case r of
     None \<Rightarrow> Inr None
   | Some x \<Rightarrow> throwIf (fi_inputDigest x \<noteq> digest) (Foreign_content (fi_inputDigest x))
       (throwIf (name \<noteq> fname (fi_inputDigest x)) (Name_mismatch (fi_inputDigest x)) (Inr (Some x))))"

definition assertIdenticalInput :: "host \<Rightarrow> effect_input \<Rightarrow> effect_input \<Rightarrow> directory_error + effect_input" where
  "assertIdenticalInput h existing candidate =
     (if same_spec h (fi_spec existing) (fi_spec candidate) then Inr existing else Inl (Other_content (fi_inputDigest candidate)))"

text \<open>
  Reading, publishing and reading again on a lost race. The error or the result, and the directory.
\<close>

definition put_input :: "host \<Rightarrow> (string \<Rightarrow> string) \<Rightarrow> (input_dir \<Rightarrow> input_dir) \<Rightarrow> effect_input_spec \<Rightarrow> input_dir \<Rightarrow>
    (directory_error + effect_input) \<times> input_dir" where
  "put_input h fname race s d =
     (case parseAndBuild h s of
        Inl e \<Rightarrow> (Inl e, d)
      | Inr x \<Rightarrow>
          (let name = fname (fi_inputDigest x) in
           case readInputIfPresent h fname d name (fi_inputDigest x) of
             Inl e \<Rightarrow> (Inl e, d)
           | Inr (Some existing) \<Rightarrow> (assertIdenticalInput h existing x, d)
           | Inr None \<Rightarrow>
               (let d1 = race d in
                if oget d1 name = None then (Inr x, oput name (Spec_file (fi_spec x) True) d1)
                else (bindE (readInputIfPresent h fname d1 name (fi_inputDigest x)) (\<lambda>w. case w of
                    None \<Rightarrow> Inl (Winner_unreadable (fi_inputDigest x))
                  | Some winner \<Rightarrow> assertIdenticalInput h winner x), d1))))"

definition get_input :: "host \<Rightarrow> (string \<Rightarrow> string) \<Rightarrow> string \<Rightarrow> input_dir \<Rightarrow> directory_error + effect_input option" where
  "get_input h fname digest d = requireE (nonEmptyString digest) No_digest (\<lambda>k. readInputIfPresent h fname d (fname k) k)"

section \<open>The directory of receipts\<close>

datatype receipt_file = Receipt_file physical_receipt | Broken_receipt

type_synonym receipt_dir = "receipt_file obj"

definition parseAndValidate :: "host \<Rightarrow> physical_receipt \<Rightarrow> directory_error + physical_receipt" where
  "parseAndValidate h raw = requireE (parse_physical_receipt h raw) Stored_schema_invalid (\<lambda>r.
     throwIf (validatePhysicalEffectReceiptIdentity h r \<noteq> []) Stored_identity_invalid (Inr r))"

definition read_receipt :: "host \<Rightarrow> receipt_dir \<Rightarrow> string \<Rightarrow> directory_error + physical_receipt option" where
  "read_receipt h d name = (case oget d name of
     None \<Rightarrow> Inr None
   | Some Broken_receipt \<Rightarrow> Inl Incomplete_json
   | Some (Receipt_file r) \<Rightarrow> bindE (parseAndValidate h r) (\<lambda>x. Inr (Some x)))"

definition readReceiptIfPresent :: "host \<Rightarrow> receipt_dir \<Rightarrow> string \<Rightarrow> string \<Rightarrow> directory_error + physical_receipt option" where
  "readReceiptIfPresent h d name i = bindE (read_receipt h d name) (\<lambda>r. case r of
     None \<Rightarrow> Inr None
   | Some x \<Rightarrow> throwIf (pr_receiptId x \<noteq> i) (Foreign_content (pr_receiptId x)) (Inr (Some x)))"

definition assertIdenticalReceipt :: "host \<Rightarrow> physical_receipt \<Rightarrow> physical_receipt \<Rightarrow> directory_error + physical_receipt" where
  "assertIdenticalReceipt h existing candidate =
     (if same_receipt h existing candidate then Inr existing else Inl (Other_content (pr_receiptId candidate)))"

definition put_receipt :: "host \<Rightarrow> (string \<Rightarrow> string) \<Rightarrow> (receipt_dir \<Rightarrow> receipt_dir) \<Rightarrow> physical_receipt \<Rightarrow> receipt_dir \<Rightarrow>
    (directory_error + physical_receipt) \<times> receipt_dir" where
  "put_receipt h fname race raw d =
     (case parseAndValidate h raw of
        Inl e \<Rightarrow> (Inl e, d)
      | Inr x \<Rightarrow>
          (let name = fname (pr_receiptId x) in
           case readReceiptIfPresent h d name (pr_receiptId x) of
             Inl e \<Rightarrow> (Inl e, d)
           | Inr (Some existing) \<Rightarrow> (assertIdenticalReceipt h existing x, d)
           | Inr None \<Rightarrow>
               (let d1 = race d in
                if oget d1 name = None then (Inr x, oput name (Receipt_file x) d1)
                else (bindE (readReceiptIfPresent h d1 name (pr_receiptId x)) (\<lambda>w. case w of
                    None \<Rightarrow> Inl (Winner_unreadable (pr_receiptId x))
                  | Some winner \<Rightarrow> assertIdenticalReceipt h winner x), d1))))"

definition get_receipt :: "host \<Rightarrow> (string \<Rightarrow> string) \<Rightarrow> string \<Rightarrow> receipt_dir \<Rightarrow> directory_error + physical_receipt option" where
  "get_receipt h fname i d = throwIf (i = []) Empty_receipt_id (readReceiptIfPresent h d (fname i) i)"

text \<open>One entry of the listing; a file that vanishes while the directory is listed is outside the model.\<close>

definition list_step :: "host \<Rightarrow> (string \<Rightarrow> string) \<Rightarrow> receipt_dir \<Rightarrow> physical_receipt list \<Rightarrow> string \<Rightarrow> directory_error + physical_receipt list" where
  "list_step h fname d found entry = bindE (read_receipt h d entry) (\<lambda>r. case r of
     None \<Rightarrow> Inr found
   | Some x \<Rightarrow> throwIf (entry \<noteq> fname (pr_receiptId x)) (Name_mismatch (pr_receiptId x))
       (throwIf (pr_receiptId x \<in> pr_receiptId ` set found) (Listed_twice (pr_receiptId x)) (Inr (found @ [x]))))"

definition list_receipts :: "host \<Rightarrow> (string \<Rightarrow> string) \<Rightarrow> receipt_dir \<Rightarrow> directory_error + physical_receipt list" where
  "list_receipts h fname d = bindE (foldE (list_step h fname d) [] (sort (remdups (map fst d)))) (\<lambda>rs.
     Inr (sort_le (\<lambda>a b. h_le h (pr_receiptId a) (pr_receiptId b)) rs))"

section \<open>What the directory promises\<close>

text \<open>
  Publishing is immutable: every file that was there still holds what it held. Other processes obey this
  as well, since they publish with the same operation.
\<close>

definition dir_grows :: "'f obj \<Rightarrow> 'f obj \<Rightarrow> bool" where
  "dir_grows d d' \<longleftrightarrow> (\<forall>name f. oget d name = Some f \<longrightarrow> oget d' name = Some f)"

lemma dir_grows_refl [simp]: "dir_grows d d"
  by (simp add: dir_grows_def)

lemma dir_grows_trans: "dir_grows d d1 \<Longrightarrow> dir_grows d1 d2 \<Longrightarrow> dir_grows d d2"
  by (simp add: dir_grows_def)

lemma dir_grows_oput: "oget d name = None \<Longrightarrow> dir_grows d (oput name f d)"
  by (auto simp: dir_grows_def)

lemma put_receipt_grows:
  assumes "dir_grows d (race d)" and "put_receipt h fname race raw d = (res, d')"
  shows "dir_grows d d'"
  using assms dir_grows_trans[OF assms(1) dir_grows_oput]
  by (auto simp: put_receipt_def Let_def split: sum.splits option.splits if_splits)

lemma put_input_grows:
  assumes "dir_grows d (race d)" and "put_input h fname race s d = (res, d')"
  shows "dir_grows d d'"
  using assms dir_grows_trans[OF assms(1) dir_grows_oput]
  by (auto simp: put_input_def Let_def split: sum.splits option.splits if_splits)

text \<open>What was published is what is read: the receipt is in the file of its identity.\<close>

lemma parseAndValidate_fixed: "parseAndValidate h raw = Inr x \<Longrightarrow> parseAndValidate h x = Inr x"
  by (auto simp: parseAndValidate_def dest: physical_receipt.idem)

lemma read_receipt_stored: "oget d name = Some (Receipt_file x) \<Longrightarrow> parseAndValidate h x = Inr x \<Longrightarrow> read_receipt h d name = Inr (Some x)"
  by (simp add: read_receipt_def)

lemma readReceipt_read: "readReceiptIfPresent h d name i = Inr (Some x) \<Longrightarrow> read_receipt h d name = Inr (Some x) \<and> pr_receiptId x = i"
  by (auto simp: readReceiptIfPresent_def split: option.splits)

lemma identical_Inr [simp]: "assertIdenticalReceipt h e c = Inr p \<longleftrightarrow> same_receipt h e c \<and> p = e"
  by (auto simp: assertIdenticalReceipt_def)

lemma put_receipt_outcome:
  assumes "put_receipt h fname race raw d = (Inr p, d')" and "parseAndValidate h raw = Inr x"
    and "readReceiptIfPresent h d (fname (pr_receiptId x)) (pr_receiptId x) = Inr r"
  shows "readReceiptIfPresent h d' (fname (pr_receiptId x)) (pr_receiptId x) = Inr (Some p) \<or>
    p = x \<and> oget d' (fname (pr_receiptId x)) = Some (Receipt_file x)"
proof (cases r)
  case None
  with assms have put: "(if oget (race d) (fname (pr_receiptId x)) = None
      then (Inr x, oput (fname (pr_receiptId x)) (Receipt_file x) (race d))
      else (bindE (readReceiptIfPresent h (race d) (fname (pr_receiptId x)) (pr_receiptId x)) (\<lambda>w. case w of
          None \<Rightarrow> Inl (Winner_unreadable (pr_receiptId x)) | Some winner \<Rightarrow> assertIdenticalReceipt h winner x), race d)) = (Inr p, d')"
    by (simp add: put_receipt_def Let_def)
  then show ?thesis by (auto split: if_splits option.splits)
qed (use assms in \<open>simp add: put_receipt_def Let_def\<close>)

lemma put_receipt_readable:
  assumes "put_receipt h fname race raw d = (Inr p, d')"
  shows "read_receipt h d' (fname (pr_receiptId p)) = Inr (Some p)"
proof -
  obtain x where x: "parseAndValidate h raw = Inr x"
    using assms by (cases "parseAndValidate h raw") (simp_all add: put_receipt_def Let_def)
  obtain r where r: "readReceiptIfPresent h d (fname (pr_receiptId x)) (pr_receiptId x) = Inr r"
    using assms x by (cases "readReceiptIfPresent h d (fname (pr_receiptId x)) (pr_receiptId x)") (simp_all add: put_receipt_def Let_def)
  from put_receipt_outcome[OF assms x r] show ?thesis
  proof
    assume "readReceiptIfPresent h d' (fname (pr_receiptId x)) (pr_receiptId x) = Inr (Some p)"
    then show ?thesis using readReceipt_read[of h d' "fname (pr_receiptId x)" "pr_receiptId x" p] by simp
  next
    assume "p = x \<and> oget d' (fname (pr_receiptId x)) = Some (Receipt_file x)"
    then show ?thesis using parseAndValidate_fixed[OF x] by (simp add: read_receipt_stored)
  qed
qed

lemma read_receipt_grows:
  "read_receipt h d name = Inr (Some x) \<Longrightarrow> dir_grows d d' \<Longrightarrow> read_receipt h d' name = Inr (Some x)"
  by (auto simp: read_receipt_def dir_grows_def split: option.splits receipt_file.splits)

text \<open>A listing that succeeds has every readable receipt.\<close>

lemma list_steps:
  assumes "foldE (list_step h fname d) found entries = Inr rs"
  shows "set found \<subseteq> set rs \<and> (\<forall>e \<in> set entries. \<forall>x. read_receipt h d e = Inr (Some x) \<longrightarrow> x \<in> set rs)"
  using assms
proof (induction entries arbitrary: found)
  case (Cons e es)
  then obtain next1 where n: "list_step h fname d found e = Inr next1" "foldE (list_step h fname d) next1 es = Inr rs" by auto
  from n(1) have "set found \<subseteq> set next1 \<and> (\<forall>x. read_receipt h d e = Inr (Some x) \<longrightarrow> x \<in> set next1)"
    by (auto simp: list_step_def split: option.splits)
  with Cons.IH[OF n(2)] show ?case by auto
qed simp

lemma listed:
  assumes "list_receipts h fname d = Inr rs" and "read_receipt h d name = Inr (Some x)"
  shows "x \<in> set rs"
proof -
  from assms(2) have "name \<in> set (sort (remdups (map fst d)))"
    by (cases "oget d name") (auto simp: read_receipt_def dest!: map_of_SomeD intro: rev_image_eqI)
  moreover obtain found where "foldE (list_step h fname d) [] (sort (remdups (map fst d))) = Inr found"
    "set rs = set found" using assms(1) by (auto simp: list_receipts_def)
  ultimately show ?thesis using list_steps assms(2) by blast
qed

end
