(* ===== verification/Effect_Dispatch.thy ===== *)
theory Effect_Dispatch
  imports Effect_Store
begin

text \<open>
  The dispatcher of physical effects: from the receipts of an effect it decides whether its adapter executes it,
  only looks for what became of it, or is not called at all. Its stores and adapters are arguments; a
  dispatch takes the state of the receipt store and of the rest of the world and returns an error or the
  receipts, and the state. Dispatches of one effect run one after the other (\<open>enqueue\<close>), so a sequence of
  them is their composition; what others publish in between is growth of the store.

  Source: packages/run-engine/src/effect-dispatcher.ts.
\<close>

section \<open>Ports\<close>

datatype dispatch_mode = Observe | Reconcile

record observation_input =
  oi_observation :: physical_observation
  oi_observedAt :: string
  oi_processIdentity :: "process_identity option"
  oi_resultDigest :: "string option"
  oi_reason :: "string option"

datatype ('x, 'e) dispatch_error =
    Adapter_duplicate effect_kind
  | Adapters_missing "effect_kind list"
  | Intent_schema
  | Intent_identity
  | Observer_epoch_empty
  | Input_missing string
  | Input_invalid
  | Input_of_other_digest string
  | Input_of_other_kind effect_kind
  | Receipts_corrupt "replay_issue list"
  | Receipt_not_bound string
  | Several_terminals
  | No_adapter effect_kind
  | No_terminal string
  | Observation_invalid
  | Published_invalid
  | Published_other_epoch
  | Published_other_content
  | Store_threw 'x
  | Port_threw 'e

text \<open>\<open>list\<close> and \<open>put\<close> of the receipt store over its state, \<open>get\<close> of the input store, the two ports beside them.\<close>

record ('d, 'v, 'x, 'e) dispatch_ports =
  dp_list :: "'d \<Rightarrow> 'x + physical_receipt list"
  dp_put :: "physical_receipt \<Rightarrow> 'd \<Rightarrow> ('x + physical_receipt) \<times> 'd"
  dp_input :: "string \<Rightarrow> 'v \<Rightarrow> ('e + effect_input option) \<times> 'v"
  dp_invalidation :: "('v \<Rightarrow> ('e + string option) \<times> 'v) option"

record ('d, 'v, 'x, 'e) adapter_context =
  cx_observerDaemonEpoch :: string
  cx_inputSpec :: effect_input_spec
  cx_priorReceipts :: "physical_receipt list"
  cx_invalidationReason :: "'v \<Rightarrow> ('e + string option) \<times> 'v"
  cx_record :: "observation_input \<Rightarrow> 'd \<Rightarrow> (('x, 'e) dispatch_error + physical_receipt) \<times> 'd"

record ('d, 'v, 'x, 'e) adapter =
  ad_execute :: "effect_intent \<Rightarrow> ('d, 'v, 'x, 'e) adapter_context \<Rightarrow> 'd \<times> 'v \<Rightarrow> (('x, 'e) dispatch_error + unit) \<times> 'd \<times> 'v"
  ad_reconcile :: "effect_intent \<Rightarrow> ('d, 'v, 'x, 'e) adapter_context \<Rightarrow> 'd \<times> 'v \<Rightarrow> (('x, 'e) dispatch_error + unit) \<times> 'd \<times> 'v"

section \<open>The registry of adapters\<close>

definition effect_kinds :: "effect_kind list" where
  "effect_kinds = [Model_call, Process_spawn, Process_terminate, Sandbox_create, Git_mutation, Artifact_materialize,
     Validation, Delivery, Cleanup]"

fun register :: "(effect_kind \<times> 'a) list \<Rightarrow> (effect_kind \<times> 'a) list \<Rightarrow> ('x, 'e) dispatch_error + (effect_kind \<times> 'a) list" where
  "register known [] = Inr known"
| "register known ((k, a) # rest) =
     (if map_of known k \<noteq> None then Inl (Adapter_duplicate k) else register (known @ [(k, a)]) rest)"

definition buildAdapterRegistry :: "(effect_kind \<times> 'a) list \<Rightarrow> ('x, 'e) dispatch_error + (effect_kind \<times> 'a) list" where
  "buildAdapterRegistry adapters = bindE (register [] adapters) (\<lambda>registry.
     let missing = filter (\<lambda>k. map_of registry k = None) effect_kinds
     in throwIf (missing \<noteq> []) (Adapters_missing missing) (Inr registry))"

section \<open>Loading\<close>

definition parseIntent :: "host \<Rightarrow> effect_intent \<Rightarrow> ('x, 'e) dispatch_error + effect_intent" where
  "parseIntent h raw = requireE (parse_effect_intent h raw) Intent_schema (\<lambda>i.
     throwIf (validateEffectIntentIdentity h i \<noteq> []) Intent_identity (Inr i))"

definition check_input :: "host \<Rightarrow> effect_intent \<Rightarrow> effect_input option \<Rightarrow> ('x, 'e) dispatch_error + effect_input_spec" where
  "check_input h intent stored =
     requireE stored (Input_missing (ei_inputDigest intent)) (\<lambda>raw.
     requireE (parse_effect_input h raw) Input_invalid (\<lambda>x.
     throwIf (validateEffectInputIdentity h x \<noteq> []) Input_invalid
     (throwIf (fi_inputDigest x \<noteq> ei_inputDigest intent) (Input_of_other_digest (fi_inputDigest x))
     (throwIf (es_kind (fi_spec x) \<noteq> ei_kind intent) (Input_of_other_kind (es_kind (fi_spec x)))
     (Inr (fi_spec x))))))"

definition terminal_receipts :: "physical_receipt list \<Rightarrow> physical_receipt list" where
  "terminal_receipts rs = filter (\<lambda>r. pr_observation r \<noteq> Started) rs"

definition authoritativeTerminal :: "physical_receipt list \<Rightarrow> ('x, 'e) dispatch_error + physical_receipt option" where
  "authoritativeTerminal rs = (case terminal_receipts rs of
     [] \<Rightarrow> Inr None | [r] \<Rightarrow> Inr (Some r) | _ \<Rightarrow> Inl Several_terminals)"

text \<open>\<open>compareReceipts(a, b) <= 0\<close>.\<close>

definition receipt_le :: "host \<Rightarrow> physical_receipt \<Rightarrow> physical_receipt \<Rightarrow> bool" where
  "receipt_le h a b \<longleftrightarrow>
     (if h_le h (pr_observedAt a) (pr_observedAt b) \<and> h_le h (pr_observedAt b) (pr_observedAt a)
      then h_le h (pr_receiptId a) (pr_receiptId b) else h_le h (pr_observedAt a) (pr_observedAt b))"

definition bound_receipts :: "host \<Rightarrow> effect_intent \<Rightarrow> physical_receipt list \<Rightarrow> ('x, 'e) dispatch_error + physical_receipt list" where
  "bound_receipts h intent stored =
     (let replay = replayPhysicalEffectReceipts h stored in
      throwIf (rs_issues replay \<noteq> []) (Receipts_corrupt (rs_issues replay))
      (let rs = sort_le (receipt_le h) (filter (\<lambda>r. pr_effectId r = ei_effectId intent) (map snd (rs_byId replay)))
       in case filter (\<lambda>r. validatePhysicalEffectReceiptBinding h r intent \<noteq> []) rs of
            r # _ \<Rightarrow> Inl (Receipt_not_bound (pr_receiptId r))
          | [] \<Rightarrow> bindE (authoritativeTerminal rs) (\<lambda>_. Inr rs)))"

definition loadBoundReceipts ::
  "host \<Rightarrow> ('d, 'v, 'x, 'e) dispatch_ports \<Rightarrow> effect_intent \<Rightarrow> 'd \<Rightarrow> ('x, 'e) dispatch_error + physical_receipt list" where
  "loadBoundReceipts h pt intent d = bindE (map_sum Store_threw id (dp_list pt d)) (bound_receipts h intent)"

section \<open>What an adapter may record\<close>

definition assertPublishedReceipt ::
  "host \<Rightarrow> effect_intent \<Rightarrow> string \<Rightarrow> physical_receipt \<Rightarrow> physical_receipt \<Rightarrow> ('x, 'e) dispatch_error + physical_receipt" where
  "assertPublishedReceipt h intent epoch candidate published =
     requireE (parse_physical_receipt h published) Published_invalid (\<lambda>r.
     throwIf (validatePhysicalEffectReceiptIdentity h r \<noteq> [] \<or> validatePhysicalEffectReceiptBinding h r intent \<noteq> []) Published_invalid
     (throwIf (pr_daemonEpoch r \<noteq> epoch) Published_other_epoch
     (throwIf (\<not> same_receipt h r candidate) Published_other_content (Inr r))))"

definition record_observation ::
  "host \<Rightarrow> ('d, 'v, 'x, 'e) dispatch_ports \<Rightarrow> effect_intent \<Rightarrow> string \<Rightarrow> observation_input \<Rightarrow> 'd \<Rightarrow>
     (('x, 'e) dispatch_error + physical_receipt) \<times> 'd" where
  "record_observation h pt intent epoch ob d =
     (case buildPhysicalEffectReceipt h \<lparr>pr_effectId = ei_effectId intent, pr_observation = oi_observation ob,
         pr_inputDigest = ei_inputDigest intent, pr_daemonEpoch = epoch, pr_processIdentity = oi_processIdentity ob,
         pr_resultDigest = oi_resultDigest ob, pr_reason = oi_reason ob, pr_observedAt = oi_observedAt ob\<rparr> of
        None \<Rightarrow> (Inl Observation_invalid, d)
      | Some candidate \<Rightarrow> (case dp_put pt candidate d of
          (Inl x, d1) \<Rightarrow> (Inl (Store_threw x), d1)
        | (Inr published, d1) \<Rightarrow> (assertPublishedReceipt h intent epoch candidate published, d1)))"

definition invalidation_reason :: "('d, 'v, 'x, 'e) dispatch_ports \<Rightarrow> 'v \<Rightarrow> ('e + string option) \<times> 'v" where
  "invalidation_reason pt v = (case dp_invalidation pt of None \<Rightarrow> (Inr None, v) | Some reason \<Rightarrow> reason v)"

definition createContext ::
  "host \<Rightarrow> ('d, 'v, 'x, 'e) dispatch_ports \<Rightarrow> effect_intent \<Rightarrow> string \<Rightarrow> effect_input_spec \<Rightarrow> physical_receipt list \<Rightarrow>
     ('d, 'v, 'x, 'e) adapter_context" where
  "createContext h pt intent epoch spec prior = \<lparr>cx_observerDaemonEpoch = epoch, cx_inputSpec = spec,
     cx_priorReceipts = prior, cx_invalidationReason = invalidation_reason pt, cx_record = record_observation h pt intent epoch\<rparr>"

section \<open>Dispatching\<close>

text \<open>What comes after the adapter: a terminal receipt, an accepted absence of one, or an error.\<close>

definition conclude ::
  "host \<Rightarrow> ('d, 'v, 'x, 'e) dispatch_ports \<Rightarrow> dispatch_mode \<Rightarrow> effect_intent \<Rightarrow> 'd \<times> 'v \<Rightarrow>
     (('x, 'e) dispatch_error + physical_receipt list) \<times> 'd \<times> 'v" where
  "conclude h pt mode intent = (\<lambda>(d, v).
     case loadBoundReceipts h pt intent d of
       Inl e \<Rightarrow> (Inl e, d, v)
     | Inr completed \<Rightarrow>
         if terminal_receipts completed \<noteq> [] then (Inr completed, d, v)
         else (case invalidation_reason pt v of
           (Inl e, v1) \<Rightarrow> (Inl (Port_threw e), d, v1)
         | (Inr (Some r), v1) \<Rightarrow> (Inr completed, d, v1)
         | (Inr None, v1) \<Rightarrow>
             if mode = Reconcile \<and> ei_idempotency intent = Never_repeat_unknown \<and> completed = []
             then (Inr [], d, v1) else (Inl (No_terminal (ei_effectId intent)), d, v1)))"

definition dispatch ::
  "host \<Rightarrow> ('d, 'v, 'x, 'e) dispatch_ports \<Rightarrow> (effect_kind \<times> ('d, 'v, 'x, 'e) adapter) list \<Rightarrow> effect_intent \<Rightarrow> string \<Rightarrow>
     dispatch_mode \<Rightarrow> 'd \<times> 'v \<Rightarrow> (('x, 'e) dispatch_error + physical_receipt list) \<times> 'd \<times> 'v" where
  "dispatch h pt registry intent epoch mode = (\<lambda>(d, v).
     if trim epoch = [] then (Inl Observer_epoch_empty, d, v)
     else case dp_input pt (ei_inputDigest intent) v of
       (Inl e, v1) \<Rightarrow> (Inl (Port_threw e), d, v1)
     | (Inr stored, v1) \<Rightarrow>
       (case check_input h intent stored of
          Inl e \<Rightarrow> (Inl e, d, v1)
        | Inr spec \<Rightarrow>
          (case loadBoundReceipts h pt intent d of
             Inl e \<Rightarrow> (Inl e, d, v1)
           | Inr prior \<Rightarrow>
             if terminal_receipts prior \<noteq> [] then (Inr prior, d, v1)
             else (case invalidation_reason pt v1 of
               (Inl e, v2) \<Rightarrow> (Inl (Port_threw e), d, v2)
             | (Inr invalid, v2) \<Rightarrow>
               if mode = Observe \<and> prior = [] \<and> invalid \<noteq> None then (Inr prior, d, v2)
               else (case map_of registry (ei_kind intent) of
                 None \<Rightarrow> (Inl (No_adapter (ei_kind intent)), d, v2)
               | Some adapter \<Rightarrow>
                 (let run = (if mode = Observe \<and> prior = [] \<and> invalid = None then ad_execute adapter else ad_reconcile adapter)
                  in case run intent (createContext h pt intent epoch spec prior) (d, v2) of
                    (Inl e, w) \<Rightarrow> (Inl e, w)
                  | (Inr _, w) \<Rightarrow> conclude h pt mode intent w))))))"

definition observe_effect ::
  "host \<Rightarrow> ('d, 'v, 'x, 'e) dispatch_ports \<Rightarrow> (effect_kind \<times> ('d, 'v, 'x, 'e) adapter) list \<Rightarrow> effect_intent \<Rightarrow>
     'd \<times> 'v \<Rightarrow> (('x, 'e) dispatch_error + physical_receipt list) \<times> 'd \<times> 'v" where
  "observe_effect h pt registry raw w = (case parseIntent h raw of
     Inl e \<Rightarrow> (Inl e, w) | Inr intent \<Rightarrow> dispatch h pt registry intent (ei_daemonEpoch intent) Observe w)"

definition reconcile_effect ::
  "host \<Rightarrow> ('d, 'v, 'x, 'e) dispatch_ports \<Rightarrow> (effect_kind \<times> ('d, 'v, 'x, 'e) adapter) list \<Rightarrow> effect_intent \<Rightarrow> string \<Rightarrow>
     'd \<times> 'v \<Rightarrow> (('x, 'e) dispatch_error + physical_receipt list) \<times> 'd \<times> 'v" where
  "reconcile_effect h pt registry raw epoch w = (case parseIntent h raw of
     Inl e \<Rightarrow> (Inl e, w)
   | Inr intent \<Rightarrow> if trim epoch = [] then (Inl Observer_epoch_empty, w)
       else dispatch h pt registry intent epoch Reconcile w)"

end
