(* ===== verification/Effect_Properties.thy ===== *)
theory Effect_Properties
  imports Effect_Dispatch Sample_Run
begin

text \<open>
  The properties of physical effects: what the receipt store promises the dispatcher, as a locale with the
  file store as its interpretation, and what a receipt keeps from happening again.

  Sources: packages/run-engine/src/effect-dispatcher.ts, packages/run-store/src/effect-receipt-store.ts.
\<close>

section \<open>Replaying distinct receipts\<close>

lemma update_new: "k \<notin> fst ` set al \<Longrightarrow> AList.update k v al = al @ [(k, v)]"
  by (induction al) auto

lemma replay_step_issues: "rs_issues (replay_step h ir s) = [] \<Longrightarrow> rs_issues s = []"
  by (auto simp: replay_step_def split: option.splits if_splits)

lemma replay_issues: "rs_issues (fold (replay_step h) irs s) = [] \<Longrightarrow> rs_issues s = []"
  by (induction irs arbitrary: s) (auto dest: replay_step_issues)

lemma replay_distinct:
  assumes "rs_issues (fold (replay_step h) (enumerate n xs) s) = []" and "distinct (map pr_receiptId xs)"
    and "\<forall>x \<in> set xs. parse_physical_receipt h x = Some x" and "pr_receiptId ` set xs \<inter> fst ` set (rs_byId s) = {}"
  shows "map snd (rs_byId (fold (replay_step h) (enumerate n xs) s)) = map snd (rs_byId s) @ xs"
  using assms
proof (induction xs arbitrary: n s)
  case (Cons x xs)
  let ?t = "replay_step h (n, x) s"
  have ok: "rs_issues ?t = []" using Cons.prems(1) by (auto dest: replay_issues)
  have new: "pr_receiptId x \<notin> fst ` set (rs_byId s)" using Cons.prems(4) by simp
  then have "oget (rs_byId s) (pr_receiptId x) = None" by (simp add: map_of_eq_None_iff)
  with ok Cons.prems(3) have "validatePhysicalEffectReceiptIdentity h x = []"
    by (auto simp: replay_step_def split: if_splits)
  with \<open>oget (rs_byId s) (pr_receiptId x) = None\<close> Cons.prems(3) new
  have t: "rs_byId ?t = rs_byId s @ [(pr_receiptId x, x)]" by (simp add: replay_step_def update_new)
  have "pr_receiptId ` set xs \<inter> fst ` set (rs_byId ?t) = {}" using Cons.prems(2,4) t by auto
  with Cons.IH[of "Suc n" ?t] Cons.prems t show ?case by simp
qed simp

text \<open>What is left when no receipt of the effect is refused.\<close>

lemma unfiltered:
  "(case filter P xs of r # _ \<Rightarrow> Inl (f r) | [] \<Rightarrow> bindE m (\<lambda>_. Inr xs)) = Inr ys \<Longrightarrow>
     ys = xs \<and> (\<forall>x \<in> set xs. \<not> P x) \<and> (\<exists>u. m = Inr u)"
  by (cases "filter P xs") (auto simp: filter_empty_conv)

lemma bound_receipts_Inr:
  assumes "bound_receipts h intent stored = Inr rs"
  shows "rs = sort_le (receipt_le h) (filter (\<lambda>r. pr_effectId r = ei_effectId intent)
      (map snd (rs_byId (replayPhysicalEffectReceipts h stored))))"
    and "\<forall>r \<in> set rs. validatePhysicalEffectReceiptBinding h r intent = []" "length (terminal_receipts rs) \<le> 1"
    and "rs_issues (replayPhysicalEffectReceipts h stored) = []"
proof -
  show "rs_issues (replayPhysicalEffectReceipts h stored) = []" using assms by (simp add: bound_receipts_def Let_def)
  from unfiltered[OF assms[unfolded bound_receipts_def Let_def throwIf_Inr, THEN conjunct2]]
  show eq: "rs = sort_le (receipt_le h) (filter (\<lambda>r. pr_effectId r = ei_effectId intent)
      (map snd (rs_byId (replayPhysicalEffectReceipts h stored))))"
    and "\<forall>r \<in> set rs. validatePhysicalEffectReceiptBinding h r intent = []" by auto
  from unfiltered[OF assms[unfolded bound_receipts_def Let_def throwIf_Inr, THEN conjunct2]] obtain u :: "physical_receipt option"
    where "(authoritativeTerminal rs :: ('a, 'b) dispatch_error + _) = Inr u" unfolding eq by blast
  then show "length (terminal_receipts rs) \<le> 1" by (auto simp: authoritativeTerminal_def split: list.splits)
qed

lemma loadBound_Inr:
  fixes pt :: "('d, 'v, 'x, 'e) dispatch_ports"
  assumes "loadBoundReceipts h pt intent d = Inr rs"
  obtains stored where "dp_list pt d = Inr stored" "(bound_receipts h intent stored :: ('x, 'e) dispatch_error + _) = Inr rs"
  using assms by (cases "dp_list pt d") (auto simp: loadBoundReceipts_def)

section \<open>The contract of a receipt store\<close>

locale receipt_log =
  fixes h :: host
    and read_all :: "'d \<Rightarrow> 'x + physical_receipt list"
    and publish :: "physical_receipt \<Rightarrow> 'd \<Rightarrow> ('x + physical_receipt) \<times> 'd"
    and grows :: "'d \<Rightarrow> 'd \<Rightarrow> bool"
  assumes published_listed: "publish r d = (Inr p, d1) \<Longrightarrow> grows d1 d2 \<Longrightarrow> read_all d2 = Inr rs \<Longrightarrow> p \<in> set rs"
    and listed_valid: "read_all d = Inr rs \<Longrightarrow> distinct (map pr_receiptId rs) \<and> (\<forall>r \<in> set rs. parse_physical_receipt h r = Some r)"
begin

lemma loaded:
  fixes pt :: "('d, 'v, 'x, 'b) dispatch_ports"
  assumes "dp_list pt = read_all" and "loadBoundReceipts h pt intent d = Inr rs"
  obtains stored where "read_all d = Inr stored" "set rs = {r \<in> set stored. pr_effectId r = ei_effectId intent}"
proof -
  from assms(2) obtain stored where stored: "read_all d = Inr stored" "(bound_receipts h intent stored :: ('x, 'b) dispatch_error + _) = Inr rs"
    by (rule loadBound_Inr) (simp add: assms(1))
  let ?replay = "replayPhysicalEffectReceipts h stored"
  have "rs_issues ?replay = []" using bound_receipts_Inr(4)[OF stored(2)] .
  then have "map snd (rs_byId ?replay) = stored"
    using replay_distinct[of h 0 stored "\<lparr>rs_byId = [], rs_identical = [], rs_issues = []\<rparr>"] listed_valid[OF stored(1)]
    by (simp add: replayPhysicalEffectReceipts_def)
  with bound_receipts_Inr(1)[OF stored(2)] have "set rs = {r \<in> set stored. pr_effectId r = ei_effectId intent}" by simp
  with stored(1) that show thesis by blast
qed

lemma recorded_is_loaded:
  assumes "publish r d = (Inr p, d1)" "grows d1 d2" "pr_effectId p = ei_effectId intent" "dp_list pt = read_all"
    and "loadBoundReceipts h pt intent d2 = Inr rs"
  shows "p \<in> set rs"
proof -
  from assms(4,5) obtain stored where "read_all d2 = Inr stored" "set rs = {r \<in> set stored. pr_effectId r = ei_effectId intent}"
    by (rule loaded)
  with published_listed[OF assms(1,2)] assms(3) show ?thesis by auto
qed

end

lemma read_receipt_parsed:
  assumes "read_receipt h d e = Inr (Some x)"
  shows "parse_physical_receipt h x = Some x"
proof -
  from assms obtain raw where "parseAndValidate h raw = Inr x"
    by (auto simp: read_receipt_def split: option.splits receipt_file.splits)
  from parseAndValidate_fixed[OF this] show ?thesis by (auto simp: parseAndValidate_def)
qed

lemma list_step_valid:
  assumes "list_step h fname d found e = Inr found'"
    and "distinct (map pr_receiptId found) \<and> (\<forall>r \<in> set found. parse_physical_receipt h r = Some r)"
  shows "distinct (map pr_receiptId found') \<and> (\<forall>r \<in> set found'. parse_physical_receipt h r = Some r)"
proof (cases "read_receipt h d e")
  case (Inr r)
  show ?thesis
  proof (cases r)
    case (Some x)
    with Inr have "parse_physical_receipt h x = Some x" using read_receipt_parsed by blast
    with assms Inr Some show ?thesis by (auto simp: list_step_def)
  qed (use assms Inr in \<open>simp add: list_step_def\<close>)
qed (use assms in \<open>simp add: list_step_def\<close>)

lemma listed_receipts_valid:
  assumes "list_receipts h fname d = Inr rs"
  shows "distinct (map pr_receiptId rs) \<and> (\<forall>r \<in> set rs. parse_physical_receipt h r = Some r)"
proof -
  from assms obtain found where found: "foldE (list_step h fname d) [] (sort (remdups (map fst d))) = Inr found"
    "rs = sort_le (\<lambda>a b. h_le h (pr_receiptId a) (pr_receiptId b)) found" by (auto simp: list_receipts_def)
  from found(1) have "distinct (map pr_receiptId found) \<and> (\<forall>r \<in> set found. parse_physical_receipt h r = Some r)"
    by (rule foldE_invariant) (auto dest: list_step_valid)
  moreover have "mset (map pr_receiptId rs) = mset (map pr_receiptId found)" by (simp add: found(2))
  ultimately show ?thesis using found(2) by (metis mset_eq_imp_distinct_iff set_sort_le)
qed

interpretation file_log: receipt_log h "list_receipts h fname" "put_receipt h fname race" dir_grows
  by unfold_locales
    (auto intro: listed read_receipt_grows put_receipt_readable dest: listed_receipts_valid)

section \<open>What a dispatch may do\<close>

lemma loaded_receipts_bound:
  fixes pt :: "('d, 'v, 'x, 'e) dispatch_ports"
  assumes "loadBoundReceipts h pt intent d = Inr rs"
  shows "(\<forall>r \<in> set rs. validatePhysicalEffectReceiptBinding h r intent = []) \<and> length (terminal_receipts rs) \<le> 1"
proof -
  from assms obtain stored where "dp_list pt d = Inr stored" "(bound_receipts h intent stored :: ('x, 'e) dispatch_error + _) = Inr rs"
    by (rule loadBound_Inr)
  from bound_receipts_Inr(2,3)[OF this(2)] show ?thesis by blast
qed

lemma dispatch_same:
  assumes "map_option ad_reconcile (map_of A (ei_kind intent)) = map_option ad_reconcile (map_of B (ei_kind intent))"
    and "mode = Reconcile \<or> (\<forall>rs. loadBoundReceipts h pt intent d = Inr rs \<longrightarrow> rs \<noteq> [])"
  shows "dispatch h pt A intent epoch mode (d, v) = dispatch h pt B intent epoch mode (d, v)"
  using assms
  by (cases "map_of A (ei_kind intent)"; cases "map_of B (ei_kind intent)"; cases mode)
    (auto simp: dispatch_def Let_def split: sum.splits prod.splits option.splits)

lemma terminal_is_final:
  assumes "\<And>rs. loadBoundReceipts h pt intent d = Inr rs \<Longrightarrow> terminal_receipts rs \<noteq> []"
  shows "\<exists>res v'. \<forall>registry. dispatch h pt registry intent epoch mode (d, v) = (res, d, v')"
proof -
  have "dispatch h pt registry intent epoch mode (d, v) = dispatch h pt [] intent epoch mode (d, v)" for registry
    using assms by (auto simp: dispatch_def split: sum.splits prod.splits)
  moreover have "fst (snd (dispatch h pt [] intent epoch mode (d, v))) = d"
    using assms by (auto simp: dispatch_def split: sum.splits prod.splits)
  ultimately show ?thesis by (metis prod.collapse)
qed

lemma conclude_returns:
  assumes "conclude h pt mode intent w = (Inr rs, d', v')"
  shows "loadBoundReceipts h pt intent (fst w) = Inr rs \<and> d' = fst w \<and>
    (terminal_receipts rs \<noteq> [] \<or> dp_invalidation pt \<noteq> None \<or>
     mode = Reconcile \<and> ei_idempotency intent = Never_repeat_unknown \<and> rs = [])"
  using assms by (auto simp: conclude_def invalidation_reason_def split: prod.splits sum.splits option.splits if_splits)

lemma dispatch_returns:
  assumes "dispatch h pt registry intent epoch mode (d, v) = (Inr rs, d', v')"
  shows "loadBoundReceipts h pt intent d' = Inr rs \<and>
    (terminal_receipts rs \<noteq> [] \<or> dp_invalidation pt \<noteq> None \<or>
     mode = Reconcile \<and> ei_idempotency intent = Never_repeat_unknown \<and> rs = [])"
  using assms
  by (auto simp: dispatch_def invalidation_reason_def Let_def split: prod.splits sum.splits option.splits if_splits
      dest!: conclude_returns)

text \<open>
  C37. A recorded effect is not executed again. Once a receipt of an effect has been published in the
  receipt store, then in whatever state the store has grown to, a dispatch of the effect does the same
  whatever the adapters' \<open>execute\<close> would do, so it is not called; reconciling never executes, receipts or
  not; and after a terminal receipt no adapter is called and the store is left as it is. What a dispatch
  returns is what the store then holds for the effect: every receipt bound to the intent, at most one of
  them terminal, and none terminal only if the intent may have been invalidated or the effect must never be
  repeated on unknown state and nothing is known.
\<close>

theorem recorded_effects_are_not_executed_again:
  fixes pt :: "(receipt_dir, 'v, directory_error, 'e) dispatch_ports"
  assumes "put_receipt h fname race r d = (Inr p, d1)" and "pr_effectId p = ei_effectId intent" and "dir_grows d1 d2"
    and "dp_list pt = list_receipts h fname"
    and "map_option ad_reconcile (map_of A (ei_kind intent)) = map_option ad_reconcile (map_of B (ei_kind intent))"
  shows "dispatch h pt A intent epoch mode (d2, v) = dispatch h pt B intent epoch mode (d2, v) \<and>
    (\<forall>d. dispatch h pt A intent epoch Reconcile (d, v) = dispatch h pt B intent epoch Reconcile (d, v)) \<and>
    (pr_observation p \<noteq> Started \<longrightarrow>
      (\<exists>res v'. \<forall>registry. dispatch h pt registry intent epoch mode (d2, v) = (res, d2, v'))) \<and>
    (\<forall>d rs d' v'. dispatch h pt A intent epoch mode (d, v) = (Inr rs, d', v') \<longrightarrow>
      loadBoundReceipts h pt intent d' = Inr rs \<and>
      (\<forall>x \<in> set rs. validatePhysicalEffectReceiptBinding h x intent = []) \<and> length (terminal_receipts rs) \<le> 1 \<and>
      (terminal_receipts rs = [] \<longrightarrow> dp_invalidation pt \<noteq> None \<or>
        mode = Reconcile \<and> ei_idempotency intent = Never_repeat_unknown \<and> rs = []))"
proof (intro conjI allI impI ballI)
  have seen: "p \<in> set rs" if "loadBoundReceipts h pt intent d2 = Inr rs" for rs
    using file_log.recorded_is_loaded[OF assms(1,3,2,4) that] .
  then show "dispatch h pt A intent epoch mode (d2, v) = dispatch h pt B intent epoch mode (d2, v)"
    by (intro dispatch_same assms(5)) auto
  show "dispatch h pt A intent epoch Reconcile (d, v) = dispatch h pt B intent epoch Reconcile (d, v)" for d
    by (intro dispatch_same assms(5)) simp
  show "\<exists>res v'. \<forall>registry. dispatch h pt registry intent epoch mode (d2, v) = (res, d2, v')"
    if "pr_observation p \<noteq> Started"
    by (rule terminal_is_final) (use seen that in \<open>auto simp: terminal_receipts_def filter_empty_conv\<close>)
next
  fix d rs d' v'
  assume "dispatch h pt A intent epoch mode (d, v) = (Inr rs, d', v')"
  from dispatch_returns[OF this] have loaded: "loadBoundReceipts h pt intent d' = Inr rs"
    and final: "terminal_receipts rs \<noteq> [] \<or> dp_invalidation pt \<noteq> None \<or>
     mode = Reconcile \<and> ei_idempotency intent = Never_repeat_unknown \<and> rs = []" by blast+
  show "loadBoundReceipts h pt intent d' = Inr rs" by (rule loaded)
  from loaded_receipts_bound[OF loaded] show "length (terminal_receipts rs) \<le> 1"
    and "x \<in> set rs \<Longrightarrow> validatePhysicalEffectReceiptBinding h x intent = []" for x by blast+
  show "dp_invalidation pt \<noteq> None \<or> mode = Reconcile \<and> ei_idempotency intent = Never_repeat_unknown \<and> rs = []"
    if "terminal_receipts rs = []" using final that by blast
qed


text \<open>A store with the terminal receipt of one effect, and two adapters whose executions differ in the calls they count.\<close>

definition logged_intent :: effect_intent where
  "logged_intent = sample_intent\<lparr>ei_effectId := ''digest'', ei_inputDigest := ''digest''\<rparr>"

definition logged_receipt :: physical_receipt where
  "logged_receipt = sample_receipt\<lparr>pr_effectId := ''digest'', pr_inputDigest := ''digest'', pr_receiptId := ''digest''\<rparr>"

definition counting_adapter :: "nat \<Rightarrow> (receipt_dir, nat, directory_error, unit) adapter" where
  "counting_adapter n = \<lparr>ad_execute = (\<lambda>_ _ (d, v). (Inr (), d, v + n)), ad_reconcile = (\<lambda>_ _ (d, v). (Inr (), d, v))\<rparr>"

definition logged_ports :: "(receipt_dir, nat, directory_error, unit) dispatch_ports" where
  "logged_ports = \<lparr>dp_list = list_receipts sample_host (\<lambda>i. i), dp_put = put_receipt sample_host (\<lambda>i. i) (\<lambda>d. d),
     dp_input = (\<lambda>_ v. (Inr (Some \<lparr>fi_inputDigest = ''digest'', fi_spec = \<lparr>es_kind = Git_mutation, es_payload = []\<rparr>\<rparr>), v)),
     dp_invalidation = None\<rparr>"

lemma logged_put: "put_receipt sample_host (\<lambda>i. i) (\<lambda>d. d) logged_receipt [] =
    (Inr logged_receipt, [(''digest'', Receipt_file logged_receipt)])"
  by code_simp

lemma logged_dispatch: "dispatch sample_host logged_ports [(Git_mutation, counting_adapter 1)] logged_intent ''e'' Observe
    ([(''digest'', Receipt_file logged_receipt)], 0) =
    (Inr [logged_receipt], [(''digest'', Receipt_file logged_receipt)], 0)"
  by code_simp

lemma logged_execution: "snd (snd (dispatch sample_host logged_ports [(Git_mutation, counting_adapter 1)] logged_intent ''e'' Observe
    ([], 0))) = 1"
  by code_simp

lemma recorded_effects_are_not_executed_again_witness:
  "dispatch sample_host logged_ports [(Git_mutation, counting_adapter 2)] logged_intent ''e'' Observe
    ([(''digest'', Receipt_file logged_receipt)], 0) =
    (Inr [logged_receipt], [(''digest'', Receipt_file logged_receipt)], 0)"
  using recorded_effects_are_not_executed_again[OF logged_put, of logged_intent _ logged_ports
      "[(Git_mutation, counting_adapter 1)]" "[(Git_mutation, counting_adapter 2)]" "''e''" Observe 0] logged_dispatch
  by (simp add: logged_ports_def counting_adapter_def logged_receipt_def logged_intent_def sample_intent_def sample_receipt_def)

end
