(* ===== verification/Run_Actor.thy ===== *)
theory Run_Actor
  imports Coordinator Effect_Store
begin

text \<open>
  The actor of a run: it accepts commands, has their effects carried out and records what became of them, all
  through one fenced journal. Its mailbox runs one operation at a time, so every operation here is one step on
  the world and on the set of effects the actor knows to be interrupted. The journal, the input store, the
  decision about a command, the reaction to a settled effect, the dispatcher and the clock are arguments,
  and may do anything to the world between the actor's own steps.

  Source: packages/run-engine/src/run-actor.ts.
\<close>

section \<open>Steps\<close>

datatype 'e actor_error =
    Envelope_schema
  | Envelope_identity string
  | Command_of_other_run string
  | Receipt_schema
  | Receipt_identity string
  | Receipts_duplicate string
  | Command_conflict string
  | Revision_conflict string int int
  | Journal_refused reduce_error
  | Bootstrap_late
  | Bootstrap_not_create
  | Bootstrap_not_created
  | Forged_event
  | Impossible_acceptance
  | Receipt_not_built
  | Intent_identity_wrong string
  | Intent_of_other_run string
  | Intent_epoch_stale string
  | Input_not_built
  | Input_digest_wrong string
  | Input_kind_wrong string
  | Input_not_published string
  | Impossible_revision
  | No_persisted_request string
  | Persisted_intent_corrupt string
  | Intents_conflict string
  | Persisted_receipt_corrupt string
  | Receipt_unbound string
  | Receipts_conflict string
  | Terminal_without_intent string
  | Terminals_repeated string
  | Terminal_unbound string
  | Completed_without_success string
  | Failed_without_failure string
  | Evidence_invalid string
  | Evidence_stale string
  | Terminals_ambiguous string
  | Actor_port 'e

type_synonym ('w, 'e, 'a) astep = "'w \<times> string list \<Rightarrow> ('e actor_error + 'a) \<times> 'w \<times> string list"

definition doneS :: "'a \<Rightarrow> ('w, 'e, 'a) astep" where
  "doneS x w = (Inr x, w)"

definition liftS :: "'e actor_error + 'a \<Rightarrow> ('w, 'e, 'a) astep" where
  "liftS r w = (r, w)"

definition thenS :: "('w, 'e, 'a) astep \<Rightarrow> ('a \<Rightarrow> ('w, 'e, 'b) astep) \<Rightarrow> ('w, 'e, 'b) astep" where
  "thenS m f w = (case m w of (Inl e, w1) \<Rightarrow> (Inl e, w1) | (Inr x, w1) \<Rightarrow> f x w1)"

definition portS :: "('w \<Rightarrow> ('e + 'a) \<times> 'w) \<Rightarrow> ('w, 'e, 'a) astep" where
  "portS f w = (case f (fst w) of (r, w1) \<Rightarrow> (map_sum Actor_port id r, w1, snd w))"

fun eachS :: "('a \<Rightarrow> ('w, 'e, unit) astep) \<Rightarrow> 'a list \<Rightarrow> ('w, 'e, unit) astep" where
  "eachS f [] = doneS ()"
| "eachS f (x # xs) = thenS (f x) (\<lambda>_. eachS f xs)"

fun mapE :: "('a \<Rightarrow> 'x + 'b) \<Rightarrow> 'a list \<Rightarrow> 'x + 'b list" where
  "mapE f [] = Inr []"
| "mapE f (x # xs) = bindE (f x) (\<lambda>y. bindE (mapE f xs) (\<lambda>ys. Inr (y # ys)))"

section \<open>Options\<close>

record effect_request =
  rq_intent :: effect_intent
  rq_inputSpec :: effect_input_spec

datatype raw_decision =
    Effects_only "effect_request list"
  | Full_decision "run_event_input list option" "run_event_input list option" "effect_request list"

record actor_decision =
  dn_before :: "run_event_input list"
  dn_after :: "run_event_input list"
  dn_effects :: "effect_request list"

record decision_context =
  dx_currentRevision :: int
  dx_acceptedRevision :: int
  dx_events :: "run_event list"
  dx_projection :: "run_projection option"

record terminal_observation =
  tv_intent :: effect_intent
  tv_receipts :: "physical_receipt list"
  tv_terminal :: run_event_input

record reaction_context =
  rx_currentRevision :: int
  rx_events :: "run_event list"
  rx_projection :: run_projection

record actor_reaction =
  rn_domainEvents :: "run_event_input list"
  rn_effects :: "effect_request list"

record ('w, 'e) actor_options =
  ao_runId :: string
  ao_daemonEpoch :: string
  ao_load :: "'w \<Rightarrow> ('e + run_event list) \<times> 'w"
  ao_assertAuthority :: "'w \<Rightarrow> ('e + unit) \<times> 'w"
  ao_append :: "int \<Rightarrow> run_event_input list \<Rightarrow> 'w \<Rightarrow> ('e + run_event list) \<times> 'w"
  ao_putInput :: "effect_input_spec \<Rightarrow> 'w \<Rightarrow> ('e + effect_input) \<times> 'w"
  ao_decide :: "command_envelope \<Rightarrow> decision_context \<Rightarrow> 'w \<Rightarrow> ('e + raw_decision) \<times> 'w"
  ao_react :: "(terminal_observation \<Rightarrow> reaction_context \<Rightarrow> 'w \<Rightarrow> ('e + actor_reaction) \<times> 'w) option"
  ao_clock :: "'w \<Rightarrow> string \<times> 'w"

definition clockS :: "('w, 'e) actor_options \<Rightarrow> ('w, 'e, string) astep" where
  "clockS o1 w = (case ao_clock o1 (fst w) of (t, w1) \<Rightarrow> (Inr t, w1, snd w))"

section \<open>Reading the journal\<close>

definition journalRevision :: "run_event list \<Rightarrow> int" where
  "journalRevision es = (if es = [] then 0 else ev_sequence (last es))"

fun requested_intent :: "run_event \<Rightarrow> effect_intent option" where
  "requested_intent e = (case ev_payload e of Protocol_ev (Effect_requested i) \<Rightarrow> Some i | _ \<Rightarrow> None)"

fun accepted_receipt :: "run_event \<Rightarrow> command_receipt option" where
  "accepted_receipt e = (case ev_payload e of Protocol_ev (Command_accepted r c) \<Rightarrow> Some r | _ \<Rightarrow> None)"

fun observed_receipt :: "run_event \<Rightarrow> physical_receipt option" where
  "observed_receipt e = (case ev_payload e of Protocol_ev (Effect_observed r) \<Rightarrow> Some r | _ \<Rightarrow> None)"

text \<open>The effect and the receipt of a terminal event.\<close>

fun terminal_of :: "run_event \<Rightarrow> (string \<times> string option) option" where
  "terminal_of e = (case ev_payload e of
     Protocol_ev (Effect_completed i r) \<Rightarrow> Some (i, Some r)
   | Protocol_ev (Effect_failed i r x) \<Rightarrow> Some (i, Some r)
   | Protocol_ev (Effect_interrupted i r x) \<Rightarrow> Some (i, r)
   | _ \<Rightarrow> None)"

definition requested_sequence :: "run_event list \<Rightarrow> effect_intent \<Rightarrow> int option" where
  "requested_sequence es i = map_option ev_sequence
     (List.find (\<lambda>e. map_option ei_effectId (requested_intent e) = Some (ei_effectId i)) es)"

definition interruption_by :: "effect_intent \<Rightarrow> int \<Rightarrow> run_event \<Rightarrow> (int \<times> string) option" where
  "interruption_by i requested e = (case ev_payload e of
     Run_ev (Operation_cancel_requested operation reason) \<Rightarrow>
       if requested < ev_sequence e
       then Some (ev_sequence e, ''Run cancellation applies to effect '' @ ei_effectId i @ '': '' @ reason) else None
   | Attempt_ev (Attempt_stale a n f c reason) \<Rightarrow>
       if ei_attemptId i = Some a then Some (ev_sequence e, ''Attempt '' @ a @ '' is stale: '' @ reason) else None
   | _ \<Rightarrow> None)"

text \<open>The reason with the largest sequence.\<close>

definition interruption_reason :: "run_event list \<Rightarrow> effect_intent \<Rightarrow> int \<Rightarrow> string option" where
  "interruption_reason es i requested =
     (case sort_key (\<lambda>(n, _). - n) (List.map_filter (interruption_by i requested) es) of
        [] \<Rightarrow> None | (_, reason) # _ \<Rightarrow> Some reason)"

definition persistedInterruptionReason :: "run_event list \<Rightarrow> effect_intent \<Rightarrow> 'e actor_error + string option" where
  "persistedInterruptionReason es i =
     requireE (requested_sequence es i) (No_persisted_request (ei_effectId i)) (\<lambda>n. Inr (interruption_reason es i n))"

text \<open>Every effect requested in the journal that the journal has interrupted is remembered.\<close>

definition interrupted_in :: "run_event list \<Rightarrow> string list" where
  "interrupted_in es = map ei_effectId (filter
     (\<lambda>i. (case requested_sequence es i of None \<Rightarrow> False | Some n \<Rightarrow> interruption_reason es i n \<noteq> None)) (List.map_filter requested_intent es))"

definition remember :: "run_event list \<Rightarrow> ('w, 'e, unit) astep" where
  "remember es w = (Inr (), fst w, fold List.insert (interrupted_in es) (snd w))"

text \<open>Assert the authority, load, remember the interruptions.\<close>

definition readS :: "('w, 'e) actor_options \<Rightarrow> ('w, 'e, run_event list) astep" where
  "readS o1 = thenS (portS (ao_assertAuthority o1)) (\<lambda>_. thenS (portS (ao_load o1)) (\<lambda>es.
     thenS (remember es) (\<lambda>_. doneS es)))"

definition check_receipt :: "host \<Rightarrow> command_receipt \<Rightarrow> 'e actor_error + command_receipt" where
  "check_receipt h r = requireE (parse_command_receipt h r) Receipt_schema (\<lambda>p.
     throwIf (validateCommandReceiptIdentity h p \<noteq> []) (Receipt_identity (rc_receiptId p)) (Inr p))"

definition commandReceipt :: "host \<Rightarrow> run_event list \<Rightarrow> string \<Rightarrow> 'e actor_error + command_receipt option" where
  "commandReceipt h es commandId =
     bindE (mapE (check_receipt h) (filter (\<lambda>r. rc_commandId r = commandId) (List.map_filter accepted_receipt es))) (\<lambda>rs.
     throwIf (1 < length rs) (Receipts_duplicate commandId) (Inr (case rs of [] \<Rightarrow> None | r # _ \<Rightarrow> Some r)))"

definition hasTerminalEvent :: "run_event list \<Rightarrow> string \<Rightarrow> 'e actor_error + bool" where
  "hasTerminalEvent es effectId =
     (let matches = filter (\<lambda>t. fst t = effectId) (List.map_filter terminal_of es) in
      throwIf (1 < length matches) (Terminals_repeated effectId) (Inr (length matches = 1)))"

section \<open>What the actor writes\<close>

definition place_batch :: "string \<Rightarrow> run_event list \<Rightarrow> run_event_input list \<Rightarrow> run_event list" where
  "place_batch runId current inputs = place_inputs runId (int (length current) + 1) inputs"

definition assertApplicationBatch :: "host \<Rightarrow> string \<Rightarrow> run_event list \<Rightarrow> run_event_input list \<Rightarrow> 'e actor_error + run_projection" where
  "assertApplicationBatch h runId current inputs =
     map_sum Journal_refused id (foldRun h (current @ place_batch runId current inputs))"

definition assertBootstrapEvents :: "run_event list \<Rightarrow> command_envelope \<Rightarrow> run_event_input list \<Rightarrow> 'e actor_error + unit" where
  "assertBootstrapEvents current envelope before =
     (if current \<noteq> [] then throwIf (before \<noteq> []) Bootstrap_late (Inr ())
      else throwIf (payload_type (cv_command envelope) \<noteq> Some ''create_run'') Bootstrap_not_create
        (throwIf (\<not> (case before of [e] \<Rightarrow> (case ev_payload e of Run_ev (Run_created d opts) \<Rightarrow> True | _ \<Rightarrow> False) | _ \<Rightarrow> False))
           Bootstrap_not_created (Inr ())))"

fun actor_event :: "event_payload \<Rightarrow> bool" where
  "actor_event (Run_ev (Run_created d opts)) = True"
| "actor_event (Protocol_ev f) = True"
| "actor_event _ = False"

definition assertDomainEvents :: "run_event_input list \<Rightarrow> 'e actor_error + unit" where
  "assertDomainEvents es = throwIf (list_ex (\<lambda>e. actor_event (ev_payload e)) es) Forged_event (Inr ())"

definition normalizeDecision :: "raw_decision \<Rightarrow> actor_decision" where
  "normalizeDecision d = (case d of
     Effects_only es \<Rightarrow> \<lparr>dn_before = [], dn_after = [], dn_effects = es\<rparr>
   | Full_decision b a es \<Rightarrow> \<lparr>dn_before = (case b of None \<Rightarrow> [] | Some xs \<Rightarrow> xs),
       dn_after = (case a of None \<Rightarrow> [] | Some xs \<Rightarrow> xs), dn_effects = es\<rparr>)"

definition parseEnvelope :: "host \<Rightarrow> command_envelope \<Rightarrow> 'e actor_error + command_envelope" where
  "parseEnvelope h raw = requireE (parse_command_envelope h raw) Envelope_schema (\<lambda>c.
     throwIf (validateRunCommandEnvelopeIdentity h c \<noteq> []) (Envelope_identity (cv_commandId c)) (Inr c))"

definition assertDispatchableIntent :: "host \<Rightarrow> ('w, 'e) actor_options \<Rightarrow> effect_intent \<Rightarrow> 'e actor_error + unit" where
  "assertDispatchableIntent h o1 i =
     throwIf (validateEffectIntentIdentity h i \<noteq> []) (Intent_identity_wrong (ei_effectId i))
     (throwIf (ei_runId i \<noteq> ao_runId o1) (Intent_of_other_run (ei_effectId i))
     (throwIf (ei_daemonEpoch i \<noteq> ao_daemonEpoch o1) (Intent_epoch_stale (ei_effectId i)) (Inr ())))"

definition prepareEffectRequest :: "host \<Rightarrow> ('w, 'e) actor_options \<Rightarrow> effect_request \<Rightarrow> 'e actor_error + effect_intent \<times> effect_input" where
  "prepareEffectRequest h o1 rq =
     bindE (assertDispatchableIntent h o1 (rq_intent rq)) (\<lambda>_.
     requireE (buildEffectInput h (rq_inputSpec rq)) Input_not_built (\<lambda>x.
     throwIf (fi_inputDigest x \<noteq> ei_inputDigest (rq_intent rq)) (Input_digest_wrong (ei_effectId (rq_intent rq)))
     (throwIf (es_kind (fi_spec x) \<noteq> ei_kind (rq_intent rq)) (Input_kind_wrong (ei_effectId (rq_intent rq)))
     (Inr (rq_intent rq, x)))))"

definition input_json :: "effect_input \<Rightarrow> json" where
  "input_json x = JObj [(''inputDigest'', JStr (fi_inputDigest x)), (''spec'', spec_json (fi_spec x))]"

definition assertPublishedEffectInput :: "host \<Rightarrow> effect_input \<Rightarrow> effect_input \<Rightarrow> effect_intent \<Rightarrow> 'e actor_error + unit" where
  "assertPublishedEffectInput h published expected i =
     (case parse_effect_input h published of
        None \<Rightarrow> Inl (Input_not_published (ei_effectId i))
      | Some p \<Rightarrow> throwIf (validateEffectInputIdentity h published \<noteq> []) (Input_not_published (ei_effectId i))
          (throwIf (fi_inputDigest p \<noteq> ei_inputDigest i \<or> es_kind (fi_spec p) \<noteq> ei_kind i \<or>
             toCanonicalJsonValue h (input_json p) \<noteq> toCanonicalJsonValue h (input_json expected))
             (Input_not_published (ei_effectId i)) (Inr ())))"

text \<open>The loop that stores the inputs of the prepared requests.\<close>

definition publishInputs :: "host \<Rightarrow> ('w, 'e) actor_options \<Rightarrow> (effect_intent \<times> effect_input) list \<Rightarrow> ('w, 'e, unit) astep" where
  "publishInputs h o1 = eachS (\<lambda>(i, x). thenS (portS (ao_putInput o1 (fi_spec x))) (\<lambda>published.
     liftS (assertPublishedEffectInput h published x i)))"

definition accepted_input :: "host \<Rightarrow> command_receipt \<Rightarrow> command_envelope \<Rightarrow> string \<Rightarrow> run_event_input" where
  "accepted_input h r c t = \<lparr>ev_eventId = computeCanonicalDigest h (JObj [(''type'', JStr ''command.accepted''), (''receiptId'', JStr (rc_receiptId r))]),
     ev_occurredAt = t, ev_payload = Protocol_ev (Command_accepted r (Some c))\<rparr>"

definition requested_input :: "host \<Rightarrow> effect_intent \<Rightarrow> run_event_input" where
  "requested_input h i = \<lparr>ev_eventId = computeCanonicalDigest h (JObj [(''type'', JStr ''effect.requested''), (''effectId'', JStr (ei_effectId i))]),
     ev_occurredAt = ei_requestedAt i, ev_payload = Protocol_ev (Effect_requested i)\<rparr>"

definition observed_input :: "host \<Rightarrow> physical_receipt \<Rightarrow> run_event_input" where
  "observed_input h r = \<lparr>ev_eventId = computeCanonicalDigest h (JObj [(''type'', JStr ''effect.observed''), (''receiptId'', JStr (pr_receiptId r))]),
     ev_occurredAt = pr_observedAt r, ev_payload = Protocol_ev (Effect_observed r)\<rparr>"

text \<open>Check the batch on the journal as it was read, append it there, and check what came back.\<close>

definition commitS :: "host \<Rightarrow> ('w, 'e) actor_options \<Rightarrow> run_event list \<Rightarrow> run_event_input list \<Rightarrow> ('w, 'e, unit) astep" where
  "commitS h o1 current inputs =
     thenS (liftS (assertApplicationBatch h (ao_runId o1) current inputs)) (\<lambda>_.
     thenS (portS (ao_append o1 (journalRevision current) inputs)) (\<lambda>appended.
     thenS (liftS (throwIf (length appended \<noteq> length inputs \<or>
        journalRevision appended \<noteq> journalRevision current + int (length inputs)) Impossible_revision (Inr ()))) (\<lambda>_.
     remember (current @ appended))))"

section \<open>Accepting a command\<close>

definition decideS :: "host \<Rightarrow> ('w, 'e) actor_options \<Rightarrow> run_event list \<Rightarrow> command_envelope \<Rightarrow> ('w, 'e, string \<times> actor_decision) astep" where
  "decideS h o1 es c =
     thenS (liftS (if es = [] then Inr None else map_sum Journal_refused Some (foldRun h es))) (\<lambda>projection.
     thenS (clockS o1) (\<lambda>acceptedAt.
     thenS (portS (ao_decide o1 c \<lparr>dx_currentRevision = journalRevision es,
        dx_acceptedRevision = journalRevision es + (if es = [] \<and> payload_type (cv_command c) = Some ''create_run'' then 2 else 1),
        dx_events = es, dx_projection = projection\<rparr>)) (\<lambda>raw.
     doneS (acceptedAt, normalizeDecision raw))))"

definition acceptNew :: "host \<Rightarrow> ('w, 'e) actor_options \<Rightarrow> run_event list \<Rightarrow> command_envelope \<Rightarrow>
    ('w, 'e, command_receipt \<times> effect_intent list) astep" where
  "acceptNew h o1 es c =
     thenS (liftS (throwIf (journalRevision es \<noteq> cv_expectedRevision c)
        (Revision_conflict (cv_commandId c) (cv_expectedRevision c) (journalRevision es)) (Inr ()))) (\<lambda>_.
     thenS (decideS h o1 es c) (\<lambda>(acceptedAt, decision).
     thenS (liftS (assertBootstrapEvents es c (dn_before decision))) (\<lambda>_.
     thenS (liftS (assertDomainEvents (dn_after decision))) (\<lambda>_.
     let acceptedRevision = journalRevision es + int (length (dn_before decision)) + 1 in
     thenS (liftS (throwIf (acceptedRevision \<noteq> journalRevision es +
        (if es = [] \<and> payload_type (cv_command c) = Some ''create_run'' then 2 else 1)) Impossible_acceptance (Inr ()))) (\<lambda>_.
     thenS (liftS (requireE (buildCommandReceipt h \<lparr>rc_commandId = cv_commandId c, rc_runId = cv_runId c,
        rc_commandDigest = cv_commandDigest c, rc_acceptedRevision = acceptedRevision,
        rc_daemonEpoch = ao_daemonEpoch o1, rc_acceptedAt = acceptedAt\<rparr>) Receipt_not_built Inr)) (\<lambda>receipt.
     thenS (liftS (mapE (prepareEffectRequest h o1) (dn_effects decision))) (\<lambda>prepared.
     thenS (publishInputs h o1 prepared) (\<lambda>_.
     thenS (commitS h o1 es (dn_before decision @ [accepted_input h receipt c acceptedAt] @ dn_after decision @
        map (requested_input h) (map fst prepared))) (\<lambda>_.
     doneS (receipt, map fst prepared))))))))))"

definition accept :: "host \<Rightarrow> ('w, 'e) actor_options \<Rightarrow> command_envelope \<Rightarrow> ('w, 'e, command_receipt \<times> effect_intent list) astep" where
  "accept h o1 raw =
     thenS (liftS (parseEnvelope h raw)) (\<lambda>c.
     thenS (liftS (throwIf (cv_runId c \<noteq> ao_runId o1) (Command_of_other_run (cv_commandId c)) (Inr ()))) (\<lambda>_.
     thenS (readS o1) (\<lambda>es.
     thenS (liftS (commandReceipt h es (cv_commandId c))) (\<lambda>existing. case existing of
       Some r \<Rightarrow> liftS (throwIf (rc_commandDigest r \<noteq> cv_commandDigest c) (Command_conflict (cv_commandId c)) (Inr (r, [])))
     | None \<Rightarrow> acceptNew h o1 es c))))"

section \<open>Effects that are still open\<close>

record pending_scan =
  sn_intents :: "effect_intent obj"
  sn_receipts :: "physical_receipt obj"
  sn_terminal :: "string list"

definition scan_requested :: "host \<Rightarrow> string \<Rightarrow> pending_scan \<Rightarrow> effect_intent \<Rightarrow> 'e actor_error + pending_scan" where
  "scan_requested h runId s i =
     throwIf (validateEffectIntentIdentity h i \<noteq> [] \<or> ei_runId i \<noteq> runId) (Persisted_intent_corrupt (ei_effectId i))
     (throwIf (case oget (sn_intents s) (ei_effectId i) of None \<Rightarrow> False | Some prior \<Rightarrow> prior \<noteq> i) (Intents_conflict (ei_effectId i))
     (Inr (s\<lparr>sn_intents := oput (ei_effectId i) i (sn_intents s)\<rparr>)))"

definition scan_observed :: "host \<Rightarrow> pending_scan \<Rightarrow> physical_receipt \<Rightarrow> 'e actor_error + pending_scan" where
  "scan_observed h s r =
     throwIf (validatePhysicalEffectReceiptIdentity h r \<noteq> []) (Persisted_receipt_corrupt (pr_receiptId r))
     (throwIf (case oget (sn_intents s) (pr_effectId r) of None \<Rightarrow> True | Some i \<Rightarrow> ei_inputDigest i \<noteq> pr_inputDigest r)
        (Receipt_unbound (pr_receiptId r))
     (throwIf (case oget (sn_receipts s) (pr_receiptId r) of None \<Rightarrow> False | Some prior \<Rightarrow> \<not> same_receipt h prior r)
        (Receipts_conflict (pr_receiptId r))
     (Inr (s\<lparr>sn_receipts := oput (pr_receiptId r) r (sn_receipts s)\<rparr>))))"

definition scan_terminal :: "pending_scan \<Rightarrow> protocol_fact \<Rightarrow> string \<times> string option \<Rightarrow> 'e actor_error + pending_scan" where
  "scan_terminal s f = (\<lambda>(i, r).
     throwIf (oget (sn_intents s) i = None) (Terminal_without_intent i)
     (throwIf (i \<in> set (sn_terminal s)) (Terminals_repeated i)
     (bindE (case r of None \<Rightarrow> Inr ()
         | Some k \<Rightarrow> (case oget (sn_receipts s) k of None \<Rightarrow> Inl (Terminal_unbound i)
             | Some x \<Rightarrow> throwIf (pr_effectId x \<noteq> i) (Terminal_unbound i)
                 (throwIf ((case f of Effect_completed _ _ \<Rightarrow> True | _ \<Rightarrow> False) \<and> pr_observation x \<noteq> Succeeded) (Completed_without_success i)
                 (throwIf ((case f of Effect_failed _ _ _ \<Rightarrow> True | _ \<Rightarrow> False) \<and> pr_observation x \<noteq> Failed) (Failed_without_failure i)
                 (Inr ()))))) (\<lambda>_.
     Inr (s\<lparr>sn_terminal := sn_terminal s @ [i]\<rparr>)))))"

definition scan_event :: "host \<Rightarrow> string \<Rightarrow> pending_scan \<Rightarrow> run_event \<Rightarrow> 'e actor_error + pending_scan" where
  "scan_event h runId s e = (case ev_payload e of
     Protocol_ev f \<Rightarrow> (case f of
         Effect_requested i \<Rightarrow> scan_requested h runId s i
       | Effect_observed r \<Rightarrow> scan_observed h s r
       | Command_accepted _ _ \<Rightarrow> Inr s
       | _ \<Rightarrow> (case terminal_of e of None \<Rightarrow> Inr s | Some t \<Rightarrow> scan_terminal s f t))
   | _ \<Rightarrow> Inr s)"

definition pending_of :: "host \<Rightarrow> string \<Rightarrow> run_event list \<Rightarrow> 'e actor_error + effect_intent list" where
  "pending_of h runId es =
     bindE (foldE (scan_event h runId) \<lparr>sn_intents = [], sn_receipts = [], sn_terminal = []\<rparr> es) (\<lambda>s.
     Inr (filter (\<lambda>i. ei_effectId i \<notin> set (sn_terminal s)) (map snd (sn_intents s))))"

definition pendingEffects :: "host \<Rightarrow> ('w, 'e) actor_options \<Rightarrow> ('w, 'e, effect_intent list) astep" where
  "pendingEffects h o1 =
     thenS (portS (ao_assertAuthority o1)) (\<lambda>_. thenS (portS (ao_load o1)) (\<lambda>es.
     thenS (liftS (pending_of h (ao_runId o1) es)) (\<lambda>open_effects. thenS (remember es) (\<lambda>_. doneS open_effects))))"

section \<open>Recording what became of an effect\<close>

datatype observe_mode = By_observation | By_reconciliation

definition completedEffectInput :: "host \<Rightarrow> effect_intent \<Rightarrow> physical_receipt \<Rightarrow> run_event_input" where
  "completedEffectInput h i r = \<lparr>ev_eventId = computeCanonicalDigest h (JObj [(''type'', JStr ''effect.completed''),
       (''effectId'', JStr (ei_effectId i)), (''receiptId'', JStr (pr_receiptId r))]),
     ev_occurredAt = pr_observedAt r, ev_payload = Protocol_ev (Effect_completed (ei_effectId i) (pr_receiptId r))\<rparr>"

definition failure_reason_of :: "physical_receipt \<Rightarrow> string" where
  "failure_reason_of r = (case pr_reason r of Some x \<Rightarrow> x | None \<Rightarrow> ''Physical effect adapter reported a failed observation.'')"

definition failedEffectInput :: "host \<Rightarrow> effect_intent \<Rightarrow> physical_receipt \<Rightarrow> run_event_input" where
  "failedEffectInput h i r = \<lparr>ev_eventId = computeCanonicalDigest h (JObj [(''type'', JStr ''effect.failed''),
       (''effectId'', JStr (ei_effectId i)), (''receiptId'', JStr (pr_receiptId r)), (''reason'', JStr (failure_reason_of r))]),
     ev_occurredAt = pr_observedAt r,
     ev_payload = Protocol_ev (Effect_failed (ei_effectId i) (pr_receiptId r) (failure_reason_of r))\<rparr>"

definition interruptedEffectInput ::
  "host \<Rightarrow> ('w, 'e) actor_options \<Rightarrow> effect_intent \<Rightarrow> physical_receipt option \<Rightarrow> string \<Rightarrow> ('w, 'e, run_event_input) astep" where
  "interruptedEffectInput h o1 i r reason =
     thenS (case r of Some x \<Rightarrow> doneS (pr_observedAt x) | None \<Rightarrow> clockS o1) (\<lambda>t.
     doneS \<lparr>ev_eventId = computeCanonicalDigest h (JObj ([(''type'', JStr ''effect.interrupted''), (''effectId'', JStr (ei_effectId i))] @
         opt_prop ''receiptId'' JStr (map_option pr_receiptId r) @ [(''reason'', JStr reason)])),
       ev_occurredAt = t, ev_payload = Protocol_ev (Effect_interrupted (ei_effectId i) (map_option pr_receiptId r) reason)\<rparr>)"

definition unknown_execution :: string where
  "unknown_execution = ''Unknown prior execution has no physical evidence and must not be repeated.''"

text \<open>What an effect comes to, given its receipts and whether the journal has interrupted it.\<close>

definition terminalInput ::
  "host \<Rightarrow> ('w, 'e) actor_options \<Rightarrow> observe_mode \<Rightarrow> effect_intent \<Rightarrow> string option \<Rightarrow> physical_receipt list \<Rightarrow>
     physical_receipt option \<Rightarrow> ('w, 'e, run_event_input option) astep" where
  "terminalInput h o1 mode i interrupted bound terminal =
     (case interrupted of
        Some reason \<Rightarrow> thenS (interruptedEffectInput h o1 i terminal reason) (\<lambda>x. doneS (Some x))
      | None \<Rightarrow> (case terminal of
          Some r \<Rightarrow>
            if pr_observation r = Succeeded then doneS (Some (completedEffectInput h i r))
            else if pr_observation r = Failed then doneS (Some (failedEffectInput h i r))
            else doneS None
        | None \<Rightarrow>
            if mode = By_reconciliation \<and> ei_idempotency i = Never_repeat_unknown \<and> bound = []
            then thenS (interruptedEffectInput h o1 i None unknown_execution) (\<lambda>x. doneS (Some x))
            else doneS None))"

fun check_evidence :: "host \<Rightarrow> ('w, 'e) actor_options \<Rightarrow> observe_mode \<Rightarrow> effect_intent \<Rightarrow> physical_receipt list \<Rightarrow> 'e actor_error + unit" where
  "check_evidence h o1 mode i [] = Inr ()"
| "check_evidence h o1 mode i (r # rs) =
     throwIf (validatePhysicalEffectReceiptIdentity h r \<noteq> [] \<or> validatePhysicalEffectReceiptBinding h r i \<noteq> [])
       (Evidence_invalid (pr_receiptId r))
     (throwIf (mode = By_observation \<and> pr_daemonEpoch r \<noteq> ao_daemonEpoch o1) (Evidence_stale (pr_receiptId r))
     (check_evidence h o1 mode i rs))"

definition add_persisted :: "host \<Rightarrow> physical_receipt obj \<Rightarrow> physical_receipt \<Rightarrow> 'e actor_error + physical_receipt obj" where
  "add_persisted h m r =
     throwIf (case oget m (pr_receiptId r) of None \<Rightarrow> False | Some x \<Rightarrow> \<not> same_receipt h x r) (Receipts_conflict (pr_receiptId r))
     (Inr (oput (pr_receiptId r) r m))"

fun unseen_receipts :: "host \<Rightarrow> physical_receipt obj \<Rightarrow> physical_receipt list \<Rightarrow> 'e actor_error + physical_receipt list" where
  "unseen_receipts h m [] = Inr []"
| "unseen_receipts h m (r # rs) = (case oget m (pr_receiptId r) of
     None \<Rightarrow> bindE (unseen_receipts h m rs) (\<lambda>us. Inr (r # us))
   | Some x \<Rightarrow> throwIf (\<not> same_receipt h x r) (Receipts_conflict (pr_receiptId r)) (unseen_receipts h m rs))"

definition bound_map :: "physical_receipt obj \<Rightarrow> effect_intent \<Rightarrow> physical_receipt list \<Rightarrow> physical_receipt list" where
  "bound_map persisted i rs = map snd (fold (\<lambda>r. oput (pr_receiptId r) r) rs
     (filter (\<lambda>(_, r). pr_effectId r = ei_effectId i) persisted))"

text \<open>\<open>comparePhysicalReceipts(a, b) <= 0\<close>.\<close>

definition physical_le :: "host \<Rightarrow> physical_receipt \<Rightarrow> physical_receipt \<Rightarrow> bool" where
  "physical_le h a b \<longleftrightarrow>
     (if h_le h (pr_observedAt a) (pr_observedAt b) \<and> h_le h (pr_observedAt b) (pr_observedAt a)
      then h_le h (pr_receiptId a) (pr_receiptId b) else h_le h (pr_observedAt a) (pr_observedAt b))"

definition reactionContext :: "host \<Rightarrow> string \<Rightarrow> run_event list \<Rightarrow> run_event_input list \<Rightarrow> 'e actor_error + reaction_context" where
  "reactionContext h runId current inputs = bindE (assertApplicationBatch h runId current inputs) (\<lambda>s.
     Inr \<lparr>rx_currentRevision = p_sequence s, rx_events = current @ place_batch runId current inputs, rx_projection = s\<rparr>)"

text \<open>The events and effects with which the domain reacts to a terminal.\<close>

definition reactS :: "host \<Rightarrow> ('w, 'e) actor_options \<Rightarrow> run_event list \<Rightarrow> effect_intent \<Rightarrow> physical_receipt list \<Rightarrow>
    run_event_input list \<Rightarrow> run_event_input option \<Rightarrow> ('w, 'e, run_event_input list \<times> effect_intent list) astep" where
  "reactS h o1 current i bound inputs terminal = (case (terminal, ao_react o1) of
     (Some t, Some react) \<Rightarrow>
       thenS (liftS (reactionContext h (ao_runId o1) current inputs)) (\<lambda>context.
       thenS (portS (react \<lparr>tv_intent = i, tv_receipts = bound, tv_terminal = t\<rparr> context)) (\<lambda>reaction.
       thenS (liftS (assertDomainEvents (rn_domainEvents reaction))) (\<lambda>_.
       thenS (liftS (mapE (prepareEffectRequest h o1) (rn_effects reaction))) (\<lambda>prepared.
       thenS (publishInputs h o1 prepared) (\<lambda>_.
       doneS (rn_domainEvents reaction @ map (requested_input h) (map fst prepared), map fst prepared))))))
   | _ \<Rightarrow> doneS ([], []))"

text \<open>The rest of an observation, for an effect that has no terminal event yet. It returns the effects to start next.\<close>

definition only_terminal :: "host \<Rightarrow> effect_intent \<Rightarrow> physical_receipt list \<Rightarrow> 'e actor_error + physical_receipt option" where
  "only_terminal h i bound = (let terminals = sort_le (physical_le h) (filter (\<lambda>r. pr_observation r \<noteq> Started) bound) in
     throwIf (1 < length terminals) (Terminals_ambiguous (ei_effectId i)) (Inr (case terminals of [] \<Rightarrow> None | r # _ \<Rightarrow> Some r)))"

definition finishS :: "host \<Rightarrow> ('w, 'e) actor_options \<Rightarrow> run_event list \<Rightarrow> run_event_input list \<Rightarrow> effect_intent list \<Rightarrow>
    ('w, 'e, effect_intent list) astep" where
  "finishS h o1 current inputs following =
     (if inputs = [] then doneS [] else thenS (commitS h o1 current inputs) (\<lambda>_. doneS following))"

definition settleS :: "host \<Rightarrow> ('w, 'e) actor_options \<Rightarrow> effect_intent \<Rightarrow> physical_receipt list \<Rightarrow> observe_mode \<Rightarrow>
    run_event list \<Rightarrow> physical_receipt obj \<Rightarrow> ('w, 'e, effect_intent list) astep" where
  "settleS h o1 i receipts mode current persisted =
     thenS (liftS (unseen_receipts h persisted receipts)) (\<lambda>unseen.
     let bound = bound_map persisted i receipts in
     thenS (liftS (only_terminal h i bound)) (\<lambda>terminalReceipt.
     thenS (liftS (persistedInterruptionReason current i)) (\<lambda>interrupted.
     thenS (terminalInput h o1 mode i interrupted bound terminalReceipt) (\<lambda>terminal.
     let inputs = map (observed_input h) unseen @ (case terminal of None \<Rightarrow> [] | Some t \<Rightarrow> [t]) in
     thenS (reactS h o1 current i bound inputs terminal) (\<lambda>(more, following).
     finishS h o1 current (inputs @ more) following)))))"

definition recordObservations :: "host \<Rightarrow> ('w, 'e) actor_options \<Rightarrow> effect_intent \<Rightarrow> physical_receipt list \<Rightarrow> observe_mode \<Rightarrow>
    ('w, 'e, effect_intent list) astep" where
  "recordObservations h o1 i receipts mode =
     thenS (liftS (check_evidence h o1 mode i receipts)) (\<lambda>_.
     thenS (readS o1) (\<lambda>current.
     thenS (liftS (foldE (add_persisted h) [] (List.map_filter observed_receipt current))) (\<lambda>persisted.
     thenS (liftS (hasTerminalEvent current (ei_effectId i))) (\<lambda>settled.
     if settled then doneS [] else settleS h o1 i receipts mode current persisted))))"

section \<open>Carrying an effect out\<close>

text \<open>The reason an effect is obsolete, read on behalf of the dispatcher.\<close>

definition loadPersistedInterruptionReason :: "('w, 'e) actor_options \<Rightarrow> effect_intent \<Rightarrow> ('w, 'e, string option) astep" where
  "loadPersistedInterruptionReason o1 i = thenS (readS o1) (\<lambda>es. liftS (persistedInterruptionReason es i))"

text \<open>
  One task of \<open>startEffect\<close>; a task that is already under way for the effect is left alone by the caller. An
  interrupted effect is not dispatched. The dispatcher gets the effect and the reading of its invalidation.
\<close>

definition run_effect :: "host \<Rightarrow> ('w, 'e) actor_options \<Rightarrow>
    (effect_intent \<Rightarrow> observe_mode \<Rightarrow> ('w, 'e, string option) astep \<Rightarrow> ('w, 'e, physical_receipt list) astep) \<Rightarrow>
    effect_intent \<Rightarrow> observe_mode \<Rightarrow> ('w, 'e, effect_intent list) astep" where
  "run_effect h o1 dispatcher i mode =
     thenS (portS (ao_assertAuthority o1)) (\<lambda>_ w.
       if ei_effectId i \<in> set (snd w) then recordObservations h o1 i [] mode w
       else thenS (dispatcher i mode (loadPersistedInterruptionReason o1 i)) (\<lambda>receipts.
         recordObservations h o1 i receipts mode) w)"

end
