(* ===== verification/Actor_Laws.thy ===== *)
theory Actor_Laws
  imports Run_Actor Journal_Port Store_Fold
begin

text \<open>
  The actor over any journal that keeps the interface: reading returns the journal, a successful append placed
  the batch where it was checked or found it there, and nothing else the actor calls takes events away.

  Source: packages/run-engine/src/run-actor.ts.
\<close>

named_theorems stepS

lemma thenS_Inr [stepS]: "thenS m f w = (Inr y, w2) \<longleftrightarrow> (\<exists>x w1. m w = (Inr x, w1) \<and> f x w1 = (Inr y, w2))"
  by (auto simp: thenS_def split: prod.splits sum.splits)

lemma doneS_Inr [stepS]: "doneS x w = (Inr y, w1) \<longleftrightarrow> y = x \<and> w1 = w"
  by (auto simp: doneS_def)

lemma liftS_Inr [stepS]: "liftS r w = (Inr y, w1) \<longleftrightarrow> r = Inr y \<and> w1 = w"
  by (auto simp: liftS_def)

lemma portS_Inr [stepS]: "portS f w = (Inr y, w1) \<longleftrightarrow> f (fst w) = (Inr y, fst w1) \<and> snd w1 = snd w"
  by (cases w1; cases "f (fst w)"; cases "fst (f (fst w))") (auto simp: portS_def)

lemma remember_step [stepS]: "remember es w = (r, w1) \<longleftrightarrow> r = Inr () \<and> fst w1 = fst w \<and> snd w1 = fold List.insert (interrupted_in es) (snd w)"
  by (cases w1) (auto simp: remember_def)

lemma mapE_length: "mapE f xs = Inr ys \<Longrightarrow> length ys = length xs"
  by (induction xs arbitrary: ys) auto

lemma mapE_mem: "mapE f xs = Inr ys \<Longrightarrow> y \<in> set ys \<Longrightarrow> \<exists>x \<in> set xs. f x = Inr y"
  by (induction xs arbitrary: ys) auto

lemma mapE_result: "mapE f xs = Inr ys \<Longrightarrow> x \<in> set xs \<Longrightarrow> \<exists>y \<in> set ys. f x = Inr y"
  by (induction xs arbitrary: ys) auto

lemma revision_placed: "well_placed h r 1 es \<Longrightarrow> journalRevision es = int (length es)"
  by (cases es rule: rev_cases) (auto simp: journalRevision_def well_placed_append)

lemma filter_distinct_map: "distinct (map f xs) \<Longrightarrow> x \<in> set xs \<Longrightarrow> filter (\<lambda>y. f y = f x) xs = [x]"
  by (induction xs) (auto simp: filter_empty_conv image_iff)

lemma arr_of_member: "arr_of p xs = Some ys \<Longrightarrow> x \<in> set xs \<Longrightarrow> \<exists>y \<in> set ys. p x = Some y"
  by (induction xs arbitrary: ys) (auto split: bind_splits)

text \<open>
  What is in the journal once an observation of an effect is recorded: an effect the journal had interrupted
  is interrupted, otherwise it completed or failed as its receipt says, and an effect of which nothing
  is known is given up if it must not be repeated.
\<close>

definition outcome_recorded :: "host \<Rightarrow> effect_intent \<Rightarrow> physical_receipt list \<Rightarrow> observe_mode \<Rightarrow> run_event list \<Rightarrow> run_event list \<Rightarrow> bool" where
  "outcome_recorded h i receipts mode current new \<longleftrightarrow>
     (\<forall>reason n. requested_sequence current i = Some n \<longrightarrow> interruption_reason current i n = Some reason \<longrightarrow>
        (\<exists>e \<in> set new. \<exists>k. parse_payload h (Protocol_ev (Effect_interrupted (ei_effectId i) k reason)) = Some (ev_payload e))) \<and>
     (\<forall>r n. requested_sequence current i = Some n \<longrightarrow> interruption_reason current i n = None \<longrightarrow> r \<in> set receipts \<longrightarrow>
        (pr_observation r = Succeeded \<longrightarrow> (\<exists>e \<in> set new.
           parse_payload h (Protocol_ev (Effect_completed (ei_effectId i) (pr_receiptId r))) = Some (ev_payload e))) \<and>
        (pr_observation r = Failed \<longrightarrow> (\<exists>e \<in> set new.
           parse_payload h (Protocol_ev (Effect_failed (ei_effectId i) (pr_receiptId r) (failure_reason_of r))) = Some (ev_payload e)))) \<and>
     (\<forall>n. requested_sequence current i = Some n \<longrightarrow> interruption_reason current i n = None \<longrightarrow> receipts = [] \<longrightarrow>
        mode = By_reconciliation \<longrightarrow> ei_idempotency i = Never_repeat_unknown \<longrightarrow>
        (\<forall>e \<in> set current. \<forall>r. observed_receipt e = Some r \<longrightarrow> pr_effectId r \<noteq> ei_effectId i) \<longrightarrow>
        (\<exists>e \<in> set new. parse_payload h (Protocol_ev (Effect_interrupted (ei_effectId i) None unknown_execution)) = Some (ev_payload e)))"

lemma set_update_subset: "set (AList.update k v al) \<subseteq> insert (k, v) (set al)"
  by (induction al) auto

lemma persisted_from:
  assumes "(foldE (add_persisted h) m rs :: 'x actor_error + _) = Inr m'" and "(k, r) \<in> set m'"
  shows "(k, r) \<in> set m \<or> r \<in> set rs"
  using assms
proof (induction rs arbitrary: m)
  case (Cons x rs)
  then obtain m1 where "(add_persisted h m x :: 'x actor_error + _) = Inr m1" "(foldE (add_persisted h) m1 rs :: 'x actor_error + _) = Inr m'"
    by auto
  moreover from this(1) have "m1 = oput (pr_receiptId x) x m" by (simp add: add_persisted_def)
  ultimately have "(foldE (add_persisted h) (oput (pr_receiptId x) x m) rs :: 'x actor_error + _) = Inr m'" by simp
  from Cons.IH[OF this Cons.prems(2)] show ?case by (auto dest!: subsetD[OF set_update_subset])
qed simp

text \<open>A journal that folds accepts a command once.\<close>

lemma reduceRun_receipts:
  assumes "reduceRun s e = Inr t"
  shows "extends (p_commandReceipts s) (p_commandReceipts t)"
    and "accepted_receipt e = Some r \<Longrightarrow> oget (p_commandReceipts s) (rc_commandId r) = None \<and>
      oget (p_commandReceipts t) (rc_commandId r) = Some r"
proof -
  from assms obtain t1 where t1: "reduce_payload (ev_eventId e) (ev_payload e) (s\<lparr>p_updatedAt := ev_occurredAt e\<rparr>) = Inr t1"
    "p_commandReceipts t = p_commandReceipts t1" by (auto simp: reduceRun_Inr)
  from payload_records_kept[OF t1(1)] t1(2) show "extends (p_commandReceipts s) (p_commandReceipts t)"
    by (simp add: records_kept_def)
  assume "accepted_receipt e = Some r"
  then obtain c where "ev_payload e = Protocol_ev (Command_accepted r c)"
    by (auto split: event_payload.splits protocol_fact.splits)
  with t1(1) have "on_command_accepted r c (s\<lparr>p_updatedAt := ev_occurredAt e\<rparr>) = Inr t1" by simp
  from on_command_accepted_Inr[OF this] t1(2)
  show "oget (p_commandReceipts s) (rc_commandId r) = None \<and> oget (p_commandReceipts t) (rc_commandId r) = Some r"
    by (simp add: update_conv')
qed

lemma foldE_accepts_once:
  assumes "foldE reduceRun s es = Inr t"
  shows "distinct (map rc_commandId (List.map_filter accepted_receipt es)) \<and>
    (\<forall>r \<in> set (List.map_filter accepted_receipt es). oget (p_commandReceipts s) (rc_commandId r) = None)"
  using assms
proof (induction es arbitrary: s)
  case (Cons e es)
  then obtain u where u: "reduceRun s e = Inr u" "foldE reduceRun u es = Inr t" by auto
  note step = reduceRun_receipts[OF u(1)]
  from step(1) have none: "oget (p_commandReceipts u) k = None \<Longrightarrow> oget (p_commandReceipts s) k = None" for k
    by (cases "oget (p_commandReceipts s) k") (auto simp: extends_def)
  show ?case
  proof (cases "accepted_receipt e")
    case None
    with Cons.IH[OF u(2)] none show ?thesis by (simp del: accepted_receipt.simps)
  next
    case (Some r)
    with Cons.IH[OF u(2)] none step(2)[OF Some] show ?thesis
      by (auto simp del: accepted_receipt.simps)
  qed
qed simp

lemma foldRunEvents_accepts_once:
  assumes "foldRunEvents h es = Inr s"
  shows "distinct (map rc_commandId (List.map_filter accepted_receipt es))"
proof -
  from assms obtain e rest u where es: "es = e # rest" "foldRun h [e] = Inr u" "reduceRunEvents u rest = Inr s"
    by (cases es) (auto simp: foldRunEvents_def)
  from es(2) have "accepted_receipt e = None"
    by (cases "ev_payload e")
      (auto simp: foldRun_single first_state_Inr parse_simps dest!: parse_run_event_payload[of h e])
  with foldE_accepts_once[of u rest s] es show ?thesis
    by (simp add: reduceRunEvents_foldE del: accepted_receipt.simps)
qed

locale actor_journal =
  fixes h :: host and o1 :: "('w, 'e) actor_options" and journal :: "'w \<Rightarrow> run_event list" and ok :: "'w \<Rightarrow> bool"
  assumes run_id: "entityId (ao_runId o1) = Some (ao_runId o1)"
    and placed: "ok w \<Longrightarrow> well_placed h (ao_runId o1) 1 (journal w)"
    and folds: "ok w \<Longrightarrow> journal w \<noteq> [] \<Longrightarrow> \<exists>s. foldRunEvents h (journal w) = Inr s"
    and load: "ok w \<Longrightarrow> ao_load o1 w = (r, w') \<Longrightarrow> ok w' \<and> grows journal w w' \<and> (\<forall>es. r = Inr es \<longrightarrow> es = journal w')"
    and append: "ok w \<Longrightarrow> ao_append o1 n inputs w = (r, w') \<Longrightarrow> inputs \<noteq> [] \<Longrightarrow> ok w' \<and> grows journal w w' \<and>
      (\<forall>es. r = Inr es \<longrightarrow> append_done h (ao_runId o1) n inputs es (journal w) (journal w'))"
    and authority: "ok w \<Longrightarrow> ao_assertAuthority o1 w = (q, w') \<Longrightarrow> ok w' \<and> grows journal w w'"
    and input: "ok w \<Longrightarrow> ao_putInput o1 x w = (q2, w') \<Longrightarrow> ok w' \<and> grows journal w w'"
    and decide: "ok w \<Longrightarrow> ao_decide o1 c cx w = (q3, w') \<Longrightarrow> ok w' \<and> grows journal w w'"
    and react: "ok w \<Longrightarrow> ao_react o1 = Some f \<Longrightarrow> f tv rx w = (q4, w') \<Longrightarrow> ok w' \<and> grows journal w w'"
    and clock: "ok w \<Longrightarrow> ao_clock o1 w = (t, w') \<Longrightarrow> ok w' \<and> grows journal w w'"
begin

lemma grows_self: "grows journal w w"
  by (simp add: grows_def)

lemma grows_via: "grows journal w w1 \<Longrightarrow> grows journal w1 w2 \<Longrightarrow> grows journal w w2"
  unfolding grows_def by (rule prefix_order.trans)

text \<open>Steps that keep the world in order and the journal growing.\<close>

definition safeS :: "('w, 'e, 'a) astep \<Rightarrow> bool" where
  "safeS m = (\<forall>w r w1. ok (fst w) \<longrightarrow> m w = (r, w1) \<longrightarrow> ok (fst w1) \<and> grows journal (fst w) (fst w1))"

lemma safe_D: "safeS m \<Longrightarrow> ok (fst w) \<Longrightarrow> m w = (r, w1) \<Longrightarrow> ok (fst w1) \<and> grows journal (fst w) (fst w1)"
  unfolding safeS_def by blast

lemma safe_simple [intro!]: "safeS (doneS x)" "safeS (liftS r)" "safeS (remember es)"
  by (auto simp: safeS_def doneS_def liftS_def remember_def grows_self)

lemma safe_then:
  assumes "safeS m" and "\<And>x. safeS (f x)"
  shows "safeS (thenS m f)"
  unfolding safeS_def
proof (intro allI impI)
  fix w r w2
  assume w: "ok (fst w)" and m: "thenS m f w = (r, w2)"
  obtain q w1 where q: "m w = (q, w1)" by (cases "m w")
  from safe_D[OF assms(1) w q] have w1: "ok (fst w1)" "grows journal (fst w) (fst w1)" by auto
  show "ok (fst w2) \<and> grows journal (fst w) (fst w2)"
  proof (cases q)
    case (Inl e)
    with m q w1 show ?thesis by (simp add: thenS_def)
  next
    case (Inr x)
    with m q have "f x w1 = (r, w2)" by (simp add: thenS_def)
    from safe_D[OF assms(2) w1(1) this] grows_via[OF w1(2)] show ?thesis by blast
  qed
qed

lemma safe_port: "(\<And>w r w1. ok w \<Longrightarrow> f w = (r, w1) \<Longrightarrow> ok w1 \<and> grows journal w w1) \<Longrightarrow> safeS (portS f)"
  unfolding safeS_def portS_def by (auto split: prod.splits)

lemma safe_clock: "safeS (clockS o1)"
  unfolding safeS_def clockS_def using clock by (fastforce split: prod.splits)

lemma safe_react: "ao_react o1 = Some f \<Longrightarrow> safeS (portS (f tv rx))"
  by (rule safe_port) (rule react)

lemma safe_load: "safeS (portS (ao_load o1))"
  by (rule safe_port) (use load in blast)

lemma safe_authority: "safeS (portS (ao_assertAuthority o1))"
  by (rule safe_port) (rule authority)

lemma safe_input: "safeS (portS (ao_putInput o1 x))"
  by (rule safe_port) (rule input)

lemma safe_decision: "safeS (portS (ao_decide o1 c cx))"
  by (rule safe_port) (rule decide)

lemmas safe_ports = safe_load safe_authority safe_input safe_decision

lemma safe_each: "(\<And>x. safeS (f x)) \<Longrightarrow> safeS (eachS f xs)"
  by (induction xs) (auto intro!: safe_then)

lemma safe_read: "safeS (readS o1)"
  unfolding readS_def by (intro safe_then safe_ports safe_simple)

lemma safe_publish: "safeS (publishInputs h o1 ps)"
  unfolding publishInputs_def by (rule safe_each) (auto intro!: safe_then safe_ports split: prod.splits)

lemma safe_decide: "safeS (decideS h o1 es c)"
  unfolding decideS_def by (intro safe_then safe_ports safe_clock safe_simple)

lemma read_journal:
  assumes "ok (fst w)" and "readS o1 w = (Inr es, w1)"
  shows "ok (fst w1)" "grows journal (fst w) (fst w1)" "es = journal (fst w1)" "well_placed h (ao_runId o1) 1 es"
proof -
  from safe_D[OF safe_read assms] show w1: "ok (fst w1)" "grows journal (fst w) (fst w1)" by auto
  from assms(2) obtain wa wb where wa: "ao_assertAuthority o1 (fst w) = (Inr (), fst wa)" "ao_load o1 (fst wa) = (Inr es, fst wb)"
    "fst w1 = fst wb" by (auto simp: readS_def stepS)
  from authority[OF assms(1) wa(1)] load[OF _ wa(2)] wa(3) show "es = journal (fst w1)" by auto
  with placed[OF w1(1)] show "well_placed h (ao_runId o1) 1 es" by simp
qed

text \<open>A committed batch is in the journal, event by event, each in its normal form.\<close>

lemma commit_done:
  assumes "ok (fst w)" and "prefix es (journal (fst w))" and "well_placed h (ao_runId o1) 1 es"
    and "commitS h o1 es inputs w = (Inr u, w1)" and "inputs \<noteq> []"
  shows "ok (fst w1)" "grows journal (fst w) (fst w1)"
    "\<exists>batch. set batch \<subseteq> set (journal (fst w1)) \<and> arr_of (parse_payload h) (map ev_payload inputs) = Some (map ev_payload batch)"
    "\<exists>s. foldRun h (es @ place_batch (ao_runId o1) es inputs) = Inr s"
proof -
  from assms(4) obtain s batch where s: "(assertApplicationBatch h (ao_runId o1) es inputs :: 'e actor_error + _) = Inr s"
    and app: "ao_append o1 (journalRevision es) inputs (fst w) = (Inr batch, fst w1)"
    unfolding commitS_def stepS by auto
  from append[OF assms(1) app assms(5)] show "ok (fst w1)" "grows journal (fst w) (fst w1)" by auto
  from s show "\<exists>s. foldRun h (es @ place_batch (ao_runId o1) es inputs) = Inr s"
    by (cases "foldRun h (es @ place_batch (ao_runId o1) es inputs)") (auto simp: assertApplicationBatch_def)
  from append[OF assms(1) app assms(5)]
  have outcome: "append_done h (ao_runId o1) (journalRevision es) inputs batch (journal (fst w)) (journal (fst w1))" by auto
  have "set batch \<subseteq> set (journal (fst w1)) \<and> arr_of (parse_payload h) (map ev_payload inputs) = Some (map ev_payload batch)"
    using outcome unfolding append_done_def
  proof (elim disjE exE conjE)
    fix before
    assume "prefix (before @ batch) (journal (fst w1))"
      and "arr_of (parse_run_event h) (place_inputs (ao_runId o1) (journalRevision es + 1) inputs) = Some batch"
    then show ?thesis using set_mono_prefix[of "before @ batch" "journal (fst w1)"] by (auto dest: place_inputs_payloads)
  next
    assume retry: "map input_of batch = inputs" "set batch \<subseteq> set (journal (fst w1))"
    have "map ev_payload inputs = map ev_payload batch" by (simp add: retry(1)[symmetric] comp_def)
    moreover have "parse_payload h (ev_payload e) = Some (ev_payload e)" if "e \<in> set batch" for e
      using well_placed_member[OF placed, of "fst w1" e] \<open>ok (fst w1)\<close> that retry(2) parse_run_event_payload by blast
    ultimately show ?thesis using retry(2) arr_of_fixed[of "map ev_payload batch" "parse_payload h"] by simp
  qed
  then show "\<exists>batch. set batch \<subseteq> set (journal (fst w1)) \<and> arr_of (parse_payload h) (map ev_payload inputs) = Some (map ev_payload batch)"
    by blast
qed

text \<open>What a newly accepted command leaves behind, and in what order the checks come.\<close>

lemma acceptNew_Inr:
  assumes "ok (fst w)" and "prefix es (journal (fst w))" and "well_placed h (ao_runId o1) 1 es"
    and "parse_command_envelope h c = Some c"
    and "acceptNew h o1 es c w = (Inr (r, intents), w1)" and "\<And>v. trim (h_digest h v) = h_digest h v"
  shows "ok (fst w1) \<and> grows journal (fst w) (fst w1) \<and> validateCommandReceiptIdentity h r = [] \<and> rc_commandId r = cv_commandId c \<and> rc_commandDigest r = cv_commandDigest c \<and>
    journalRevision es = cv_expectedRevision c \<and>
    (\<exists>e \<in> set (journal (fst w1)). ev_payload e = Protocol_ev (Command_accepted r (Some c))) \<and>
    (\<forall>i \<in> set intents. \<exists>e \<in> set (journal (fst w1)). map_option (\<lambda>i. Protocol_ev (Effect_requested i)) (parse_effect_intent h i) = Some (ev_payload e))"
proof -
  from assms(5) obtain t d wd prepared wp where
    revision: "journalRevision es = cv_expectedRevision c"
    and d: "decideS h o1 es c w = (Inr (t, d), wd)"
    and r: "buildCommandReceipt h \<lparr>rc_commandId = cv_commandId c, rc_runId = cv_runId c, rc_commandDigest = cv_commandDigest c,
        rc_acceptedRevision = journalRevision es + int (length (dn_before d)) + 1,
        rc_daemonEpoch = ao_daemonEpoch o1, rc_acceptedAt = t\<rparr> = Some r"
    and p: "(mapE (prepareEffectRequest h o1) (dn_effects d) :: 'e actor_error + _) = Inr prepared" "intents = map fst prepared"
    and wp: "publishInputs h o1 prepared wd = (Inr (), wp)"
    and commit: "commitS h o1 es (dn_before d @ [accepted_input h r c t] @ dn_after d @ map (requested_input h) (map fst prepared)) wp = (Inr (), w1)"
    unfolding acceptNew_def stepS Let_def by (auto simp: stepS)
  from safe_D[OF safe_decide assms(1) d] safe_D[OF safe_publish _ wp] have ok: "ok (fst wp)" "grows journal (fst w) (fst wp)"
    by (auto intro: grows_via)
  from ok(2) assms(2) have pre: "prefix es (journal (fst wp))" unfolding grows_def by (rule prefix_order.trans[rotated])
  let ?inputs = "dn_before d @ [accepted_input h r c t] @ dn_after d @ map (requested_input h) (map fst prepared)"
  have "?inputs \<noteq> []" by simp
  note committed = commit_done[OF ok(1) pre assms(3) commit this]
  from committed(3) obtain batch where batch: "set batch \<subseteq> set (journal (fst w1))"
    "arr_of (parse_payload h) (map ev_payload ?inputs) = Some (map ev_payload batch)" by blast
  have stored: "\<exists>e \<in> set (journal (fst w1)). parse_payload h (ev_payload x) = Some (ev_payload e)" if "x \<in> set ?inputs" for x
  proof -
    from that have "ev_payload x \<in> set (map ev_payload ?inputs)" by (simp only: set_map imageI)
    from arr_of_member[OF batch(2) this] batch(1) show ?thesis by auto
  qed
  from buildCommandReceipt_fields[OF r] have fields: "parse_command_receipt h r = Some r" "rc_commandId r = cv_commandId c"
    "rc_commandDigest r = cv_commandDigest c"
    using assms(4) by (auto simp: parse_command_receipt_material_def parse_simps parse_command_envelope_def parse_command_envelope_input_def
        command_receipt_material.defs dest!: arg_cong[of _ _ rc_commandId])
  from stored[of "accepted_input h r c t"] fields(1) assms(4)
  have "\<exists>e \<in> set (journal (fst w1)). ev_payload e = Protocol_ev (Command_accepted r (Some c))"
    by (auto simp: accepted_input_def opt_of_def)
  moreover have "\<exists>e \<in> set (journal (fst w1)). map_option (\<lambda>i. Protocol_ev (Effect_requested i)) (parse_effect_intent h i) = Some (ev_payload e)"
    if "i \<in> set intents" for i
  proof -
    from that p(2) have "requested_input h i \<in> set ?inputs" by auto
    from stored[OF this] show ?thesis
      by (cases "parse_effect_intent h i") (auto simp: requested_input_def)
  qed
  ultimately show ?thesis using committed(1,2) ok(2) fields(2,3) revision buildCommandReceipt_valid[OF r assms(6)]
    by (auto intro: grows_via)
qed

text \<open>A command whose acceptance is in the journal is answered from there, and nothing happens but the reading.\<close>

lemma check_receipt_Inr: "check_receipt h r = Inr p \<Longrightarrow> parse_command_receipt h r = Some p"
  by (auto simp: check_receipt_def)

lemma recorded_receipt:
  assumes "(commandReceipt h es (rc_commandId r) :: 'x actor_error + _) = Inr found" and "e \<in> set es" "accepted_receipt e = Some r"
    and "parse_command_receipt h r = Some r"
  shows "found = Some r"
proof -
  let ?matches = "filter (\<lambda>x. rc_commandId x = rc_commandId r) (List.map_filter accepted_receipt es)"
  from assms(1) obtain rs where rs: "(mapE (check_receipt h) ?matches :: 'x actor_error + _) = Inr rs" "length rs \<le> 1"
    "found = (case rs of [] \<Rightarrow> None | x # _ \<Rightarrow> Some x)"
    by (auto simp: commandReceipt_def)
  have "r \<in> set ?matches" using assms(2,3) by (auto simp: List.map_filter_def intro!: image_eqI[of _ _ e])
  from mapE_result[OF rs(1) this] obtain y where y: "y \<in> set rs" "(check_receipt h r :: 'x actor_error + _) = Inr y" by blast
  from check_receipt_Inr[OF y(2)] assms(4) have "y = r" by simp
  with y(1) rs(2) have "rs = [r]" by (cases rs) auto
  with rs(3) show ?thesis by simp
qed

lemma accept_Inr:
  assumes "ok (fst w)" and "accept h o1 raw w = (Inr (r, intents), w1)" and "\<And>v. trim (h_digest h v) = h_digest h v"
  obtains c where "parse_command_envelope h raw = Some c" "cv_runId c = ao_runId o1"
    "validateRunCommandEnvelopeIdentity h c = []" "ok (fst w1)" "grows journal (fst w) (fst w1)"
    "validateCommandReceiptIdentity h r = []" "rc_commandId r = cv_commandId c" "rc_commandDigest r = cv_commandDigest c" "parse_command_receipt h r = Some r"
    "\<exists>e \<in> set (journal (fst w1)). accepted_receipt e = Some r"
    "\<forall>i \<in> set intents. \<exists>e \<in> set (journal (fst w1)). map_option (\<lambda>i. Protocol_ev (Effect_requested i)) (parse_effect_intent h i) = Some (ev_payload e)"
proof -
  from assms(2) obtain c es wr found where c: "parse_command_envelope h raw = Some c" "cv_runId c = ao_runId o1"
      "validateRunCommandEnvelopeIdentity h c = []"
    and es: "readS o1 w = (Inr es, wr)" and found: "(commandReceipt h es (cv_commandId c) :: 'e actor_error + _) = Inr found"
    and rest: "(case found of Some r1 \<Rightarrow> liftS (throwIf (rc_commandDigest r1 \<noteq> cv_commandDigest c) (Command_conflict (cv_commandId c)) (Inr (r1, [])))
       | None \<Rightarrow> acceptNew h o1 es c) wr = (Inr (r, intents), w1)"
    unfolding accept_def parseEnvelope_def stepS by (auto simp: stepS)
  note rd = read_journal[OF assms(1) es]
  show thesis
  proof (cases found)
    case None
    from rd(3) have pre: "prefix es (journal (fst wr))" by simp
    from rest None have "acceptNew h o1 es c wr = (Inr (r, intents), w1)" by simp
    note new = acceptNew_Inr[OF rd(1) pre rd(4) command_envelope.idem[OF c(1)] this assms(3)]
    then obtain e where e: "e \<in> set (journal (fst w1))" "ev_payload e = Protocol_ev (Command_accepted r (Some c))" by blast
    from new have "ok (fst w1)" by blast
    from well_placed_member[OF placed[OF this] e(1)] e(2) have "parse_command_receipt h r = Some r"
      by (auto simp: parse_simps dest!: parse_run_event_payload)
    moreover from e have "\<exists>e \<in> set (journal (fst w1)). accepted_receipt e = Some r" by (intro bexI[of _ e]) simp_all
    ultimately show ?thesis using that[OF c] new rd(2) by (blast intro: grows_via)
  next
    case (Some r1)
    with rest have r1: "r1 = r" "intents = []" "w1 = wr" "rc_commandDigest r = cv_commandDigest c" by (auto simp: stepS)
    from found obtain ys where ys: "(mapE (check_receipt h) (filter (\<lambda>x. rc_commandId x = cv_commandId c)
        (List.map_filter accepted_receipt es)) :: 'e actor_error + _) = Inr ys" "found = (case ys of [] \<Rightarrow> None | y # _ \<Rightarrow> Some y)"
      by (auto simp: commandReceipt_def)
    with Some r1(1) obtain rs where rs: "(mapE (check_receipt h) (filter (\<lambda>x. rc_commandId x = cv_commandId c)
        (List.map_filter accepted_receipt es)) :: 'e actor_error + _) = Inr (r # rs)"
      by (cases ys) auto
    from mapE_mem[OF this, of r] obtain x where x: "x \<in> set (List.map_filter accepted_receipt es)" "rc_commandId x = cv_commandId c"
      "(check_receipt h x :: 'e actor_error + _) = Inr r" by auto
    then obtain e where e: "e \<in> set es" "accepted_receipt e = Some x" by (auto simp: List.map_filter_def)
    from well_placed_member[OF rd(4) e(1)] e(2) have "parse_command_receipt h x = Some x"
      by (auto simp: parse_simps dest!: parse_run_event_payload split: event_payload.splits protocol_fact.splits)
    with check_receipt_Inr[OF x(3)] have "x = r" by simp
    with x(3) have "validateCommandReceiptIdentity h r = []" by (auto simp: check_receipt_def)
    with \<open>x = r\<close> \<open>parse_command_receipt h x = Some x\<close> show ?thesis
      using that[OF c] r1 x(2) e rd by auto
  qed
qed

text \<open>A receipt that is in the journal and whose identity is valid is found there.\<close>

lemma receipt_found:
  assumes "ok w" and "e \<in> set (journal w)" "accepted_receipt e = Some r"
    and "parse_command_receipt h r = Some r" "validateCommandReceiptIdentity h r = []"
  shows "(commandReceipt h (journal w) (rc_commandId r) :: 'x actor_error + _) = Inr (Some r)"
proof -
  let ?rs = "List.map_filter accepted_receipt (journal w)"
  from assms(2) have "journal w \<noteq> []" by auto
  from folds[OF assms(1) this] foldRunEvents_accepts_once have once: "distinct (map rc_commandId ?rs)" by blast
  have "r \<in> set ?rs" using assms(2,3) by (auto simp: List.map_filter_def intro!: image_eqI[of _ _ e])
  from filter_distinct_map[OF once this] have "filter (\<lambda>x. rc_commandId x = rc_commandId r) ?rs = [r]" .
  with assms(4,5) show ?thesis by (simp add: commandReceipt_def check_receipt_def)
qed

text \<open>Submitting an accepted command again reads the journal, and if that succeeds returns the receipt.\<close>

lemma accept_again:
  assumes "ok (fst w)" and "parse_command_envelope h raw = Some c" "cv_runId c = ao_runId o1"
    and "validateRunCommandEnvelopeIdentity h c = []"
    and "e \<in> set (journal (fst w))" "accepted_receipt e = Some r" "parse_command_receipt h r = Some r"
    and "validateCommandReceiptIdentity h r = []" "rc_commandId r = cv_commandId c" "rc_commandDigest r = cv_commandDigest c"
  shows "accept h o1 raw w = (map_sum id (\<lambda>_. (r, [])) (fst (readS o1 w)), snd (readS o1 w))"
proof -
  obtain q wr where q: "readS o1 w = (q, wr)" by (cases "readS o1 w")
  note start = accept_def thenS_def liftS_def parseEnvelope_def assms(2,3,4) q
  show ?thesis
  proof (cases q)
    case (Inl x)
    then show ?thesis by (simp add: start)
  next
    case (Inr es)
    from read_journal[OF assms(1), of es wr] q Inr have rd: "ok (fst wr)" "grows journal (fst w) (fst wr)" "es = journal (fst wr)"
      by auto
    with assms(5) have "e \<in> set (journal (fst wr))" by (auto simp: grows_def dest: set_mono_prefix)
    from receipt_found[OF rd(1) this assms(6,7,8), unfolded assms(9), where 'x = 'e]
    show ?thesis using Inr by (simp add: start rd(3) assms(10))
  qed
qed

lemma stored_input:
  assumes "ok (fst w)" and "prefix es (journal (fst w))" and "well_placed h (ao_runId o1) 1 es"
    and "commitS h o1 es inputs w = (Inr u, w1)" and "x \<in> set inputs"
  shows "\<exists>e \<in> set (journal (fst w1)). parse_payload h (ev_payload x) = Some (ev_payload e)"
proof -
  from assms(5) have "inputs \<noteq> []" by auto
  from commit_done(3)[OF assms(1-4) this] obtain batch where batch: "set batch \<subseteq> set (journal (fst w1))"
    "arr_of (parse_payload h) (map ev_payload inputs) = Some (map ev_payload batch)" by blast
  from assms(5) have "ev_payload x \<in> set (map ev_payload inputs)" by simp
  from arr_of_member[OF batch(2) this] batch(1) show ?thesis by auto
qed

lemma terminal_written:
  assumes "terminalInput h o1 mode i interrupted bound t w = (Inr x, w1)"
  shows "(\<forall>reason. interrupted = Some reason \<longrightarrow>
      (\<exists>y k. x = Some y \<and> ev_payload y = Protocol_ev (Effect_interrupted (ei_effectId i) k reason))) \<and>
    (\<forall>r. interrupted = None \<longrightarrow> t = Some r \<longrightarrow>
      (pr_observation r = Succeeded \<longrightarrow> (\<exists>y. x = Some y \<and> ev_payload y = Protocol_ev (Effect_completed (ei_effectId i) (pr_receiptId r)))) \<and>
      (pr_observation r = Failed \<longrightarrow> (\<exists>y. x = Some y \<and>
         ev_payload y = Protocol_ev (Effect_failed (ei_effectId i) (pr_receiptId r) (failure_reason_of r))))) \<and>
    (interrupted = None \<longrightarrow> t = None \<longrightarrow> bound = [] \<longrightarrow> mode = By_reconciliation \<longrightarrow> ei_idempotency i = Never_repeat_unknown \<longrightarrow>
      (\<exists>y. x = Some y \<and> ev_payload y = Protocol_ev (Effect_interrupted (ei_effectId i) None unknown_execution)))"
  using assms
  by (auto simp: terminalInput_def interruptedEffectInput_def completedEffectInput_def failedEffectInput_def stepS
      split: option.splits)

end

lemma update_keeps: "(k, v) \<in> set al \<Longrightarrow> k \<noteq> k' \<Longrightarrow> (k, v) \<in> set (AList.update k' v' al)"
  by (induction al) auto

lemma update_has: "(k, v) \<in> set (AList.update k v al)"
  by (induction al) auto

lemma fold_update_keeps:
  "(k, v) \<in> set al \<Longrightarrow> k \<notin> pr_receiptId ` set rs \<Longrightarrow> (k, v) \<in> set (fold (\<lambda>r. oput (pr_receiptId r) r) rs al)"
  by (induction rs arbitrary: al) (auto intro: update_keeps)

lemma fold_update_has:
  "distinct (map pr_receiptId rs) \<Longrightarrow> r \<in> set rs \<Longrightarrow> (pr_receiptId r, r) \<in> set (fold (\<lambda>r. oput (pr_receiptId r) r) rs al)"
proof (induction rs arbitrary: al)
  case (Cons x xs)
  then show ?case
    by (cases "r = x") (auto intro!: fold_update_keeps update_has)
qed simp

lemma bound_has: "distinct (map pr_receiptId rs) \<Longrightarrow> r \<in> set rs \<Longrightarrow> r \<in> set (bound_map p i rs)"
  unfolding bound_map_def by (force dest: fold_update_has)

lemma hasTerminalEvent_Inr: "hasTerminalEvent es i = Inr b \<Longrightarrow> b \<longleftrightarrow> (\<exists>e \<in> set es. \<exists>k. terminal_of e = Some (i, k))"
proof -
  assume "hasTerminalEvent es i = Inr b"
  then have "b \<longleftrightarrow> filter (\<lambda>t. fst t = i) (List.map_filter terminal_of es) \<noteq> []"
    by (cases "filter (\<lambda>t. fst t = i) (List.map_filter terminal_of es)") (auto simp: hasTerminalEvent_def)
  also have "\<dots> \<longleftrightarrow> (\<exists>e \<in> set es. \<exists>k. terminal_of e = Some (i, k))"
    by (force simp: filter_empty_conv List.map_filter_def)
  finally show ?thesis .
qed

context actor_journal
begin

lemma safe_reactS: "safeS (reactS h o1 current i bound inputs terminal)"
  unfolding reactS_def
  by (auto intro!: safe_then safe_simple safe_react safe_publish split: option.splits)

lemma safe_terminal: "safeS (terminalInput h o1 mode i interrupted bound t)"
  unfolding terminalInput_def interruptedEffectInput_def
  by (auto intro!: safe_then safe_simple safe_clock split: option.splits)

lemma thenS_E:
  assumes "thenS m f w = (Inr y, w2)"
  obtains x w1 where "m w = (Inr x, w1)" "f x w1 = (Inr y, w2)"
  using assms by (auto simp: thenS_Inr)

lemma settle_steps:
  assumes "settleS h o1 i receipts mode current persisted w = (Inr following, w1)"
  obtains unseen terminalReceipt interrupted terminal wt more next1 wm where
    "(only_terminal h i (bound_map persisted i receipts) :: 'e actor_error + _) = Inr terminalReceipt"
    "(persistedInterruptionReason current i :: 'e actor_error + _) = Inr interrupted"
    "terminalInput h o1 mode i interrupted (bound_map persisted i receipts) terminalReceipt w = (Inr terminal, wt)"
    "reactS h o1 current i (bound_map persisted i receipts)
       (map (observed_input h) unseen @ (case terminal of None \<Rightarrow> [] | Some t \<Rightarrow> [t])) terminal wt = (Inr (more, next1), wm)"
    "finishS h o1 current ((map (observed_input h) unseen @ (case terminal of None \<Rightarrow> [] | Some t \<Rightarrow> [t])) @ more) next1 wm = (Inr following, w1)"
  using assms unfolding settleS_def Let_def
  by (elim thenS_E) (simp only: liftS_Inr split: prod.splits)

lemma record_steps:
  assumes "recordObservations h o1 i receipts mode w = (Inr following, w1)"
  obtains current wr persisted settled where "readS o1 w = (Inr current, wr)"
    "(foldE (add_persisted h) [] (List.map_filter observed_receipt current) :: 'e actor_error + _) = Inr persisted"
    "(hasTerminalEvent current (ei_effectId i) :: 'e actor_error + _) = Inr settled"
    "(if settled then doneS [] else settleS h o1 i receipts mode current persisted) wr = (Inr following, w1)"
  using assms unfolding recordObservations_def
  by (elim thenS_E) (simp only: liftS_Inr)

lemma only_terminal_Inr:
  assumes "(only_terminal h i bound :: 'x actor_error + _) = Inr t" and "r \<in> set bound" and "pr_observation r \<noteq> Started"
  shows "t = Some r"
proof -
  let ?ts = "sort_le (physical_le h) (filter (\<lambda>r. pr_observation r \<noteq> Started) bound)"
  from assms(2,3) have "r \<in> set ?ts" by simp
  moreover from assms(1) have "length ?ts \<le> 1" and t: "t = (case ?ts of [] \<Rightarrow> None | r # _ \<Rightarrow> Some r)"
    by (auto simp: only_terminal_def Let_def)
  ultimately have "?ts = [r]" by (cases ?ts) auto
  with t show ?thesis by simp
qed

lemma settle_recorded:
  assumes w: "ok (fst w)" and pre: "prefix current (journal (fst w))" and placed: "well_placed h (ao_runId o1) 1 current"
    and run: "settleS h o1 i receipts mode current persisted w = (Inr following, w1)"
    and distinct: "distinct (map pr_receiptId receipts)"
    and persisted: "(foldE (add_persisted h) [] (List.map_filter observed_receipt current) :: 'e actor_error + _) = Inr persisted"
  shows "ok (fst w1) \<and> grows journal (fst w) (fst w1) \<and> outcome_recorded h i receipts mode current (journal (fst w1))"
proof -
  from run obtain unseen t interrupted terminal wt more next1 wm where
    t: "(only_terminal h i (bound_map persisted i receipts) :: 'e actor_error + _) = Inr t"
    and interrupted: "(persistedInterruptionReason current i :: 'e actor_error + _) = Inr interrupted"
    and terminal: "terminalInput h o1 mode i interrupted (bound_map persisted i receipts) t w = (Inr terminal, wt)"
    and react: "reactS h o1 current i (bound_map persisted i receipts)
       (map (observed_input h) unseen @ (case terminal of None \<Rightarrow> [] | Some t \<Rightarrow> [t])) terminal wt = (Inr (more, next1), wm)"
    and finish: "finishS h o1 current ((map (observed_input h) unseen @ (case terminal of None \<Rightarrow> [] | Some t \<Rightarrow> [t])) @ more) next1 wm = (Inr following, w1)"
    by (rule settle_steps)
  let ?inputs = "(map (observed_input h) unseen @ (case terminal of None \<Rightarrow> [] | Some t \<Rightarrow> [t])) @ more"
  from safe_D[OF safe_terminal w terminal] have wt: "ok (fst wt)" "grows journal (fst w) (fst wt)" by auto
  from safe_D[OF safe_reactS wt(1) react] have wm: "ok (fst wm)" "grows journal (fst wt) (fst wm)" by auto
  from wt(2) wm(2) have gm: "grows journal (fst w) (fst wm)" by (rule grows_via)
  with pre have prem: "prefix current (journal (fst wm))" unfolding grows_def by (rule prefix_order.trans)
  have after: "ok (fst w1) \<and> grows journal (fst w) (fst w1)"
  proof (cases "?inputs = []")
    case True
    with finish have "w1 = wm" by (simp add: finishS_def stepS)
    with wm(1) gm show ?thesis by simp
  next
    case False
    with finish have commit: "commitS h o1 current ?inputs wm = (Inr (), w1)" unfolding finishS_def by (auto simp: stepS)
    from commit_done(1,2)[OF wm(1) prem placed commit False] gm show ?thesis by (blast intro: grows_via)
  qed
  have stored: "\<exists>e \<in> set (journal (fst w1)). parse_payload h (ev_payload y) = Some (ev_payload e)" if "terminal = Some y" for y
  proof -
    from that have "y \<in> set ?inputs" by simp
    moreover from this finish have "commitS h o1 current ?inputs wm = (Inr (), w1)" unfolding finishS_def by (auto simp: stepS split: if_splits)
    ultimately show ?thesis using stored_input[OF wm(1) prem placed] by blast
  qed
  note written = terminal_written[OF terminal]
  have reason: "interrupted = interruption_reason current i n" if "requested_sequence current i = Some n" for n
    using interrupted that by (simp add: persistedInterruptionReason_def)
  have found: "t = Some r" if "r \<in> set receipts" "pr_observation r \<noteq> Started" for r
    using only_terminal_Inr[OF t bound_has[OF distinct that(1)] that(2)] .
  have "outcome_recorded h i receipts mode current (journal (fst w1))"
    unfolding outcome_recorded_def
  proof (intro conjI allI impI)
    fix q n assume "requested_sequence current i = Some n" "interruption_reason current i n = Some q"
    with reason have "interrupted = Some q" by simp
    with written obtain y k where "terminal = Some y" "ev_payload y = Protocol_ev (Effect_interrupted (ei_effectId i) k q)" by blast
    with stored[of y] show "\<exists>e \<in> set (journal (fst w1)). \<exists>k.
        parse_payload h (Protocol_ev (Effect_interrupted (ei_effectId i) k q)) = Some (ev_payload e)" by auto
  next
    fix r n assume r: "requested_sequence current i = Some n" "interruption_reason current i n = None" "r \<in> set receipts"
      "pr_observation r = Succeeded"
    with reason found[of r] have "interrupted = None" "t = Some r" by auto
    with written r(4) obtain y where "terminal = Some y" "ev_payload y = Protocol_ev (Effect_completed (ei_effectId i) (pr_receiptId r))" by blast
    with stored[of y] show "\<exists>e \<in> set (journal (fst w1)).
        parse_payload h (Protocol_ev (Effect_completed (ei_effectId i) (pr_receiptId r))) = Some (ev_payload e)" by auto
  next
    fix r n assume r: "requested_sequence current i = Some n" "interruption_reason current i n = None" "r \<in> set receipts"
      "pr_observation r = Failed"
    with reason found[of r] have "interrupted = None" "t = Some r" by auto
    with written r(4) obtain y where "terminal = Some y"
      "ev_payload y = Protocol_ev (Effect_failed (ei_effectId i) (pr_receiptId r) (failure_reason_of r))" by blast
    with stored[of y] show "\<exists>e \<in> set (journal (fst w1)).
        parse_payload h (Protocol_ev (Effect_failed (ei_effectId i) (pr_receiptId r) (failure_reason_of r))) = Some (ev_payload e)" by auto
  next
    fix n assume n: "requested_sequence current i = Some n" "interruption_reason current i n = None" "receipts = []"
      "mode = By_reconciliation" "ei_idempotency i = Never_repeat_unknown"
      and none: "\<forall>e \<in> set current. \<forall>r. observed_receipt e = Some r \<longrightarrow> pr_effectId r \<noteq> ei_effectId i"
    have "pr_effectId r \<noteq> ei_effectId i" if "(k, r) \<in> set persisted" for k r
    proof -
      from persisted_from[OF persisted that] obtain e where "e \<in> set current" "observed_receipt e = Some r"
        by (auto simp: List.map_filter_def simp del: observed_receipt.simps)
      with none show ?thesis by blast
    qed
    then have "bound_map persisted i receipts = []" using n(3) by (auto simp: bound_map_def filter_empty_conv)
    moreover from this t have "t = None" by (simp add: only_terminal_def sort_le_def Let_def)
    moreover have "interrupted = None" using reason n(1,2) by simp
    ultimately obtain y where "terminal = Some y" "ev_payload y = Protocol_ev (Effect_interrupted (ei_effectId i) None unknown_execution)"
      using written n(4,5) by blast
    with stored[of y] show "\<exists>e \<in> set (journal (fst w1)).
        parse_payload h (Protocol_ev (Effect_interrupted (ei_effectId i) None unknown_execution)) = Some (ev_payload e)" by auto
  qed
  with after show ?thesis by blast
qed

lemma recordObservations_Inr:
  assumes w: "ok (fst w)" and run: "recordObservations h o1 i receipts mode w = (Inr following, w1)"
    and distinct: "distinct (map pr_receiptId receipts)"
  shows "ok (fst w1) \<and> grows journal (fst w) (fst w1) \<and> (\<exists>current. prefix current (journal (fst w1)) \<and>
    prefix (journal (fst w)) current \<and>
    ((\<exists>e \<in> set current. \<exists>k. terminal_of e = Some (ei_effectId i, k)) \<or> outcome_recorded h i receipts mode current (journal (fst w1))))"
proof -
  from run obtain current wr persisted settled where rd: "readS o1 w = (Inr current, wr)"
    and persisted: "(foldE (add_persisted h) [] (List.map_filter observed_receipt current) :: 'e actor_error + _) = Inr persisted"
    and settled: "(hasTerminalEvent current (ei_effectId i) :: 'e actor_error + _) = Inr settled"
    and rest: "(if settled then doneS [] else settleS h o1 i receipts mode current persisted) wr = (Inr following, w1)"
    by (rule record_steps)
  note r = read_journal[OF w rd]
  show ?thesis
  proof (cases settled)
    case True
    with rest have "w1 = wr" by (simp add: stepS)
    with r hasTerminalEvent_Inr[OF settled] True show ?thesis unfolding grows_def by (auto intro!: exI[of _ current])
  next
    case False
    with rest have "settleS h o1 i receipts mode current persisted wr = (Inr following, w1)" by simp
    from settle_recorded[OF r(1) _ r(4) this distinct persisted] r show ?thesis unfolding grows_def
      by (intro conjI exI[of _ current] disjI2) (auto intro: prefix_order.trans)
  qed
qed

end

end
