(* ===== verification/Actor_Scan.thy ===== *)
theory Actor_Scan
  imports Run_Actor
begin

text \<open>
  What the actor's own scan of the journal for open effects has to do with the projection of the reducer.

  Source: packages/run-engine/src/run-actor.ts (\<open>pendingEffects\<close>).
\<close>

definition scan_matches :: "run_projection \<Rightarrow> pending_scan \<Rightarrow> bool" where
  "scan_matches s t \<longleftrightarrow> sn_intents t = p_effectIntents s \<and> sn_receipts t = p_physicalEffectReceipts s \<and>
     (\<forall>i. i \<in> set (sn_terminal t) \<longleftrightarrow> oget (p_effectTerminals s) i \<noteq> None)"

text \<open>The identities of what an event carries.\<close>

definition carries_valid :: "host \<Rightarrow> run_event \<Rightarrow> bool" where
  "carries_valid h e \<longleftrightarrow>
     (case requested_intent e of None \<Rightarrow> True | Some i \<Rightarrow> validateEffectIntentIdentity h i = []) \<and>
     (case observed_receipt e of None \<Rightarrow> True | Some r \<Rightarrow> validatePhysicalEffectReceiptIdentity h r = [])"

lemma scan_protocol:
  assumes "reduce_protocol_fact f s = Inr s'" and "ev_payload e = Protocol_ev f" and "scan_matches s t" and "carries_valid h e"
  shows "\<exists>t'. (scan_event h (p_runId s) t e :: 'x actor_error + _) = Inr t' \<and> scan_matches s' t'"
proof (cases f)
  case (Command_accepted r c)
  with assms show ?thesis by (auto simp: scan_event_def scan_matches_def handler_defs Let_def split: option.splits if_splits)
next
  case (Effect_requested i)
  with assms show ?thesis
    by (auto simp: scan_event_def scan_requested_def scan_matches_def handler_defs carries_valid_def)
next
  case (Effect_observed r)
  with assms show ?thesis
    by (auto simp: scan_event_def scan_observed_def scan_matches_def handler_defs carries_valid_def receipt_taken_def split: option.splits)
next
  case (Effect_completed i r)
  with assms show ?thesis
    by (auto simp: scan_event_def scan_terminal_def scan_matches_def handler_defs)
next
  case (Effect_failed i r x)
  with assms show ?thesis
    by (auto simp: scan_event_def scan_terminal_def scan_matches_def handler_defs)
next
  case (Effect_interrupted i r x)
  with assms show ?thesis
    by (cases r) (auto simp: scan_event_def scan_terminal_def scan_matches_def handler_defs Let_def)
qed

lemma scan_step:
  assumes "journal_step h s e s'" and "scan_matches s t" and "carries_valid h e"
  shows "\<exists>t'. (scan_event h (p_runId s) t e :: 'x actor_error + _) = Inr t' \<and> scan_matches s' t' \<and> p_runId s' = p_runId s"
proof -
  from assms(1) obtain s1 where red: "reduce_payload (ev_eventId e) (ev_payload e) (s\<lparr>p_updatedAt := ev_occurredAt e\<rparr>) = Inr s1"
    and s': "s' = s1\<lparr>p_sequence := ev_sequence e, p_appliedEventIds := p_appliedEventIds s1 @ [ev_eventId e]\<rparr>"
    by (rule journal_step_payload)
  from payload_frame(1)[OF red] have id: "p_runId s' = p_runId s" by (simp add: s' id_region_def)
  show ?thesis
  proof (cases "\<exists>f. ev_payload e = Protocol_ev f")
    case True
    then obtain f where f: "ev_payload e = Protocol_ev f" by blast
    with red have "reduce_protocol_fact f (s\<lparr>p_updatedAt := ev_occurredAt e\<rparr>) = Inr s1" by simp
    from scan_protocol[OF this f, of t h] assms(2,3) id show ?thesis by (simp add: scan_matches_def s')
  next
    case False
    with payload_regions(1)[OF red] have "protocol_region s1 = protocol_region s" by (simp add: protocol_region_def)
    with False assms(2) id show ?thesis
      by (auto simp: scan_event_def scan_matches_def protocol_region_def s' split: event_payload.splits)
  qed
qed

lemma scan_fold:
  assumes "foldRun h es = Inr s" and "\<forall>e \<in> set es. parse_run_event h e = Some e \<and> carries_valid h e"
  shows "\<exists>t. (foldE (scan_event h (p_runId s)) \<lparr>sn_intents = [], sn_receipts = [], sn_terminal = []\<rparr> es :: 'x actor_error + _) = Inr t \<and>
    scan_matches s t"
  using assms
proof (induction es arbitrary: s rule: rev_induct)
  case (snoc e es)
  show ?case
  proof (cases "es = []")
    case True
    with snoc.prems obtain g d where "ev_payload e = Run_ev (Run_created g d)"
      "s = created_projection (ev_runId e) (ev_eventId e) (ev_occurredAt e) g d"
      by (auto simp: foldRun_single first_state_Inr)
    with True show ?thesis by (simp add: scan_event_def scan_matches_def created_projection_def)
  next
    case False
    with snoc.prems(1) obtain t e' where t: "foldRun h es = Inr t" "parse_run_event h e = Some e'" "journal_step h t e' s"
      by (auto simp: foldRun_append1 extend_state_Inr)
    with snoc.prems(2) have e: "journal_step h t e s" "carries_valid h e" by auto
    from snoc.IH[OF t(1)] snoc.prems(2) obtain u where
      u: "(foldE (scan_event h (p_runId t)) \<lparr>sn_intents = [], sn_receipts = [], sn_terminal = []\<rparr> es :: 'x actor_error + _) = Inr u"
      "scan_matches t u" by auto
    from scan_step[OF e(1) u(2) e(2), where 'x = 'x] u(1) show ?thesis by (auto simp: foldE_append)
  qed
qed (simp add: foldRun_def)

lemma pending_of_fold:
  assumes "foldRun h es = Inr s" and "\<forall>e \<in> set es. parse_run_event h e = Some e \<and> carries_valid h e"
  shows "(pending_of h (p_runId s) es :: 'x actor_error + _) =
    Inr (filter (\<lambda>i. oget (p_effectTerminals s) (ei_effectId i) = None) (map snd (p_effectIntents s)))"
proof -
  from scan_fold[OF assms, where 'x = 'x] obtain t where
    t: "(foldE (scan_event h (p_runId s)) \<lparr>sn_intents = [], sn_receipts = [], sn_terminal = []\<rparr> es :: 'x actor_error + _) = Inr t"
    "scan_matches s t" by blast
  then show ?thesis by (simp add: pending_of_def scan_matches_def)
qed

end
