(* ===== verification/Actor_Properties.thy ===== *)
theory Actor_Properties
  imports Actor_Laws Actor_Scan Coordinator_Store
begin

text \<open>
  The actor on the durable journal and the input store, and what it promises: commands are accepted once,
  what it has to resume is what the reducer holds open, and what became of an effect is recorded as it was.

  Sources: packages/run-engine/src/run-actor.ts, packages/run-engine/src/run-event-journal.ts.
\<close>

section \<open>The fenced journal of an actor\<close>

datatype actor_failure = From_journal world_error | From_inputs directory_error

text \<open>The world: the store of the run with everyone else who works on it, and the directory of effect inputs.\<close>

type_synonym actor_world = "store_world \<times> input_dir"

definition on_store :: "(store_world \<Rightarrow> (world_error + 'a) \<times> store_world) \<Rightarrow> actor_world \<Rightarrow> (actor_failure + 'a) \<times> actor_world" where
  "on_store f w = (case f (fst w) of (r, w1) \<Rightarrow> (map_sum From_journal id r, w1, snd w))"

text \<open>What the constructor of the journal refuses.\<close>

definition binding_valid :: "string \<Rightarrow> string \<Rightarrow> authority \<Rightarrow> bool" where
  "binding_valid runId epoch a \<longleftrightarrow> trim runId \<noteq> [] \<and> trim epoch \<noteq> [] \<and> au_operationId a = epoch"

definition journal_assert :: "host \<Rightarrow> sha \<Rightarrow> string \<Rightarrow> authority \<Rightarrow> (store_world \<Rightarrow> string + unit) option \<Rightarrow> store_world \<Rightarrow>
    (world_error + unit) \<times> store_world" where
  "journal_assert h sha r a installation w = (let w1 = others_act h sha r w in
     (bindE (case installation of None \<Rightarrow> Inr () | Some f \<Rightarrow> adapter (f w1)) (\<lambda>_.
        map_sum Store_failed id (assertAuthority r a (sw_storage w1))), w1))"

definition journal_append :: "host \<Rightarrow> sha \<Rightarrow> string \<Rightarrow> authority \<Rightarrow> (store_world \<Rightarrow> string + unit) option \<Rightarrow>
    int \<Rightarrow> run_event_input list \<Rightarrow> store_world \<Rightarrow> (world_error + run_event list) \<times> store_world" where
  "journal_append h sha r a installation n inputs w =
     (case journal_assert h sha r a installation w of
        (Inl e, w1) \<Rightarrow> (Inl e, w1)
      | (Inr _, w1) \<Rightarrow> (case store_append h sha r a n inputs w1 of
          (Inl e, w2) \<Rightarrow> (Inl e, w2)
        | (Inr es, w2) \<Rightarrow> (case journal_assert h sha r a installation w2 of
            (Inl e, w3) \<Rightarrow> (Inl e, w3) | (Inr _, w3) \<Rightarrow> (Inr es, w3))))"

text \<open>The parts of the program around the actor; they cannot touch the journal.\<close>

record actor_adapters =
  xa_installation :: "(store_world \<Rightarrow> string + unit) option"
  xa_fileName :: "string \<Rightarrow> string"
  xa_race :: "input_dir \<Rightarrow> input_dir"
  xa_decide :: "command_envelope \<Rightarrow> decision_context \<Rightarrow> string + raw_decision"
  xa_react :: "(terminal_observation \<Rightarrow> reaction_context \<Rightarrow> string + actor_reaction) option"
  xa_clock :: "nat \<Rightarrow> string"

definition fenced_options :: "host \<Rightarrow> sha \<Rightarrow> string \<Rightarrow> authority \<Rightarrow> actor_adapters \<Rightarrow> (actor_world, actor_failure) actor_options" where
  "fenced_options h sha r a xa = \<lparr>
     ao_runId = r, ao_daemonEpoch = au_operationId a,
     ao_load = on_store (store_load h sha r),
     ao_assertAuthority = on_store (journal_assert h sha r a (xa_installation xa)),
     ao_append = (\<lambda>n inputs. on_store (journal_append h sha r a (xa_installation xa) n inputs)),
     ao_putInput = (\<lambda>s w. case put_input h (xa_fileName xa) (xa_race xa) s (snd w) of
        (q, d) \<Rightarrow> (map_sum From_inputs id q, fst w, d)),
     ao_decide = (\<lambda>c cx. on_store (\<lambda>w. (adapter (xa_decide xa c cx), w))),
     ao_react = map_option (\<lambda>f tv rx. on_store (\<lambda>w. (adapter (f tv rx), w))) (xa_react xa),
     ao_clock = (\<lambda>w. (xa_clock xa (sw_time (fst w)), (fst w)\<lparr>sw_time := sw_time (fst w) + 1\<rparr>, snd w))\<rparr>"

definition actor_journal_of :: "host \<Rightarrow> sha \<Rightarrow> string \<Rightarrow> actor_world \<Rightarrow> run_event list" where
  "actor_journal_of h sha r w = store_journal h sha r (fst w)"

definition actor_ok :: "host \<Rightarrow> sha \<Rightarrow> string \<Rightarrow> actor_world \<Rightarrow> bool" where
  "actor_ok h sha r w = store_ok h sha r (fst w)"

lemma grows_actor: "grows (actor_journal_of h sha r) w w' \<longleftrightarrow> grows (store_journal h sha r) (fst w) (fst w')"
  by (simp add: grows_def actor_journal_of_def)

lemma grows_store_refl: "grows j w w"
  by (simp add: grows_def)

lemma grows_store_trans: "grows j w w1 \<Longrightarrow> grows j w1 w2 \<Longrightarrow> grows j w w2"
  unfolding grows_def by (rule prefix_order.trans)

lemma journal_assert_ok:
  assumes "store_ok h sha r w" and "entityId r = Some r" and "journal_assert h sha r a ins w = (q, w')"
  shows "store_ok h sha r w' \<and> grows (store_journal h sha r) w w'"
  using others_act_ok[OF assms(1,2)] assms(3) by (auto simp: journal_assert_def Let_def)

lemma append_done_wider:
  assumes "append_done h r n inputs es old new" and "prefix older old" and "prefix new newer"
  shows "append_done h r n inputs es older newer"
  using assms(1) unfolding append_done_def
proof (elim disjE exE conjE)
  fix before
  assume "prefix old before" "n = int (length before)" "prefix (before @ es) new"
    "arr_of (parse_run_event h) (place_inputs r (n + 1) inputs) = Some es"
  with assms(2,3) show "(\<exists>before. prefix older before \<and> n = int (length before) \<and> prefix (before @ es) newer \<and>
      arr_of (parse_run_event h) (place_inputs r (n + 1) inputs) = Some es) \<or> map input_of es = inputs \<and> set es \<subseteq> set newer"
    by (intro disjI1 exI[of _ before]) (auto intro: prefix_order.trans)
next
  assume "map input_of es = inputs" "set es \<subseteq> set new"
  with set_mono_prefix[OF assms(3)] show "(\<exists>before. prefix older before \<and> n = int (length before) \<and> prefix (before @ es) newer \<and>
      arr_of (parse_run_event h) (place_inputs r (n + 1) inputs) = Some es) \<or> map input_of es = inputs \<and> set es \<subseteq> set newer"
    by auto
qed

lemma journal_append_ok:
  assumes w: "store_ok h sha (run_id raw) w" and run: "journal_append h sha (run_id raw) a ins n inputs w = (q, w')" and "inputs \<noteq> []"
  shows "store_ok h sha (run_id raw) w' \<and> grows (store_journal h sha (run_id raw)) w w' \<and>
    (\<forall>es. q = Inr es \<longrightarrow> append_done h (run_id raw) n inputs es (store_journal h sha (run_id raw) w) (store_journal h sha (run_id raw) w'))"
proof -
  let ?r = "run_id raw"
  obtain q1 w1 where a1: "journal_assert h sha ?r a ins w = (q1, w1)" by (cases "journal_assert h sha ?r a ins w")
  obtain q2 w2 where a2: "store_append h sha ?r a n inputs w1 = (q2, w2)" by (cases "store_append h sha ?r a n inputs w1")
  obtain q3 w3 where a3: "journal_assert h sha ?r a ins w2 = (q3, w3)" by (cases "journal_assert h sha ?r a ins w2")
  from journal_assert_ok[OF w run_id_valid a1] have w1: "store_ok h sha ?r w1" "grows (store_journal h sha ?r) w w1" by auto
  have "pt_append (store_ports h sha ?r a undefined) n inputs w1 = (q2, w2)" using a2 by (simp add: store_ports_def)
  from store_port.append[OF w1(1) this assms(3)] have w2: "store_ok h sha ?r w2" "grows (store_journal h sha ?r) w1 w2"
    "\<forall>es. q2 = Inr es \<longrightarrow> append_done h ?r n inputs es (store_journal h sha ?r w1) (store_journal h sha ?r w2)" by auto
  from journal_assert_ok[OF w2(1) run_id_valid a3] have w3: "store_ok h sha ?r w3" "grows (store_journal h sha ?r) w2 w3" by auto
  have kept: "append_done h ?r n inputs es (store_journal h sha ?r w) (store_journal h sha ?r w3)" if "q2 = Inr es" for es
  proof -
    from w2(3) that have "append_done h ?r n inputs es (store_journal h sha ?r w1) (store_journal h sha ?r w2)" by blast
    from append_done_wider[OF this] w1(2) w3(2) show ?thesis by (simp add: grows_def)
  qed
  from run a1 a2 a3 consider "w' = w1" "\<exists>x. q = Inl x" | "w' = w2" "\<exists>x. q = Inl x" | "w' = w3" "(\<exists>x. q = Inl x) \<or> q = q2"
    by (auto simp: journal_append_def split: sum.splits)
  then show ?thesis
  proof cases
    case 1
    with w1 show ?thesis by auto
  next
    case 2
    with w2 grows_store_trans[OF w1(2) w2(2)] show ?thesis by auto
  next
    case 3
    with w3 kept grows_store_trans[OF grows_store_trans[OF w1(2) w2(2)] w3(2)] show ?thesis by auto
  qed
qed

interpretation fenced: actor_journal h "fenced_options h sha (run_id raw) a xa"
    "actor_journal_of h sha (run_id raw)" "actor_ok h sha (run_id raw)" for h sha raw a xa
proof unfold_locales
  let ?r = "run_id raw" and ?o = "fenced_options h sha (run_id raw) a xa"
  show "entityId (ao_runId ?o) = Some (ao_runId ?o)" by (simp add: fenced_options_def run_id_valid)
  show "well_placed h (ao_runId ?o) 1 (actor_journal_of h sha ?r w)" if "actor_ok h sha ?r w" for w
    using that store_placed by (simp add: fenced_options_def actor_ok_def actor_journal_of_def)
  show "\<exists>s. foldRunEvents h (actor_journal_of h sha ?r w) = Inr s"
    if "actor_ok h sha ?r w" "actor_journal_of h sha ?r w \<noteq> []" for w
    using that by (simp add: actor_ok_def actor_journal_of_def store_ok_def store_journal_def readable_def)
  show "actor_ok h sha ?r w' \<and> grows (actor_journal_of h sha ?r) w w' \<and> (\<forall>es. q = Inr es \<longrightarrow> es = actor_journal_of h sha ?r w')"
    if w: "actor_ok h sha ?r w" and run: "ao_load ?o w = (q, w')" for w q w'
  proof -
    obtain q1 w1 where l: "store_load h sha ?r (fst w) = (q1, w1)" by (cases "store_load h sha ?r (fst w)")
    have "pt_load (store_ports h sha ?r a undefined) (fst w) = (q1, w1)" using l by (simp add: store_ports_def)
    from store_port.load[OF w[unfolded actor_ok_def] this] run l show ?thesis
      by (cases q1) (auto simp: fenced_options_def on_store_def actor_ok_def actor_journal_of_def grows_actor)
  qed
  show "actor_ok h sha ?r w' \<and> grows (actor_journal_of h sha ?r) w w' \<and>
      (\<forall>es. q = Inr es \<longrightarrow> append_done h (ao_runId ?o) n inputs es (actor_journal_of h sha ?r w) (actor_journal_of h sha ?r w'))"
    if w: "actor_ok h sha ?r w" and run: "ao_append ?o n inputs w = (q, w')" and ne: "inputs \<noteq> []" for w n inputs q w'
  proof -
    obtain q1 w1 where l: "journal_append h sha ?r a (xa_installation xa) n inputs (fst w) = (q1, w1)"
      by (cases "journal_append h sha ?r a (xa_installation xa) n inputs (fst w)")
    from journal_append_ok[OF w[unfolded actor_ok_def] l ne] run l show ?thesis
      by (cases q1) (auto simp: fenced_options_def on_store_def actor_ok_def actor_journal_of_def grows_actor)
  qed
  show "actor_ok h sha ?r w' \<and> grows (actor_journal_of h sha ?r) w w'"
    if w: "actor_ok h sha ?r w" and run: "ao_assertAuthority ?o w = (q, w')" for w q w'
  proof -
    obtain q1 w1 where l: "journal_assert h sha ?r a (xa_installation xa) (fst w) = (q1, w1)"
      by (cases "journal_assert h sha ?r a (xa_installation xa) (fst w)")
    from journal_assert_ok[OF w[unfolded actor_ok_def] run_id_valid l] run l show ?thesis
      by (auto simp: fenced_options_def on_store_def actor_ok_def grows_actor)
  qed
  show "actor_ok h sha ?r w' \<and> grows (actor_journal_of h sha ?r) w w'"
    if "actor_ok h sha ?r w" "ao_putInput ?o x w = (q, w')" for x w q w'
    using that by (auto simp: fenced_options_def actor_ok_def grows_actor grows_store_refl split: prod.splits)
  show "actor_ok h sha ?r w' \<and> grows (actor_journal_of h sha ?r) w w'"
    if "actor_ok h sha ?r w" "ao_decide ?o c cx w = (q, w')" for c cx w q w'
    using that by (auto simp: fenced_options_def on_store_def actor_ok_def grows_actor grows_def)
  show "actor_ok h sha ?r w' \<and> grows (actor_journal_of h sha ?r) w w'"
    if "actor_ok h sha ?r w" "ao_react ?o = Some f" "f tv rx w = (q, w')" for f tv rx w q w'
    using that by (auto simp: fenced_options_def on_store_def actor_ok_def grows_actor grows_def)
  show "actor_ok h sha ?r w' \<and> grows (actor_journal_of h sha ?r) w w'"
    if "actor_ok h sha ?r w" "ao_clock ?o w = (t, w')" for w t w'
    using that store_ok_same[of h sha ?r "fst w" "fst w'"] by (auto simp: fenced_options_def actor_ok_def grows_actor)
qed

section \<open>A small run\<close>

text \<open>A digest that tells the few values of the example apart: the last member of an object, or their number.\<close>

fun tag_digest :: "json \<Rightarrow> string" where
  "tag_digest (JObj ms) = (case rev ms of (_, JStr s) # _ \<Rightarrow> ''s'' @ s | _ \<Rightarrow> ''n'' @ replicate (length ms) (CHR ''n''))"
| "tag_digest _ = ''v''"

definition text_host :: host where
  "text_host = sample_host\<lparr>h_digest := trim \<circ> tag_digest\<rparr>"

lemma text_digest_trimmed: "trim (h_digest text_host v) = h_digest text_host v"
  by (simp add: text_host_def)

definition actor_envelope :: command_envelope where
  "actor_envelope = \<lparr>cv_commandId = ''cmd'', cv_runId = ''run'', cv_expectedRevision = 0, cv_submittedAt = ''t'',
     cv_command = [(''type'', JStr ''create_run'')], cv_commandDigest = ''nnnnn''\<rparr>"

definition actor_spec :: effect_input_spec where
  "actor_spec = \<lparr>es_kind = Git_mutation, es_payload = []\<rparr>"

definition actor_intent :: effect_intent where
  "actor_intent = \<lparr>ei_runId = ''run'', ei_attemptId = None, ei_kind = Git_mutation, ei_inputDigest = ''nnnn'',
     ei_daemonEpoch = ''op'', ei_idempotency = Repeat_safe, ei_requestedAt = ''t'', ei_effectId = ''srun''\<rparr>"

definition actor_acceptance :: command_receipt where
  "actor_acceptance = \<lparr>rc_commandId = ''cmd'', rc_runId = ''run'', rc_commandDigest = ''nnnnn'', rc_acceptedRevision = 2,
     rc_daemonEpoch = ''op'', rc_acceptedAt = ''t'', rc_receiptId = ''nnnnnnnn''\<rparr>"

definition actor_receipt :: physical_receipt where
  "actor_receipt = \<lparr>pr_effectId = ''srun'', pr_observation = Succeeded, pr_inputDigest = ''nnnn'', pr_daemonEpoch = ''op'',
     pr_processIdentity = None, pr_resultDigest = None, pr_reason = None, pr_observedAt = ''t'', pr_receiptId = ''st''\<rparr>"

definition actor_adapters0 :: actor_adapters where
  "actor_adapters0 = \<lparr>xa_installation = None, xa_fileName = (\<lambda>i. i), xa_race = (\<lambda>d. d),
     xa_decide = (\<lambda>c cx. Inr (Full_decision (Some [input_of (hd sample_start)]) None
       [\<lparr>rq_intent = actor_intent, rq_inputSpec = actor_spec\<rparr>])),
     xa_react = None, xa_clock = (\<lambda>n. ''t'')\<rparr>"

definition actor_world0 :: actor_world where
  "actor_world0 = (\<lparr>sw_storage = claimed_store, sw_others = [], sw_lost = [], sw_time = 0, sw_dispatched = [], sw_published = []\<rparr>, [])"

abbreviation actor_options0 :: "(actor_world, actor_failure) actor_options" where
  "actor_options0 \<equiv> fenced_options text_host sample_sha ''run'' sample_writer actor_adapters0"

lemma actor_world0_ok: "actor_ok text_host sample_sha ''run'' actor_world0"
  by (simp add: actor_ok_def store_ok_def actor_world0_def readable_def inspect_def claimed_store_def fresh_store_def
      log_follows_def base_of_def)

text \<open>The journal after the command, and after the receipt of its effect.\<close>

definition accepted_events :: "run_event list" where
  "accepted_events = hd sample_start # place_inputs ''run'' 2 [accepted_input text_host actor_acceptance actor_envelope ''t'',
     requested_input text_host actor_intent]"

definition settled_events :: "run_event list" where
  "settled_events = place_inputs ''run'' 4 [observed_input text_host actor_receipt,
     completedEffectInput text_host actor_intent actor_receipt]"

definition after_events :: "run_event list list \<Rightarrow> actor_world" where
  "after_events batches = (\<lparr>sw_storage = fold (appended_log sample_sha) batches claimed_store, sw_others = [], sw_lost = [],
     sw_time = 1, sw_dispatched = [], sw_published = []\<rparr>, [(''nnnn'', Spec_file actor_spec True)])"

lemma actor_accepts: "accept text_host actor_options0 actor_envelope (actor_world0, []) =
    (Inr (actor_acceptance, [actor_intent]), after_events [accepted_events], [])"
  by code_simp

lemma actor_records: "recordObservations text_host actor_options0 actor_intent [actor_receipt] By_observation (after_events [accepted_events], []) =
    (Inr [], after_events [accepted_events, settled_events], [])"
  by code_simp

section \<open>Properties\<close>

lemma accept_keeps_order:
  assumes "entityId r = Some r" and "actor_ok h sha r w" and "accept h (fenced_options h sha r a xa) raw (w, known) = (Inr (receipt, intents), w1, known1)"
    and "\<And>v. trim (h_digest h v) = h_digest h v"
  shows "actor_ok h sha r w1"
proof -
  have id: "run_id r = r" by (rule run_id_same[OF assms(1)])
  from fenced.accept_Inr[of h sha r "(w, known)" a xa raw receipt intents "(w1, known1)", unfolded id fst_conv, OF assms(2-4)]
  show ?thesis by blast
qed

text \<open>Reading fails only when the authority is refused: a readable store always loads.\<close>

lemma fenced_read:
  assumes "entityId r = Some r" and "actor_ok h sha r w"
  shows "map_sum id (\<lambda>_. ()) (fst (readS (fenced_options h sha r b xa) (w, known))) =
    map_sum (Actor_port \<circ> From_journal) id (fst (journal_assert h sha r b (xa_installation xa) (fst w)))"
proof -
  obtain q w1 where q: "journal_assert h sha r b (xa_installation xa) (fst w) = (q, w1)"
    by (cases "journal_assert h sha r b (xa_installation xa) (fst w)")
  from journal_assert_ok[OF assms(2)[unfolded actor_ok_def] assms(1) q] have w1: "store_ok h sha r w1" by blast
  from others_act_ok[OF w1 assms(1)] have "store_ok h sha r (others_act h sha r w1)" by blast
  then have "is_status (inspect h sha r (sw_storage (others_act h sha r w1))) \<noteq> Log_corrupt"
    by (simp add: store_ok_def readable_def)
  then have "\<exists>es w2. store_load h sha r w1 = (Inr es, w2)"
    by (simp add: store_load_def load_events_def Let_def)
  then obtain es w2 where "store_load h sha r w1 = (Inr es, w2)" by blast
  with q show ?thesis
    by (cases q) (simp_all add: readS_def thenS_def portS_def fenced_options_def on_store_def remember_def doneS_def)
qed

text \<open>
  C38. A submitted command is accepted once. When the actor accepts a command, its acceptance is in the
  durable journal under the receipt it returns, and so is the request of every effect it will start. However
  the journal has grown since, and whoever submits the same command to an actor of the run again, that actor
  does nothing but read the journal; it fails exactly if the journal refuses its authority, with that error,
  and otherwise returns the same receipt with nothing to start. Digests are taken to be free of surrounding
  white space, as hexadecimal digests are.
\<close>

theorem submitted_commands_are_accepted_once:
  assumes "entityId r = Some r" and "actor_ok h sha r w" and "\<And>v. trim (h_digest h v) = h_digest h v"
    and "accept h (fenced_options h sha r a xa) raw (w, known) = (Inr (receipt, intents), w1, known1)"
  shows "actor_ok h sha r w1 \<and>
    (\<exists>e \<in> set (actor_journal_of h sha r w1). accepted_receipt e = Some receipt) \<and>
    (\<forall>i \<in> set intents. \<exists>e \<in> set (actor_journal_of h sha r w1). requested_intent e = parse_effect_intent h i \<and> requested_intent e \<noteq> None) \<and>
    (\<forall>b w2 known2 res w3. actor_ok h sha r w2 \<longrightarrow> grows (actor_journal_of h sha r) w1 w2 \<longrightarrow>
      accept h (fenced_options h sha r b xa) raw (w2, known2) = (res, w3) \<longrightarrow>
      res = (case fst (journal_assert h sha r b (xa_installation xa) (fst w2)) of
        Inl e \<Rightarrow> Inl (Actor_port (From_journal e)) | Inr _ \<Rightarrow> Inr (receipt, [])) \<and>
      w3 = snd (readS (fenced_options h sha r b xa) (w2, known2)))"
proof -
  have id: "run_id r = r" by (rule run_id_same[OF assms(1)])
  note accept_Inr = fenced.accept_Inr[of h sha r "(w, known)" a xa raw receipt intents "(w1, known1)", unfolded id fst_conv, OF assms(2,4,3)]
  obtain c where c: "parse_command_envelope h raw = Some c" "cv_runId c = r" "validateRunCommandEnvelopeIdentity h c = []"
    "actor_ok h sha r w1"
    "parse_command_receipt h receipt = Some receipt" "validateCommandReceiptIdentity h receipt = []"
    "rc_commandId receipt = cv_commandId c" "rc_commandDigest receipt = cv_commandDigest c"
    and e: "\<exists>e \<in> set (actor_journal_of h sha r w1). accepted_receipt e = Some receipt"
    and i: "\<forall>i \<in> set intents. \<exists>e \<in> set (actor_journal_of h sha r w1).
      map_option (\<lambda>i. Protocol_ev (Effect_requested i)) (parse_effect_intent h i) = Some (ev_payload e)"
    by (rule accept_Inr) (auto simp: fenced_options_def)
  have requests: "\<exists>e \<in> set (actor_journal_of h sha r w1). requested_intent e = parse_effect_intent h j \<and> requested_intent e \<noteq> None"
    if "j \<in> set intents" for j
  proof -
    from i that obtain e where "e \<in> set (actor_journal_of h sha r w1)"
      "map_option (\<lambda>i. Protocol_ev (Effect_requested i)) (parse_effect_intent h j) = Some (ev_payload e)" by blast
    then show ?thesis by (intro bexI[of _ e]) (auto simp: eq_commute[of _ "ev_payload e"])
  qed
  have again: "accept h (fenced_options h sha r b xa) raw (w2, known2) =
      (case fst (journal_assert h sha r b (xa_installation xa) (fst w2)) of
        Inl e \<Rightarrow> Inl (Actor_port (From_journal e)) | Inr _ \<Rightarrow> Inr (receipt, []), snd (readS (fenced_options h sha r b xa) (w2, known2)))"
    if w2: "actor_ok h sha r w2" "grows (actor_journal_of h sha r) w1 w2" for b w2 known2
  proof -
    from e w2(2) obtain e' where e': "e' \<in> set (actor_journal_of h sha r w2)" "accepted_receipt e' = Some receipt"
      unfolding grows_def by (meson set_mono_prefix subsetD)
    have "cv_runId c = ao_runId (fenced_options h sha r b xa)" using c(2) by (simp add: fenced_options_def)
    from fenced.accept_again[of h sha r "(w2, known2)" raw c b xa e' receipt, unfolded id fst_conv, OF w2(1) c(1) this c(3) e' c(5-8)]
      fenced_read[OF assms(1) w2(1), of b xa known2]
    show ?thesis
      by (cases "fst (readS (fenced_options h sha r b xa) (w2, known2))";
          cases "fst (journal_assert h sha r b (xa_installation xa) (fst w2))") auto
  qed
  from c(4) e requests again show ?thesis by simp
qed

theorem submitted_commands_are_accepted_once_witness:
  "\<exists>w. accept text_host actor_options0 actor_envelope (after_events [accepted_events], []) = (Inr (actor_acceptance, []), w)"
proof -
  let ?w = "after_events [accepted_events]"
  obtain res w3 where run: "accept text_host actor_options0 actor_envelope (?w, []) = (res, w3)"
    by (cases "accept text_host actor_options0 actor_envelope (?w, [])")
  note accepted = submitted_commands_are_accepted_once[OF sample_run_id actor_world0_ok text_digest_trimmed actor_accepts]
  have "fst (journal_assert text_host sample_sha ''run'' sample_writer (xa_installation actor_adapters0) (fst ?w)) = Inr ()"
    by code_simp
  moreover have "grows (actor_journal_of text_host sample_sha ''run'') ?w ?w" by (simp add: grows_def)
  ultimately have "res = Inr (actor_acceptance, [])"
    using accepted[THEN conjunct2, THEN conjunct2, THEN conjunct2, rule_format, OF accepted[THEN conjunct1] _ run] by simp
  with run show ?thesis by blast
qed

text \<open>
  C39. What an actor resumes after a restart is what the reducer holds open. If the events of the journal
  carry valid identities, the actor's scan of the journal never refuses it and returns exactly the requested
  effects without a terminal, in the order of their requests; only its ports can make it fail.
\<close>

theorem open_effects_are_resumed:
  assumes "entityId r = Some r" and "actor_ok h sha r w"
    and "pendingEffects h (fenced_options h sha r a xa) (w, known) = (res, w1, known1)"
    and "foldRun h (actor_journal_of h sha r w1) = Inr s" and "\<forall>e \<in> set (actor_journal_of h sha r w1). carries_valid h e"
  shows "res = Inr (filter (\<lambda>i. oget (p_effectTerminals s) (ei_effectId i) = None) (map snd (p_effectIntents s))) \<or>
    (\<exists>x. res = Inl (Actor_port x))"
proof -
  have id: "run_id r = r" by (rule run_id_same[OF assms(1)])
  let ?o = "fenced_options h sha r a xa"
  obtain qa wa where qa: "ao_assertAuthority ?o w = (qa, wa)" by (cases "ao_assertAuthority ?o w")
  from fenced.authority[of h sha r w a xa qa wa, unfolded id, OF assms(2) qa] have wa: "actor_ok h sha r wa" by blast
  obtain ql wl where ql: "ao_load ?o wa = (ql, wl)" by (cases "ao_load ?o wa")
  from fenced.load[of h sha r wa a xa ql wl, unfolded id, OF wa ql]
  have wl: "actor_ok h sha r wl" "\<And>es. ql = Inr es \<Longrightarrow> es = actor_journal_of h sha r wl" by blast+
  note steps = pendingEffects_def thenS_def portS_def qa ql liftS_def remember_def doneS_def
  show ?thesis
  proof (cases "(\<exists>x. qa = Inl x) \<or> (\<exists>x. ql = Inl x)")
    case True
    with assms(3) qa ql show ?thesis by (cases qa; cases ql) (auto simp: steps)
  next
    case False
    then obtain u es where q: "qa = Inr u" "ql = Inr es" by (metis sum.exhaust)
    let ?es = "actor_journal_of h sha r wl"
    from wl(2)[OF q(2)] have es: "es = ?es" .
    have w1: "w1 = wl"
      using assms(3) q qa ql by (cases "pending_of h (ao_runId ?o) es :: actor_failure actor_error + _") (auto simp: steps)
    from fenced.placed[of h sha r wl a xa, unfolded id, OF wl(1)] have placed: "well_placed h r 1 ?es" by (simp add: fenced_options_def)
    then have parsed: "\<forall>e \<in> set ?es. parse_run_event h e = Some e" using well_placed_member by blast
    from assms(4) w1 have fold: "foldRun h ?es = Inr s" by simp
    have "p_runId s = r"
    proof -
      from fold have "?es \<noteq> []" by (auto simp: foldRun_def)
      moreover from foldRun_positions[OF fold arr_of_fixed[OF parsed]] have "\<forall>p \<in> set ?es. ev_runId p = p_runId s" by blast
      moreover have "\<forall>e \<in> set ?es. ev_runId e = r" using well_placed_member[OF placed] by blast
      ultimately show ?thesis by (cases ?es) auto
    qed
    with pending_of_fold[OF fold, where 'x = actor_failure] parsed assms(5) w1
    have "(pending_of h r ?es :: actor_failure actor_error + _) =
      Inr (filter (\<lambda>i. oget (p_effectTerminals s) (ei_effectId i) = None) (map snd (p_effectIntents s)))" by simp
    moreover have "ao_runId ?o = r" by (simp add: fenced_options_def)
    ultimately show ?thesis using assms(3) q qa ql es by (auto simp: steps)
  qed
qed

lemma accepted_world_ok: "actor_ok text_host sample_sha ''run'' (after_events [accepted_events])"
  by (rule accept_keeps_order[OF sample_run_id actor_world0_ok actor_accepts text_digest_trimmed])

lemma accepted_journal: "actor_journal_of text_host sample_sha ''run'' (after_events [accepted_events]) = accepted_events"
  by code_simp

lemma accepted_fold: "case foldRun text_host accepted_events of
    Inr s \<Rightarrow> map snd (p_effectIntents s) = [actor_intent] \<and> p_effectTerminals s = [] | _ \<Rightarrow> False"
  by code_simp

lemma accepted_valid: "list_all (carries_valid text_host) accepted_events"
  by code_simp

lemma accepted_pending: "pendingEffects text_host actor_options0 (after_events [accepted_events], []) =
    (Inr [actor_intent], after_events [accepted_events], [])"
  by code_simp

theorem open_effects_are_resumed_witness:
  "\<exists>s. foldRun text_host accepted_events = Inr s \<and>
     filter (\<lambda>i. oget (p_effectTerminals s) (ei_effectId i) = None) (map snd (p_effectIntents s)) = [actor_intent]"
proof -
  from accepted_fold obtain s where s: "foldRun text_host accepted_events = Inr s" by (auto split: sum.splits)
  from open_effects_are_resumed[OF sample_run_id accepted_world_ok accepted_pending] s accepted_valid accepted_journal
  show ?thesis by (auto simp: list_all_iff)
qed

text \<open>
  C40. What became of an effect is recorded as it was. When the actor has recorded the receipts of an effect,
  then in the journal it read the effect had already ended, or the journal now says how it ended: interrupted
  if the journal had cancelled it or made its attempt stale, whatever the receipts say; otherwise
  completed or failed as its receipt does; and given up if nothing is known of it and it must not be
  repeated. Nothing is taken from the journal.
\<close>

theorem outcomes_are_recorded_as_observed:
  assumes "entityId r = Some r" and "actor_ok h sha r w" and "distinct (map pr_receiptId receipts)"
    and "recordObservations h (fenced_options h sha r a xa) i receipts mode (w, known) = (Inr following, w1, known1)"
  shows "actor_ok h sha r w1 \<and> (\<exists>current. prefix (actor_journal_of h sha r w) current \<and> prefix current (actor_journal_of h sha r w1) \<and>
    ((\<exists>e \<in> set current. \<exists>k. terminal_of e = Some (ei_effectId i, k)) \<or>
     outcome_recorded h i receipts mode current (actor_journal_of h sha r w1)))"
proof -
  have id: "run_id r = r" by (rule run_id_same[OF assms(1)])
  from fenced.recordObservations_Inr[of h sha r "(w, known)" a xa i receipts mode following "(w1, known1)", unfolded id fst_conv, OF assms(2,4,3)]
  show ?thesis by blast
qed

lemma settled_journal: "actor_journal_of text_host sample_sha ''run'' (after_events [accepted_events, settled_events]) =
    accepted_events @ settled_events"
  by code_simp

theorem outcomes_are_recorded_as_observed_witness:
  "actor_ok text_host sample_sha ''run'' (after_events [accepted_events, settled_events]) \<and>
   (\<exists>current. prefix accepted_events current \<and> prefix current (accepted_events @ settled_events))"
  using outcomes_are_recorded_as_observed[OF sample_run_id accepted_world_ok _ actor_records]
  by (auto simp: accepted_journal settled_journal)

end
