(* ===== verification/Spec2Isabelle.thy ===== *)
theory Spec2Isabelle
  imports Sample_Run Store_Properties Recovery_Properties Coordinator_Properties Driver_Run Effect_Properties Actor_Properties
begin

text \<open>
  Manyhands: the control plane of a coding run.

  A run takes a goal through planning, a task graph, waves of agents and the delivery of one verified
  candidate. Everything that is decided about it is an event in its journal, and every other state is
  computed from that journal. This development models that core: the events and the reducer
  (packages/run-coordinator), the durable journal below it (packages/run-store), the coordinator that turns
  commands into events, the policies it consults, the canonical task graph (packages/contracts,
  packages/task-graph), the scheduler over it (packages/scheduler), the driver that runs waves and judges
  their results (packages/orchestrator-graph), and the dispatcher of physical effects with its stores
  (packages/run-engine, packages/run-store). Paths below leave out src/packages and the src of the package.

  How the parts interact. The driver loads the projection from the coordinator, asks the scheduler for a
  wave over the graph, has the selection and the attempts recorded, runs the wave and records what came
  back, judged by authority, evidence and policies. The coordinator folds the journal, checks the events of a
  command against the fold and appends them through the store at the position it read, and tries again when
  others were faster. The store serializes writers by a lock, admits only the current fence, and reads back
  only what the checksums, sequences and schemas allow. Physical effects leave immutable receipts, from which
  the dispatcher decides whether an adapter executes, only looks, or is not called. The actor of a run takes
  commands and settled effects one at a time, stores the inputs of effects before it journals their intents, and
  hands what the journal leaves open to the dispatcher again after a restart.

  Theories and sources, from the bottom:

  \<^item> MH_Prelude, Schema: thrown errors as the left summand of a sum (\<open>throwIf\<close>, \<open>requireE\<close>, \<open>bindE\<close>,
    \<open>foldE\<close>), plain JavaScript objects as association lists with JavaScript's enumeration order (\<open>oget\<close>,
    \<open>oput\<close>), sorting by a comparison, JSON and its canonical form (contracts canonical-json.ts), and the
    schemas of shared index.ts. A zod schema is the function to its parsed value; the locale \<open>schema\<close> asks
    that parsing a parsed value changes nothing, and every record's parser interprets it.
  \<^item> Contracts, Effect_Protocol, Command_Envelope: the values of the journal (contracts evidence-binding.ts,
    artifact-manifest.ts and others, effect-protocol.ts; run-coordinator command-envelope.ts), their digests
    and identity checks.
  \<^item> Domain, Events, Projection, Reducer: run-coordinator domain/*.ts and reducer.ts. An event type is a
    constructor, a handler is one definition with every guard in the order of the source; \<open>reduceRun\<close> and
    \<open>foldRun\<close> are the functions of those names and \<open>RunProjection\<close> is the record \<open>run_projection\<close>.
  \<^item> Journal_Laws, Run_Invariants, Attempt_Invariants, Decision_Invariants, Delivery_Invariants: the
    projections a journal can lead to as an inductive relation, two locales (a predicate every handler keeps;
    an order every handler respects) and their interpretations, one for each part of the projection.
  \<^item> Event_Inputs, Store_Fold, Event_Log, Event_Log_Laws, Store_Steps, Store_Properties: run-store
    event-store.ts, event-upcaster.ts, jsonl-event-store.ts and projection-fold.ts. The state is the log file,
    the compacted generation and the fence file; the operations of all writers and crashes are the step relation
    \<open>store_step\<close>, over which durability, fencing and the race for a position are stated.
  \<^item> Recovery, Recovery_Properties: run-coordinator recovery-policy.ts, domain/failures.ts, domain/autonomy.ts,
    domain/repair-routing.ts, domain/fingerprint.ts, integration.ts, amendments.ts.
  \<^item> Coordinator, Journal_Port, Coordinator_Laws, Coordinator_Store, Coordinator_Properties: run-coordinator
    commands.ts, ports.ts, coordinator.ts, execution.ts. The locale \<open>journal_port\<close> is what the coordinator
    asks of its ports, \<open>journal_driver\<close> extends it by what the execution cursor asks of its adapters;
    Coordinator_Store interprets both by the model of the durable store, with other writers acting
    between any two calls and acknowledgements that get lost.
  \<^item> Graph_Relations, Graph_Revision, Graph_Validation, Graph_Laws, Graph_Soundness, Graph_Normal_Form,
    Graph_Properties: contracts canonical-graph-relations.ts and task-graph canonical-graph.ts. Graph_Laws
    shows that the two searches decide reachability, Graph_Soundness gives every check its declarative reading.
  \<^item> Frontier, Frontier_Laws, Frontier_Properties: scheduler canonical-frontier.ts and the wave check of
    orchestrator-graph concurrent-resource-invariant.ts.
  \<^item> Authority, Evidence_Freshness, Authority_Properties: task-graph resource-authority.ts,
    orchestrator-graph execution-base-closure.ts, contracts evidence-binding.ts.
  \<^item> Driver, Driver_Outcome, Wave_Pool, Driver_Run, Driver_Properties, Wave_Properties: orchestrator-graph
    canonical-execution-driver.ts. Sequential parts are functions; a wave is the step relation \<open>wave_step\<close>.
  \<^item> Effect_Store, Effect_Dispatch, Effect_Properties: contracts effect-input.ts, run-store
    effect-input-store.ts and effect-receipt-store.ts, run-engine effect-dispatcher.ts. The locale
    \<open>receipt_log\<close> is what the dispatcher relies on; the file store interprets it.
  \<^item> Run_Actor, Actor_Laws, Actor_Scan, Actor_Properties: run-engine run-actor.ts and run-event-journal.ts. A
    message of the mailbox is one function on the journal and the input store. The locale \<open>actor_journal\<close> is
    what the actor asks of its journal; the fenced journal on the durable store interprets it. Actor_Scan
    shows that the scan for pending effects finds the open effects of the reducer.
  \<^item> Sample_Run: one run from creation to delivery. Witnesses evaluate the definitions on it.

  The properties. C1 to C13, below, are about the journal: what a completed run rests on, what is never
  rewritten, what every reachable projection satisfies. C14 to C20 (Store_Properties) are about the store under
  crashes, retries and competing writers. C21 and C22 (Recovery_Properties) are the policies, C23 to C26
  (Coordinator_Properties) the coordinator on the store, C27 to C29 (Graph_Properties) validation as an exact
  characterization, its consequence for writers and the normal form, C30 to C32 (Frontier_Properties) readiness,
  conflict freedom and progress, C33 and C34 (Authority_Properties) authority and execution bases, C35
  (Driver_Properties) what is adopted, C36 (Wave_Properties) that waves settle, C37 (Effect_Properties) that
  recorded effects are not executed again, C38 to C40 (Actor_Properties) what the actor's messages do to the
  journal: nothing is accepted twice, what is requested is looked for, what was interrupted is known.

  Bounds and termination. No fuel is invented. The coordinator makes eight append attempts, as the source does
  (\<open>append_loop\<close> counts them down, and running out is the error of the source). The loop over waves has the
  bound \<open>max_waves\<close> of the source. Upcasting and the graph searches terminate by a measure, the searches since a
  node is visited once. A wave has no bound in the source; C36 shows that no schedule takes more than
  five steps for an attempt.

  Conventions. \<open>host\<close> holds what the program takes from its environment: the digest function, the check of an
  ISO timestamp and the order of \<open>localeCompare\<close>. The SHA-256 over serialized lines, the overlap
  query of resources, the risk estimate, adapters and executors are arguments too; what is relied upon is a
  hypothesis of the theorem (for example that the overlap query is symmetric). Strings are lists of 8-bit
  characters, numbers are integers where the schemas say so and rationals for risks; numeric prefixes of ids
  are read exactly, where \<open>Number\<close> would round beyond 53 bits. Operations under a lock are one step. Names
  such as \<open>toString\<close>, which a plain object inherits from its prototype, are not used as keys. The texts of zod
  issues are not modelled, only that an input is refused. The in-memory cache of a log agrees with the files
  it is keyed by.

  Not modelled. The planner (packages/decomposer) and everything that talks to models; the agents, worktrees,
  subprocesses and validators (packages/execution-core) and the physical adapters, which act on the world
  outside the program and appear here as parameters; the mailbox and the timers of the actor, which only
  decide which modelled message comes next, and the registry of actors (packages/run-engine); locks,
  renames, compaction and the side stores of packages/run-store, apart from the effect stores; the first
  generation of graph, scheduler and driver, which the canonical ones supersede and compatibility readers keep
  alive; repository scans, risk estimation in floating point, traces, the daemon's sockets and the web
  application.
\<close>

section \<open>Properties of the journal and its reducer\<close>

text \<open>
  C1. A completed run delivered what was verified: it has a final candidate, an operator's approval of
  exactly that candidate and target, and a confirmed receipt that agrees with both; and the candidate
  was recorded after a prefix of the journal in which its evidence matrix had the outcome verified for
  the candidate's exact commit and no decision was pending.
\<close>

theorem completed_run_is_justified:
  assumes "foldRun h es = Inr s" and "p_lifecycle s = Completed"
  shows "\<exists>fc a r fs gs t m. p_finalCandidate s = Some fc \<and> p_deliveryApproval s = Some a \<and>
    p_deliveryReceipt s = Some r \<and> approval_matches fc a \<and> receipt_matches fc a r \<and>
    es = fs @ gs \<and> gs \<noteq> [] \<and> foldRun h fs = Inr t \<and>
    oget (p_evidenceMatrixSummaries t) (fc_evidenceMatrixId fc) = Some m \<and>
    ms_outcome m = Verified \<and> ms_candidateCommit m = fc_commit fc \<and>
    (\<forall>k d. oget (p_decisions t) k = Some d \<longrightarrow> dc_status d \<noteq> Pending)"
proof -
  from delivery.holds[OF assms(1)] assms(2) obtain fc a r where fc: "p_finalCandidate s = Some fc"
    "p_deliveryApproval s = Some a" "p_deliveryReceipt s = Some r" "approval_matches fc a" "receipt_matches fc a r"
    by (fastforce simp: delivery_ok_def)
  with candidate_provenance[OF assms(1) fc(1)] show ?thesis
    unfolding candidate_justified_def by blast
qed

theorem completed_run_is_justified_witness:
  "\<exists>s fc a. foldRun sample_host (sample_start @ sample_rest) = Inr s \<and>
     p_finalCandidate s = Some fc \<and> p_deliveryApproval s = Some a \<and> approval_matches fc a"
proof -
  obtain s where s: "foldRun sample_host (sample_start @ sample_rest) = Inr s" "p_lifecycle s = Completed"
    by (rule sample_full)
  from completed_run_is_justified[OF s] s(1) show ?thesis by blast
qed

text \<open>
  C2. Replay is incremental: folding a journal with one more event is one step from the state of the
  journal, where the step parses the event, refuses an id the projection has already applied, and then
  checks the run, the sequence and the event's own guards. So a stored projection and its last sequence
  are all that is needed to continue, and an event that is refused leaves the journal's state as it was.
\<close>

theorem replay_is_incremental:
  assumes "es \<noteq> []"
  shows "foldRun h (es @ [e]) = bindE (foldRun h es) (\<lambda>s. extend_state h s e)"
  using assms by (rule foldRun_append1)

theorem replay_is_incremental_witness:
  "foldRun sample_host (sample_start @ [hd sample_rest]) =
     bindE (foldRun sample_host sample_start) (\<lambda>s. extend_state sample_host s (hd sample_rest))"
  by (rule replay_is_incremental) (simp add: sample_start_def)

text \<open>
  C3. The lifecycle of a run refines the abstract automaton \<open>life_step\<close>: whatever event the reducer
  accepts, the lifecycle moves as the automaton allows for that kind of event and nothing else moves it.
\<close>

theorem lifecycle_refines_automaton:
  assumes "reduceRun s e = Inr s'"
  shows "life_step (p_lifecycle s) (ev_payload e) (p_lifecycle s')"
  using assms by (rule reduceRun_life)

theorem lifecycle_refines_automaton_witness:
  "life_step Planning (Run_ev (Run_failed ''no'' Area_domain)) Failed_run"
proof -
  let ?s = "created_projection ''run'' ''e1'' ''t'' ''goal'' None"
  have "reduceRun ?s (sample_event 2 ''e2'' (Run_ev (Run_failed ''no'' Area_domain))) =
    Inr (?s\<lparr>p_updatedAt := ''t'', p_failureReason := Some ''no'', p_lifecycle := Failed_run, p_sequence := 2,
      p_appliedEventIds := [''e1'', ''e2'']\<rparr>)"
    by (simp add: reduceRun_def on_run_failed_def transition_def transition_ok_def sample_event_def
        created_projection_def)
  from lifecycle_refines_automaton[OF this] show ?thesis
    by (simp add: created_projection_def sample_event_def)
qed

text \<open>
  C4. Effects are settled by what was observed: every terminal effect of a run has its requested intent,
  a completed effect has a succeeded receipt of the same effect and a failed one a failed receipt, every
  physical receipt names a requested effect with the same input digest, and every intent is the run's.
\<close>

theorem effects_are_settled_by_receipts:
  assumes "foldRun h es = Inr s" and "oget (p_effectTerminals s) e = Some t"
  shows "\<exists>i. oget (p_effectIntents s) e = Some i \<and> ei_effectId i = e \<and> ei_runId i = p_runId s \<and>
    (\<forall>r. terminal_receipt t = Some r \<longrightarrow> (\<exists>x. oget (p_physicalEffectReceipts s) r = Some x \<and>
       pr_effectId x = e \<and> pr_inputDigest x = ei_inputDigest i \<and>
       (t = Term_completed r \<longrightarrow> pr_observation x = Succeeded) \<and>
       (\<forall>y. t = Term_failed r y \<longrightarrow> pr_observation x = Failed)))"
proof -
  from effects.holds[OF assms(1)] assms(2) obtain i where i: "oget (p_effectIntents s) e = Some i"
    and linked: "terminal_linked (p_physicalEffectReceipts s) e t"
    by (fastforce simp: effects_ok_def)
  from effects.holds[OF assms(1)] have digest: "\<And>k x. oget (p_physicalEffectReceipts s) k = Some x \<Longrightarrow>
      pr_effectId x = e \<Longrightarrow> pr_inputDigest x = ei_inputDigest i"
    using i by (fastforce simp: effects_ok_def)
  from effects.holds[OF assms(1)] i have "ei_effectId i = e" "ei_runId i = p_runId s"
    by (simp_all add: effects_ok_def)
  with i linked digest show ?thesis
    by (cases "(p_physicalEffectReceipts s, e, t)" rule: terminal_linked.cases) auto
qed

theorem effects_are_settled_by_receipts_witness:
  "\<exists>s i. foldRun sample_host sample_start = Inr s \<and> oget (p_effectIntents s) ''f'' = Some i \<and>
     (\<exists>x. oget (p_physicalEffectReceipts s) ''r'' = Some x \<and> pr_observation x = Succeeded)"
proof -
  obtain s where s: "foldRun sample_host sample_start = Inr s"
    "oget (p_effectTerminals s) ''f'' = Some (Term_completed ''r'')"
    by (rule sample_start)
  from effects_are_settled_by_receipts[OF s] s(1) show ?thesis by auto
qed

text \<open>
  C5. What the journal has recorded of commands, effects and artifacts is never rewritten: a longer
  journal keeps every command receipt, effect intent, physical receipt, effect terminal, adopted artifact
  and release authorization of a shorter one, each with the value it had.
\<close>

theorem journal_records_are_immutable:
  assumes "foldRun h es = Inr s" and "foldRun h (es @ fs) = Inr s'"
  shows "extends (p_commandReceipts s) (p_commandReceipts s') \<and>
    extends (p_effectIntents s) (p_effectIntents s') \<and>
    extends (p_physicalEffectReceipts s) (p_physicalEffectReceipts s') \<and>
    extends (p_effectTerminals s) (p_effectTerminals s') \<and>
    extends (p_adoptedArtifacts s) (p_adoptedArtifacts s') \<and>
    extends (p_releaseAuthorizations s) (p_releaseAuthorizations s')"
  using records.grows[OF assms] by (simp add: records_kept_def)

theorem journal_records_are_immutable_witness:
  "\<exists>s'. foldRun sample_host (sample_start @ sample_rest) = Inr s' \<and>
     oget (p_effectTerminals s') ''f'' = Some (Term_completed ''r'')"
proof -
  obtain s where s: "foldRun sample_host sample_start = Inr s"
    "oget (p_effectTerminals s) ''f'' = Some (Term_completed ''r'')"
    by (rule sample_start)
  obtain s' where s': "foldRun sample_host (sample_start @ sample_rest) = Inr s'" by (rule sample_full)
  from journal_records_are_immutable[OF s(1) s'] s(2) s' show ?thesis by (auto simp: extends_def)
qed

text \<open>
  C6. Attempts are never lost and move forward only: an attempt of a shorter journal is in every longer
  one with the same node, input fingerprint, parent and kind and no fewer repair passes, and once it has
  left the status running it is never running again.
\<close>

theorem attempts_move_forward:
  assumes "foldRun h es = Inr s" and "foldRun h (es @ fs) = Inr s'" and "oget (p_attempts s) k = Some a"
  shows "\<exists>b. oget (p_attempts s') k = Some b \<and> at_nodeId b = at_nodeId a \<and>
    at_inputFingerprint b = at_inputFingerprint a \<and> at_retryOfAttemptId b = at_retryOfAttemptId a \<and>
    at_kind b = at_kind a \<and> at_repairPasses a \<le> at_repairPasses b \<and>
    (at_status a \<noteq> At_running \<longrightarrow> at_status b \<noteq> At_running)"
  using attempts_order.grows[OF assms(1,2)] assms(3) unfolding attempts_forward_def attempt_forward_def by blast

theorem attempts_move_forward_witness:
  "\<exists>s' b. foldRun sample_host (sample_start @ sample_rest) = Inr s' \<and> oget (p_attempts s') ''a'' = Some b \<and>
     at_nodeId b = ''n''"
proof -
  obtain s a where s: "foldRun sample_host sample_start = Inr s"
    "oget (p_attempts s) ''a'' = Some a" "at_nodeId a = ''n''"
    by (rule sample_attempt)
  obtain s' where s': "foldRun sample_host (sample_start @ sample_rest) = Inr s'" by (rule sample_full)
  from attempts_move_forward[OF s(1) s' s(2)] s' s(3) show ?thesis by auto
qed

text \<open>
  C7. An active human review is about what its attempt holds: the attempt it names exists, belongs to
  the reviewed node, is no longer running, and has exactly the reviewed candidate. A review whose
  candidate was replaced is stale.
\<close>

theorem active_reviews_match_their_attempts:
  assumes "foldRun h es = Inr s" and "oget (p_humanReviews s) k = Some r" and "hr_status r = Active"
  shows "\<exists>a. oget (p_attempts s) (hr_attemptId r) = Some a \<and> at_nodeId a = hr_nodeId r \<and>
    at_status a \<noteq> At_running \<and> at_candidate a = Some (hr_candidate r)"
  using reviews_ok_D[OF reviews.holds[OF assms(1)] assms(2)] assms(3) by metis

theorem active_reviews_match_their_attempts_witness:
  "\<exists>s r a. foldRun sample_host (sample_start @ sample_rest) = Inr s \<and>
     oget (p_humanReviews s) ''v'' = Some r \<and> oget (p_attempts s) (hr_attemptId r) = Some a \<and>
     at_candidate a = Some (hr_candidate r)"
proof -
  obtain s where s: "foldRun sample_host (sample_start @ sample_rest) = Inr s"
    "map_option hr_status (oget (p_humanReviews s) ''v'') = Some Active"
    by (rule sample_full)
  then obtain r where r: "oget (p_humanReviews s) ''v'' = Some r" "hr_status r = Active" by auto
  from active_reviews_match_their_attempts[OF s(1) r] s(1) r(1) show ?thesis by blast
qed

text \<open>
  C8. A decision is answered at most once: a decision of a shorter journal is in every longer one,
  either unchanged or, when it was pending, resolved or expired with its question, options, blocked
  nodes and evidence as they were raised.
\<close>

theorem decisions_are_answered_once:
  assumes "foldRun h es = Inr s" and "foldRun h (es @ fs) = Inr s'" and "oget (p_decisions s) k = Some d"
  shows "\<exists>e. oget (p_decisions s') k = Some e \<and> (e = d \<or>
    dc_status d = Pending \<and> dc_status e \<noteq> Pending \<and> decision_input.truncate e = decision_input.truncate d)"
  using decisions_order.grows[OF assms(1,2)] assms(3)
  unfolding decisions_kept_def decision_change_def by blast

theorem decisions_are_answered_once_witness:
  "\<exists>s' e. foldRun sample_host (sample_start @ sample_rest) = Inr s' \<and> oget (p_decisions s') ''d'' = Some e"
proof -
  obtain s where s: "foldRun sample_host sample_start = Inr s"
    "map_option dc_status (oget (p_decisions s) ''d'') = Some Pending"
    by (rule sample_start)
  then obtain d where d: "oget (p_decisions s) ''d'' = Some d" by auto
  obtain s' where s': "foldRun sample_host (sample_start @ sample_rest) = Inr s'" by (rule sample_full)
  from decisions_are_answered_once[OF s(1) s' d] s' show ?thesis by blast
qed

text \<open>
  C9. The journal numbers its events without gaps and never applies an id twice: the sequence of a
  folded run is the number of its events, the applied ids are the (parsed) ids in order and distinct,
  the events are numbered from 1, and all belong to the run.
\<close>

theorem journal_is_contiguous:
  assumes "foldRun h es = Inr s" and "arr_of (parse_run_event h) es = Some ps"
  shows "p_sequence s = int (length es) \<and> p_appliedEventIds s = map ev_eventId ps \<and>
    distinct (p_appliedEventIds s) \<and> map ev_sequence ps = map int [1..<Suc (length es)] \<and>
    (\<forall>p \<in> set ps. ev_runId p = p_runId s)"
  using assms by (rule foldRun_positions)

theorem journal_is_contiguous_witness:
  "\<exists>s. foldRun sample_host sample_start = Inr s \<and> p_sequence s = 10 \<and> distinct (p_appliedEventIds s)"
proof -
  obtain s where s: "foldRun sample_host sample_start = Inr s" by (rule sample_start)
  from foldRun_accepts_parsed[OF s] obtain ps where "arr_of (parse_run_event sample_host) sample_start = Some ps" ..
  from journal_is_contiguous[OF s this] s show ?thesis by (auto simp: sample_start_def)
qed

text \<open>
  C10. A journal may be stored in its parsed form: parsing is idempotent for every event of the
  vocabulary, and folding the parsed events gives exactly what folding the events as they were written
  gives, the state or the same error.
\<close>

theorem parsed_journal_folds_alike:
  assumes "arr_of (parse_run_event h) es = Some ps"
  shows "arr_of (parse_run_event h) ps = Some ps \<and> foldRun h ps = foldRun h es"
  using foldE_parsed[OF assms] run_event.arr_idem[OF assms] by (simp add: foldRun_def)

theorem parsed_journal_folds_alike_witness:
  "\<exists>ps. arr_of (parse_run_event sample_host) sample_start = Some ps \<and>
     foldRun sample_host ps = foldRun sample_host sample_start"
proof -
  obtain s where s: "foldRun sample_host sample_start = Inr s" by (rule sample_start)
  from foldRun_accepts_parsed[OF s] obtain ps where ps: "arr_of (parse_run_event sample_host) sample_start = Some ps" ..
  from parsed_journal_folds_alike[OF ps] ps show ?thesis by blast
qed

text \<open>
  C11. Commands are accepted once: accepted commands have distinct receipts, a receipt identifier is
  never shared with a physical effect's receipt, every receipt is the run's, and a stored envelope is the
  command its receipt acknowledges, with the same digest.
\<close>

theorem commands_are_accepted_once:
  assumes "foldRun h es = Inr s"
  shows "(\<forall>k c. oget (p_commandReceipts s) k = Some c \<longrightarrow> rc_commandId c = k \<and> rc_runId c = p_runId s \<and>
      oget (p_physicalEffectReceipts s) (rc_receiptId c) = None) \<and>
    (\<forall>k c l d. oget (p_commandReceipts s) k = Some c \<and> oget (p_commandReceipts s) l = Some d \<and>
      rc_receiptId c = rc_receiptId d \<longrightarrow> k = l) \<and>
    (\<forall>k v. oget (p_commandEnvelopes s) k = Some v \<longrightarrow> cv_commandId v = k \<and>
      (\<exists>c. oget (p_commandReceipts s) k = Some c \<and> rc_commandDigest c = cv_commandDigest v))"
  using commands.holds[OF assms] unfolding commands_ok_def by blast

theorem commands_are_accepted_once_witness:
  "\<exists>s. foldRun sample_host sample_start = Inr s \<and> (\<forall>k c. oget (p_commandReceipts s) k = Some c \<longrightarrow> rc_commandId c = k)"
proof -
  obtain s where s: "foldRun sample_host sample_start = Inr s" by (rule sample_start)
  from commands_are_accepted_once[OF s] s show ?thesis by blast
qed

text \<open>
  C12. A wave is a subset of what was ready and fits its parallelism: an accepted event adds at most one
  wave, only in a running run, whose nodes were all ready in the observed readiness, no more than its
  maximum, and under a new id.
\<close>

theorem waves_are_ready_and_bounded:
  assumes "reduceRun s e = Inr s'" and "p_selectedWaves s' \<noteq> p_selectedWaves s"
  shows "\<exists>w. ev_payload e = Graph_ev (Wave_selected w) \<and> p_selectedWaves s' = p_selectedWaves s @ [w] \<and>
    p_lifecycle s = Running \<and> set (ws_nodeIds w) \<subseteq> set (ro_readyNodeIds (p_readiness s)) \<and>
    int (length (ws_nodeIds w)) \<le> ws_maxParallel w \<and> ws_waveId w \<notin> ws_waveId ` set (p_selectedWaves s)"
proof -
  from assms(1) obtain s1 where s1: "reduce_payload (ev_eventId e) (ev_payload e)
      (s\<lparr>p_updatedAt := ev_occurredAt e\<rparr>) = Inr s1" "p_selectedWaves s' = p_selectedWaves s1"
    by (auto simp: reduceRun_Inr)
  from payload_waves[OF s1(1)] s1(2) assms(2) show ?thesis by auto
qed

theorem waves_are_ready_and_bounded_witness:
  "\<exists>s s' w. reduceRun s (sample_event 2 ''e2'' (Graph_ev (Wave_selected sample_wave))) = Inr s' \<and>
     p_selectedWaves s' = p_selectedWaves s @ [w] \<and> set (ws_nodeIds w) \<subseteq> set (ro_readyNodeIds (p_readiness s))"
proof -
  let ?s = "(created_projection ''run'' ''e1'' ''t'' ''goal'' None)
    \<lparr>p_lifecycle := Running, p_readiness := sample_readiness [''n''] []\<rparr>"
  let ?s' = "?s\<lparr>p_updatedAt := ''t'', p_selectedWaves := [sample_wave], p_sequence := 2,
    p_appliedEventIds := [''e1'', ''e2'']\<rparr>"
  have "reduceRun ?s (sample_event 2 ''e2'' (Graph_ev (Wave_selected sample_wave))) = Inr ?s'"
    by (simp add: reduceRun_def on_wave_selected_def sample_event_def sample_wave_def sample_readiness_def
        created_projection_def)
  then obtain s s' where s: "reduceRun s (sample_event 2 ''e2'' (Graph_ev (Wave_selected sample_wave))) = Inr s'"
    "p_selectedWaves s' \<noteq> p_selectedWaves s"
    by (force simp: created_projection_def)
  from waves_are_ready_and_bounded[OF s] s(1) show ?thesis by blast
qed

text \<open>
  A retained artifact is released only under its own terms: an authorization names an adopted
  manifest artifact of the run and carries the very reference that retains it and its candidate's commit.
\<close>

theorem releases_match_retained_artifacts:
  assumes "foldRun h es = Inr s" and "oget (p_releaseAuthorizations s) k = Some u"
  shows "ra_artifactId u = k \<and> (\<exists>x m. oget (p_adoptedArtifacts s) k = Some x \<and> aa_artifactId x = k \<and>
    aa_kind x = Ak_manifest \<and> aa_manifest x = Some m \<and>
    mi_retainedByRef (am_identity m) = ra_retainedByRef u \<and>
    eb_commitOid (mi_sourceCandidate (am_identity m)) = ra_candidateCommit u)"
  using artifacts.holds[OF assms(1)] assms(2) unfolding artifacts_ok_def by blast

theorem releases_match_retained_artifacts_witness:
  "\<exists>s x m. foldRun sample_host sample_archive = Inr s \<and> oget (p_adoptedArtifacts s) ''art'' = Some x \<and>
     aa_manifest x = Some m \<and> mi_retainedByRef (am_identity m) = ''ref''"
proof -
  obtain s u where s: "foldRun sample_host sample_archive = Inr s"
    "oget (p_releaseAuthorizations s) ''art'' = Some u" "ra_retainedByRef u = ''ref''"
    by (rule sample_archive)
  from releases_match_retained_artifacts[OF s(1,2)] s(1,3) show ?thesis by auto
qed

text \<open>
  C13. A pending question is never lost from view: an id that readiness lists as pending names a decision
  of the run that has not been resolved; a resolved decision records an answer, and a chosen option is
  one of the decision's own.
\<close>

theorem resolved_decisions_carry_their_answer:
  assumes "foldRun h es = Inr s" and "oget (p_decisions s) k = Some d" and "dc_status d = Resolved"
  shows "k \<notin> set (ro_pendingDecisionIds (p_readiness s)) \<and> (\<exists>r. dc_resolution d = Some r \<and>
    (rs_optionId r \<noteq> None \<or> rs_answer r \<noteq> None) \<and>
    (\<forall>v. rs_optionId r = Some v \<longrightarrow> v \<in> do_id ` set (dc_options d)))"
proof -
  note ok = decisions.holds[OF assms(1)]
  from ok assms(2) have "decision_ok k d" by (simp add: decisions_ok_def)
  moreover from ok assms(2,3) have "k \<notin> set (ro_pendingDecisionIds (p_readiness s))"
    unfolding decisions_ok_def by (metis option.inject)
  ultimately show ?thesis using assms(3) by (auto simp: decision_ok_def)
qed

theorem resolved_decisions_carry_their_answer_witness:
  "\<exists>s d r. foldRun sample_host (sample_start @ sample_rest) = Inr s \<and> oget (p_decisions s) ''d'' = Some d \<and>
     dc_resolution d = Some r"
proof -
  obtain s where s: "foldRun sample_host (sample_start @ sample_rest) = Inr s"
    "map_option dc_status (oget (p_decisions s) ''d'') = Some Resolved"
    by (rule sample_full)
  then obtain d where d: "oget (p_decisions s) ''d'' = Some d" "dc_status d = Resolved" by auto
  from resolved_decisions_carry_their_answer[OF s(1) d] s(1) d(1) show ?thesis by blast
qed

text \<open>
  Evidence is a ledger: the recorded matrix ids are distinct and are exactly the ids with a summary,
  every node's matrix is one of them, and an execution's exact candidate is the candidate at its commit.
\<close>

theorem evidence_ledger_is_consistent:
  assumes "foldRun h es = Inr s"
  shows "distinct (p_evidenceMatrices s) \<and>
    (\<forall>i. i \<in> set (p_evidenceMatrices s) \<longleftrightarrow> oget (p_evidenceMatrixSummaries s) i \<noteq> None) \<and>
    (\<forall>n i. oget (p_nodeEvidenceMatrixIds s) n = Some i \<longrightarrow> i \<in> set (p_evidenceMatrices s)) \<and>
    (\<forall>k a c. oget (p_attempts s) k = Some a \<and> at_kind a = Execution \<and> at_candidate a = Some c \<longrightarrow>
       at_candidateCommit a = Some (ec_commitOid c))"
  using evidence.holds[OF assms] attempts.holds[OF assms]
  unfolding evidence_ok_def attempts_ok_def attempt_ok_def by blast

theorem evidence_ledger_is_consistent_witness:
  "\<exists>s. foldRun sample_host (sample_start @ sample_rest) = Inr s \<and> distinct (p_evidenceMatrices s)"
proof -
  obtain s where s: "foldRun sample_host (sample_start @ sample_rest) = Inr s" by (rule sample_full)
  from evidence_ledger_is_consistent[OF s] s show ?thesis by blast
qed

end
